(* ===== verification/Prelude.thy ===== *)
theory Prelude
  imports Main "HOL-Library.Word" "HOL-Library.List_Lexorder" "HOL-Library.Char_ord"
    "HOL-Library.Multiset"
begin

text \<open>
  Shared vocabulary of the development: Rust's \<^verbatim>\<open>Result\<close> as a sum with its
  \<^verbatim>\<open>?\<close> operator, fixed-width integer types, \<^verbatim>\<open>std::cmp::Ordering\<close> with the
  stable \<^verbatim>\<open>sort_by\<close>, the order-preserving deduplications the code writes with a
  \<^verbatim>\<open>HashSet\<close>, and the lemma collections the component theories rely on.
\<close>

section \<open>Types and collections\<close>

type_synonym u8 = "8 word"
type_synonym u16 = "16 word"
type_synonym u32 = "32 word"
type_synonym u64 = "64 word"
type_synonym usize = "64 word"

named_theorems result_simps \<open>unfolding of result-typed programs\<close>
named_theorems step_intros \<open>introduction rules of step relations\<close>
named_theorems eval_simps \<open>definitions that evaluate closed terms by \<open>simp\<close>\<close>
named_theorems inv_simps \<open>definitions of invariants\<close>

section \<open>Results\<close>

text \<open>\<open>Inl e\<close> is Rust's \<open>Err(e)\<close>, \<open>Inr v\<close> is \<open>Ok(v)\<close>; \<open>res_bind\<close> is the \<open>?\<close> operator.\<close>

fun res_bind :: "'e + 'a \<Rightarrow> ('a \<Rightarrow> 'e + 'b) \<Rightarrow> 'e + 'b" where
  "res_bind (Inl e) f = Inl e"
| "res_bind (Inr v) f = f v"

definition ok_or :: "'e \<Rightarrow> 'a option \<Rightarrow> 'e + 'a" where
  "ok_or e x = (case x of None \<Rightarrow> Inl e | Some v \<Rightarrow> Inr v)"

definition ensure :: "bool \<Rightarrow> 'e \<Rightarrow> 'e + unit" where
  "ensure b e = (if b then Inr () else Inl e)"

fun is_ok :: "'e + 'a \<Rightarrow> bool" where
  "is_ok (Inl e) = False"
| "is_ok (Inr v) = True"

text \<open>\<open>for x in xs { f(x)?; }\<close>: stops at the first error.\<close>

fun try_each :: "('a \<Rightarrow> 'e + unit) \<Rightarrow> 'a list \<Rightarrow> 'e + unit" where
  "try_each f [] = Inr ()"
| "try_each f (x # xs) = res_bind (f x) (\<lambda>_. try_each f xs)"

text \<open>A loop that threads a state and stops at the first error.\<close>

fun try_fold :: "('s \<Rightarrow> 'a \<Rightarrow> 'e + 's) \<Rightarrow> 's \<Rightarrow> 'a list \<Rightarrow> 'e + 's" where
  "try_fold f s [] = Inr s"
| "try_fold f s (x # xs) = res_bind (f s x) (\<lambda>s'. try_fold f s' xs)"

lemma res_bind_Inr_iff [result_simps]:
  "res_bind r f = Inr v \<longleftrightarrow> (\<exists>x. r = Inr x \<and> f x = Inr v)"
  by (cases r) auto

lemma res_bind_Inl_iff:
  "res_bind r f = Inl e \<longleftrightarrow> r = Inl e \<or> (\<exists>x. r = Inr x \<and> f x = Inl e)"
  by (cases r) auto

lemma ensure_Inr_iff [result_simps]: "ensure b e = Inr u \<longleftrightarrow> b"
  by (simp add: ensure_def)

lemma ok_or_Inr_iff [result_simps]: "ok_or e x = Inr v \<longleftrightarrow> x = Some v"
  by (auto simp: ok_or_def split: option.splits)

lemma is_ok_iff: "is_ok r \<longleftrightarrow> (\<exists>v. r = Inr v)"
  by (cases r) auto

lemma try_each_Inr_iff [result_simps]:
  "try_each f xs = Inr u \<longleftrightarrow> (\<forall>x \<in> set xs. f x = Inr ())"
  by (induction xs) (auto simp: res_bind_Inr_iff)

lemma try_fold_invariant:
  assumes "try_fold f s xs = Inr s'" and "P s"
    and "\<And>s x s'. P s \<Longrightarrow> x \<in> set xs \<Longrightarrow> f s x = Inr s' \<Longrightarrow> P s'"
  shows "P s'"
  using assms
proof (induction xs arbitrary: s)
  case Nil
  then show ?case by simp
next
  case (Cons x xs)
  from Cons.prems(1) obtain t where "f s x = Inr t" and "try_fold f t xs = Inr s'"
    by (auto simp: res_bind_Inr_iff)
  with Cons show ?case by (metis list.set_intros)
qed

declare ok_or_def [eval_simps] ensure_def [eval_simps]

section \<open>Orderings and stable sorting\<close>

datatype ordering = Less | Equal | Greater

definition cmp_of :: "'a::linorder \<Rightarrow> 'a \<Rightarrow> ordering" where
  "cmp_of a b = (if a < b then Less else if a = b then Equal else Greater)"

text \<open>\<open>Ordering::then_with\<close>; its closure argument is the already computed value here.\<close>

fun then_with :: "ordering \<Rightarrow> ordering \<Rightarrow> ordering" where
  "then_with Equal o2 = o2"
| "then_with o1 o2 = o1"

text \<open>
  \<open>slice::sort_by\<close> is stable: an element is placed before the equal ones that follow it in the
  input, which is what inserting from the right does.
\<close>

fun insert_by :: "('a \<Rightarrow> 'a \<Rightarrow> ordering) \<Rightarrow> 'a \<Rightarrow> 'a list \<Rightarrow> 'a list" where
  "insert_by cmp x [] = [x]"
| "insert_by cmp x (y # ys) =
     (if cmp x y = Greater then y # insert_by cmp x ys else x # y # ys)"

definition sort_by :: "('a \<Rightarrow> 'a \<Rightarrow> ordering) \<Rightarrow> 'a list \<Rightarrow> 'a list" where
  "sort_by cmp xs = foldr (insert_by cmp) xs []"

fun sorted_by :: "('a \<Rightarrow> 'a \<Rightarrow> ordering) \<Rightarrow> 'a list \<Rightarrow> bool" where
  "sorted_by cmp [] = True"
| "sorted_by cmp (x # xs) = ((\<forall>y \<in> set xs. cmp x y \<noteq> Greater) \<and> sorted_by cmp xs)"

lemma mset_insert_by [simp]: "mset (insert_by cmp x xs) = add_mset x (mset xs)"
  by (induction xs) auto

lemma mset_sort_by [simp]: "mset (sort_by cmp xs) = mset xs"
  unfolding sort_by_def by (induction xs) auto

lemma set_sort_by [simp]: "set (sort_by cmp xs) = set xs"
  by (metis mset_sort_by set_mset_mset)

lemma length_sort_by [simp]: "length (sort_by cmp xs) = length xs"
  by (metis mset_sort_by size_mset)

lemma set_insert_by [simp]: "set (insert_by cmp x xs) = insert x (set xs)"
  by (induction xs) auto

lemma sort_by_Nil [simp]: "sort_by cmp [] = []"
  by (simp add: sort_by_def)

lemma sort_by_Cons: "sort_by cmp (x # xs) = insert_by cmp x (sort_by cmp xs)"
  by (simp add: sort_by_def)

lemma distinct_sort_by [simp]: "distinct (sort_by cmp xs) = distinct xs"
  by (metis mset_eq_imp_distinct_iff mset_sort_by)

text \<open>
  The interface of a comparator: what \<open>sort_by\<close> documents as its requirement (a total order up
  to \<open>Equal\<close>). Every comparison function of the program is an interpretation of it.
\<close>

locale comparator =
  fixes cmp :: "'a \<Rightarrow> 'a \<Rightarrow> ordering"
  assumes cmp_refl: "cmp x x = Equal"
    and cmp_sym: "cmp x y = Greater \<longleftrightarrow> cmp y x = Less"
    and cmp_trans: "cmp x y \<noteq> Greater \<Longrightarrow> cmp y z \<noteq> Greater \<Longrightarrow> cmp x z \<noteq> Greater"
begin

lemma le_total: "cmp x y \<noteq> Greater \<or> cmp y x \<noteq> Greater"
  using cmp_sym by fastforce

lemma sorted_insert_by: "sorted_by cmp xs \<Longrightarrow> sorted_by cmp (insert_by cmp x xs)"
proof (induction xs)
  case Nil
  then show ?case by simp
next
  case (Cons y ys)
  then show ?case
    using le_total[of x y] cmp_trans[of x y] by auto
qed

lemma sorted_sort_by: "sorted_by cmp (sort_by cmp xs)"
  unfolding sort_by_def by (induction xs) (auto intro: sorted_insert_by)

lemma insert_by_filter:
  assumes "sorted_by cmp xs" and "P x \<Longrightarrow> \<forall>y. P y \<longrightarrow> cmp x y = Equal"
  shows "filter P (insert_by cmp x xs) = (if P x then x # filter P xs else filter P xs)"
  using assms
proof (induction xs)
  case Nil
  then show ?case by simp
next
  case (Cons y ys)
  show ?case
  proof (cases "cmp x y = Greater")
    case True
    with Cons.prems(2) have "\<not> (P x \<and> P y)" by auto
    with True Cons show ?thesis by auto
  next
    case False
    then show ?thesis by simp
  qed
qed

text \<open>Stability: the elements that compare equal to \<open>k\<close> keep their input order.\<close>

lemma sort_by_stable:
  "filter (\<lambda>y. cmp k y = Equal) (sort_by cmp xs) = filter (\<lambda>y. cmp k y = Equal) xs"
proof (induction xs)
  case Nil
  then show ?case by simp
next
  case (Cons x xs)
  have eq: "cmp x y = Equal" if "cmp k x = Equal" "cmp k y = Equal" for y
  proof -
    have "cmp x k \<noteq> Greater" "cmp k y \<noteq> Greater" "cmp y k \<noteq> Greater" "cmp k x \<noteq> Greater"
      using that cmp_sym[of k x] cmp_sym[of x k] cmp_sym[of k y] cmp_sym[of y k] by auto
    then have "cmp x y \<noteq> Greater" "cmp y x \<noteq> Greater"
      by (simp_all add: cmp_trans[of x k y] cmp_trans[of y k x])
    then show ?thesis using cmp_sym[of y x] by (cases "cmp x y") auto
  qed
  then show ?case
    using insert_by_filter[OF sorted_sort_by, of "\<lambda>y. cmp k y = Equal" x xs] Cons
    by (auto simp: sort_by_Cons)
qed

lemma sort_by_id: "sorted_by cmp xs \<Longrightarrow> sort_by cmp xs = xs"
proof (induction xs)
  case Nil
  then show ?case by simp
next
  case (Cons x xs)
  then show ?case by (cases xs) (auto simp: sort_by_Cons)
qed

end

text \<open>A comparator that agrees with the order of a key is a comparator.\<close>

lemma comparator_by_key:
  fixes key :: "'a \<Rightarrow> 'k::linorder"
  assumes "\<And>a b. cmp a b = cmp_of (key a) (key b)"
  shows "comparator cmp"
  by unfold_locales (auto simp: assms cmp_of_def split: if_splits)

lemma then_with_cmp_of:
  "then_with (cmp_of a c) (cmp_of b d) =
     (if a < c \<or> a = c \<and> b < d then Less else if a = c \<and> b = d then Equal else Greater)"
  by (auto simp: cmp_of_def)

lemma then_with_eq_Greater:
  "then_with p q = Greater \<longleftrightarrow> p = Greater \<or> p = Equal \<and> q = Greater"
  by (cases p) auto

lemma then_with_eq_Less:
  "then_with p q = Less \<longleftrightarrow> p = Less \<or> p = Equal \<and> q = Less"
  by (cases p) auto

lemma then_with_eq_Equal: "then_with p q = Equal \<longleftrightarrow> p = Equal \<and> q = Equal"
  by (cases p) auto

lemma cmp_of_eq [simp]:
  "cmp_of a b = Less \<longleftrightarrow> a < b" "cmp_of a b = Equal \<longleftrightarrow> a = b" "cmp_of a b = Greater \<longleftrightarrow> b < a"
  by (auto simp: cmp_of_def)

text \<open>A chain of comparators is a comparator.\<close>

lemma comparator_then_with:
  assumes "comparator c1" and "comparator c2"
  shows "comparator (\<lambda>a b. then_with (c1 a b) (c2 a b))"
proof -
  note c1 = comparator.cmp_sym[OF assms(1)] comparator.cmp_trans[OF assms(1)]
  note c2 = comparator.cmp_sym[OF assms(2)] comparator.cmp_trans[OF assms(2)]
  have eq1: "c1 y x = Equal" if "c1 x y = Equal" for x y
    using that c1(1)[of x y] c1(1)[of y x] by (cases "c1 y x") auto
  show ?thesis
  proof
    fix x show "then_with (c1 x x) (c2 x x) = Equal"
      using comparator.cmp_refl[OF assms(1)] comparator.cmp_refl[OF assms(2)] by simp
  next
    fix x y show "then_with (c1 x y) (c2 x y) = Greater \<longleftrightarrow> then_with (c1 y x) (c2 y x) = Less"
      using c1(1)[of x y] c2(1)[of x y] eq1[of x y] eq1[of y x]
      by (auto simp: then_with_eq_Greater then_with_eq_Less)
  next
    fix x y z
    assume xy: "then_with (c1 x y) (c2 x y) \<noteq> Greater"
      and yz: "then_with (c1 y z) (c2 y z) \<noteq> Greater"
    have lexz: "c1 x z \<noteq> Greater"
      using xy yz c1(2) by (auto simp: then_with_eq_Greater)
    moreover have "c2 x z \<noteq> Greater" if e: "c1 x z = Equal"
    proof -
      have "c1 z x \<noteq> Greater" using eq1[OF e] by simp
      then have "c1 y x \<noteq> Greater" "c1 z y \<noteq> Greater"
        using xy yz c1(2)[of y z x] c1(2)[of z x y] by (auto simp: then_with_eq_Greater)
      then have "c1 x y = Equal" "c1 y z = Equal"
        using xy yz c1(1)[of y x] c1(1)[of z y]
        by (cases "c1 x y"; cases "c1 y z"; simp add: then_with_eq_Greater)+
      with xy yz show ?thesis using c2(2) by auto
    qed
    ultimately show "then_with (c1 x z) (c2 x z) \<noteq> Greater"
      by (auto simp: then_with_eq_Greater)
  qed
qed

lemma comparator_on: "comparator cmp \<Longrightarrow> comparator (\<lambda>a b. cmp (f a) (f b))"
  by (auto simp: comparator_def)

interpretation cmp_of: comparator cmp_of
  by (rule comparator_by_key[where key = "\<lambda>x. x"]) simp

lemma comparator_cmp_key: "comparator (\<lambda>a b. cmp_of (f a) (f b))"
  by (rule comparator_on[OF cmp_of.comparator_axioms])

text \<open>\<open>Iterator::min_by\<close> over \<open>enumerate()\<close>: the index of the first minimal element.\<close>

fun min_index_by :: "('a \<Rightarrow> 'a \<Rightarrow> ordering) \<Rightarrow> 'a list \<Rightarrow> nat option" where
  "min_index_by cmp [] = None"
| "min_index_by cmp (x # xs) =
     (case min_index_by cmp xs of
        None \<Rightarrow> Some 0
      | Some i \<Rightarrow> if cmp x (xs ! i) = Greater then Some (Suc i) else Some 0)"

lemma min_index_by_bound: "min_index_by cmp xs = Some i \<Longrightarrow> i < length xs"
  by (induction xs arbitrary: i) (auto split: option.splits if_splits)

lemma min_index_by_None [simp]: "min_index_by cmp xs = None \<longleftrightarrow> xs = []"
  by (cases xs) (auto split: option.splits if_splits)

definition remove_at :: "nat \<Rightarrow> 'a list \<Rightarrow> 'a list" where
  "remove_at i xs = take i xs @ drop (Suc i) xs"

lemma mset_remove_at: "i < length xs \<Longrightarrow> add_mset (xs ! i) (mset (remove_at i xs)) = mset xs"
  by (simp add: remove_at_def)
     (metis id_take_nth_drop mset.simps(2) mset_append union_mset_add_mset_right)

lemma length_remove_at: "i < length xs \<Longrightarrow> length (remove_at i xs) = length xs - 1"
  by (auto simp: remove_at_def)


end
