(* ===== verification/RustStr.thy ===== *)
theory RustStr
  imports Prelude
begin

text \<open>
  The operations of Rust's \<^verbatim>\<open>str\<close>, \<^verbatim>\<open>String\<close>, \<^verbatim>\<open>char\<close> and integer
  parsing/formatting that the program calls. A Rust string is a sequence of UTF-8 bytes, so a
  \<open>string\<close> here is the list of its bytes: every delimiter the code searches for is ASCII, hence
  byte-wise splitting is exact, and byte order is the order of \<open>str::cmp\<close>.
\<close>

section \<open>Characters\<close>

definition is_digit :: "char \<Rightarrow> bool" where
  "is_digit c \<longleftrightarrow> 48 \<le> (of_char c :: nat) \<and> (of_char c :: nat) \<le> 57"

definition is_lower :: "char \<Rightarrow> bool" where
  "is_lower c \<longleftrightarrow> 97 \<le> (of_char c :: nat) \<and> (of_char c :: nat) \<le> 122"

definition is_upper :: "char \<Rightarrow> bool" where
  "is_upper c \<longleftrightarrow> 65 \<le> (of_char c :: nat) \<and> (of_char c :: nat) \<le> 90"

definition is_alnum :: "char \<Rightarrow> bool" where
  "is_alnum c \<longleftrightarrow> is_digit c \<or> is_lower c \<or> is_upper c"

definition lower_char :: "char \<Rightarrow> char" where
  "lower_char c = (if is_upper c then char_of ((of_char c :: nat) + 32) else c)"

definition upper_char :: "char \<Rightarrow> char" where
  "upper_char c = (if is_lower c then char_of ((of_char c :: nat) - 32) else c)"

definition to_ascii_lowercase :: "string \<Rightarrow> string" where
  "to_ascii_lowercase = map lower_char"

definition to_ascii_uppercase :: "string \<Rightarrow> string" where
  "to_ascii_uppercase = map upper_char"

text \<open>Changing the case sets or clears one bit.\<close>

lemma lower_char_Char [eval_simps]:
  "lower_char (Char b0 b1 b2 b3 b4 b5 b6 b7) =
     Char b0 b1 b2 b3 b4 (b5 \<or> is_upper (Char b0 b1 b2 b3 b4 b5 b6 b7)) b6 b7"
  by (cases b0; cases b1; cases b2; cases b3; cases b4; cases b5; cases b6; cases b7;
      simp add: lower_char_def is_upper_def char_of_def bit_0)

lemma upper_char_Char [eval_simps]:
  "upper_char (Char b0 b1 b2 b3 b4 b5 b6 b7) =
     Char b0 b1 b2 b3 b4 (b5 \<and> \<not> is_lower (Char b0 b1 b2 b3 b4 b5 b6 b7)) b6 b7"
  by (cases b0; cases b1; cases b2; cases b3; cases b4; cases b5; cases b6; cases b7;
      simp add: upper_char_def is_lower_def char_of_def bit_0)

section \<open>Prefixes, searching and splitting\<close>

fun strip_prefix :: "string \<Rightarrow> string \<Rightarrow> string option" where
  "strip_prefix [] s = Some s"
| "strip_prefix (p # ps) [] = None"
| "strip_prefix (p # ps) (c # cs) = (if p = c then strip_prefix ps cs else None)"

definition starts_with :: "string \<Rightarrow> string \<Rightarrow> bool" where
  "starts_with p s \<longleftrightarrow> strip_prefix p s \<noteq> None"

lemma strip_prefix_Some_iff [simp]: "strip_prefix p s = Some r \<longleftrightarrow> s = p @ r"
  by (induction p s rule: strip_prefix.induct) auto

lemma starts_with_iff: "starts_with p s \<longleftrightarrow> (\<exists>r. s = p @ r)"
  by (simp add: starts_with_def)

lemma starts_with_append [simp]: "starts_with p (p @ r)"
  by (auto simp: starts_with_iff)

text \<open>\<open>str::find\<close> with a string pattern: the first index.\<close>

fun find_sub :: "string \<Rightarrow> string \<Rightarrow> nat option" where
  "find_sub pat [] = (if pat = [] then Some 0 else None)"
| "find_sub pat (c # cs) =
     (if starts_with pat (c # cs) then Some 0 else map_option Suc (find_sub pat cs))"

definition contains_sub :: "string \<Rightarrow> string \<Rightarrow> bool" where
  "contains_sub pat s \<longleftrightarrow> find_sub pat s \<noteq> None"

lemma contains_sub_iff: "contains_sub pat s \<longleftrightarrow> (\<exists>a b. s = a @ pat @ b)"
proof (induction s)
  case Nil
  then show ?case by (auto simp: contains_sub_def)
next
  case (Cons c s)
  have "(\<exists>a b. c # s = a @ pat @ b) \<longleftrightarrow>
      starts_with pat (c # s) \<or> (\<exists>a b. s = a @ pat @ b)"
    unfolding starts_with_iff by (metis append_Cons append_Nil append_eq_Cons_conv)
  with Cons show ?case by (simp add: contains_sub_def)
qed

text \<open>\<open>s.find(|c| ..)\<close> on a character set: the index, or the length when there is none.\<close>

definition split_before :: "(char \<Rightarrow> bool) \<Rightarrow> string \<Rightarrow> string \<times> string" where
  "split_before P s = (takeWhile (\<lambda>c. \<not> P c) s, dropWhile (\<lambda>c. \<not> P c) s)"

text \<open>\<open>str::split_once(c)\<close> and \<open>str::rsplit_once(c)\<close>.\<close>

fun split_once :: "char \<Rightarrow> string \<Rightarrow> (string \<times> string) option" where
  "split_once d [] = None"
| "split_once d (c # cs) =
     (if c = d then Some ([], cs)
      else map_option (\<lambda>(a, b). (c # a, b)) (split_once d cs))"

fun rsplit_once :: "char \<Rightarrow> string \<Rightarrow> (string \<times> string) option" where
  "rsplit_once d [] = None"
| "rsplit_once d (c # cs) =
     (case rsplit_once d cs of
        Some (a, b) \<Rightarrow> Some (c # a, b)
      | None \<Rightarrow> if c = d then Some ([], cs) else None)"

lemma split_once_Some:
  "split_once d s = Some (a, b) \<longleftrightarrow> s = a @ d # b \<and> d \<notin> set a"
proof (induction s arbitrary: a)
  case Nil
  then show ?case by simp
next
  case (Cons c s)
  then show ?case by (cases a) auto
qed

lemma split_once_None: "split_once d s = None \<longleftrightarrow> d \<notin> set s"
  by (induction s) auto

lemma rsplit_once_None: "rsplit_once d s = None \<longleftrightarrow> d \<notin> set s"
  by (induction s) (auto split: option.splits)

lemma rsplit_once_Some:
  "rsplit_once d s = Some (a, b) \<longleftrightarrow> s = a @ d # b \<and> d \<notin> set b"
proof (induction s arbitrary: a)
  case Nil
  then show ?case by simp
next
  case (Cons c s)
  show ?case
  proof (cases "rsplit_once d s")
    case None
    then have "d \<notin> set s" by (simp add: rsplit_once_None)
    with None show ?thesis by (auto simp: Cons_eq_append_conv)
  next
    case (Some p)
    then have "d \<in> set s" using rsplit_once_None[of d s] by simp
    with Some Cons show ?thesis by (cases p) (auto simp: Cons_eq_append_conv)
  qed
qed

text \<open>\<open>str::split(c)\<close>: always at least one part.\<close>

fun split_on :: "char \<Rightarrow> string \<Rightarrow> string list" where
  "split_on d [] = [[]]"
| "split_on d (c # cs) =
     (if c = d then [] # split_on d cs
      else (case split_on d cs of [] \<Rightarrow> [[c]] | p # ps \<Rightarrow> (c # p) # ps))"

lemma split_on_ne [simp]: "split_on d s \<noteq> []"
  by (induction s) (auto split: list.splits)

text \<open>\<open>[String]::join(sep)\<close>.\<close>

fun join :: "string \<Rightarrow> string list \<Rightarrow> string" where
  "join sep [] = []"
| "join sep [x] = x"
| "join sep (x # y # ys) = x @ sep @ join sep (y # ys)"

lemma join_Cons: "ys \<noteq> [] \<Longrightarrow> join sep (x # ys) = x @ sep @ join sep ys"
  by (cases ys) auto

lemma split_on_no_delim: "d \<notin> set s \<Longrightarrow> split_on d s = [s]"
  by (induction s) auto

lemma split_on_append:
  "d \<notin> set a \<Longrightarrow> split_on d (a @ d # s) = a # split_on d s"
  by (induction a) auto

lemma split_on_join:
  "xs \<noteq> [] \<Longrightarrow> \<forall>x \<in> set xs. d \<notin> set x \<Longrightarrow> split_on d (join [d] xs) = xs"
proof (induction xs)
  case Nil
  then show ?case by simp
next
  case (Cons x xs)
  then show ?case
    by (cases xs) (auto simp: split_on_no_delim split_on_append)
qed

lemma join_split_on: "join [d] (split_on d s) = s"
proof (induction s)
  case Nil
  then show ?case by simp
next
  case (Cons c s)
  obtain p ps where "split_on d s = p # ps" by (cases "split_on d s") auto
  with Cons show ?case by (cases ps) auto
qed

lemma split_on_parts: "p \<in> set (split_on d s) \<Longrightarrow> d \<notin> set p"
proof (induction s arbitrary: p)
  case Nil
  then show ?case by simp
next
  case (Cons c s)
  obtain q qs where "split_on d s = q # qs" by (cases "split_on d s") auto
  with Cons show ?case by (auto split: if_splits)
qed

text \<open>Joining with a separator that occurs in no part is injective.\<close>

lemma join_inj:
  assumes "join [d] xs = join [d] ys" "xs \<noteq> []" "ys \<noteq> []"
    and "\<forall>x \<in> set xs. d \<notin> set x" "\<forall>y \<in> set ys. d \<notin> set y"
  shows "xs = ys"
  using split_on_join[OF assms(2,4)] split_on_join[OF assms(3,5)] assms(1) by metis

text \<open>
  \<open>str::replace(from, to)\<close>: non-overlapping matches from the left. The program only calls it
  with a non-empty pattern; for an empty one the model leaves the text alone.
\<close>

function replace_sub :: "string \<Rightarrow> string \<Rightarrow> string \<Rightarrow> string" where
  "replace_sub pat to s =
     (if pat = [] then s
      else case strip_prefix pat s of
        Some rest \<Rightarrow> to @ replace_sub pat to rest
      | None \<Rightarrow> (case s of [] \<Rightarrow> [] | c # cs \<Rightarrow> c # replace_sub pat to cs))"
  by pat_completeness auto
termination
  by (relation "measure (\<lambda>(pat, to, s). length s)") auto

declare replace_sub.simps [simp del]

lemma replace_sub_Nil [simp]: "replace_sub pat to [] = []"
  by (subst replace_sub.simps) (auto split: option.splits)

lemma replace_sub_absent: "\<not> contains_sub pat s \<Longrightarrow> replace_sub pat to s = s"
proof (induction s)
  case Nil
  then show ?case by simp
next
  case (Cons c s)
  from Cons.prems have "strip_prefix pat (c # s) = None" and "\<not> contains_sub pat s"
    by (simp_all add: contains_sub_def starts_with_def del: strip_prefix_Some_iff
          split: if_splits)
  with Cons.IH show ?case by (subst replace_sub.simps) auto
qed

section \<open>White space and trimming\<close>

text \<open>
  \<open>char::is_whitespace\<close> on UTF-8 text: the length of the white-space character at the head of
  the bytes, 0 when there is none (the \<open>White_Space\<close> code points, encoded).
\<close>

definition ws_len :: "string \<Rightarrow> nat" where
  "ws_len s =
     (case map of_char s :: nat list of
        [] \<Rightarrow> 0
      | b # bs \<Rightarrow>
          if 9 \<le> b \<and> b \<le> 13 \<or> b = 32 then 1
          else if b = 0xC2 \<and> bs \<noteq> [] \<and> (hd bs = 0x85 \<or> hd bs = 0xA0) then 2
          else if b = 0xE1 \<and> take 2 bs = [0x9A, 0x80] then 3
          else if b = 0xE2 \<and> length bs \<ge> 2 \<and>
             (hd bs = 0x80 \<and> (0x80 \<le> bs ! 1 \<and> bs ! 1 \<le> 0x8A \<or> bs ! 1 = 0xA8 \<or>
                bs ! 1 = 0xA9 \<or> bs ! 1 = 0xAF) \<or> hd bs = 0x81 \<and> bs ! 1 = 0x9F) then 3
          else if b = 0xE3 \<and> take 2 bs = [0x80, 0x80] then 3
          else 0)"

text \<open>The word at the head of a text, up to the next white space, and what follows it.\<close>

fun take_word :: "string \<Rightarrow> string" where
  "take_word [] = []"
| "take_word (c # cs) = (if ws_len (c # cs) > 0 then [] else c # take_word cs)"

function trim_start :: "string \<Rightarrow> string" where
  "trim_start s = (if s \<noteq> [] \<and> ws_len s > 0 then trim_start (drop (ws_len s) s) else s)"
  by pat_completeness auto
termination
  by (relation "measure length") auto

declare trim_start.simps [simp del]

text \<open>\<open>split_whitespace().next()\<close> and the text after that word.\<close>

definition next_word :: "string \<Rightarrow> (string \<times> string) option" where
  "next_word s =
     (let t = trim_start s; w = take_word t
      in if t = [] then None else Some (w, drop (length w) t))"

text \<open>\<open>trim_end\<close>: the shortest prefix followed only by white space.\<close>

fun all_ws :: "nat \<Rightarrow> string \<Rightarrow> bool" where
  "all_ws 0 s = (s = [])"
| "all_ws (Suc n) s = (s = [] \<or> ws_len s > 0 \<and> all_ws n (drop (ws_len s) s))"

fun trim_end :: "string \<Rightarrow> string" where
  "trim_end [] = []"
| "trim_end (c # cs) = (if all_ws (Suc (length cs)) (c # cs) then [] else c # trim_end cs)"

definition trim :: "string \<Rightarrow> string" where
  "trim s = trim_end (trim_start s)"

definition trim_start_char :: "char \<Rightarrow> string \<Rightarrow> string" where
  "trim_start_char d s = dropWhile (\<lambda>c. c = d) s"

definition trim_end_char :: "char \<Rightarrow> string \<Rightarrow> string" where
  "trim_end_char d s = rev (dropWhile (\<lambda>c. c = d) (rev s))"

definition trim_char :: "char \<Rightarrow> string \<Rightarrow> string" where
  "trim_char d s = trim_end_char d (trim_start_char d s)"

text \<open>\<open>str::lines\<close>: split at line feeds, one trailing carriage return dropped per line.\<close>

definition strip_cr :: "string \<Rightarrow> string" where
  "strip_cr s = (if s \<noteq> [] \<and> last s = CHR 0x0D then butlast s else s)"

definition lines :: "string \<Rightarrow> string list" where
  "lines s =
     (let parts = split_on (CHR 0x0A) s;
          parts' = (if last parts = [] then butlast parts else parts)
      in map (\<lambda>(i, p). if i < length parts - 1 then strip_cr p else p)
           (zip [0..<length parts'] parts'))"

declare split_before_def [eval_simps]

lemma starts_with_eval [eval_simps]:
  "starts_with [] s = True"
  "starts_with (p # ps) [] = False"
  "starts_with (p # ps) (c # cs) = (p = c \<and> starts_with ps cs)"
  by (auto simp: starts_with_iff)

text \<open>Prefix stripping on literals, without the characterisation by append.\<close>

lemma strip_prefix_eval [eval_simps]:
  "strip_prefix [] s = Some s"
  "strip_prefix (p # ps) [] = None"
  "strip_prefix (p # ps) (c # cs) = (if p = c then strip_prefix ps cs else None)"
  by simp_all

end
