(* ===== verification/RustNum.thy ===== *)
theory RustNum
  imports RustStr
begin

text \<open>
  Integer formatting and parsing as Rust's \<^verbatim>\<open>core::fmt\<close> and \<^verbatim>\<open>core::num\<close> do them
  (\<^verbatim>\<open>{}\<close>, \<^verbatim>\<open>{:08x}\<close>, \<^verbatim>\<open>{:#x}\<close>, \<^verbatim>\<open>from_str_radix\<close>, \<^verbatim>\<open>parse::<u16>()\<close>),
  and saturating arithmetic on fixed-width words.
\<close>

section \<open>Bounds of words\<close>

lemma unat_bound: "unat (w :: 'a::len word) < 2 ^ LENGTH('a)"
  by (rule unsigned_less)

lemma unat_u16 [simp]: "unat (w :: u16) < 65536"
  using unat_bound[of w] by simp

lemma unat_u32 [simp]: "unat (w :: u32) < 4294967296"
  using unat_bound[of w] by simp

lemma unat_u64 [simp]: "unat (w :: u64) < 18446744073709551616"
  using unat_bound[of w] by simp

section \<open>Digits\<close>

definition digit_char :: "nat \<Rightarrow> char" where
  "digit_char d = (if d < 10 then char_of (48 + d) else char_of (87 + d))"

definition digit_val :: "nat \<Rightarrow> char \<Rightarrow> nat option" where
  "digit_val b c =
     (let n = (of_char c :: nat);
          v = (if is_digit c then n - 48 else if is_lower c then n - 87
               else if is_upper c then n - 55 else 256)
      in if v < b then Some v else None)"

lemma of_char_digit_char: "d < 36 \<Longrightarrow> (of_char (digit_char d) :: nat) = (if d < 10 then 48 + d else 87 + d)"
  by (auto simp: digit_char_def of_char_of)

lemma digit_val_digit_char [simp]: "d < b \<Longrightarrow> b \<le> 36 \<Longrightarrow> digit_val b (digit_char d) = Some d"
  using of_char_digit_char[of d]
  by (auto simp: digit_val_def is_digit_def is_lower_def Let_def)

lemma digit_char_ne_sign [simp]:
  "d < 36 \<Longrightarrow> digit_char d \<noteq> CHR ''+''" "d < 36 \<Longrightarrow> digit_char d \<noteq> CHR ''-''"
  using of_char_digit_char[of d] by (auto split: if_splits)

fun radix_of_nat :: "nat \<Rightarrow> nat \<Rightarrow> string" where
  "radix_of_nat b n =
     (if b < 2 \<or> n < b then [digit_char n]
      else radix_of_nat b (n div b) @ [digit_char (n mod b)])"

declare radix_of_nat.simps [simp del]

definition dec_of_nat :: "nat \<Rightarrow> string" where
  "dec_of_nat n = radix_of_nat 10 n"

fun parse_digits :: "nat \<Rightarrow> nat \<Rightarrow> string \<Rightarrow> nat option" where
  "parse_digits b acc [] = Some acc"
| "parse_digits b acc (c # cs) =
     (case digit_val b c of None \<Rightarrow> None | Some d \<Rightarrow> parse_digits b (acc * b + d) cs)"

text \<open>
  \<open>from_str_radix\<close> for an unsigned type with \<open>bound\<close> values: an optional plus sign, at least one
  digit, and a value in range.
\<close>

definition parse_unsigned :: "nat \<Rightarrow> nat \<Rightarrow> string \<Rightarrow> nat option" where
  "parse_unsigned b bound s =
     (let ds = (case s of c # cs \<Rightarrow> if c = CHR ''+'' then cs else s | [] \<Rightarrow> [])
      in if ds = [] then None
         else case parse_digits b 0 ds of
           None \<Rightarrow> None
         | Some v \<Rightarrow> if v < bound then Some v else None)"

definition parse_u16 :: "string \<Rightarrow> u16 option" where
  "parse_u16 s = map_option of_nat (parse_unsigned 10 (2 ^ 16) s)"

definition parse_u64 :: "string \<Rightarrow> u64 option" where
  "parse_u64 s = map_option of_nat (parse_unsigned 10 (2 ^ 64) s)"

definition parse_u32_radix :: "nat \<Rightarrow> string \<Rightarrow> u32 option" where
  "parse_u32_radix b s = map_option of_nat (parse_unsigned b (2 ^ 32) s)"

lemma radix_of_nat_ne [simp]: "radix_of_nat b n \<noteq> []"
  by (subst radix_of_nat.simps) auto

lemma parse_digits_append:
  "parse_digits b acc (xs @ ys) =
     (case parse_digits b acc xs of None \<Rightarrow> None | Some a \<Rightarrow> parse_digits b a ys)"
  by (induction xs arbitrary: acc) (auto split: option.splits)

lemma parse_digits_replicate_0:
  "2 \<le> b \<Longrightarrow> b \<le> 36 \<Longrightarrow> parse_digits b 0 (replicate k (digit_char 0) @ s) = parse_digits b 0 s"
  by (induction k) auto

lemma parse_digits_radix_of_nat:
  assumes "2 \<le> b" "b \<le> 36"
  shows "parse_digits b 0 (radix_of_nat b n) = Some n"
  using assms
proof (induction b n rule: radix_of_nat.induct)
  case (1 b n)
  show ?case
  proof (cases "n < b")
    case True
    with "1.prems" show ?thesis by (subst radix_of_nat.simps) simp
  next
    case False
    with "1.prems" have "parse_digits b 0 (radix_of_nat b (n div b)) = Some (n div b)"
      by (intro "1.IH") auto
    with False "1.prems" show ?thesis
      by (subst radix_of_nat.simps) (simp add: parse_digits_append)
  qed
qed

lemma set_radix_of_nat:
  assumes "2 \<le> b" "b \<le> 36"
  shows "set (radix_of_nat b n) \<subseteq> digit_char ` {..<b}"
  using assms
proof (induction b n rule: radix_of_nat.induct)
  case (1 b n)
  show ?case
  proof (cases "n < b")
    case True
    with "1.prems" show ?thesis by (subst radix_of_nat.simps) simp
  next
    case False
    with "1.prems" have "set (radix_of_nat b (n div b)) \<subseteq> digit_char ` {..<b}"
      by (intro "1.IH") auto
    with False "1.prems" show ?thesis
      by (subst radix_of_nat.simps) (simp add: mod_less_divisor)
  qed
qed

lemma radix_of_nat_inj: "2 \<le> b \<Longrightarrow> b \<le> 36 \<Longrightarrow> radix_of_nat b m = radix_of_nat b n \<Longrightarrow> m = n"
  by (metis parse_digits_radix_of_nat option.inject)

lemma dec_of_nat_ne [simp]: "dec_of_nat n \<noteq> []"
  by (simp add: dec_of_nat_def)

lemma dec_of_nat_inj [simp]: "dec_of_nat m = dec_of_nat n \<longleftrightarrow> m = n"
  using radix_of_nat_inj[of 10 m n] by (auto simp: dec_of_nat_def)

lemma is_digit_digit_char: "d < 10 \<Longrightarrow> is_digit (digit_char d)"
  by (simp add: is_digit_def of_char_digit_char)

lemma dec_of_nat_digits: "c \<in> set (dec_of_nat n) \<Longrightarrow> is_digit c"
  using set_radix_of_nat[of 10 n] by (auto simp: dec_of_nat_def is_digit_digit_char)

lemma dec_of_nat_not_in: "\<not> is_digit c \<Longrightarrow> c \<notin> set (dec_of_nat n)"
  using dec_of_nat_digits by blast

lemma parse_unsigned_padded_radix:
  assumes "2 \<le> b" "b \<le> 36" "n < bound"
  shows "parse_unsigned b bound (replicate k (digit_char 0) @ radix_of_nat b n) = Some n"
proof -
  let ?s = "replicate k (digit_char 0) @ radix_of_nat b n"
  have "set ?s \<subseteq> digit_char ` {..<b}"
    using assms set_radix_of_nat[OF assms(1,2), of n] by auto
  moreover have "?s \<noteq> []" by simp
  ultimately obtain c cs where cs: "?s = c # cs" and "c \<noteq> CHR ''+''"
    using assms by (cases ?s) auto
  then show ?thesis
    using assms parse_digits_radix_of_nat[OF assms(1,2), of n]
      parse_digits_replicate_0[OF assms(1,2), of k "radix_of_nat b n"]
    by (simp add: parse_unsigned_def Let_def cs)
qed

lemma parse_unsigned_dec: "n < bound \<Longrightarrow> parse_unsigned 10 bound (dec_of_nat n) = Some n"
  using parse_unsigned_padded_radix[of 10 n bound 0] by (simp add: dec_of_nat_def)

lemma parse_u16_dec [simp]: "parse_u16 (dec_of_nat (unat (p :: u16))) = Some p"
  by (simp add: parse_u16_def parse_unsigned_dec)

lemma parse_u64_dec [simp]: "parse_u64 (dec_of_nat (unat (p :: u64))) = Some p"
  by (simp add: parse_u64_def parse_unsigned_dec)

lemma parse_u32_hex_padded:
  "parse_u32_radix 16 (replicate k (CHR ''0'') @ radix_of_nat 16 (unat (v :: u32))) = Some v"
proof -
  have "digit_char 0 = CHR ''0''" by code_simp
  then show ?thesis
    using parse_unsigned_padded_radix[of 16 "unat v" "2 ^ 32" k]
    by (simp add: parse_u32_radix_def)
qed

section \<open>Hexadecimal formatting\<close>

text \<open>\<open>{:08x}\<close> pads with zeros to eight digits; \<open>{:#x}\<close> writes \<open>0x\<close> and no padding.\<close>

definition hex8 :: "u32 \<Rightarrow> string" where
  "hex8 v = (let h = radix_of_nat 16 (unat v) in replicate (8 - length h) (CHR ''0'') @ h)"

definition hex_alt :: "u32 \<Rightarrow> string" where
  "hex_alt v = ''0x'' @ radix_of_nat 16 (unat v)"

section \<open>Saturating arithmetic\<close>

definition saturating_add :: "'a::len word \<Rightarrow> 'a word \<Rightarrow> 'a word" where
  "saturating_add a b = (if unat a + unat b < 2 ^ LENGTH('a) then a + b else - 1)"

definition saturating_sub :: "'a::len word \<Rightarrow> 'a word \<Rightarrow> 'a word" where
  "saturating_sub a b = (if b \<le> a then a - b else 0)"

lemma unat_saturating_add:
  "unat (saturating_add a (b :: 'a::len word)) = min (unat a + unat b) (2 ^ LENGTH('a) - 1)"
proof (cases "unat a + unat b < 2 ^ LENGTH('a)")
  case True
  then show ?thesis by (simp add: saturating_add_def unat_word_ariths)
next
  case False
  then show ?thesis by (simp add: saturating_add_def unsigned_minus_1_eq_mask mask_eq_exp_minus_1)
qed

lemma unat_saturating_sub: "unat (saturating_sub a b) = unat a - unat b"
  by (auto simp: saturating_sub_def unat_sub word_le_nat_alt)

lemmas parse_eval [eval_simps] =
  parse_u16_def parse_u64_def parse_u32_radix_def parse_unsigned_def digit_val_def Let_def
  is_digit_def is_lower_def is_upper_def is_alnum_def

end
