(* ===== verification/NetAddr.thy ===== *)
theory NetAddr
  imports RustNum
begin

text \<open>
  \<^verbatim>\<open>std::net::IpAddr\<close> and \<^verbatim>\<open>std::net::SocketAddr\<close>: the textual form the firewall
  rules and logs use, and the parser behind \<^verbatim>\<open>"...".parse::<IpAddr>()\<close> and
  \<^verbatim>\<open>parse::<SocketAddr>()\<close> that the configuration check and the resolver call.
\<close>

section \<open>Addresses and their text\<close>

datatype ip_addr = V4 u32 | V6 "128 word"

fun is_ipv4 :: "ip_addr \<Rightarrow> bool" where
  "is_ipv4 (V4 _) = True"
| "is_ipv4 (V6 _) = False"

definition octet :: "u32 \<Rightarrow> nat \<Rightarrow> nat" where
  "octet a i = unat a div 256 ^ (3 - i) mod 256"

definition ipv4_to_string :: "u32 \<Rightarrow> string" where
  "ipv4_to_string a =
     dec_of_nat (octet a 0) @ ''.'' @ dec_of_nat (octet a 1) @ ''.'' @
     dec_of_nat (octet a 2) @ ''.'' @ dec_of_nat (octet a 3)"

definition ipv4_of_octets :: "nat \<Rightarrow> nat \<Rightarrow> nat \<Rightarrow> nat \<Rightarrow> u32" where
  "ipv4_of_octets a b c d = of_nat (((a * 256 + b) * 256 + c) * 256 + d)"

definition segments :: "128 word \<Rightarrow> nat list" where
  "segments a = map (\<lambda>i. unat a div 65536 ^ (7 - i) mod 65536) [0..<8]"

text \<open>The first longest run of zero segments, as \<open>(start, length)\<close>.\<close>

fun zero_run :: "nat list \<Rightarrow> nat \<Rightarrow> nat \<times> nat \<Rightarrow> nat \<times> nat \<Rightarrow> nat \<times> nat" where
  "zero_run [] i cur longest = longest"
| "zero_run (s # ss) i cur longest =
     (if s = 0 then
        let cur' = (if snd cur = 0 then i else fst cur, Suc (snd cur))
        in zero_run ss (Suc i) cur' (if snd cur' > snd longest then cur' else longest)
      else zero_run ss (Suc i) (0, 0) longest)"

definition hex_groups :: "nat list \<Rightarrow> string" where
  "hex_groups ss = join '':'' (map (radix_of_nat 16) ss)"

definition ipv6_to_string :: "128 word \<Rightarrow> string" where
  "ipv6_to_string a =
     (let ss = segments a; run = zero_run ss 0 (0, 0) (0, 0)
      in if take 6 ss = [0, 0, 0, 0, 0, 0xFFFF]
         then ''::ffff:'' @ ipv4_to_string (of_nat (ss ! 6 * 65536 + ss ! 7))
         else if snd run > 1
         then hex_groups (take (fst run) ss) @ ''::'' @ hex_groups (drop (fst run + snd run) ss)
         else hex_groups ss)"

fun ip_to_string :: "ip_addr \<Rightarrow> string" where
  "ip_to_string (V4 a) = ipv4_to_string a"
| "ip_to_string (V6 a) = ipv6_to_string a"

section \<open>The parser\<close>

type_synonym 'a reader = "string \<Rightarrow> ('a \<times> string) option"

definition is_radix_digit :: "nat \<Rightarrow> char \<Rightarrow> bool" where
  "is_radix_digit radix c \<longleftrightarrow> digit_val radix c \<noteq> None"

definition read_number :: "nat \<Rightarrow> nat option \<Rightarrow> bool \<Rightarrow> nat \<Rightarrow> nat reader" where
  "read_number radix max_digits allow_zero_prefix bound s =
     (let ds = takeWhile (is_radix_digit radix) s
      in if ds = [] then None
         else if (case max_digits of None \<Rightarrow> False | Some m \<Rightarrow> length ds > m) then None
         else if \<not> allow_zero_prefix \<and> hd ds = CHR ''0'' \<and> length ds > 1 then None
         else case parse_digits radix 0 ds of
           None \<Rightarrow> None
         | Some v \<Rightarrow> if v < bound then Some (v, drop (length ds) s) else None)"

definition read_char :: "char \<Rightarrow> unit reader" where
  "read_char c s = (case s of [] \<Rightarrow> None | d # ds \<Rightarrow> if d = c then Some ((), ds) else None)"

definition read_then :: "'a reader \<Rightarrow> ('a \<Rightarrow> 'b reader) \<Rightarrow> 'b reader" where
  "read_then p f s = (case p s of None \<Rightarrow> None | Some (a, r) \<Rightarrow> f a r)"

definition read_octet :: "nat reader" where
  "read_octet = read_number 10 (Some 3) False 256"

definition read_ipv4 :: "u32 reader" where
  "read_ipv4 =
     read_then read_octet (\<lambda>a. read_then (read_char (CHR ''.'')) (\<lambda>_.
     read_then read_octet (\<lambda>b. read_then (read_char (CHR ''.'')) (\<lambda>_.
     read_then read_octet (\<lambda>c. read_then (read_char (CHR ''.'')) (\<lambda>_.
     read_then read_octet (\<lambda>d s. Some (ipv4_of_octets a b c d, s))))))))"

text \<open>\<open>read_separator\<close>: every group but the first is preceded by a colon.\<close>

definition read_separated :: "nat \<Rightarrow> 'a reader \<Rightarrow> 'a reader" where
  "read_separated i p =
     (if i = 0 then p else read_then (read_char (CHR '':'')) (\<lambda>_. p))"

text \<open>
  \<open>read_groups\<close> on an array of \<open>i + k\<close> slots from slot \<open>i\<close>: the groups read, whether the last
  two came from an embedded IPv4 address, and the rest of the input.
\<close>

fun read_groups :: "nat \<Rightarrow> nat \<Rightarrow> string \<Rightarrow> nat list \<times> bool \<times> string" where
  "read_groups i 0 s = ([], False, s)"
| "read_groups i (Suc k) s =
     (case (if k > 0 then read_separated i read_ipv4 s else None) of
        Some (v4, r) \<Rightarrow> ([unat v4 div 65536, unat v4 mod 65536], True, r)
      | None \<Rightarrow>
        (case read_separated i (read_number 16 (Some 4) True 65536) s of
           Some (g, r) \<Rightarrow> (let (gs, v4, r') = read_groups (Suc i) k r in (g # gs, v4, r'))
         | None \<Rightarrow> ([], False, s)))"

definition ipv6_of_segments :: "nat list \<Rightarrow> 128 word" where
  "ipv6_of_segments ss = of_nat (foldl (\<lambda>acc s. acc * 65536 + s) 0 ss)"

definition read_ipv6 :: "(128 word) reader" where
  "read_ipv6 s =
     (let (hds, hd_v4, r) = read_groups 0 8 s
      in if length hds = 8 then Some (ipv6_of_segments hds, r)
         else if hd_v4 then None
         else case read_then (read_char (CHR '':'')) (\<lambda>_. read_char (CHR '':'')) r of
           None \<Rightarrow> None
         | Some (_, r') \<Rightarrow>
             (let (tls, _, r'') = read_groups 0 (7 - length hds) r'
              in Some (ipv6_of_segments
                         (hds @ replicate (8 - length hds - length tls) 0 @ tls), r'')))"

definition read_ip :: "ip_addr reader" where
  "read_ip s =
     (case read_ipv4 s of
        Some (a, r) \<Rightarrow> Some (V4 a, r)
      | None \<Rightarrow> map_option (\<lambda>(a, r). (V6 a, r)) (read_ipv6 s))"

text \<open>\<open>parse_with\<close>: the whole input has to be consumed.\<close>

definition parse_with :: "'a reader \<Rightarrow> string \<Rightarrow> 'a option" where
  "parse_with p s = (case p s of Some (a, []) \<Rightarrow> Some a | _ \<Rightarrow> None)"

definition parse_ip_addr :: "string \<Rightarrow> ip_addr option" where
  "parse_ip_addr = parse_with read_ip"

definition read_port :: "u16 reader" where
  "read_port = read_then (read_char (CHR '':''))
     (\<lambda>_. read_then (read_number 10 None True 65536) (\<lambda>p s. Some (of_nat p, s)))"

definition read_scope_id :: "nat reader" where
  "read_scope_id = read_then (read_char (CHR ''%'')) (\<lambda>_. read_number 10 None True (2 ^ 32))"

definition read_socket_v4 :: "(ip_addr \<times> u16) reader" where
  "read_socket_v4 = read_then read_ipv4 (\<lambda>a. read_then read_port (\<lambda>p s. Some ((V4 a, p), s)))"

definition read_socket_v6 :: "(ip_addr \<times> u16) reader" where
  "read_socket_v6 =
     read_then (read_char (CHR ''['')) (\<lambda>_. read_then read_ipv6 (\<lambda>a s.
       read_then (read_char (CHR '']'')) (\<lambda>_. read_then read_port (\<lambda>p r. Some ((V6 a, p), r)))
         (case read_scope_id s of Some (_, r) \<Rightarrow> r | None \<Rightarrow> s)))"

definition parse_socket_addr :: "string \<Rightarrow> (ip_addr \<times> u16) option" where
  "parse_socket_addr = parse_with (\<lambda>s.
     case read_socket_v4 s of Some r \<Rightarrow> Some r | None \<Rightarrow> read_socket_v6 s)"

section \<open>Round trip of IPv4 addresses\<close>

lemma octet_bound [simp]: "octet a i < 256"
  by (simp add: octet_def)

lemma digit_char_0_iff: "n < 36 \<Longrightarrow> digit_char n = CHR ''0'' \<longleftrightarrow> n = 0"
proof -
  assume n: "n < 36"
  have z: "digit_val 36 (CHR ''0'') = Some 0" "digit_char 0 = CHR ''0''" by code_simp+
  then show ?thesis using digit_val_digit_char[of n 36] n by fastforce
qed

lemma dec_of_nat_no_leading_zero: "hd (dec_of_nat n) = CHR ''0'' \<Longrightarrow> length (dec_of_nat n) = 1"
proof -
  have "hd (radix_of_nat b n) = CHR ''0'' \<Longrightarrow> b = 10 \<Longrightarrow> n = 0" for b
  proof (induction b n rule: radix_of_nat.induct)
    case (1 b n)
    show ?case
    proof (cases "n < b")
      case True
      with 1(2,3) have "digit_char n = CHR ''0''"
        by (simp add: radix_of_nat.simps[of 10 n])
      with True 1(3) show ?thesis by (simp add: digit_char_0_iff)
    next
      case False
      with 1(2,3) have "hd (radix_of_nat b (n div b)) = CHR ''0''"
        by (simp add: radix_of_nat.simps[of 10 n])
      with False 1(1,3) have "n div b = 0" by simp
      with False 1(3) show ?thesis by simp
    qed
  qed
  then show "hd (dec_of_nat n) = CHR ''0'' \<Longrightarrow> length (dec_of_nat n) = 1"
    by (fastforce simp: dec_of_nat_def radix_of_nat.simps[of 10 0])
qed

lemma length_dec_of_nat_octet: "n < 1000 \<Longrightarrow> length (dec_of_nat n) \<le> 3"
  unfolding dec_of_nat_def
  by (subst radix_of_nat.simps, subst radix_of_nat.simps, subst radix_of_nat.simps) auto

lemma takeWhile_dec:
  assumes "r = [] \<or> \<not> is_digit (hd r)"
  shows "takeWhile (is_radix_digit 10) (dec_of_nat n @ r) = dec_of_nat n"
proof -
  have d: "is_radix_digit 10 = is_digit"
    by (rule ext)
      (auto simp: is_radix_digit_def digit_val_def is_digit_def is_lower_def is_upper_def Let_def)
  have "takeWhile is_digit (dec_of_nat n @ r) = dec_of_nat n @ takeWhile is_digit r"
    by (rule takeWhile_append2) (rule dec_of_nat_digits)
  also have "takeWhile is_digit r = []" using assms by (cases r) auto
  finally show ?thesis by (simp add: d)
qed

lemma read_octet_dec:
  assumes "n < 256" and "r = [] \<or> \<not> is_digit (hd r)"
  shows "read_octet (dec_of_nat n @ r) = Some (n, r)"
proof -
  have len: "length (dec_of_nat n) \<le> 3" using assms(1) by (simp add: length_dec_of_nat_octet)
  have "parse_digits 10 0 (dec_of_nat n) = Some n"
    by (simp add: dec_of_nat_def parse_digits_radix_of_nat)
  with len assms(1) show ?thesis
    using dec_of_nat_no_leading_zero[of n]
    by (auto simp: read_octet_def read_number_def takeWhile_dec[OF assms(2)] Let_def)
qed

lemma base_256_digits:
  fixes n :: nat
  assumes "n < 256 ^ 4"
  shows "((n div 256 ^ 3 mod 256 * 256 + n div 256 ^ 2 mod 256) * 256 + n div 256 mod 256) * 256
    + n mod 256 = n"
proof -
  define q1 q2 q3 where "q1 = n div 256" and "q2 = q1 div 256" and "q3 = q2 div 256"
  define r0 r1 r2 where "r0 = n mod 256" and "r1 = q1 mod 256" and "r2 = q2 mod 256"
  have n: "n = 256 * q1 + r0" "q1 = 256 * q2 + r1" "q2 = 256 * q3 + r2"
    by (simp_all add: q1_def q2_def q3_def r0_def r1_def r2_def)
  have q: "n div 256 = q1" "n div 256 ^ 2 = q2" "n div 256 ^ 3 = q3"
    by (simp_all add: q1_def q2_def q3_def div_mult2_eq[symmetric])
  have "q3 < 256" using assms by (simp add: q1_def q2_def q3_def)
  then have "q3 mod 256 = q3" by simp
  then have "((q3 mod 256 * 256 + r2) * 256 + r1) * 256 + r0 = n"
    using n by simp
  then show ?thesis unfolding q r0_def r1_def r2_def .
qed

lemma ipv4_of_octets_octet: "ipv4_of_octets (octet a 0) (octet a 1) (octet a 2) (octet a 3) = a"
proof -
  have "((octet a 0 * 256 + octet a 1) * 256 + octet a 2) * 256 + octet a 3 = unat a"
  proof -
    have o: "octet a 0 = unat a div 256 ^ 3 mod 256" "octet a 1 = unat a div 256 ^ 2 mod 256"
      "octet a 2 = unat a div 256 mod 256" "octet a 3 = unat a mod 256"
      by (simp_all add: octet_def)
    have "unat a < 256 ^ 4" using unat_u32[of a] by simp
    then show ?thesis unfolding o by (rule base_256_digits)
  qed
  then show ?thesis
    unfolding ipv4_of_octets_def by (simp only: of_nat_unat ucast_id)
qed

lemma read_ipv4_to_string: "read_ipv4 (ipv4_to_string a) = Some (a, [])"
proof -
  have dot: "\<not> is_digit (CHR ''.'')" by code_simp
  show ?thesis
    unfolding read_ipv4_def ipv4_to_string_def read_then_def
    using read_octet_dec[of "octet a 3" "[]"]
    by (simp add: read_octet_dec dot read_char_def ipv4_of_octets_octet[simplified])
qed

lemma parse_ip_addr_ipv4 [simp]: "parse_ip_addr (ip_to_string (V4 a)) = Some (V4 a)"
  by (simp add: parse_ip_addr_def parse_with_def read_ip_def read_ipv4_to_string)

end
