(* ===== verification/Types.thy ===== *)
theory Types
  imports NetAddr
begin

text \<open>
  \<^verbatim>\<open>src/types.rs\<close>: the enums and structs every component exchanges, the parsing of a
  target given as \<^verbatim>\<open>--host\<close> or \<^verbatim>\<open>--url\<close>, and the result of an infrastructure failure.
  \<^verbatim>\<open>url::Url::parse\<close> belongs to the crate \<^verbatim>\<open>url\<close>, so it is an argument of the
  definitions that call it.
\<close>

section \<open>Enums\<close>

datatype probe_protocol = HttpPlain | Tls12Http11 | Tls13Http11 | QuicHttp3Future

fun catalog_key :: "probe_protocol \<Rightarrow> string" where
  "catalog_key HttpPlain = ''http''"
| "catalog_key Tls12Http11 = ''tls12''"
| "catalog_key Tls13Http11 = ''tls13''"
| "catalog_key QuicHttp3Future = ''quic''"

fun default_port :: "probe_protocol \<Rightarrow> u16" where
  "default_port HttpPlain = 80"
| "default_port Tls12Http11 = 443"
| "default_port Tls13Http11 = 443"
| "default_port QuicHttp3Future = 443"

datatype target_error =
    ExactlyOneTarget | QuicNotImplemented | UrlInvalid | UrlWithoutHost
  | ProtocolConflictsHttp | ProtocolConflictsHttps | UnsupportedScheme string
  | HostMissing | BadBracketedHost | BadHostPort string
  | UnsupportedMethod string | UnsupportedReadMode string

datatype http_method = Get | Head

definition method_parse_config :: "string \<Rightarrow> target_error + http_method" where
  "method_parse_config s =
     (let u = to_ascii_uppercase s
      in if u = ''GET'' then Inr Get
         else if u = ''HEAD'' then Inr Head
         else Inl (UnsupportedMethod s))"

fun method_as_str :: "http_method \<Rightarrow> string" where
  "method_as_str Get = ''GET''"
| "method_as_str Head = ''HEAD''"

datatype read_mode = Headers | Body | Full

definition read_mode_parse_config :: "string \<Rightarrow> target_error + read_mode" where
  "read_mode_parse_config s =
     (let l = to_ascii_lowercase s
      in if l = ''headers'' then Inr Headers
         else if l = ''body'' then Inr Body
         else if l = ''full'' then Inr Full
         else Inl (UnsupportedReadMode s))"

datatype target_scheme = Http | Https

datatype transfer_level = TlNone | TlConnected | TlTlsHandshake | TlHeaders | TlBody | TlVerified

datatype failure_kind = StrategyFailure | InfrastructureFailure | TargetFailure | FkCancelled

datatype probe_outcome =
    Success | Timeout | TcpReset | TlsAlert | HttpBlockPage | EmptyResponse | DnsFailure
  | NetworkUnreachable | Refused | OutCancelled | InternalError | BodyTooSmall

datatype probe_error_class =
    SocketCreateFailed | BindFailed | LocalAddrFailed | QueueUnavailable | FirewallInstallFailed
  | FirewallRemoveFailed | NfqwsStartFailed | NfqwsExitedEarly | NfqwsStopFailed
  | ConnectTimeout | ConnectFailed | TlsTimeout | TlsFailed | FirstByteTimeout | ReadTimeout
  | ReadFailed | InvalidHttpResponse | CurlFailed | ProcessFailed | EcCancelled
  | EcInternalError | EcBodyTooSmall

section \<open>Structs\<close>

record target_request =
  tr_original :: string
  tr_scheme :: target_scheme
  tr_host :: string
  tr_port :: u16
  tr_path_and_query :: string
  tr_protocol :: probe_protocol

record http_request_spec =
  rq_method :: http_method
  rq_path_and_query :: string
  rq_user_agent :: string
  rq_read_mode :: read_mode
  rq_min_body_bytes :: nat
  rq_dpi_detection_bytes :: nat
  rq_verify_transfer_bytes :: nat
  rq_max_read_bytes :: nat

record strategy_probe_target =
  st_original :: string
  st_host :: string
  st_ip :: ip_addr
  st_port :: u16
  st_protocol :: probe_protocol
  st_request :: http_request_spec

record probe_timeouts =
  to_connect_ms :: nat
  to_tls_ms :: nat
  to_first_byte_ms :: nat
  to_total_ms :: nat

record strategy_task =
  sk_strategy_id :: string
  sk_strategy_args :: "string list"
  sk_target_host :: string
  sk_target_ip :: ip_addr
  sk_target_port :: u16
  sk_protocol :: probe_protocol
  sk_path :: string
  sk_request :: http_request_spec
  sk_timeouts :: probe_timeouts

record probe_task =
  pt_strategy_id :: string
  pt_worker_id :: nat
  pt_strategy_args :: "string list"
  pt_target_host :: string
  pt_target_ip :: ip_addr
  pt_target_port :: u16
  pt_protocol :: probe_protocol
  pt_path :: string
  pt_request :: http_request_spec
  pt_timeouts :: probe_timeouts

definition from_strategy_task :: "strategy_task \<Rightarrow> nat \<Rightarrow> probe_task" where
  "from_strategy_task task worker_id =
     \<lparr> pt_strategy_id = sk_strategy_id task, pt_worker_id = worker_id,
       pt_strategy_args = sk_strategy_args task, pt_target_host = sk_target_host task,
       pt_target_ip = sk_target_ip task, pt_target_port = sk_target_port task,
       pt_protocol = sk_protocol task, pt_path = sk_path task,
       pt_request = sk_request task, pt_timeouts = sk_timeouts task \<rparr>"

record probe_result =
  pr_strategy_id :: string
  pr_worker_id :: nat
  pr_qnum :: "u16 option"
  pr_assigned_source_port :: "u16 option"
  pr_target_host :: string
  pr_target_ip :: ip_addr
  pr_target_port :: u16
  pr_protocol :: probe_protocol
  pr_path :: string
  pr_method :: http_method
  pr_read_mode :: read_mode
  pr_setup_ms :: "nat option"
  pr_connect_ms :: "nat option"
  pr_tls_ms :: "nat option"
  pr_first_byte_ms :: "nat option"
  pr_total_ms :: nat
  pr_outcome :: probe_outcome
  pr_http_status :: "u16 option"
  pr_bytes_read :: nat
  pr_header_bytes :: nat
  pr_body_bytes :: nat
  pr_total_bytes :: nat
  pr_transfer_level :: transfer_level
  pr_dpi_suspicious :: bool
  pr_failure_kind :: "failure_kind option"
  pr_error_class :: "probe_error_class option"
  pr_error_message :: "string option"

text \<open>The elapsed time is read from the clock by the caller and passed in, as in the code.\<close>

definition infrastructure_failure ::
  "probe_task \<Rightarrow> u16 option \<Rightarrow> u16 option \<Rightarrow> probe_error_class \<Rightarrow> string \<Rightarrow> nat \<Rightarrow> probe_result" where
  "infrastructure_failure task qnum source_port cls msg total_ms =
     \<lparr> pr_strategy_id = pt_strategy_id task, pr_worker_id = pt_worker_id task,
       pr_qnum = qnum, pr_assigned_source_port = source_port,
       pr_target_host = pt_target_host task, pr_target_ip = pt_target_ip task,
       pr_target_port = pt_target_port task, pr_protocol = pt_protocol task,
       pr_path = rq_path_and_query (pt_request task),
       pr_method = rq_method (pt_request task), pr_read_mode = rq_read_mode (pt_request task),
       pr_setup_ms = None, pr_connect_ms = None, pr_tls_ms = None, pr_first_byte_ms = None,
       pr_total_ms = total_ms, pr_outcome = InternalError, pr_http_status = None,
       pr_bytes_read = 0, pr_header_bytes = 0, pr_body_bytes = 0, pr_total_bytes = 0,
       pr_transfer_level = TlNone, pr_dpi_suspicious = False,
       pr_failure_kind = Some InfrastructureFailure, pr_error_class = Some cls,
       pr_error_message = Some msg \<rparr>"

section \<open>Targets on the command line\<close>

definition normalize_path :: "string \<Rightarrow> string" where
  "normalize_path path = (if path = [] then ''/'' else path)"

definition parse_host_port :: "string \<Rightarrow> target_error + u16" where
  "parse_host_port port = ok_or (BadHostPort port) (parse_u16 port)"

definition split_authority_host_port :: "string \<Rightarrow> target_error + (string \<times> u16 option)" where
  "split_authority_host_port authority =
     (if authority = [] then Inl HostMissing
      else case strip_prefix ''['' authority of
        Some rest \<Rightarrow>
          (case split_once (CHR '']'') rest of
             None \<Rightarrow> Inl BadBracketedHost
           | Some (host, tail) \<Rightarrow>
               if tail = [] then Inr (host, None)
               else case strip_prefix '':'' tail of
                 Some port \<Rightarrow> res_bind (parse_host_port port) (\<lambda>p. Inr (host, Some p))
               | None \<Rightarrow> Inl BadBracketedHost)
      | None \<Rightarrow>
          (case rsplit_once (CHR '':'') authority of
             Some (host, port) \<Rightarrow>
               if CHR '':'' \<notin> set host \<and> port \<noteq> [] \<and> list_all is_digit port
               then res_bind (parse_host_port port) (\<lambda>p. Inr (host, Some p))
               else Inr (authority, None)
           | None \<Rightarrow> Inr (authority, None)))"

definition split_host_path :: "string \<Rightarrow> target_error + (string \<times> u16 option \<times> string)" where
  "split_host_path input =
     (let (authority, rest) = split_before (\<lambda>c. c = CHR ''/'' \<or> c = CHR ''?'') input
      in res_bind (split_authority_host_port authority) (\<lambda>(host, port).
         if host = [] then Inl HostMissing
         else Inr (host, port,
                if rest = [] then ''/''
                else if starts_with ''/'' rest then rest
                else ''/'' @ rest)))"

text \<open>What the code reads of a parsed \<^verbatim>\<open>url::Url\<close>.\<close>

record url =
  u_scheme :: string
  u_host_str :: "string option"
  u_port :: "u16 option"
  u_path :: string
  u_query :: "string option"

type_synonym url_parser = "string \<Rightarrow> url option"

definition host_target ::
  "string \<Rightarrow> probe_protocol \<Rightarrow> target_error + target_request" where
  "host_target host_input selected =
     res_bind (split_host_path host_input) (\<lambda>(host, explicit_port, path_and_query).
     res_bind (case selected of
                 HttpPlain \<Rightarrow> Inr (Http, 80)
               | Tls12Http11 \<Rightarrow> Inr (Https, 443)
               | Tls13Http11 \<Rightarrow> Inr (Https, 443)
               | QuicHttp3Future \<Rightarrow> Inl QuicNotImplemented) (\<lambda>(scheme, port).
     Inr \<lparr> tr_original = host_input, tr_scheme = scheme, tr_host = host,
           tr_port = (case explicit_port of Some p \<Rightarrow> p | None \<Rightarrow> port),
           tr_path_and_query = path_and_query, tr_protocol = selected \<rparr>))"

definition url_scheme_protocol ::
  "string \<Rightarrow> probe_protocol \<Rightarrow> bool \<Rightarrow> target_error + (target_scheme \<times> u16 \<times> probe_protocol)" where
  "url_scheme_protocol scheme selected explicit =
     (if scheme = ''http'' then
        if explicit \<and> selected \<noteq> HttpPlain then Inl ProtocolConflictsHttp
        else Inr (Http, 80, HttpPlain)
      else if scheme = ''https'' then
        (case selected of
           Tls12Http11 \<Rightarrow> Inr (Https, 443, Tls12Http11)
         | Tls13Http11 \<Rightarrow> Inr (Https, 443, Tls13Http11)
         | HttpPlain \<Rightarrow> if explicit then Inl ProtocolConflictsHttps
                       else Inr (Https, 443, Tls12Http11)
         | QuicHttp3Future \<Rightarrow> Inl QuicNotImplemented)
      else Inl (UnsupportedScheme scheme))"

definition url_target ::
  "url_parser \<Rightarrow> string \<Rightarrow> probe_protocol \<Rightarrow> bool \<Rightarrow> target_error + target_request" where
  "url_target url_parse url_text selected explicit =
     res_bind (ok_or UrlInvalid (url_parse url_text)) (\<lambda>parsed.
     res_bind (ok_or UrlWithoutHost (u_host_str parsed)) (\<lambda>host.
     res_bind (url_scheme_protocol (u_scheme parsed) selected explicit)
       (\<lambda>(scheme, default, protocol).
     Inr \<lparr> tr_original = url_text, tr_scheme = scheme, tr_host = host,
           tr_port = (case u_port parsed of Some p \<Rightarrow> p | None \<Rightarrow> default),
           tr_path_and_query = normalize_path (u_path parsed) @
             (case u_query parsed of Some q \<Rightarrow> ''?'' @ q | None \<Rightarrow> []),
           tr_protocol = protocol \<rparr>)))"

definition parse_target_request ::
  "url_parser \<Rightarrow> string option \<Rightarrow> string option \<Rightarrow> probe_protocol \<Rightarrow> bool
     \<Rightarrow> target_error + target_request" where
  "parse_target_request url_parse host url selected explicit =
     (case (host, url) of
        (Some _, Some _) \<Rightarrow> Inl ExactlyOneTarget
      | (None, None) \<Rightarrow> Inl ExactlyOneTarget
      | (Some h, None) \<Rightarrow> host_target h selected
      | (None, Some u) \<Rightarrow> url_target url_parse u selected explicit)"

section \<open>What the target parser guarantees\<close>

declare split_host_path_def [eval_simps] split_authority_host_port_def [eval_simps]
  parse_host_port_def [eval_simps] normalize_path_def [eval_simps]
  parse_target_request_def [eval_simps] host_target_def [eval_simps]
  url_target_def [eval_simps] url_scheme_protocol_def [eval_simps]

lemma split_host_path_Inr:
  assumes "split_host_path input = Inr (host, port, path)"
  shows "host \<noteq> [] \<and> (\<exists>r. path = ''/'' @ r)"
  using assms
  by (auto simp: split_host_path_def split_before_def result_simps starts_with_iff
        split: if_splits)

lemma host_target_Inr:
  assumes "host_target h selected = Inr t"
  shows "tr_protocol t = selected \<and> selected \<noteq> QuicHttp3Future \<and> tr_original t = h \<and>
    (tr_scheme t = Http \<longleftrightarrow> selected = HttpPlain) \<and>
    (\<exists>port. split_host_path h = Inr (tr_host t, port, tr_path_and_query t) \<and>
       tr_port t = (case port of Some p \<Rightarrow> p | None \<Rightarrow> default_port selected))"
proof -
  obtain host port path where sp: "split_host_path h = Inr (host, port, path)"
    using assms by (cases "split_host_path h") (auto simp: host_target_def)
  with assms show ?thesis
    by (cases selected) (auto simp: host_target_def split: option.splits)
qed

lemma url_target_Inr:
  assumes "url_target url_parse u selected explicit = Inr t"
  shows "tr_protocol t \<noteq> QuicHttp3Future \<and> (tr_scheme t = Http \<longleftrightarrow> tr_protocol t = HttpPlain) \<and>
    (explicit \<longrightarrow> tr_protocol t = selected) \<and>
    (\<exists>v. url_parse u = Some v \<and> u_host_str v = Some (tr_host t) \<and>
       tr_port t = (case u_port v of Some p \<Rightarrow> p | None \<Rightarrow> default_port (tr_protocol t)))"
proof -
  obtain v where v: "url_parse u = Some v"
    using assms by (cases "url_parse u") (auto simp: url_target_def ok_or_def)
  obtain host where host: "u_host_str v = Some host"
    using assms v by (cases "u_host_str v") (auto simp: url_target_def ok_or_def)
  obtain scheme default protocol
    where sc: "url_scheme_protocol (u_scheme v) selected explicit = Inr (scheme, default, protocol)"
    using assms v host
    by (cases "url_scheme_protocol (u_scheme v) selected explicit")
       (auto simp: url_target_def ok_or_def)
  from sc have "protocol \<noteq> QuicHttp3Future" "scheme = Http \<longleftrightarrow> protocol = HttpPlain"
      "explicit \<longrightarrow> protocol = selected" "default = default_port protocol"
    by (auto simp: url_scheme_protocol_def split: if_splits probe_protocol.splits)
  with assms v host sc show ?thesis
    by (auto simp: url_target_def ok_or_def split: option.splits)
qed

text \<open>
  A target given as \<^verbatim>\<open>--host\<close> parses to a non-empty host and an absolute request path,
  with the scheme and the default port that belong to the selected protocol; QUIC is never
  accepted, although the configuration and the README offer it.
\<close>

theorem host_target_wellformed:
  assumes "parse_target_request url_parse (Some h) None selected explicit = Inr t"
  shows "tr_host t \<noteq> [] \<and> (\<exists>r. tr_path_and_query t = CHR ''/'' # r) \<and>
    tr_protocol t = selected \<and> selected \<noteq> QuicHttp3Future \<and>
    (tr_scheme t = Http \<longleftrightarrow> selected = HttpPlain) \<and> tr_original t = h"
  using host_target_Inr[of h selected t] split_host_path_Inr assms
  by (fastforce simp: parse_target_request_def)

theorem host_target_wellformed_witness:
  "\<exists>t. parse_target_request (\<lambda>_. None) (Some ''example.org:8443?q=1'') None Tls12Http11 False = Inr t \<and>
     tr_host t = ''example.org'' \<and> tr_port t = 8443 \<and> tr_path_and_query t = ''/?q=1'' \<and>
     tr_protocol t = Tls12Http11"
proof -
  let ?r = "parse_target_request (\<lambda>_. None) (Some ''example.org:8443?q=1'') None Tls12Http11 False"
  have e: "?r = Inr \<lparr> tr_original = ''example.org:8443?q=1'', tr_scheme = Https,
      tr_host = ''example.org'', tr_port = 8443, tr_path_and_query = ''/?q=1'',
      tr_protocol = Tls12Http11 \<rparr>"
    by (simp add: eval_simps del: strip_prefix_Some_iff)
  show ?thesis using host_target_wellformed[OF e] e by auto
qed

text \<open>
  What a successful target parse promises to the rest of the program, for both ways of
  giving the target: exactly one of them was given, the protocol is one of the three TCP
  protocols and agrees with the scheme, and the explicit port wins over the default port.
\<close>

theorem target_protocol_agrees:
  assumes "parse_target_request url_parse host url selected explicit = Inr t"
  shows "(host = None \<longleftrightarrow> url \<noteq> None) \<and> tr_protocol t \<noteq> QuicHttp3Future \<and>
    (tr_scheme t = Http \<longleftrightarrow> tr_protocol t = HttpPlain) \<and>
    (explicit \<longrightarrow> tr_protocol t = selected) \<and>
    (\<forall>h. host = Some h \<longrightarrow> (\<exists>port.
       split_host_path h = Inr (tr_host t, port, tr_path_and_query t) \<and>
       tr_port t = (case port of Some p \<Rightarrow> p | None \<Rightarrow> default_port (tr_protocol t)))) \<and>
    (\<forall>u. url = Some u \<longrightarrow> (\<exists>v. url_parse u = Some v \<and> u_host_str v = Some (tr_host t) \<and>
       tr_port t = (case u_port v of Some p \<Rightarrow> p | None \<Rightarrow> default_port (tr_protocol t))))"
proof (cases host)
  case None
  with assms obtain u where "url = Some u" "url_target url_parse u selected explicit = Inr t"
    by (cases url) (auto simp: parse_target_request_def)
  with None url_target_Inr[of url_parse u selected explicit t] show ?thesis by simp
next
  case (Some h)
  with assms have u: "url = None" and t: "host_target h selected = Inr t"
    by (cases url; auto simp: parse_target_request_def)+
  from host_target_Inr[OF t] Some u show ?thesis
    by (elim conjE exE) (simp split: option.splits)
qed

theorem target_protocol_agrees_witness:
  "\<exists>u t. parse_target_request (\<lambda>_. Some u) None (Some ''https://h:8443/'') HttpPlain False = Inr t \<and>
     u_port u = Some 8443 \<and> tr_protocol t = Tls12Http11 \<and> tr_port t = 8443 \<and> tr_scheme t = Https"
proof -
  let ?u = "\<lparr>u_scheme = ''https'', u_host_str = Some ''h'', u_port = Some 8443, u_path = ''/'',
    u_query = None\<rparr>"
  let ?t = "\<lparr> tr_original = ''https://h:8443/'', tr_scheme = Https, tr_host = ''h'',
      tr_port = 8443, tr_path_and_query = ''/'', tr_protocol = Tls12Http11 \<rparr>"
  have e: "parse_target_request (\<lambda>_. Some ?u) None (Some ''https://h:8443/'') HttpPlain False = Inr ?t"
    by (simp add: eval_simps)
  show ?thesis
    using target_protocol_agrees[OF e] e by (intro exI[of _ ?u] exI[of _ ?t]) simp
qed

lemma takeWhile_no_stop:
  "\<forall>c \<in> set xs. \<not> P c \<Longrightarrow> ys = [] \<or> P (hd ys) \<Longrightarrow>
     takeWhile (\<lambda>c. \<not> P c) (xs @ ys) = xs \<and> dropWhile (\<lambda>c. \<not> P c) (xs @ ys) = ys"
  by (induction xs) (cases ys; auto)+

text \<open>
  Printing a host, a port and an absolute path and parsing them again gives them back: the
  round trip behind \<^verbatim>\<open>host:port/path\<close>, for host names without the delimiters.
\<close>

theorem split_host_path_roundtrip:
  assumes "host \<noteq> []" and "\<forall>c \<in> set host. c \<notin> {CHR ''/'', CHR ''?'', CHR '':'', CHR ''[''}"
  shows "split_host_path (host @ '':'' @ dec_of_nat (unat p) @ ''/'' @ r) =
    Inr (host, Some p, ''/'' @ r)"
proof -
  let ?a = "host @ '':'' @ dec_of_nat (unat p)"
  let ?P = "\<lambda>c. c = CHR ''/'' \<or> c = CHR ''?''"
  have d: "CHR ''/'' \<notin> set (dec_of_nat n)" "CHR ''?'' \<notin> set (dec_of_nat n)"
      "CHR '':'' \<notin> set (dec_of_nat n)" for n
    by (rule dec_of_nat_not_in, simp add: eval_simps)+
  have "\<not> ?P c" if "c \<in> set host" for c using assms(2) that by blast
  moreover have "\<not> ?P c" if "c \<in> set (dec_of_nat (unat p))" for c using d that by metis
  ultimately have "\<forall>c \<in> set ?a. \<not> ?P c" by (simp add: ball_Un)
  then have sb: "split_before ?P (?a @ ''/'' @ r) = (?a, ''/'' @ r)"
    using takeWhile_no_stop[of ?a ?P "''/'' @ r"] by (simp add: split_before_def)
  have rs: "rsplit_once (CHR '':'') ?a = Some (host, dec_of_nat (unat p))"
    using d by (simp add: rsplit_once_Some)
  have np: "strip_prefix ''['' ?a = None"
    using assms by (cases host) auto
  have "list_all is_digit (dec_of_nat (unat p))"
    using dec_of_nat_digits by (auto simp: list_all_iff)
  moreover have "CHR '':'' \<notin> set host" using assms(2) by blast
  ultimately have "split_authority_host_port ?a = Inr (host, Some p)"
    using rs np by (simp add: split_authority_host_port_def parse_host_port_def ok_or_def)
  then show ?thesis
    using sb assms(1) by (simp add: split_host_path_def starts_with_iff)
qed

theorem split_host_path_roundtrip_witness:
  "split_host_path (''a.b'' @ '':'' @ dec_of_nat (unat (65535 :: u16)) @ ''/'' @ ''x?y'') =
     Inr (''a.b'', Some 65535, ''/x?y'')"
  using split_host_path_roundtrip[of "''a.b''" 65535 "''x?y''"] by simp

end
