(* ===== verification/RustStd.thy ===== *)
theory RustStd
  imports RustNum
begin

text \<open>
  The rest of Rust's standard library the components use: UTF-8 validity, \<^verbatim>\<open>std::path\<close> on
  Unix, \<^verbatim>\<open>BTreeMap\<close> as a list sorted by its keys, and deduplication with a set of seen
  values.
\<close>

section \<open>UTF-8\<close>

text \<open>
  \<open>str::from_utf8\<close>: the length of the well-formed sequence at the head of the bytes (the table
  of the Unicode standard: no overlong form, no surrogate, at most U+10FFFF), 0 when there is
  none.
\<close>

definition cont_byte :: "nat \<Rightarrow> bool" where
  "cont_byte b = (0x80 \<le> b \<and> b \<le> 0xBF)"

fun utf8_len :: "nat list \<Rightarrow> nat" where
  "utf8_len [] = 0"
| "utf8_len (b # bs) =
     (if b < 0x80 then 1
      else if 0xC2 \<le> b \<and> b \<le> 0xDF then
        (case bs of c # _ \<Rightarrow> if cont_byte c then 2 else 0 | _ \<Rightarrow> 0)
      else if 0xE0 \<le> b \<and> b \<le> 0xEF then
        (case bs of
           c # d # _ \<Rightarrow>
             if cont_byte c \<and> cont_byte d \<and> (b = 0xE0 \<longrightarrow> 0xA0 \<le> c) \<and> (b = 0xED \<longrightarrow> c \<le> 0x9F)
             then 3 else 0
         | _ \<Rightarrow> 0)
      else if 0xF0 \<le> b \<and> b \<le> 0xF4 then
        (case bs of
           c # d # e # _ \<Rightarrow>
             if cont_byte c \<and> cont_byte d \<and> cont_byte e \<and> (b = 0xF0 \<longrightarrow> 0x90 \<le> c) \<and>
                (b = 0xF4 \<longrightarrow> c \<le> 0x8F)
             then 4 else 0
         | _ \<Rightarrow> 0)
      else 0)"

function utf8_valid_bytes :: "nat list \<Rightarrow> bool" where
  "utf8_valid_bytes bs =
     (if bs = [] then True
      else if utf8_len bs = 0 then False
      else utf8_valid_bytes (drop (utf8_len bs) bs))"
  by pat_completeness auto
termination
  by (relation "measure length") auto

declare utf8_valid_bytes.simps [simp del]

definition utf8_valid :: "string \<Rightarrow> bool" where
  "utf8_valid s = utf8_valid_bytes (map of_char s)"

lemma utf8_valid_Nil [simp, eval_simps]: "utf8_valid []"
  by (simp add: utf8_valid_def utf8_valid_bytes.simps)

lemma utf8_valid_ascii_Cons [eval_simps]:
  "(of_char c :: nat) < 128 \<Longrightarrow> utf8_valid (c # cs) = utf8_valid cs"
  unfolding utf8_valid_def by (subst utf8_valid_bytes.simps) simp

lemma utf8_valid_ascii: "\<forall>c \<in> set s. (of_char c :: nat) < 128 \<Longrightarrow> utf8_valid s"
  by (induction s) (auto simp: utf8_valid_ascii_Cons)

text \<open>
  \<open>from_utf8_lossy\<close>: each maximal ill-formed subsequence becomes U+FFFD; its length is how far a
  prefix of a well-formed sequence goes, at least one byte.
\<close>

definition utf8_second_ok :: "nat \<Rightarrow> nat \<Rightarrow> bool" where
  "utf8_second_ok b c \<longleftrightarrow>
     cont_byte c \<and> (b = 0xE0 \<longrightarrow> 0xA0 \<le> c) \<and> (b = 0xED \<longrightarrow> c \<le> 0x9F) \<and>
     (b = 0xF0 \<longrightarrow> 0x90 \<le> c) \<and> (b = 0xF4 \<longrightarrow> c \<le> 0x8F)"

definition utf8_bad_len :: "nat list \<Rightarrow> nat" where
  "utf8_bad_len bs =
     (case bs of
        b # c # rest \<Rightarrow>
          if 0xE0 \<le> b \<and> b \<le> 0xF4 \<and> utf8_second_ok b c then
            (case rest of
               d # _ \<Rightarrow> if 0xF0 \<le> b \<and> cont_byte d then 3 else 2
             | [] \<Rightarrow> 2)
          else 1
      | _ \<Rightarrow> 1)"

function utf8_lossy :: "string \<Rightarrow> string" where
  "utf8_lossy s =
     (if s = [] then []
      else let bs = map of_char s in
        if utf8_len bs > 0 then take (utf8_len bs) s @ utf8_lossy (drop (utf8_len bs) s)
        else [CHR 0xEF, CHR 0xBF, CHR 0xBD] @ utf8_lossy (drop (max 1 (utf8_bad_len bs)) s))"
  by pat_completeness auto
termination
  by (relation "measure length") auto

declare utf8_lossy.simps [simp del]

lemma utf8_lossy_ascii: "\<forall>c \<in> set s. (of_char c :: nat) < 128 \<Longrightarrow> utf8_lossy s = s"
proof (induction s)
  case Nil
  then show ?case by (simp add: utf8_lossy.simps)
next
  case (Cons c s)
  then show ?case by (subst utf8_lossy.simps) (simp add: Let_def)
qed

text \<open>\<open>chars()\<close>, keeping only what the code looks at: an ASCII character or none.\<close>

function ascii_chars :: "string \<Rightarrow> char option list" where
  "ascii_chars s =
     (case s of [] \<Rightarrow> []
      | c # cs \<Rightarrow> if (of_char c :: nat) < 128 then Some c # ascii_chars cs
                   else None # ascii_chars (drop (max 1 (utf8_len (map of_char s))) s))"
  by pat_completeness auto
termination
  by (relation "measure length") auto

declare ascii_chars.simps [simp del]

lemma ascii_chars_eval [eval_simps]:
  "ascii_chars [] = []"
  "(of_char c :: nat) < 128 \<Longrightarrow> ascii_chars (c # cs) = Some c # ascii_chars cs"
  by (subst ascii_chars.simps, simp)+

section \<open>Paths\<close>

type_synonym path = string

text \<open>
  \<open>Path::file_name\<close>: the last component, unless it is \<open>..\<close>; empty and \<open>.\<close> components are not
  components.
\<close>

definition path_components :: "path \<Rightarrow> string list" where
  "path_components p = filter (\<lambda>c. c \<noteq> [] \<and> c \<noteq> ''.'') (split_on (CHR ''/'') p)"

definition file_name :: "path \<Rightarrow> string option" where
  "file_name p =
     (let cs = path_components p
      in if cs = [] \<or> last cs = ''..'' then None else Some (last cs))"

definition rsplit_file_at_dot :: "string \<Rightarrow> string \<times> string option" where
  "rsplit_file_at_dot name =
     (case rsplit_once (CHR ''.'') name of
        None \<Rightarrow> (name, None)
      | Some (stem, ext) \<Rightarrow> if stem = [] then (name, None) else (stem, Some ext))"

definition file_stem :: "path \<Rightarrow> string option" where
  "file_stem p = map_option (\<lambda>n. fst (rsplit_file_at_dot n)) (file_name p)"

definition file_extension :: "path \<Rightarrow> string option" where
  "file_extension p = Option.bind (file_name p) (\<lambda>n. snd (rsplit_file_at_dot n))"

definition is_absolute :: "path \<Rightarrow> bool" where
  "is_absolute p = starts_with ''/'' p"

definition path_join :: "path \<Rightarrow> path \<Rightarrow> path" where
  "path_join a b =
     (if is_absolute b then b
      else if a = [] \<or> last a = CHR ''/'' then a @ b
      else a @ ''/'' @ b)"

text \<open>\<open>OsStr::to_str\<close>.\<close>

definition os_to_str :: "string \<Rightarrow> string option" where
  "os_to_str s = (if utf8_valid s then Some s else None)"

section \<open>Ordered maps\<close>

text \<open>A \<open>BTreeMap\<close> is its list of entries in the order of the keys.\<close>

type_synonym ('k, 'v) btree_map = "('k \<times> 'v) list"

fun btree_insert :: "'k::linorder \<Rightarrow> 'v \<Rightarrow> ('k, 'v) btree_map \<Rightarrow> ('k, 'v) btree_map" where
  "btree_insert k v [] = [(k, v)]"
| "btree_insert k v ((k', v') # m) =
     (if k < k' then (k, v) # (k', v') # m
      else if k = k' then (k, v) # m
      else (k', v') # btree_insert k v m)"

definition btree_keys :: "('k, 'v) btree_map \<Rightarrow> 'k list" where
  "btree_keys m = map fst m"

definition btree_wf :: "('k::linorder, 'v) btree_map \<Rightarrow> bool" where
  "btree_wf m = sorted_wrt (<) (map fst m)"

lemma btree_wf_Nil [simp]: "btree_wf []"
  by (simp add: btree_wf_def)

lemma btree_keys_insert: "fst ` set (btree_insert k v m) = insert k (fst ` set m)"
  by (induction k v m rule: btree_insert.induct) auto

lemma btree_wf_insert [simp]: "btree_wf m \<Longrightarrow> btree_wf (btree_insert k v m)"
proof (induction k v m rule: btree_insert.induct)
  case (1 k v)
  then show ?case by (simp add: btree_wf_def)
next
  case (2 k v k' v' m)
  have "set (map fst (btree_insert k v m)) = insert k (set (map fst m))"
    by (simp add: btree_keys_insert)
  with 2 show ?case by (auto simp: btree_wf_def)
qed

lemma map_of_btree_insert: "btree_wf m \<Longrightarrow> map_of (btree_insert k v m) = (map_of m)(k \<mapsto> v)"
proof (induction k v m rule: btree_insert.induct)
  case (2 k v k' v' m)
  then have "btree_wf m" by (simp add: btree_wf_def)
  with 2 show ?case by (auto simp: btree_wf_def fun_eq_iff)
qed simp

lemma btree_wf_distinct: "btree_wf m \<Longrightarrow> distinct (map fst m)"
  by (simp add: btree_wf_def strict_sorted_iff)

section \<open>Order-preserving deduplication\<close>

text \<open>
  \<open>for x in xs { if seen.insert(key(x)) { out.push(x) } }\<close>: the elements whose key was not seen
  before.
\<close>

fun dedup_by :: "('a \<Rightarrow> 'k) \<Rightarrow> 'k list \<Rightarrow> 'a list \<Rightarrow> 'a list" where
  "dedup_by key seen [] = []"
| "dedup_by key seen (x # xs) =
     (if key x \<in> set seen then dedup_by key seen xs
      else x # dedup_by key (key x # seen) xs)"

lemma dedup_by_keys: "key ` set (dedup_by key seen xs) = key ` set xs - set seen"
  by (induction xs arbitrary: seen) auto

lemma dedup_by_distinct: "distinct (map key (dedup_by key seen xs))"
proof (induction xs arbitrary: seen)
  case (Cons x xs)
  have "key x \<notin> key ` set (dedup_by key (key x # seen) xs)"
    by (simp add: dedup_by_keys)
  with Cons show ?case by auto
qed simp

lemma dedup_by_subset: "set (dedup_by key seen xs) \<subseteq> set xs"
  by (induction xs arbitrary: seen) (auto split: if_splits)

lemma dedup_by_id: "distinct (map key xs) \<Longrightarrow> key ` set xs \<inter> set seen = {} \<Longrightarrow> dedup_by key seen xs = xs"
  by (induction xs arbitrary: seen) auto

section \<open>Tables of unique names\<close>

text \<open>
  The contract of a loop that registers names and fails on the first one already taken, as the
  configuration validator and the payload registry do.
\<close>

locale unique_claims =
  fixes claim :: "'s \<Rightarrow> 'a \<Rightarrow> 'e + 's" and name_of :: "'a \<Rightarrow> 'k" and names :: "'s \<Rightarrow> 'k set"
    and inv :: "'s \<Rightarrow> bool"
  assumes claim_fresh: "inv s \<Longrightarrow> claim s a = Inr s' \<Longrightarrow>
    inv s' \<and> name_of a \<notin> names s \<and> names s' = insert (name_of a) (names s)"
begin

lemma fold_claims:
  assumes "inv s" and "try_fold claim s xs = Inr s'"
  shows "inv s' \<and> distinct (map name_of xs) \<and> name_of ` set xs \<inter> names s = {} \<and>
    names s' = name_of ` set xs \<union> names s"
  using assms
proof (induction xs arbitrary: s)
  case Nil
  then show ?case by simp
next
  case (Cons x xs)
  then obtain t where t: "claim s x = Inr t" "try_fold claim t xs = Inr s'"
    by (auto simp: res_bind_Inr_iff)
  from claim_fresh[OF Cons.prems(1) t(1)]
  have "inv t" "name_of x \<notin> names s" "names t = insert (name_of x) (names s)" by auto
  with Cons.IH[OF _ t(2)] show ?case by auto
qed

end

declare file_stem_def [eval_simps] file_name_def [eval_simps] path_components_def [eval_simps]
  rsplit_file_at_dot_def [eval_simps] os_to_str_def [eval_simps]

end
