(* ===== verification/Isolation.thy ===== *)
theory Isolation
  imports Types RustStd
begin

text \<open>
  \<^verbatim>\<open>src/isolation.rs\<close>, \<^verbatim>\<open>src/socket_mark.rs\<close> and the
  \<^verbatim>\<open>IsolationConfig\<close> of \<^verbatim>\<open>src/config.rs\<close>: how each worker gets its own NFQUEUE number and
  packet mark. Integer additions wrap as in a release build (the crate sets no
  \<^verbatim>\<open>overflow-checks\<close>), and \<open>None\<close> of \<open>generate_assignments\<close> is the panic of its two
  \<^verbatim>\<open>expect\<close> calls.
\<close>

section \<open>Modes and marks\<close>

datatype isolation_mode = SourcePort | Fwmark

datatype isolation_error =
    BadIsolationMode string | InvalidMark string | FwmarkMismatch string string

definition isolation_mode_parse :: "string \<Rightarrow> isolation_error + isolation_mode" where
  "isolation_mode_parse v =
     (if v = ''source_port'' then Inr SourcePort
      else if v = ''fwmark'' then Inr Fwmark
      else Inl (BadIsolationMode v))"

fun isolation_mode_as_str :: "isolation_mode \<Rightarrow> string" where
  "isolation_mode_as_str SourcePort = ''source_port''"
| "isolation_mode_as_str Fwmark = ''fwmark''"

definition parse_hex_mark :: "string \<Rightarrow> isolation_error + u32" where
  "parse_hex_mark v =
     (let trimmed = trim v;
          hex = (case strip_prefix ''0x'' trimmed of
                   Some h \<Rightarrow> h
                 | None \<Rightarrow>
                     (case strip_prefix ''0X'' trimmed of Some h \<Rightarrow> h | None \<Rightarrow> trimmed))
      in ok_or (InvalidMark v) (parse_u32_radix 16 hex))"

definition format_hex_mark :: "u32 \<Rightarrow> string" where
  "format_hex_mark v = ''0x'' @ hex8 v"

definition worker_fwmark :: "u32 \<Rightarrow> nat \<Rightarrow> u32" where
  "worker_fwmark mark_base worker_id = saturating_add mark_base (of_nat worker_id + 1)"

record isolation_config =
  is_mode :: string
  is_queue_base :: u16
  is_mark_base :: string
  is_desync_mark :: string
  is_use_nft_vmap :: bool

definition isolation_config_default :: isolation_config where
  "isolation_config_default =
     \<lparr> is_mode = ''source_port'', is_queue_base = 10, is_mark_base = ''0x20000000'',
       is_desync_mark = ''0x40000000'', is_use_nft_vmap = False \<rparr>"

section \<open>Assignments\<close>

record worker_assignment =
  wa_worker_id :: nat
  wa_qnum :: u16
  wa_fwmark :: "u32 option"
  wa_source_port :: "u16 option"

definition assign :: "isolation_mode \<Rightarrow> u16 \<Rightarrow> u32 \<Rightarrow> nat \<Rightarrow> worker_assignment" where
  "assign mode queue_base mark_base worker_id =
     (let qnum = queue_base + of_nat worker_id
      in case mode of
           Fwmark \<Rightarrow> \<lparr> wa_worker_id = worker_id, wa_qnum = qnum,
                       wa_fwmark = Some (worker_fwmark mark_base worker_id),
                       wa_source_port = None \<rparr>
         | SourcePort \<Rightarrow> \<lparr> wa_worker_id = worker_id, wa_qnum = qnum, wa_fwmark = None,
                           wa_source_port = None \<rparr>)"

definition generate_assignments :: "nat \<Rightarrow> isolation_config \<Rightarrow> worker_assignment list option" where
  "generate_assignments workers_count cfg =
     (case (isolation_mode_parse (is_mode cfg), parse_hex_mark (is_mark_base cfg)) of
        (Inr mode, Inr mark_base) \<Rightarrow>
          Some (map (assign mode (is_queue_base cfg) mark_base) [0..<workers_count])
      | _ \<Rightarrow> None)"

lemma generate_assignments_length: "generate_assignments n isolation = Some as \<Longrightarrow> length as = n"
  by (auto simp: generate_assignments_def split: sum.splits)

text \<open>The result says whether a \<^verbatim>\<open>--fwmark=\<close> argument was found; without one the code logs a warning.\<close>

definition validate_nfqws_desync_mark :: "string list \<Rightarrow> string \<Rightarrow> isolation_error + bool" where
  "validate_nfqws_desync_mark base_args desync_mark =
     res_bind (parse_hex_mark desync_mark) (\<lambda>expected.
       try_fold
         (\<lambda>found arg.
            case strip_prefix ''--fwmark='' arg of
              None \<Rightarrow> Inr found
            | Some v \<Rightarrow> res_bind (parse_hex_mark v) (\<lambda>configured.
                if configured \<noteq> expected then Inl (FwmarkMismatch v desync_mark) else Inr True))
         False base_args)"

section \<open>Socket marks\<close>

datatype so_mark_error = UnsupportedPlatform | SetFailed string

text \<open>
  \<open>setsockopt(SO_MARK)\<close> is a system call: its result for a mark is an argument (\<open>None\<close> is the
  return value 0, \<open>Some e\<close> a failure with the text of \<open>errno\<close>).
\<close>

definition set_socket_mark :: "bool \<Rightarrow> (u32 \<Rightarrow> string option) \<Rightarrow> u32 \<Rightarrow> so_mark_error + unit" where
  "set_socket_mark linux setsockopt mark =
     (if \<not> linux then Inl UnsupportedPlatform
      else case setsockopt mark of None \<Rightarrow> Inr () | Some e \<Rightarrow> Inl (SetFailed e))"

section \<open>Hexadecimal marks\<close>

declare isolation_mode_parse_def [eval_simps] parse_hex_mark_def [eval_simps]
  format_hex_mark_def [eval_simps] worker_fwmark_def [eval_simps] assign_def [eval_simps]
  generate_assignments_def [eval_simps] validate_nfqws_desync_mark_def [eval_simps]
  saturating_add_def [eval_simps] trim_def [eval_simps] ws_len_def [eval_simps]

lemma isolation_mode_roundtrip [simp]:
  "isolation_mode_parse (isolation_mode_as_str m) = Inr m"
  by (cases m) (simp_all add: isolation_mode_parse_def)

lemma isolation_mode_parse_Inr:
  "isolation_mode_parse v = Inr m \<longleftrightarrow> v = isolation_mode_as_str m"
  by (cases m) (auto simp: isolation_mode_parse_def)

text \<open>Text of printable ASCII characters has nothing to trim.\<close>

definition is_graphic :: "char \<Rightarrow> bool" where
  "is_graphic c = (33 \<le> (of_char c :: nat) \<and> (of_char c :: nat) < 127)"

lemma ws_len_graphic: "is_graphic c \<Longrightarrow> ws_len (c # cs) = 0"
  by (auto simp: ws_len_def is_graphic_def)

lemma trim_graphic: "\<forall>c \<in> set s. is_graphic c \<Longrightarrow> trim s = s"
proof -
  assume g: "\<forall>c \<in> set s. is_graphic c"
  then have "trim_start s = s"
    by (cases s) (simp_all add: trim_start.simps ws_len_graphic)
  moreover from g have "trim_end s = s"
    by (induction s) (simp_all add: ws_len_graphic)
  ultimately show ?thesis by (simp add: trim_def)
qed

lemma digit_char_graphic: "d < 36 \<Longrightarrow> is_graphic (digit_char d)"
  by (auto simp: is_graphic_def of_char_digit_char)

lemma hex8_graphic: "c \<in> set (hex8 v) \<Longrightarrow> is_graphic c"
  using set_radix_of_nat[of 16 "unat v"] digit_char_graphic
  by (auto simp: hex8_def Let_def is_graphic_def)

text \<open>
  A mark written with \<^verbatim>\<open>format_hex_mark\<close> is read back as the same number, so the marks in
  the generated nftables rules and \<^verbatim>\<open>--fwmark=\<close> arguments denote the marks the sockets carry.
\<close>

theorem hex_mark_roundtrip: "parse_hex_mark (format_hex_mark v) = Inr v"
proof -
  have "\<forall>c \<in> set (format_hex_mark v). is_graphic c"
    using hex8_graphic[of _ v] by (auto simp: format_hex_mark_def is_graphic_def)
  then have "trim (''0x'' @ hex8 v) = ''0x'' @ hex8 v"
    by (simp add: trim_graphic format_hex_mark_def)
  then show ?thesis
    using parse_u32_hex_padded[of _ v]
    by (simp add: parse_hex_mark_def format_hex_mark_def hex8_def Let_def ok_or_def)
qed

section \<open>Workers do not share a queue or a mark\<close>

lemma generate_assignments_Some:
  assumes "generate_assignments n cfg = Some as"
  obtains mode mark_base where "is_mode cfg = isolation_mode_as_str mode"
    and "parse_hex_mark (is_mark_base cfg) = Inr mark_base"
    and "as = map (assign mode (is_queue_base cfg) mark_base) [0..<n]"
  using assms by (auto simp: generate_assignments_def isolation_mode_parse_Inr split: sum.splits)

lemma unat_offset:
  fixes base :: "'a::len word"
  assumes "unat base + i < 2 ^ LENGTH('a)"
  shows "unat (base + of_nat i) = unat base + i"
  using assms by (simp add: unat_word_ariths unsigned_of_nat take_bit_eq_mod)

lemma unat_worker_fwmark:
  assumes "unat base + i + 1 < 2 ^ 32"
  shows "unat (worker_fwmark base i) = unat base + i + 1"
proof -
  have "unat (of_nat i + 1 :: u32) = unat (0 + of_nat (i + 1) :: u32)" by (simp add: add.commute)
  also have "\<dots> = i + 1" using unat_offset[of "0 :: u32" "i + 1"] assms by simp
  finally show ?thesis
    using assms by (simp only: worker_fwmark_def unat_saturating_add) simp
qed

lemma assign_qnums:
  assumes "unat queue_base + n \<le> 2 ^ 16"
  shows "distinct (map wa_qnum (map (assign mode queue_base base) [0..<n])) \<and>
    (\<forall>i < n. wa_worker_id (assign mode queue_base base i) = i \<and>
       unat (wa_qnum (assign mode queue_base base i)) = unat queue_base + i)"
proof -
  let ?a = "assign mode queue_base base"
  have "wa_worker_id (?a i) = i \<and> wa_qnum (?a i) = queue_base + of_nat i" for i
    by (cases mode) (simp_all add: assign_def)
  moreover have "unat (queue_base + of_nat i) = unat queue_base + i" if "i < n" for i
    using that assms by (intro unat_offset) simp
  ultimately have a: "\<forall>i < n. wa_worker_id (?a i) = i \<and> unat (wa_qnum (?a i)) = unat queue_base + i"
    by metis
  then have "inj_on (\<lambda>i. wa_qnum (?a i)) {0..<n}"
    by (intro inj_onI) (metis add_left_cancel atLeastLessThan_iff)
  then have "distinct (map (\<lambda>i. wa_qnum (?a i)) [0..<n])" by (simp add: distinct_map)
  with a show ?thesis by (simp add: comp_def)
qed

text \<open>
  The queue numbers of the workers are consecutive from \<^verbatim>\<open>queue_base\<close> and distinct as long
  as they fit 16 bits, and in \<^verbatim>\<open>fwmark\<close> mode the marks are the distinct numbers after
  \<^verbatim>\<open>mark_base\<close> as long as they fit 32 bits: no two workers share a queue or a mark.
\<close>

theorem assignments_disjoint:
  assumes "generate_assignments n cfg = Some as"
    and "unat (is_queue_base cfg) + n \<le> 2 ^ 16"
    and "parse_hex_mark (is_mark_base cfg) = Inr base" and "unat base + n < 2 ^ 32"
  shows "map wa_worker_id as = [0..<n] \<and> distinct (map wa_qnum as) \<and>
    (\<forall>a \<in> set as. unat (wa_qnum a) = unat (is_queue_base cfg) + wa_worker_id a \<and>
       (is_mode cfg = ''source_port'' \<longrightarrow> wa_fwmark a = None) \<and>
       (is_mode cfg = ''fwmark'' \<longrightarrow>
          (\<exists>m. wa_fwmark a = Some m \<and> unat m = unat base + wa_worker_id a + 1))) \<and>
    (is_mode cfg = ''fwmark'' \<longrightarrow> distinct (map wa_fwmark as))"
proof -
  obtain mode where mode: "is_mode cfg = isolation_mode_as_str mode"
    and as: "as = map (assign mode (is_queue_base cfg) base) [0..<n]"
    using assms(1,3) by (auto elim: generate_assignments_Some)
  let ?a = "assign mode (is_queue_base cfg) base"
  note aq = assign_qnums[OF assms(2), of mode base]
  have id: "wa_worker_id (?a i) = i" for i
    by (cases mode) (simp_all add: assign_def)
  have q: "unat (wa_qnum (?a i)) = unat (is_queue_base cfg) + i" if "i < n" for i
    using that aq by blast
  have m: "wa_fwmark (?a i) = Some (worker_fwmark base i) \<and>
      unat (worker_fwmark base i) = unat base + i + 1" if "i < n" "mode = Fwmark" for i
    using that assms(4) unat_worker_fwmark[of base i] by (simp add: assign_def)
  have none: "wa_fwmark (?a i) = None" if "mode = SourcePort" for i
    using that by (simp add: assign_def)
  have 1: "distinct (map wa_qnum as)" using aq as by blast
  have "inj_on (\<lambda>i. wa_fwmark (?a i)) {0..<n}" if "mode = Fwmark"
    by (rule inj_onI)
       (metis (no_types, lifting) add_left_cancel add_right_cancel atLeastLessThan_iff m option.inject that)
  then have 2: "is_mode cfg = ''fwmark'' \<longrightarrow> distinct (map wa_fwmark as)"
    using mode by (cases mode) (simp_all add: as distinct_map comp_def)
  have 3: "\<forall>a \<in> set as. unat (wa_qnum a) = unat (is_queue_base cfg) + wa_worker_id a \<and>
       (is_mode cfg = ''source_port'' \<longrightarrow> wa_fwmark a = None) \<and>
       (is_mode cfg = ''fwmark'' \<longrightarrow>
          (\<exists>m. wa_fwmark a = Some m \<and> unat m = unat base + wa_worker_id a + 1))"
    using mode m none id q by (cases mode) (auto simp: as)
  have "map wa_worker_id as = [0..<n]"
    by (simp add: as comp_def id)
  with 1 2 3 show ?thesis by blast
qed

theorem assignments_disjoint_witness:
  "\<exists>as. generate_assignments 3
       (isolation_config_default\<lparr>is_mode := ''fwmark'', is_queue_base := 200\<rparr>) = Some as \<and>
     distinct (map wa_qnum as) \<and> distinct (map wa_fwmark as) \<and> map wa_worker_id as = [0, 1, 2]"
proof -
  let ?cfg = "isolation_config_default\<lparr>is_mode := ''fwmark'', is_queue_base := 200\<rparr>"
  have m: "parse_hex_mark (is_mark_base ?cfg) = Inr 0x20000000"
    by (simp add: isolation_config_default_def eval_simps trim_start.simps del: strip_prefix_Some_iff)
  have g: "generate_assignments 3 ?cfg = Some (map (assign Fwmark 200 0x20000000) [0..<3])"
    using m by (simp add: generate_assignments_def isolation_mode_parse_def isolation_config_default_def)
  show ?thesis
    using assignments_disjoint[OF g, of "0x20000000"] g m by (simp add: isolation_config_default_def upt_rec)
qed

section \<open>Agreement of the desync mark\<close>

text \<open>
  The check of \<^verbatim>\<open>nfqws.base_args\<close> accepts exactly the argument lists in which every
  \<^verbatim>\<open>--fwmark=\<close> denotes the desync mark, and reports whether there was one.
\<close>

theorem nfqws_desync_mark_checked:
  "validate_nfqws_desync_mark args desync = Inr found \<longleftrightarrow>
     (\<exists>expected. parse_hex_mark desync = Inr expected \<and>
        (\<forall>v. ''--fwmark='' @ v \<in> set args \<longrightarrow> parse_hex_mark v = Inr expected) \<and>
        (found \<longleftrightarrow> (\<exists>v. ''--fwmark='' @ v \<in> set args)))"
proof (cases "parse_hex_mark desync")
  case (Inl e)
  then show ?thesis by (simp add: validate_nfqws_desync_mark_def)
next
  case (Inr expected)
  define step where "step = (\<lambda>found arg.
            case strip_prefix ''--fwmark='' arg of
              None \<Rightarrow> Inr found
            | Some v \<Rightarrow> res_bind (parse_hex_mark v) (\<lambda>configured.
                if configured \<noteq> expected then Inl (FwmarkMismatch v desync) else Inr True))"
  have step: "step f arg = Inr f' \<longleftrightarrow>
      (\<forall>v. arg = ''--fwmark='' @ v \<longrightarrow> parse_hex_mark v = Inr expected) \<and>
      (f' \<longleftrightarrow> f \<or> (\<exists>v. arg = ''--fwmark='' @ v))" for f arg f'
  proof (cases "strip_prefix ''--fwmark='' arg")
    case None
    then have "\<nexists>v. arg = ''--fwmark='' @ v" by (metis strip_prefix_Some_iff option.distinct(1))
    with None show ?thesis by (auto simp: step_def)
  next
    case (Some v)
    then have "arg = ''--fwmark='' @ v" by (simp only: strip_prefix_Some_iff)
    then show ?thesis
      by (cases "parse_hex_mark v") (auto simp: step_def)
  qed
  have "try_fold step f args = Inr found \<longleftrightarrow>
      (\<forall>v. ''--fwmark='' @ v \<in> set args \<longrightarrow> parse_hex_mark v = Inr expected) \<and>
      (found \<longleftrightarrow> f \<or> (\<exists>v. ''--fwmark='' @ v \<in> set args))" for f
  proof (induction args arbitrary: f)
    case Nil
    then show ?case by auto
  next
    case (Cons a as)
    show ?case
      unfolding try_fold.simps res_bind_Inr_iff step Cons.IH by (auto simp del: append_Cons)
  qed
  with Inr show ?thesis
    by (simp add: validate_nfqws_desync_mark_def step_def del: append_Cons append.simps)
qed

lemmas mark_eval = parse_hex_mark_def trim_def trim_start.simps ws_len_def

lemma default_marks [simp]:
  "parse_hex_mark ''0x20000000'' = Inr 0x20000000" "parse_hex_mark ''0x40000000'' = Inr 0x40000000"
  "parse_hex_mark ''0x3fffffff'' = Inr 0x3fffffff"
  by (simp_all add: mark_eval eval_simps del: strip_prefix_Some_iff)

theorem nfqws_desync_mark_checked_witness:
  "validate_nfqws_desync_mark [''--fwmark=0x40000000'', ''--user=nobody''] ''0x40000000'' = Inr True \<and>
     parse_hex_mark ''0x40000000'' = Inr 0x40000000"
  using nfqws_desync_mark_checked[of "[''--fwmark=0x40000000'', ''--user=nobody'']"
      "''0x40000000''" True]
  by auto

end
