(* ===== verification/Config.thy ===== *)
theory Config
  imports Isolation
begin

text \<open>
  \<^verbatim>\<open>src/config.rs\<close>: the configuration record with its defaults, and every check of
  \<^verbatim>\<open>AppConfig::validate\<close>, one error constructor per \<^verbatim>\<open>bail!\<close>. Deserialisation belongs to
  \<^verbatim>\<open>serde\<close>: the parsers and the file are arguments of \<open>app_config_load\<close>. Counts and
  timeouts are natural numbers (no arithmetic of the validator leaves their range), except the
  narrowing \<^verbatim>\<open>as u32\<close> of the worker count, which is written out. A \<^verbatim>\<open>BTreeMap\<close> is its list
  of entries in key order.
\<close>

section \<open>Records\<close>

record workers_config =
  wk_count :: nat
  wk_spawn_grace_ms :: nat
  wk_task_channel_size :: nat
  wk_result_channel_size :: nat
  wk_shutdown_timeout_ms :: nat

record source_port_config =
  sp_mode :: string
  sp_bind_ipv4 :: ip_addr
  sp_bind_ipv6 :: ip_addr

record dns_config =
  dn_mode :: string
  dn_doh_addr :: string
  dn_doh_addrs :: "string list"
  dn_doh_host :: string
  dn_doh_path :: string

record protocol_probe_config =
  pp_http :: bool
  pp_tls12 :: bool
  pp_tls13 :: bool
  pp_quic :: bool
  pp_preferred :: string

record probe_config =
  pc_backend :: string
  pc_connect_timeout_ms :: nat
  pc_tls_timeout_ms :: nat
  pc_first_byte_timeout_ms :: nat
  pc_total_timeout_ms :: nat
  pc_max_read_bytes :: nat
  pc_user_agent :: string
  pc_method :: string
  pc_read_mode :: string
  pc_min_body_bytes :: nat
  pc_dpi_detection_bytes :: nat
  pc_verify_transfer_bytes :: nat
  pc_base_domains :: "string list"
  pc_test_count :: nat
  pc_protocols :: protocol_probe_config
  pc_dns :: dns_config

record nfqws_config =
  nq_binary :: path
  nq_library_paths :: "path list"
  nq_base_args :: "string list"
  nq_start_grace_ms :: nat
  nq_stop_timeout_ms :: nat
  nq_log_stderr :: bool
  nq_log_stdout :: bool

record firewall_config =
  fw_backend :: string
  fw_table :: string
  fw_hook :: string
  fw_priority :: string
  fw_cleanup_on_start :: bool
  fw_cleanup_on_exit :: bool

record debug_config =
  dbg_enable_curl_fallback :: bool
  dbg_keep_rules_on_failure :: bool
  dbg_verbose_nfqws :: bool

record blob_config =
  bl_auto_load :: bool
  bl_base_dir :: "path option"

record payload_protocol_config =
  py_builtin :: "string list"
  py_files :: "path list"
  py_aliases :: "(string, path) btree_map"

record payload_config =
  pl_max_per_protocol :: nat
  pl_http :: payload_protocol_config
  pl_tls :: payload_protocol_config
  pl_quic :: payload_protocol_config

type_synonym value_map = "(string, string list) btree_map"

record strategy_values_config =
  sv_mode :: string
  sv_http :: value_map
  sv_tls :: value_map
  sv_quic :: value_map

record allowed_combination =
  al_protocols :: "string list"
  al_families :: "string list"

record strategy_combination_config =
  sc_enabled :: bool
  sc_require_different_family :: bool
  sc_allow_same_action :: bool
  sc_mode :: string
  sc_allowed :: "allowed_combination list"

record strategies_config =
  ss_file :: path
  ss_transition_matrix :: "path option"
  ss_successful_strategy_limit :: nat
  ss_search_mode :: string
  ss_round_robin_families :: bool

record app_config =
  ac_workers :: workers_config
  ac_source_port :: source_port_config
  ac_probe :: probe_config
  ac_nfqws :: nfqws_config
  ac_firewall :: firewall_config
  ac_debug :: debug_config
  ac_isolation :: isolation_config
  ac_strategies :: strategies_config
  ac_bayes_state_file :: path
  ac_blobs :: blob_config
  ac_payloads :: payload_config
  ac_strategy_values :: strategy_values_config
  ac_strategy_combinations :: strategy_combination_config

section \<open>Defaults\<close>

definition dns_config_default :: dns_config where
  "dns_config_default =
     \<lparr> dn_mode = ''doh'', dn_doh_addr = ''1.1.1.1:443'', dn_doh_addrs = [],
       dn_doh_host = ''cloudflare-dns.com'', dn_doh_path = ''/dns-query'' \<rparr>"

text \<open>
  The \<^verbatim>\<open>Default\<close> of the table, used when it is absent, and the per-field serde defaults, used
  for the keys a present table leaves out: they disagree on \<^verbatim>\<open>tls13\<close>.
\<close>

definition protocol_probe_config_default :: protocol_probe_config where
  "protocol_probe_config_default =
     \<lparr> pp_http = True, pp_tls12 = True, pp_tls13 = False, pp_quic = False,
       pp_preferred = ''tls12'' \<rparr>"

definition protocol_probe_config_fields ::
  "bool option \<Rightarrow> bool option \<Rightarrow> bool option \<Rightarrow> bool option \<Rightarrow> string option \<Rightarrow> protocol_probe_config" where
  "protocol_probe_config_fields http tls12 tls13 quic preferred =
     (let or = (\<lambda>x d. case x of Some v \<Rightarrow> v | None \<Rightarrow> d)
      in \<lparr> pp_http = or http True, pp_tls12 = or tls12 True, pp_tls13 = or tls13 True,
           pp_quic = or quic False,
           pp_preferred = (case preferred of Some v \<Rightarrow> v | None \<Rightarrow> ''tls12'') \<rparr>)"

definition blob_config_default :: blob_config where
  "blob_config_default = \<lparr> bl_auto_load = False, bl_base_dir = None \<rparr>"

definition default_payload_protocol_config :: "string \<Rightarrow> payload_protocol_config" where
  "default_payload_protocol_config builtin =
     \<lparr> py_builtin = [builtin], py_files = [], py_aliases = [] \<rparr>"

definition payload_config_default :: payload_config where
  "payload_config_default =
     \<lparr> pl_max_per_protocol = 8,
       pl_http = default_payload_protocol_config ''fake_default_http'',
       pl_tls = default_payload_protocol_config ''fake_default_tls'',
       pl_quic = default_payload_protocol_config ''fake_default_quic'' \<rparr>"

definition strategy_values_config_default :: strategy_values_config where
  "strategy_values_config_default =
     \<lparr> sv_mode = ''extend'', sv_http = [], sv_tls = [], sv_quic = [] \<rparr>"

definition strategy_combination_config_default :: strategy_combination_config where
  "strategy_combination_config_default =
     \<lparr> sc_enabled = False, sc_require_different_family = True, sc_allow_same_action = False,
       sc_mode = ''pairwise'', sc_allowed = [] \<rparr>"

definition strategies_config_default :: strategies_config where
  "strategies_config_default =
     \<lparr> ss_file = ''config/standart/strategies.yaml'', ss_transition_matrix = None,
       ss_successful_strategy_limit = 10, ss_search_mode = ''signal'',
       ss_round_robin_families = True \<rparr>"

section \<open>Reading the configuration\<close>

definition effective_doh_addrs :: "dns_config \<Rightarrow> string list" where
  "effective_doh_addrs d = (if dn_doh_addrs d = [] then [dn_doh_addr d] else dn_doh_addrs d)"

definition values_for_protocol_key :: "strategy_values_config \<Rightarrow> string \<Rightarrow> value_map" where
  "values_for_protocol_key c key =
     (if key = ''http'' then sv_http c
      else if key \<in> {''tls12'', ''tls13'', ''tls''} then sv_tls c
      else if key = ''quic'' then sv_quic c
      else [])"

definition values_for_param :: "strategy_values_config \<Rightarrow> string \<Rightarrow> string \<Rightarrow> string list option" where
  "values_for_param c key param = map_of (values_for_protocol_key c key) param"

definition param_names_for_protocol_key :: "strategy_values_config \<Rightarrow> string \<Rightarrow> string list" where
  "param_names_for_protocol_key c key = btree_keys (values_for_protocol_key c key)"

definition pair_allowed :: "strategy_combination_config \<Rightarrow> string \<Rightarrow> string \<Rightarrow> string \<Rightarrow> bool" where
  "pair_allowed c key a b =
     (if \<not> sc_enabled c then False
      else if sc_mode c = ''force'' then \<not> sc_require_different_family c \<or> a \<noteq> b
      else list_ex (\<lambda>al.
             list_ex (\<lambda>p. p = key) (al_protocols al) \<and> length (al_families al) = 2 \<and>
             (al_families al ! 0 = a \<and> al_families al ! 1 = b \<or>
              al_families al ! 0 = b \<and> al_families al ! 1 = a)) (sc_allowed c))"

section \<open>Validation\<close>

datatype config_error =
    PreferredUnknown | NoProtocolEnabled | PreferredDisabled
  | WorkersZero | TaskChannelZero | ResultChannelZero | QnumOverflow u16
  | CeIsolation isolation_error | MarksEqual | VmapRequired | NftablesRequired | FwmarkOverlap
  | SourcePortMode | ProbeBackend | CeTypes target_error | MinBodyAboveMaxRead | TestCountZero
  | DnsMode | DohAddrsEmpty | DohAddrInvalid | DohPort | DohHost | DohPath
  | FirewallBackend | FirewallHookName | KeepRulesConflict | SearchMode
  | CombinationMode | CombProtocolsEmpty nat | CombProtocolUnknown nat string
  | CombFamiliesCount nat | CombFamilyEmpty nat | CombFamiliesEqual nat
  | ValuesMode | ValuesParamEmpty string | ValuesEmptyString string string nat
  | PayloadMaxZero | BlobsBaseDir | PayloadAliasDuplicated string string string
  | PayloadAliasEmpty | PayloadAliasChars string | PayloadAliasReserved string
  | PayloadFileName | PayloadLimit string nat nat
  | ConfigRead | ConfigParse string

definition lift_err :: "('e \<Rightarrow> 'f) \<Rightarrow> 'e + 'a \<Rightarrow> 'f + 'a" where
  "lift_err f r = (case r of Inl e \<Rightarrow> Inl (f e) | Inr v \<Rightarrow> Inr v)"

definition validate_isolation :: "app_config \<Rightarrow> config_error + unit" where
  "validate_isolation c =
     (let iso = ac_isolation c in
      res_bind (lift_err CeIsolation (isolation_mode_parse (is_mode iso))) (\<lambda>mode.
      res_bind (lift_err CeIsolation (parse_hex_mark (is_mark_base iso))) (\<lambda>mark_base.
      res_bind (lift_err CeIsolation (parse_hex_mark (is_desync_mark iso))) (\<lambda>desync.
      if is_mark_base iso = is_desync_mark iso then Inl MarksEqual
      else if mode = Fwmark then
        (if \<not> is_use_nft_vmap iso then Inl VmapRequired
         else if fw_backend (ac_firewall c) \<noteq> ''nftables'' then Inl NftablesRequired
         else
           let max_worker_id = (of_nat (wk_count (ac_workers c) - 1) :: u32)
           in if saturating_add mark_base (max_worker_id + 1) = desync then Inl FwmarkOverlap
              else Inr ())
      else Inr ()))))"

definition validate_allowed :: "strategy_combination_config \<Rightarrow> nat \<times> allowed_combination
    \<Rightarrow> config_error + unit" where
  "validate_allowed c = (\<lambda>(index, al).
     if al_protocols al = [] then Inl (CombProtocolsEmpty index)
     else res_bind
       (try_each (\<lambda>p. ensure (p \<in> {''http'', ''tls12'', ''tls13'', ''quic''})
                        (CombProtocolUnknown index p)) (al_protocols al)) (\<lambda>_.
       if length (al_families al) \<noteq> 2 then Inl (CombFamiliesCount index)
       else if list_ex (\<lambda>f. f = []) (al_families al) then Inl (CombFamilyEmpty index)
       else if sc_require_different_family c \<and> al_families al ! 0 = al_families al ! 1
       then Inl (CombFamiliesEqual index)
       else Inr ()))"

definition validate_strategy_combinations :: "strategy_combination_config \<Rightarrow> config_error + unit" where
  "validate_strategy_combinations c =
     (if sc_mode c \<notin> {''pairwise'', ''best_with_variants'', ''force''} then Inl CombinationMode
      else try_each (validate_allowed c) (zip [0..<length (sc_allowed c)] (sc_allowed c)))"

definition position :: "('a \<Rightarrow> bool) \<Rightarrow> 'a list \<Rightarrow> nat option" where
  "position P xs = (let i = length (takeWhile (\<lambda>x. \<not> P x) xs)
                    in if i < length xs then Some i else None)"

definition validate_strategy_value_map :: "string \<Rightarrow> value_map \<Rightarrow> config_error + unit" where
  "validate_strategy_value_map protocol values =
     try_each (\<lambda>(param, vs).
       if param = [] then Inl (ValuesParamEmpty protocol)
       else case position (\<lambda>v. v = []) vs of
              Some i \<Rightarrow> Inl (ValuesEmptyString protocol param i)
            | None \<Rightarrow> Inr ()) values"

definition validate_strategy_values :: "strategy_values_config \<Rightarrow> config_error + unit" where
  "validate_strategy_values c =
     (if sv_mode c \<notin> {''extend'', ''override''} then Inl ValuesMode
      else res_bind (validate_strategy_value_map ''http'' (sv_http c)) (\<lambda>_.
           res_bind (validate_strategy_value_map ''tls'' (sv_tls c)) (\<lambda>_.
           validate_strategy_value_map ''quic'' (sv_quic c))))"

definition validate_payload_alias :: "string \<Rightarrow> config_error + unit" where
  "validate_payload_alias alias =
     (if alias = [] then Inl PayloadAliasEmpty
      else ensure (list_all (\<lambda>c. is_alnum c \<or> c = CHR ''_'') alias) (PayloadAliasChars alias))"

definition validate_payload_alias_reserved :: "string \<Rightarrow> config_error + unit" where
  "validate_payload_alias_reserved alias =
     ensure (alias \<notin> {''fake_default_http'', ''fake_default_tls'', ''fake_default_quic''})
       (PayloadAliasReserved alias)"

definition payload_file_alias :: "path \<Rightarrow> config_error + string" where
  "payload_file_alias file = ok_or PayloadFileName (Option.bind (file_stem file) os_to_str)"

definition claim_alias :: "string \<Rightarrow> (string, string) btree_map \<Rightarrow> string
    \<Rightarrow> config_error + (string, string) btree_map" where
  "claim_alias protocol aliases alias =
     res_bind (validate_payload_alias alias) (\<lambda>_.
     res_bind (validate_payload_alias_reserved alias) (\<lambda>_.
     case map_of aliases alias of
       Some existing \<Rightarrow> Inl (PayloadAliasDuplicated alias existing protocol)
     | None \<Rightarrow> Inr (btree_insert alias protocol aliases)))"

definition validate_payload_protocol_aliases ::
  "string \<Rightarrow> payload_protocol_config \<Rightarrow> (string, string) btree_map
     \<Rightarrow> config_error + (string, string) btree_map" where
  "validate_payload_protocol_aliases protocol c aliases =
     res_bind (try_fold (claim_alias protocol) aliases (btree_keys (py_aliases c))) (\<lambda>aliases.
     try_fold (\<lambda>aliases file.
       res_bind (payload_file_alias file) (claim_alias protocol aliases)) aliases (py_files c))"

definition validate_payload_protocol_file_limit ::
  "nat \<Rightarrow> string \<Rightarrow> payload_protocol_config \<Rightarrow> config_error + unit" where
  "validate_payload_protocol_file_limit max_per protocol c =
     (let file_payload_count = length (py_files c) + length (py_aliases c)
      in if max_per < file_payload_count then Inl (PayloadLimit protocol file_payload_count max_per)
         else Inr ())"

definition validate_payloads :: "app_config \<Rightarrow> config_error + unit" where
  "validate_payloads c =
     (let p = ac_payloads c; limit = validate_payload_protocol_file_limit (pl_max_per_protocol p) in
      if pl_max_per_protocol p = 0 then Inl PayloadMaxZero
      else if bl_auto_load (ac_blobs c) \<and> bl_base_dir (ac_blobs c) = None then Inl BlobsBaseDir
      else res_bind (validate_payload_protocol_aliases ''http'' (pl_http p) []) (\<lambda>a.
           res_bind (validate_payload_protocol_aliases ''tls'' (pl_tls p) a) (\<lambda>a.
           res_bind (validate_payload_protocol_aliases ''quic'' (pl_quic p) a) (\<lambda>_.
           res_bind (limit ''http'' (pl_http p)) (\<lambda>_.
           res_bind (limit ''tls'' (pl_tls p)) (\<lambda>_.
           limit ''quic'' (pl_quic p)))))))"

definition preferred_enabled :: "protocol_probe_config \<Rightarrow> bool" where
  "preferred_enabled p =
     (if pp_preferred p = ''http'' then pp_http p
      else if pp_preferred p = ''tls12'' then pp_tls12 p
      else if pp_preferred p = ''tls13'' then pp_tls13 p
      else if pp_preferred p = ''quic'' then pp_quic p
      else False)"

definition validate_doh_addr :: "string \<Rightarrow> config_error + unit" where
  "validate_doh_addr addr =
     res_bind (ok_or DohAddrInvalid (parse_socket_addr addr)) (\<lambda>(ip, port).
       ensure (port = 443) DohPort)"

definition validate :: "app_config \<Rightarrow> config_error + unit" where
  "validate c =
     (let protocols = pc_protocols (ac_probe c); workers = ac_workers c; probe = ac_probe c;
          dns = pc_dns (ac_probe c) in
      if pp_preferred protocols \<notin> {''http'', ''tls12'', ''tls13'', ''quic''}
      then Inl PreferredUnknown
      else if \<not> pp_http protocols \<and> \<not> pp_tls12 protocols \<and> \<not> pp_tls13 protocols \<and>
              \<not> pp_quic protocols then Inl NoProtocolEnabled
      else if \<not> preferred_enabled protocols then Inl PreferredDisabled
      else if wk_count workers = 0 then Inl WorkersZero
      else if wk_task_channel_size workers = 0 then Inl TaskChannelZero
      else if wk_result_channel_size workers = 0 then Inl ResultChannelZero
      else if ucast (is_queue_base (ac_isolation c)) + (of_nat (wk_count workers - 1) :: u32) > 65535
      then Inl (QnumOverflow (is_queue_base (ac_isolation c)))
      else res_bind (validate_isolation c) (\<lambda>_.
      if sp_mode (ac_source_port c) \<noteq> ''os_assigned'' then Inl SourcePortMode
      else if pc_backend probe \<notin> {''native'', ''curl''} then Inl ProbeBackend
      else res_bind (lift_err CeTypes (method_parse_config (pc_method probe))) (\<lambda>_.
      res_bind (lift_err CeTypes (read_mode_parse_config (pc_read_mode probe))) (\<lambda>_.
      if pc_max_read_bytes probe < pc_min_body_bytes probe then Inl MinBodyAboveMaxRead
      else if pc_test_count probe = 0 then Inl TestCountZero
      else if dn_mode dns \<noteq> ''doh'' then Inl DnsMode
      else if effective_doh_addrs dns = [] then Inl DohAddrsEmpty
      else res_bind (try_each validate_doh_addr (effective_doh_addrs dns)) (\<lambda>_.
      if dn_doh_host dns = [] \<or> CHR '':'' \<in> set (dn_doh_host dns) \<or>
         CHR ''/'' \<in> set (dn_doh_host dns) then Inl DohHost
      else if \<not> starts_with ''/'' (dn_doh_path dns) then Inl DohPath
      else if fw_backend (ac_firewall c) \<notin> {''nftables'', ''iptables''} then Inl FirewallBackend
      else if fw_hook (ac_firewall c) \<notin> {''output'', ''postrouting''} then Inl FirewallHookName
      else if dbg_keep_rules_on_failure (ac_debug c) \<and> fw_cleanup_on_exit (ac_firewall c)
      then Inl KeepRulesConflict
      else if ss_search_mode (ac_strategies c) \<notin> {''signal'', ''expand'', ''force''}
      then Inl SearchMode
      else res_bind (validate_payloads c) (\<lambda>_.
           res_bind (validate_strategy_values (ac_strategy_values c)) (\<lambda>_.
           validate_strategy_combinations (ac_strategy_combinations c))))))))"

definition app_config_load ::
  "(path \<Rightarrow> string option) \<Rightarrow> (string \<Rightarrow> string + app_config) \<Rightarrow> (string \<Rightarrow> string + app_config)
     \<Rightarrow> path \<Rightarrow> config_error + app_config" where
  "app_config_load read_to_string from_yaml from_toml p =
     res_bind (ok_or ConfigRead (read_to_string p)) (\<lambda>text.
     res_bind (lift_err ConfigParse
       (case Option.bind (file_extension p) os_to_str of
          Some ext \<Rightarrow> if ext = ''yaml'' \<or> ext = ''yml'' then from_yaml text else from_toml text
        | None \<Rightarrow> from_toml text)) (\<lambda>cfg.
     res_bind (validate cfg) (\<lambda>_. Inr cfg)))"

section \<open>Payload aliases\<close>

lemma claim_alias_Inr:
  "claim_alias p m a = Inr m' \<longleftrightarrow>
     validate_payload_alias a = Inr () \<and> validate_payload_alias_reserved a = Inr () \<and>
     map_of m a = None \<and> m' = btree_insert a p m"
  by (auto simp: claim_alias_def res_bind_Inr_iff split: option.splits)

interpretation claim_alias: unique_claims "claim_alias p" "\<lambda>a. a" "\<lambda>m. fst ` set m" btree_wf
  by unfold_locales
     (auto simp: claim_alias_Inr btree_keys_insert map_of_eq_None_iff)

definition good_alias :: "string \<Rightarrow> bool" where
  "good_alias a \<longleftrightarrow> a \<noteq> [] \<and> (\<forall>c \<in> set a. is_alnum c \<or> c = CHR ''_'') \<and>
     a \<notin> {''fake_default_http'', ''fake_default_tls'', ''fake_default_quic''}"

lemma claim_alias_good: "try_fold (claim_alias p) m as = Inr m' \<Longrightarrow> \<forall>a \<in> set as. good_alias a"
proof (induction as arbitrary: m)
  case Nil
  then show ?case by simp
next
  case (Cons a as)
  then obtain t where "claim_alias p m a = Inr t" "try_fold (claim_alias p) t as = Inr m'"
    by (auto simp: res_bind_Inr_iff)
  with Cons.IH show ?case
    by (auto simp: claim_alias_Inr good_alias_def validate_payload_alias_def
          validate_payload_alias_reserved_def ensure_Inr_iff list_all_iff split: if_splits)
qed

text \<open>The names under which the files of a protocol are registered, in the validator's order.\<close>

fun file_names :: "path list \<Rightarrow> (string list) option" where
  "file_names [] = Some []"
| "file_names (f # fs) =
     (case (payload_file_alias f, file_names fs) of (Inr a, Some as) \<Rightarrow> Some (a # as) | _ \<Rightarrow> None)"

definition alias_names :: "payload_protocol_config \<Rightarrow> string list" where
  "alias_names c = btree_keys (py_aliases c) @ the (file_names (py_files c))"

lemma file_loop_names:
  assumes "try_fold (\<lambda>m f. res_bind (payload_file_alias f) (claim_alias p m)) m fs = Inr m'"
  shows "\<exists>as. file_names fs = Some as \<and> try_fold (claim_alias p) m as = Inr m'"
  using assms
proof (induction fs arbitrary: m)
  case Nil
  then show ?case by simp
next
  case (Cons f fs)
  then obtain a t where a: "payload_file_alias f = Inr a" "claim_alias p m a = Inr t"
    and "try_fold (\<lambda>m f. res_bind (payload_file_alias f) (claim_alias p m)) t fs = Inr m'"
    by (auto simp: res_bind_Inr_iff)
  with Cons.IH obtain as where "file_names fs = Some as" "try_fold (claim_alias p) t as = Inr m'"
    by blast
  with a show ?case by simp
qed

lemma protocol_aliases_claimed:
  assumes "btree_wf m" and "validate_payload_protocol_aliases p c m = Inr m'"
  shows "btree_wf m' \<and> distinct (alias_names c) \<and> set (alias_names c) \<inter> fst ` set m = {} \<and>
    fst ` set m' = set (alias_names c) \<union> fst ` set m \<and> (\<forall>a \<in> set (alias_names c). good_alias a)"
proof -
  obtain t where t: "try_fold (claim_alias p) m (btree_keys (py_aliases c)) = Inr t"
    and "try_fold (\<lambda>m f. res_bind (payload_file_alias f) (claim_alias p m)) t (py_files c) = Inr m'"
    using assms(2) by (auto simp: validate_payload_protocol_aliases_def res_bind_Inr_iff)
  then obtain as where as: "file_names (py_files c) = Some as"
    and f: "try_fold (claim_alias p) t as = Inr m'"
    using file_loop_names by blast
  note c1 = claim_alias.fold_claims[OF assms(1) t]
  then have "btree_wf t" by blast
  note c2 = claim_alias.fold_claims[OF this f]
  show ?thesis
    using c1 c2 claim_alias_good[OF t] claim_alias_good[OF f] as
    by (auto simp: alias_names_def)
qed

lemma validate_Inr:
  assumes "validate c = Inr ()"
  shows "validate_isolation c = Inr ()" and "validate_payloads c = Inr ()"
    and "validate_strategy_values (ac_strategy_values c) = Inr ()"
    and "validate_strategy_combinations (ac_strategy_combinations c) = Inr ()"
    and "wk_count (ac_workers c) \<noteq> 0"
    and "\<not> ucast (is_queue_base (ac_isolation c)) + (of_nat (wk_count (ac_workers c) - 1) :: u32) > 65535"
    and "is_ok (method_parse_config (pc_method (ac_probe c)))"
    and "is_ok (read_mode_parse_config (pc_read_mode (ac_probe c)))"
    and "\<forall>a \<in> set (effective_doh_addrs (pc_dns (ac_probe c))). validate_doh_addr a = Inr ()"
    and "pp_preferred (pc_protocols (ac_probe c)) \<in> {''http'', ''tls12'', ''tls13'', ''quic''}"
    and "preferred_enabled (pc_protocols (ac_probe c))"
    and "fw_backend (ac_firewall c) \<in> {''nftables'', ''iptables''}"
    and "fw_hook (ac_firewall c) \<in> {''output'', ''postrouting''}"
    and "0 < pc_test_count (ac_probe c)"
  using assms
  by (simp_all add: validate_def Let_def result_simps lift_err_def split: if_splits sum.splits)

text \<open>
  What the validator promises about payload aliases: over the three protocols together, the
  alias keys and the stems of the listed files are pairwise distinct ASCII identifiers, none of
  them a built-in name, and no protocol has more than \<^verbatim>\<open>max_per_protocol\<close> of them.
\<close>

theorem payload_aliases_unique:
  assumes "validate c = Inr ()"
  shows "let p = ac_payloads c;
             names = alias_names (pl_http p) @ alias_names (pl_tls p) @ alias_names (pl_quic p)
         in distinct names \<and> (\<forall>a \<in> set names. good_alias a) \<and>
            (\<forall>q \<in> {pl_http p, pl_tls p, pl_quic p}.
               length (py_files q) + length (py_aliases q) \<le> pl_max_per_protocol p)"
proof -
  let ?p = "ac_payloads c"
  note v = validate_Inr(2)[OF assms]
  obtain m1 m2 m3 where m: "validate_payload_protocol_aliases ''http'' (pl_http ?p) [] = Inr m1"
      "validate_payload_protocol_aliases ''tls'' (pl_tls ?p) m1 = Inr m2"
      "validate_payload_protocol_aliases ''quic'' (pl_quic ?p) m2 = Inr m3"
    using v by (auto simp: validate_payloads_def Let_def res_bind_Inr_iff split: if_splits)
  have lim: "\<forall>q \<in> {pl_http ?p, pl_tls ?p, pl_quic ?p}.
      length (py_files q) + length (py_aliases q) \<le> pl_max_per_protocol ?p"
    using v
    by (auto simp: validate_payloads_def validate_payload_protocol_file_limit_def Let_def
          res_bind_Inr_iff split: if_splits)
  note p1 = protocol_aliases_claimed[OF btree_wf_Nil m(1)]
  then have "btree_wf m1" by blast
  note p2 = protocol_aliases_claimed[OF this m(2)]
  then have "btree_wf m2" by blast
  note p3 = protocol_aliases_claimed[OF this m(3)]
  show ?thesis
    unfolding Let_def using p1 p2 p3 lim by auto
qed

section \<open>Validated isolation\<close>

lemma queue_space:
  assumes "\<not> ucast (q :: u16) + (of_nat (n - 1) :: u32) > 65535" and "0 < n" and "n \<le> 2 ^ 32 - 2 ^ 16"
  shows "unat q + n \<le> 2 ^ 16"
proof -
  have "unat (ucast q :: u32) = unat q" 
    using less_trans[OF unat_u16[of q], of 4294967296]
    by (simp add: unsigned_ucast_eq take_bit_nat_eq_self_iff)
  moreover have "unat (ucast q + of_nat (n - 1) :: u32) = unat (ucast q :: u32) + (n - 1)"
  proof (intro unat_offset)
    have "n \<le> 4294901760" using assms(3) by simp
    with unat_u16[of q] assms(2) have "unat q + (n - 1) < 4294967296" by linarith
    with calculation show "unat (ucast q :: u32) + (n - 1) < 2 ^ LENGTH(32)" by simp
  qed
  ultimately have "unat q + (n - 1) \<le> 65535"
    using assms(1) by (simp add: word_less_nat_alt)
  with assms(2) show ?thesis by simp
qed


section \<open>A configuration\<close>

text \<open>
  The values of \<^verbatim>\<open>config/checker.toml\<close> (with one payload alias and one combination), as a
  concrete input of the properties.
\<close>

definition checker_config :: app_config where
  "checker_config =
     \<lparr> ac_workers = \<lparr> wk_count = 64, wk_spawn_grace_ms = 100, wk_task_channel_size = 1024,
         wk_result_channel_size = 1024, wk_shutdown_timeout_ms = 3000 \<rparr>,
       ac_source_port = \<lparr> sp_mode = ''os_assigned'', sp_bind_ipv4 = V4 0, sp_bind_ipv6 = V6 0 \<rparr>,
       ac_probe = \<lparr> pc_backend = ''native'', pc_connect_timeout_ms = 3000,
         pc_tls_timeout_ms = 3000, pc_first_byte_timeout_ms = 5000, pc_total_timeout_ms = 1000,
         pc_max_read_bytes = 65536, pc_user_agent = ''Mozilla/5.0'', pc_method = ''GET'',
         pc_read_mode = ''body'', pc_min_body_bytes = 32000, pc_dpi_detection_bytes = 16384,
         pc_verify_transfer_bytes = 32768, pc_base_domains = [''youtube.com''],
         pc_test_count = 5,
         pc_protocols = \<lparr> pp_http = True, pp_tls12 = True, pp_tls13 = False, pp_quic = True,
           pp_preferred = ''tls12'' \<rparr>,
         pc_dns = dns_config_default \<rparr>,
       ac_nfqws = \<lparr> nq_binary = ''/opt/zapret2/binaries/linux-arm64/nfqws2'',
         nq_library_paths = [''/opt/zapret2/binaries/linux-arm64''],
         nq_base_args = [''--user=daemon'', ''--fwmark=0x40000000''], nq_start_grace_ms = 100,
         nq_stop_timeout_ms = 1000, nq_log_stderr = True, nq_log_stdout = False \<rparr>,
       ac_firewall = \<lparr> fw_backend = ''nftables'', fw_table = ''zapret_checker'',
         fw_hook = ''output'', fw_priority = ''mangle'', fw_cleanup_on_start = True,
         fw_cleanup_on_exit = True \<rparr>,
       ac_debug = \<lparr> dbg_enable_curl_fallback = False, dbg_keep_rules_on_failure = False,
         dbg_verbose_nfqws = False \<rparr>,
       ac_isolation = isolation_config_default,
       ac_strategies = strategies_config_default,
       ac_bayes_state_file = ''config/standart/bayesian_priors.yaml'',
       ac_blobs = \<lparr> bl_auto_load = True, bl_base_dir = Some ''/opt/zapret/files/fake'' \<rparr>,
       ac_payloads = payload_config_default\<lparr> pl_http :=
         \<lparr> py_builtin = [''fake_default_http''], py_files = [''dir/a.bin''],
           py_aliases = [(''http_iana_org'', ''http_iana_org.bin'')] \<rparr> \<rparr>,
       ac_strategy_values = strategy_values_config_default\<lparr> sv_http :=
         [(''payload'', [''http_request''])] \<rparr>,
       ac_strategy_combinations = strategy_combination_config_default\<lparr> sc_enabled := True,
         sc_allowed := [\<lparr> al_protocols = [''tls12'', ''tls13''],
           al_families = [''fake'', ''split''] \<rparr>] \<rparr> \<rparr>"

lemma doh_default_ok: "validate_doh_addr ''1.1.1.1:443'' = Inr ()"
  by (simp add: validate_doh_addr_def parse_socket_addr_def parse_with_def read_socket_v4_def
      read_then_def read_ipv4_def read_octet_def read_number_def read_char_def read_port_def
      is_radix_digit_def eval_simps)

lemma checker_config_fields [simp]:
  "wk_count (ac_workers checker_config) = 64"
  "wk_task_channel_size (ac_workers checker_config) = 1024"
  "wk_result_channel_size (ac_workers checker_config) = 1024"
  "sp_mode (ac_source_port checker_config) = ''os_assigned''"
  "ac_firewall checker_config = \<lparr> fw_backend = ''nftables'', fw_table = ''zapret_checker'',
     fw_hook = ''output'', fw_priority = ''mangle'', fw_cleanup_on_start = True,
     fw_cleanup_on_exit = True \<rparr>"
  "dbg_keep_rules_on_failure (ac_debug checker_config) = False"
  "ac_isolation checker_config = isolation_config_default"
  "ac_strategies checker_config = strategies_config_default"
  "ac_blobs checker_config =
     \<lparr> bl_auto_load = True, bl_base_dir = Some ''/opt/zapret/files/fake'' \<rparr>"
  "ac_payloads checker_config = payload_config_default\<lparr> pl_http :=
     \<lparr> py_builtin = [''fake_default_http''], py_files = [''dir/a.bin''],
       py_aliases = [(''http_iana_org'', ''http_iana_org.bin'')] \<rparr> \<rparr>"
  "ac_strategy_values checker_config = strategy_values_config_default\<lparr> sv_http :=
     [(''payload'', [''http_request''])] \<rparr>"
  "ac_strategy_combinations checker_config = strategy_combination_config_default\<lparr>
     sc_enabled := True, sc_allowed := [\<lparr> al_protocols = [''tls12'', ''tls13''],
       al_families = [''fake'', ''split''] \<rparr>] \<rparr>"
  by (simp_all add: checker_config_def)

lemma checker_probe_fields [simp]:
  "pc_backend (ac_probe checker_config) = ''native''"
  "pc_method (ac_probe checker_config) = ''GET''"
  "pc_read_mode (ac_probe checker_config) = ''body''"
  "pc_min_body_bytes (ac_probe checker_config) = 32000"
  "pc_max_read_bytes (ac_probe checker_config) = 65536"
  "pc_test_count (ac_probe checker_config) = 5"
  "pc_dns (ac_probe checker_config) = dns_config_default"
  "pc_protocols (ac_probe checker_config) = \<lparr> pp_http = True, pp_tls12 = True,
     pp_tls13 = False, pp_quic = True, pp_preferred = ''tls12'' \<rparr>"
  by (simp_all add: checker_config_def)

lemma checker_payloads_ok:
  "validate_payloads checker_config = Inr ()"
  by (simp add: validate_payloads_def validate_payload_protocol_aliases_def
      validate_payload_protocol_file_limit_def claim_alias_def validate_payload_alias_def
      validate_payload_alias_reserved_def payload_file_alias_def 
      payload_config_default_def default_payload_protocol_config_def blob_config_default_def
      btree_keys_def eval_simps utf8_valid_ascii)

lemma checker_strategies_ok:
  "validate_strategy_values (ac_strategy_values checker_config) = Inr ()"
  "validate_strategy_combinations (ac_strategy_combinations checker_config) = Inr ()"
  by (simp_all add: validate_strategy_values_def validate_strategy_value_map_def position_def
      validate_strategy_combinations_def validate_allowed_def 
      strategy_values_config_default_def strategy_combination_config_default_def eval_simps)

lemma validate_payloads_cong:
  "ac_payloads c = ac_payloads d \<Longrightarrow> ac_blobs c = ac_blobs d \<Longrightarrow>
     validate_payloads c = validate_payloads d"
  by (simp only: validate_payloads_def)

lemma checker_isolation_ok:
  "validate (checker_config\<lparr>ac_isolation := cfg, ac_workers := w\<rparr>) = Inr ()"
  if "validate_isolation (checker_config\<lparr>ac_isolation := cfg, ac_workers := w\<rparr>) = Inr ()"
    and "wk_count w \<noteq> 0" "wk_task_channel_size w \<noteq> 0" "wk_result_channel_size w \<noteq> 0"
    and "\<not> ucast (is_queue_base cfg) + (of_nat (wk_count w - 1) :: u32) > 65535"
proof -
  let ?c = "checker_config\<lparr>ac_isolation := cfg, ac_workers := w\<rparr>"
  have "validate_payloads ?c = Inr ()"
    using checker_payloads_ok by (simp add: validate_payloads_cong[of ?c checker_config])
  then show ?thesis
    using that checker_strategies_ok doh_default_ok
    by (simp add: validate_def Let_def preferred_enabled_def
        effective_doh_addrs_def dns_config_default_def method_parse_config_def
        read_mode_parse_config_def to_ascii_uppercase_def to_ascii_lowercase_def
        strategies_config_default_def lift_err_def starts_with_eval upper_char_def lower_char_def
        eval_simps)
qed

lemma checker_config_valid: "validate checker_config = Inr ()"
proof -
  have c: "checker_config\<lparr>ac_isolation := ac_isolation checker_config,
      ac_workers := ac_workers checker_config\<rparr> = checker_config" by simp
  have "validate_isolation checker_config = Inr ()"
    by (simp add: validate_isolation_def isolation_config_default_def
        isolation_mode_parse_def lift_err_def)
  then show ?thesis
    using checker_isolation_ok[of "ac_workers checker_config" "ac_isolation checker_config"]
    unfolding c by (simp add: isolation_config_default_def word_less_nat_alt)
qed

theorem payload_aliases_unique_witness:
  "distinct (let p = ac_payloads checker_config
     in alias_names (pl_http p) @ alias_names (pl_tls p) @ alias_names (pl_quic p)) \<and>
   alias_names (pl_http (ac_payloads checker_config)) = [''http_iana_org'', ''a'']"
proof -
  have "alias_names (pl_http (ac_payloads checker_config)) = [''http_iana_org'', ''a'']"
    by (simp add: alias_names_def payload_file_alias_def btree_keys_def eval_simps)
  then show ?thesis
    using payload_aliases_unique[OF checker_config_valid] by (simp add: Let_def)
qed


text \<open>
  The validator compares the desync mark only with the mark of the last worker, so a
  configuration is accepted in which another worker's socket mark is the very mark that the
  generated rules exclude: the packets of that worker are never queued to its nfqws.
\<close>

theorem fwmark_overlap_accepted:
  "\<exists>c as a desync. validate c = Inr () \<and>
     generate_assignments (wk_count (ac_workers c)) (ac_isolation c) = Some as \<and> a \<in> set as \<and>
     parse_hex_mark (is_desync_mark (ac_isolation c)) = Inr desync \<and> wa_fwmark a = Some desync"
proof -
  let ?w = "(ac_workers checker_config)\<lparr>wk_count := 3\<rparr>"
  let ?i = "\<lparr> is_mode = ''fwmark'', is_queue_base = 10, is_mark_base = ''0x3fffffff'',
    is_desync_mark = ''0x40000000'', is_use_nft_vmap = True \<rparr>"
  let ?c = "checker_config\<lparr>ac_isolation := ?i, ac_workers := ?w\<rparr>"
  let ?as = "map (assign Fwmark 10 0x3fffffff) [0..<3]"
  have "validate_isolation ?c = Inr ()"
    by (simp add: validate_isolation_def Let_def isolation_mode_parse_def lift_err_def
        saturating_add_def)
  then have "validate ?c = Inr ()"
    by (rule checker_isolation_ok) (simp_all add: word_less_nat_alt)
  moreover have "generate_assignments 3 ?i = Some ?as"
    by (simp add: generate_assignments_def isolation_mode_parse_def)
  moreover have "assign Fwmark 10 0x3fffffff 0 \<in> set ?as" by simp
  moreover have "wa_fwmark (assign Fwmark 10 0x3fffffff 0) = Some 0x40000000"
    by (simp add: assign_def worker_fwmark_def saturating_add_def)
  ultimately show ?thesis
    by (intro exI[of _ ?c] exI[of _ ?as] exI[of _ "assign Fwmark 10 0x3fffffff 0"]
        exI[of _ "0x40000000"]) simp
qed

section \<open>Allowed combinations\<close>

lemma validate_allowed_Inr:
  assumes "validate_allowed c (i, al) = Inr ()"
  shows "al_protocols al \<noteq> [] \<and>
    (\<forall>p \<in> set (al_protocols al). p \<in> {''http'', ''tls12'', ''tls13'', ''quic''}) \<and>
    length (al_families al) = 2 \<and> [] \<notin> set (al_families al) \<and>
    (sc_require_different_family c \<longrightarrow> al_families al ! 0 \<noteq> al_families al ! 1)"
  using assms
  by (auto simp: validate_allowed_def try_each_Inr_iff ensure_Inr_iff res_bind_Inr_iff
      list_ex_iff split: if_splits)

lemma validated_allowed:
  assumes "validate_strategy_combinations c = Inr ()" and "al \<in> set (sc_allowed c)"
  obtains i where "validate_allowed c (i, al) = Inr ()"
proof -
  from assms(2) obtain i where "i < length (sc_allowed c)" "sc_allowed c ! i = al"
    by (auto simp: in_set_conv_nth)
  then have "(i, al) \<in> set (zip [0..<length (sc_allowed c)] (sc_allowed c))"
    by (force simp: in_set_zip)
  with assms(1) that show thesis
    by (auto simp: validate_strategy_combinations_def try_each_Inr_iff split: if_splits)
qed

text \<open>
  With a validated table of combinations, whether two families may be combined does not
  depend on their order; a family never pairs with itself when
  \<^verbatim>\<open>require_different_family\<close> is set; and outside \<^verbatim>\<open>force\<close> mode the pair names two
  non-empty families and a known protocol.
\<close>

theorem pair_allowed_contract:
  assumes "validate_strategy_combinations c = Inr ()" and "pair_allowed c key a b"
  shows "pair_allowed c key b a \<and> (sc_require_different_family c \<longrightarrow> a \<noteq> b) \<and>
    (sc_mode c \<noteq> ''force'' \<longrightarrow>
       a \<noteq> [] \<and> b \<noteq> [] \<and> key \<in> {''http'', ''tls12'', ''tls13'', ''quic''})"
proof (cases "sc_mode c = ''force''")
  case True
  with assms(2) show ?thesis by (auto simp: pair_allowed_def split: if_splits)
next
  case False
  with assms(2) obtain al where al: "al \<in> set (sc_allowed c)" "key \<in> set (al_protocols al)"
      "length (al_families al) = 2"
      "al_families al ! 0 = a \<and> al_families al ! 1 = b \<or> al_families al ! 0 = b \<and> al_families al ! 1 = a"
    by (auto simp: pair_allowed_def list_ex_iff split: if_splits)
  from assms(1) al(1) obtain i where "validate_allowed c (i, al) = Inr ()"
    by (rule validated_allowed)
  note va = validate_allowed_Inr[OF this]
  have "a \<in> set (al_families al)" "b \<in> set (al_families al)"
    using al(3,4) by (auto simp: nth_mem)
  then have "a \<noteq> []" "b \<noteq> []" using va by auto
  moreover have "key \<in> {''http'', ''tls12'', ''tls13'', ''quic''}" using va al(2) by blast
  moreover have "sc_require_different_family c \<longrightarrow> a \<noteq> b" using va al(4) by metis
  moreover have "pair_allowed c key b a"
    using False assms(2) al by (auto simp: pair_allowed_def list_ex_iff split: if_splits)
  ultimately show ?thesis by blast
qed

theorem pair_allowed_contract_witness:
  "pair_allowed (ac_strategy_combinations checker_config) ''tls12'' ''split'' ''fake''"
  using pair_allowed_contract[OF checker_strategies_ok(2), of "''tls12''" "''fake''" "''split''"]
  by (simp add: pair_allowed_def strategy_combination_config_default_def)

end
