(* ===== verification/PayloadRegistry.thy ===== *)
theory PayloadRegistry
  imports Config
begin

text \<open>
  \<^verbatim>\<open>src/payload_registry.rs\<close>: the registry of fake payloads built from the configuration and
  the files on disk. The file system is an argument (\<open>file_system\<close>); aliases already taken are a
  set of strings, as the \<^verbatim>\<open>BTreeSet\<close> of the code.
\<close>

section \<open>Data\<close>

datatype payload_protocol = PpHttp | PpTls | PpQuic

text \<open>The derived \<^verbatim>\<open>Ord\<close>: the protocols in the order of their declaration.\<close>

instantiation payload_protocol :: linorder
begin

fun protocol_rank :: "payload_protocol \<Rightarrow> nat" where
  "protocol_rank PpHttp = 0"
| "protocol_rank PpTls = 1"
| "protocol_rank PpQuic = 2"

definition less_eq_payload_protocol :: "payload_protocol \<Rightarrow> payload_protocol \<Rightarrow> bool" where
  "less_eq_payload_protocol p q \<longleftrightarrow> protocol_rank p \<le> protocol_rank q"

definition less_payload_protocol :: "payload_protocol \<Rightarrow> payload_protocol \<Rightarrow> bool" where
  "less_payload_protocol p q \<longleftrightarrow> protocol_rank p < protocol_rank q"

instance
proof
  fix p q :: payload_protocol
  show "p \<le> q \<Longrightarrow> q \<le> p \<Longrightarrow> p = q"
    by (cases p; cases q) (simp_all add: less_eq_payload_protocol_def)
qed (auto simp: less_eq_payload_protocol_def less_payload_protocol_def)

end

record payload_def =
  pd_protocol :: payload_protocol
  pd_alias :: string
  pd_path :: "path option"
  pd_builtin :: bool

record payload_aliases =
  pa_http :: "string list"
  pa_tls :: "string list"
  pa_quic :: "string list"

definition for_protocol_key :: "payload_aliases \<Rightarrow> string \<Rightarrow> string list" where
  "for_protocol_key a key =
     (if key = ''http'' then pa_http a
      else if key \<in> {''tls12'', ''tls13'', ''tls''} then pa_tls a
      else if key = ''quic'' then pa_quic a
      else [])"

text \<open>What the code asks the file system; \<open>fs_read_dir\<close> is \<open>None\<close> when the directory cannot be read.\<close>

record file_system =
  fs_exists :: "path \<Rightarrow> bool"
  fs_is_dir :: "path \<Rightarrow> bool"
  fs_is_file :: "path \<Rightarrow> bool"
  fs_read_dir :: "path \<Rightarrow> path list option"

datatype payload_error =
    MaxPerProtocolZero | BaseDirRequired | BaseDirMissing path | BaseDirNotDir path
  | TooManyFiles payload_protocol nat nat | AliasEmpty | AliasChars string
  | AliasReserved string | AliasDuplicated string | FileNameNotUtf8
  | FileMissing path | NotAFile path

section \<open>Aliases of files\<close>

text \<open>
  \<open>chars().flat_map(char::to_lowercase)\<close> on UTF-8 text, keeping what the loop distinguishes:
  \<open>Some c\<close> for an ASCII character of the result and \<open>None\<close> for any other. Outside ASCII only the
  Kelvin sign and the dotted capital I have lower-case forms with ASCII characters.
\<close>

function lower_chars :: "string \<Rightarrow> char option list" where
  "lower_chars s =
     (case s of [] \<Rightarrow> []
      | c # cs \<Rightarrow>
          if (of_char c :: nat) < 128 then Some (lower_char c) # lower_chars cs
          else let n = max 1 (utf8_len (map of_char s)) in
               (if take n s = [CHR 0xE2, CHR 0x84, CHR 0xAA] then [Some (CHR ''k'')]
                else if take n s = [CHR 0xC4, CHR 0xB0] then [Some (CHR ''i''), None]
                else [None]) @ lower_chars (drop n s))"
  by pat_completeness auto
termination
  by (relation "measure length") auto

declare lower_chars.simps [simp del]

text \<open>The loop of \<open>make_payload_alias\<close>: its state is \<open>previous_underscore\<close>, its result what it pushes.\<close>

fun alias_loop :: "bool \<Rightarrow> char option list \<Rightarrow> string" where
  "alias_loop prev [] = []"
| "alias_loop prev (x # xs) =
     (case x of
        Some c \<Rightarrow>
          if is_alnum c then c # alias_loop False xs
          else if \<not> prev then CHR ''_'' # alias_loop True xs
          else alias_loop prev xs
      | None \<Rightarrow>
          if \<not> prev then CHR ''_'' # alias_loop True xs else alias_loop prev xs)"

definition registry_validate_alias :: "string \<Rightarrow> payload_error + unit" where
  "registry_validate_alias alias =
     (if alias = [] then Inl AliasEmpty
      else ensure (list_all (\<lambda>c. is_alnum c \<or> c = CHR ''_'') alias) (AliasChars alias))"

definition make_payload_alias :: "path \<Rightarrow> payload_error + string" where
  "make_payload_alias p =
     res_bind (ok_or FileNameNotUtf8 (Option.bind (file_stem p) os_to_str)) (\<lambda>stem.
     let alias = trim_char (CHR ''_'') (alias_loop False (lower_chars stem))
     in res_bind (registry_validate_alias alias) (\<lambda>_. Inr alias))"

section \<open>Building the registry\<close>

definition builtin_payload_aliases :: "string list" where
  "builtin_payload_aliases = [''fake_default_http'', ''fake_default_tls'', ''fake_default_quic'']"

definition validate_file_payload_alias :: "string \<Rightarrow> payload_error + unit" where
  "validate_file_payload_alias alias =
     ensure (alias \<notin> set builtin_payload_aliases) (AliasReserved alias)"

definition insert_unique_alias :: "string set \<Rightarrow> string \<Rightarrow> payload_error + string set" where
  "insert_unique_alias aliases alias =
     (if alias \<in> aliases then Inl (AliasDuplicated alias) else Inr (insert alias aliases))"

definition resolve_payload_path :: "path \<Rightarrow> path \<Rightarrow> path" where
  "resolve_payload_path base_dir p = (if is_absolute p then p else path_join base_dir p)"

definition validate_payload_file :: "file_system \<Rightarrow> path \<Rightarrow> payload_error + unit" where
  "validate_payload_file fs p =
     (if \<not> fs_exists fs p then Inl (FileMissing p)
      else if \<not> fs_is_file fs p then Inl (NotAFile p)
      else Inr ())"

type_synonym registry_state = "string set \<times> payload_def list"

definition push_payload :: "payload_protocol \<Rightarrow> path option \<Rightarrow> registry_state \<Rightarrow> string
    \<Rightarrow> payload_error + registry_state" where
  "push_payload protocol p = (\<lambda>(aliases, registry) alias.
     res_bind (insert_unique_alias aliases alias) (\<lambda>aliases'.
     Inr (aliases', registry @ [\<lparr> pd_protocol = protocol, pd_alias = alias, pd_path = p,
                                  pd_builtin = (p = None) \<rparr>])))"

definition push_builtin :: "payload_protocol \<Rightarrow> registry_state \<Rightarrow> string
    \<Rightarrow> payload_error + registry_state" where
  "push_builtin protocol st alias =
     res_bind (registry_validate_alias alias) (\<lambda>_. push_payload protocol None st alias)"

definition add_file :: "file_system \<Rightarrow> path \<Rightarrow> (string, path) btree_map \<Rightarrow> string \<Rightarrow> path
    \<Rightarrow> payload_error + (string, path) btree_map" where
  "add_file fs base_dir file_payloads alias file =
     res_bind (validate_file_payload_alias alias) (\<lambda>_.
     let p = resolve_payload_path base_dir file in
     res_bind (validate_payload_file fs p) (\<lambda>_. Inr (btree_insert alias p file_payloads)))"

definition collect_files :: "file_system \<Rightarrow> path \<Rightarrow> payload_protocol_config
    \<Rightarrow> payload_error + (string, path) btree_map" where
  "collect_files fs base_dir c =
     res_bind (try_fold (\<lambda>m file. res_bind (make_payload_alias file) (\<lambda>alias.
                 add_file fs base_dir m alias file)) [] (py_files c)) (\<lambda>m.
     try_fold (\<lambda>m (alias, file). res_bind (registry_validate_alias alias) (\<lambda>_.
                 add_file fs base_dir m alias file)) m (py_aliases c))"

definition push_protocol_payloads :: "file_system \<Rightarrow> nat \<Rightarrow> path option \<Rightarrow> payload_protocol
    \<Rightarrow> payload_protocol_config \<Rightarrow> registry_state \<Rightarrow> payload_error + registry_state" where
  "push_protocol_payloads fs max_per base_dir protocol c st =
     (let file_payload_count = length (py_files c) + length (py_aliases c) in
      if max_per < file_payload_count
      then Inl (TooManyFiles protocol file_payload_count max_per)
      else res_bind (try_fold (push_builtin protocol) st (py_builtin c)) (\<lambda>st.
        case base_dir of
          None \<Rightarrow> Inr st
        | Some dir \<Rightarrow>
            res_bind (collect_files fs dir c) (\<lambda>file_payloads.
            try_fold (\<lambda>st (alias, p). push_payload protocol (Some p) st alias) st file_payloads)))"

definition registry_base_dir :: "file_system \<Rightarrow> blob_config \<Rightarrow> payload_error + path option" where
  "registry_base_dir fs blobs =
     (if bl_auto_load blobs then
        res_bind (ok_or BaseDirRequired (bl_base_dir blobs)) (\<lambda>dir.
        if \<not> fs_exists fs dir then Inl (BaseDirMissing dir)
        else if \<not> fs_is_dir fs dir then Inl (BaseDirNotDir dir)
        else Inr (Some dir))
      else Inr None)"

definition build_payload_registry :: "file_system \<Rightarrow> blob_config \<Rightarrow> payload_config
    \<Rightarrow> payload_error + payload_def list" where
  "build_payload_registry fs blobs payloads =
     (let n = pl_max_per_protocol payloads in
      if n = 0 then Inl MaxPerProtocolZero
      else res_bind (registry_base_dir fs blobs) (\<lambda>base_dir.
        let push = push_protocol_payloads fs n base_dir in
        res_bind (push PpHttp (pl_http payloads) ({}, [])) (\<lambda>st.
        res_bind (push PpTls (pl_tls payloads) st) (\<lambda>st.
        res_bind (push PpQuic (pl_quic payloads) st) (\<lambda>(_, registry). Inr registry)))))"

section \<open>Rendering\<close>

definition render_blob_args :: "payload_def list \<Rightarrow> string list" where
  "render_blob_args payloads =
     List.map_filter (\<lambda>p.
       if pd_builtin p then None
       else map_option (\<lambda>f. ''--blob='' @ pd_alias p @ '':@'' @ f) (pd_path p)) payloads"

definition sort_and_dedup :: "string list \<Rightarrow> string list" where
  "sort_and_dedup xs = remdups_adj (sort xs)"

definition aliases_of_protocol :: "payload_protocol \<Rightarrow> payload_def list \<Rightarrow> string list" where
  "aliases_of_protocol p payloads = map pd_alias (filter (\<lambda>d. pd_protocol d = p) payloads)"

definition aliases_from_payloads :: "payload_def list \<Rightarrow> payload_aliases" where
  "aliases_from_payloads payloads =
     \<lparr> pa_http = sort_and_dedup (aliases_of_protocol PpHttp payloads),
       pa_tls = sort_and_dedup (aliases_of_protocol PpTls payloads),
       pa_quic = sort_and_dedup (aliases_of_protocol PpQuic payloads) \<rparr>"

section \<open>Aliases made from file names\<close>

fun no_double :: "char \<Rightarrow> string \<Rightarrow> bool" where
  "no_double d (a # b # s) = (\<not> (a = d \<and> b = d) \<and> no_double d (b # s))"
| "no_double d s = True"

lemma alias_loop_shape:
  "set (alias_loop prev xs) \<subseteq> {c. is_alnum c \<or> c = CHR ''_''} \<and> no_double (CHR ''_'') (alias_loop prev xs) \<and>
   (prev \<longrightarrow> (alias_loop prev xs = [] \<or> hd (alias_loop prev xs) \<noteq> CHR ''_''))"
proof (induction prev xs rule: alias_loop.induct)
  case (1 prev)
  then show ?case by simp
next
  case (2 prev x xs)
  have "no_double (CHR ''_'') (a # s) \<longleftrightarrow>
      \<not> (a = CHR ''_'' \<and> s \<noteq> [] \<and> hd s = CHR ''_'') \<and> no_double (CHR ''_'') s" for a s
    by (cases s) auto
  moreover have "\<not> is_alnum (CHR ''_'')" by code_simp
  ultimately show ?case
    using 2 by (cases x) auto
qed

lemma no_double_append: "no_double d (xs @ ys) \<Longrightarrow> no_double d xs \<and> no_double d ys"
proof (induction d xs rule: no_double.induct)
  case (1 d a b s)
  then show ?case by simp
next
  case "2_2"
  then show ?case by (cases ys) auto
qed simp

lemma trim_char_sub: "\<exists>a b. s = a @ trim_char d s @ b"
proof -
  have "s = takeWhile (\<lambda>c. c = d) s @ trim_start_char d s"
    by (simp add: trim_start_char_def)
  moreover have "t = trim_end_char d t @ rev (takeWhile (\<lambda>c. c = d) (rev t))" for t
    by (metis rev_append rev_rev_ident takeWhile_dropWhile_id trim_end_char_def)
  ultimately show ?thesis unfolding trim_char_def by metis
qed

lemma trim_char_ends:
  assumes "trim_char d s \<noteq> []"
  shows "hd (trim_char d s) \<noteq> d \<and> last (trim_char d s) \<noteq> d"
proof -
  let ?t = "trim_start_char d s"
  have e: "trim_char d s = rev (dropWhile (\<lambda>c. c = d) (rev ?t))"
    by (simp add: trim_char_def trim_end_char_def)
  then have ne: "dropWhile (\<lambda>c. c = d) (rev ?t) \<noteq> []" using assms by auto
  then have l: "last (trim_char d s) \<noteq> d"
    using hd_dropWhile[OF ne] by (simp add: e last_rev)
  have "\<exists>b. ?t = trim_char d s @ b"
    by (metis e rev_append rev_rev_ident takeWhile_dropWhile_id)
  then have "hd ?t = hd (trim_char d s)" "?t \<noteq> []" using assms by auto
  moreover have "hd ?t \<noteq> d"
    using \<open>?t \<noteq> []\<close> hd_dropWhile[of "\<lambda>c. c = d" s] by (simp add: trim_start_char_def)
  ultimately show ?thesis using l by simp
qed

text \<open>
  C32: an alias made from a file name is a non-empty identifier of ASCII letters, digits and
  single underscores that neither begins nor ends with an underscore.
\<close>

theorem make_payload_alias_shape:
  assumes "make_payload_alias p = Inr a"
  shows "a \<noteq> [] \<and> (\<forall>c \<in> set a. is_alnum c \<or> c = CHR ''_'') \<and>
    hd a \<noteq> CHR ''_'' \<and> last a \<noteq> CHR ''_'' \<and> no_double (CHR ''_'') a"
proof -
  obtain stem where a: "a = trim_char (CHR ''_'') (alias_loop False (lower_chars stem))"
    and v: "registry_validate_alias a = Inr ()"
    using assms by (auto simp: make_payload_alias_def Let_def res_bind_Inr_iff)
  let ?l = "alias_loop False (lower_chars stem)"
  from v have "a \<noteq> []" by (auto simp: registry_validate_alias_def)
  moreover from v have "\<forall>c \<in> set a. is_alnum c \<or> c = CHR ''_''"
    by (auto simp: registry_validate_alias_def ensure_Inr_iff list_all_iff split: if_splits)
  moreover have "no_double (CHR ''_'') a"
    using trim_char_sub[of ?l "CHR ''_''"] alias_loop_shape[of False "lower_chars stem"]
      no_double_append a by metis
  ultimately show ?thesis using trim_char_ends[of "CHR ''_''" ?l] a by simp
qed

text \<open>Evaluation of the ASCII part of the alias loop.\<close>

lemma lower_chars_eval [eval_simps]:
  "lower_chars [] = []"
  "(of_char c :: nat) < 128 \<Longrightarrow> lower_chars (c # cs) = Some (lower_char c) # lower_chars cs"
  by (subst lower_chars.simps, simp)+

declare make_payload_alias_def [eval_simps] registry_validate_alias_def [eval_simps]
  trim_char_def [eval_simps] trim_start_char_def [eval_simps] trim_end_char_def [eval_simps]

lemma alias_from_upper: "make_payload_alias ''A.bin'' = Inr ''a''"
  by (simp add: eval_simps)

lemma alias_from_lower: "make_payload_alias ''a.bin'' = Inr ''a''"
  by (simp add: eval_simps)

theorem make_payload_alias_shape_witness:
  "make_payload_alias ''dir/TLS--Hello!.bin'' = Inr ''tls_hello'' \<and> hd ''tls_hello'' \<noteq> CHR ''_''"
proof -
  have e: "make_payload_alias ''dir/TLS--Hello!.bin'' = Inr ''tls_hello''"
    by (simp add: eval_simps)
  show ?thesis using make_payload_alias_shape[OF e] e by blast
qed

section \<open>The registry has no alias twice\<close>

lemma push_payload_Inr:
  "push_payload pr p st a = Inr st' \<longleftrightarrow> a \<notin> fst st \<and>
     st' = (insert a (fst st), snd st @ [\<lparr> pd_protocol = pr, pd_alias = a, pd_path = p,
       pd_builtin = (p = None) \<rparr>])"
  by (cases st) (auto simp: push_payload_def insert_unique_alias_def res_bind_Inr_iff)

definition ascii_identifier :: "string \<Rightarrow> bool" where
  "ascii_identifier a \<longleftrightarrow> a \<noteq> [] \<and> (\<forall>c \<in> set a. is_alnum c \<or> c = CHR ''_'')"

lemma registry_validate_alias_Inr [simp]: "registry_validate_alias a = Inr () \<longleftrightarrow> ascii_identifier a"
  by (simp add: registry_validate_alias_def ascii_identifier_def ensure_Inr_iff list_all_iff)

lemma make_payload_alias_identifier: "make_payload_alias p = Inr a \<Longrightarrow> ascii_identifier a"
  by (auto simp: make_payload_alias_def Let_def res_bind_Inr_iff)

text \<open>The invariant of the registry under construction: the set of aliases is the set of its entries.\<close>

definition registry_inv :: "file_system \<Rightarrow> registry_state \<Rightarrow> bool" where
  "registry_inv fs st \<longleftrightarrow> fst st = pd_alias ` set (snd st) \<and> distinct (map pd_alias (snd st)) \<and>
     (\<forall>d \<in> set (snd st). (pd_builtin d \<longleftrightarrow> pd_path d = None) \<and>
        ascii_identifier (pd_alias d) \<and>
        (\<forall>f. pd_path d = Some f \<longrightarrow> fs_is_file fs f \<and> pd_alias d \<notin> set builtin_payload_aliases))"

interpretation push_builtin: unique_claims "push_builtin pr" "\<lambda>a. a" fst "registry_inv fs"
proof unfold_locales
  fix s a s'
  assume "registry_inv fs s" "push_builtin pr s a = Inr s'"
  then show "registry_inv fs s' \<and> a \<notin> fst s \<and> fst s' = insert a (fst s)"
    by (auto simp: push_builtin_def res_bind_Inr_iff push_payload_Inr registry_inv_def)
qed

definition good_entry :: "file_system \<Rightarrow> string \<times> path \<Rightarrow> bool" where
  "good_entry fs e \<longleftrightarrow> fs_is_file fs (snd e) \<and> ascii_identifier (fst e) \<and> fst e \<notin> set builtin_payload_aliases"

interpretation push_file: unique_claims
  "\<lambda>st e. if good_entry fs e then push_payload pr (Some (snd e)) st (fst e) else Inl AliasEmpty"
  fst fst "registry_inv fs"
proof unfold_locales
  fix s a s'
  assume "registry_inv fs s"
    "(if good_entry fs a then push_payload pr (Some (snd a)) s (fst a) else Inl AliasEmpty) = Inr s'"
  then show "registry_inv fs s' \<and> fst a \<notin> fst s \<and> fst s' = insert (fst a) (fst s)"
    by (auto simp: push_payload_Inr registry_inv_def good_entry_def split: if_splits)
qed

lemma btree_insert_set: "set (btree_insert k v m) \<subseteq> insert (k, v) (set m)"
  by (induction k v m rule: btree_insert.induct) auto

lemma add_file_Inr:
  assumes "add_file fs dir m alias file = Inr m'" and "\<forall>e \<in> set m. good_entry fs e"
    and "ascii_identifier alias"
  shows "\<forall>e \<in> set m'. good_entry fs e"
  using assms btree_insert_set[of "alias" "resolve_payload_path dir file" m]
  by (fastforce simp: add_file_def res_bind_Inr_iff Let_def validate_file_payload_alias_def
      validate_payload_file_def ensure_Inr_iff good_entry_def split: if_splits)

lemma collect_files_good:
  assumes "collect_files fs dir c = Inr m"
  shows "\<forall>e \<in> set m. good_entry fs e"
proof -
  obtain t where t: "try_fold (\<lambda>m file. res_bind (make_payload_alias file) (\<lambda>alias.
      add_file fs dir m alias file)) [] (py_files c) = Inr t"
    and m: "try_fold (\<lambda>m (alias, file). res_bind (registry_validate_alias alias) (\<lambda>_.
      add_file fs dir m alias file)) t (py_aliases c) = Inr m"
    using assms by (auto simp: collect_files_def res_bind_Inr_iff)
  note step = add_file_Inr[where dir = dir and fs = fs]
  have "\<forall>e \<in> set t. good_entry fs e"
    using t
  proof (rule try_fold_invariant)
    fix s x s' assume "\<forall>e \<in> set s. good_entry fs e" "res_bind (make_payload_alias x)
      (\<lambda>alias. add_file fs dir s alias x) = Inr s'"
    then show "\<forall>e \<in> set s'. good_entry fs e"
      using step make_payload_alias_identifier unfolding res_bind_Inr_iff by meson
  qed simp
  with m show ?thesis
  proof (rule try_fold_invariant)
    fix s x s' assume "\<forall>e \<in> set s. good_entry fs e" "(case x of (alias, file) \<Rightarrow>
      res_bind (registry_validate_alias alias) (\<lambda>_. add_file fs dir s alias file)) = Inr s'"
    then show "\<forall>e \<in> set s'. good_entry fs e"
      using step by (cases x) (simp add: res_bind_Inr_iff, meson)
  qed
qed

lemma push_files_eq:
  "\<forall>e \<in> set m. good_entry fs e \<Longrightarrow>
     try_fold (\<lambda>st (alias, p). push_payload pr (Some p) st alias) st m =
     try_fold (\<lambda>st e. if good_entry fs e then push_payload pr (Some (snd e)) st (fst e)
                       else Inl AliasEmpty) st m"
  by (induction m arbitrary: st) (auto simp: case_prod_unfold intro!: arg_cong2[where f = res_bind])

lemma push_protocol_inv:
  assumes "registry_inv fs st" and "push_protocol_payloads fs n dir pr c st = Inr st'"
  shows "registry_inv fs st'"
proof -
  obtain t where t: "try_fold (push_builtin pr) st (py_builtin c) = Inr t"
    and r: "(case dir of None \<Rightarrow> Inr t | Some dir \<Rightarrow> res_bind (collect_files fs dir c) (\<lambda>m.
       try_fold (\<lambda>st (alias, p). push_payload pr (Some p) st alias) t m)) = Inr st'"
    using assms(2) by (auto simp: push_protocol_payloads_def Let_def res_bind_Inr_iff split: if_splits)
  from push_builtin.fold_claims[OF assms(1) t] have inv: "registry_inv fs t" by blast
  show ?thesis
  proof (cases dir)
    case None
    with r inv show ?thesis by simp
  next
    case (Some d)
    with r obtain m where m: "collect_files fs d c = Inr m"
      and f: "try_fold (\<lambda>st (alias, p). push_payload pr (Some p) st alias) t m = Inr st'"
      by (auto simp: res_bind_Inr_iff)
    show ?thesis
      using push_file.fold_claims[OF inv f[unfolded push_files_eq[OF collect_files_good[OF m]]]]
      by blast
  qed
qed

text \<open>The name an option \<^verbatim>\<open>--blob=name:@path\<close> defines.\<close>

definition blob_name :: "string \<Rightarrow> string" where
  "blob_name arg = takeWhile (\<lambda>c. c \<noteq> CHR '':'') (drop (length ''--blob='') arg)"

lemma takeWhile_upto: "d \<notin> set xs \<Longrightarrow> takeWhile (\<lambda>c. c \<noteq> d) (xs @ d # ys) = xs"
  by (induction xs) auto

lemma render_blob_names:
  "\<forall>d \<in> set reg. (pd_builtin d \<longleftrightarrow> pd_path d = None) \<and> ascii_identifier (pd_alias d) \<Longrightarrow>
     map blob_name (render_blob_args reg) = map pd_alias (filter (\<lambda>d. \<not> pd_builtin d) reg)"
proof (induction reg)
  case Nil
  then show ?case by (simp add: render_blob_args_def List.map_filter_simps)
next
  case (Cons d reg)
  have colon: "\<not> is_alnum (CHR '':'')" by code_simp
  then have "CHR '':'' \<notin> set (pd_alias d)"
    using Cons.prems by (auto simp: ascii_identifier_def)
  then have "blob_name (''--blob='' @ pd_alias d @ '':@'' @ f) = pd_alias d" for f
    by (simp add: blob_name_def takeWhile_upto)
  moreover have "map blob_name (render_blob_args reg) = map pd_alias (filter (\<lambda>d. \<not> pd_builtin d) reg)"
    using Cons by simp
  moreover have "pd_builtin d \<longleftrightarrow> pd_path d = None" using Cons.prems by simp
  ultimately show ?case
    by (cases "pd_path d") (simp_all add: render_blob_args_def List.map_filter_simps del: append.simps)
qed

text \<open>
  C26: A registry that was built has no alias twice over all protocols, and each of its file
  payloads is an existing regular file under a name that is not a built-in one; so every
  \<^verbatim>\<open>--blob=\<close> argument given to nfqws defines its own name.
\<close>

theorem registry_aliases_unique:
  assumes "build_payload_registry fs blobs payloads = Inr registry"
  shows "distinct (map pd_alias registry) \<and> distinct (map blob_name (render_blob_args registry)) \<and>
    (\<forall>d \<in> set registry. \<not> pd_builtin d \<longrightarrow> (\<exists>f. pd_path d = Some f \<and> fs_is_file fs f \<and>
        pd_alias d \<notin> set builtin_payload_aliases))"
proof -
  let ?push = "push_protocol_payloads fs (pl_max_per_protocol payloads)"
  obtain dir s1 s2 al where
    "?push dir PpHttp (pl_http payloads) ({}, []) = Inr s1"
    "?push dir PpTls (pl_tls payloads) s1 = Inr s2"
    "?push dir PpQuic (pl_quic payloads) s2 = Inr (al, registry)"
    using assms
    by (auto simp: build_payload_registry_def Let_def res_bind_Inr_iff split: if_splits)
  moreover have "registry_inv fs ({}, [])" by (simp add: registry_inv_def)
  ultimately have "registry_inv fs (al, registry)" by (metis push_protocol_inv)
  then have inv: "distinct (map pd_alias registry)"
    "\<forall>d \<in> set registry. (pd_builtin d \<longleftrightarrow> pd_path d = None) \<and> ascii_identifier (pd_alias d)"
    "\<forall>d \<in> set registry. \<forall>f. pd_path d = Some f \<longrightarrow> fs_is_file fs f \<and> pd_alias d \<notin> set builtin_payload_aliases"
    by (auto simp: registry_inv_def)
  then have "distinct (map blob_name (render_blob_args registry))"
    using render_blob_names[OF inv(2)] by (simp add: distinct_map_filter)
  with inv show ?thesis by (metis not_None_eq)
qed

section \<open>The order of the registry\<close>

definition pushed_upto :: "payload_protocol \<Rightarrow> registry_state \<Rightarrow> bool" where
  "pushed_upto pr st \<longleftrightarrow>
     sorted (map pd_protocol (snd st)) \<and> (\<forall>d \<in> set (snd st). pd_protocol d \<le> pr)"

lemma push_protocol_upto:
  assumes "push_protocol_payloads fs n dir pr c st = Inr st'" and "pushed_upto pr st"
  shows "pushed_upto pr st'"
proof -
  have push: "pushed_upto pr s'" if "pushed_upto pr s" "push_payload pr p s a = Inr s'" for p s a s'
    using that by (auto simp: pushed_upto_def push_payload_Inr sorted_append)
  obtain t where t: "try_fold (push_builtin pr) st (py_builtin c) = Inr t"
    and r: "(case dir of None \<Rightarrow> Inr t | Some dir \<Rightarrow> res_bind (collect_files fs dir c) (\<lambda>m.
       try_fold (\<lambda>st (alias, p). push_payload pr (Some p) st alias) t m)) = Inr st'"
    using assms(1) by (auto simp: push_protocol_payloads_def Let_def res_bind_Inr_iff split: if_splits)
  have upto: "pushed_upto pr t"
    by (rule try_fold_invariant[where P = "pushed_upto pr", OF t assms(2)]) (auto simp: push_builtin_def res_bind_Inr_iff intro: push)
  show ?thesis
  proof (cases dir)
    case None
    with r upto show ?thesis by simp
  next
    case (Some d)
    with r obtain m where
      f: "try_fold (\<lambda>st (alias, p). push_payload pr (Some p) st alias) t m = Inr st'"
      by (auto simp: res_bind_Inr_iff)
    show ?thesis by (rule try_fold_invariant[where P = "pushed_upto pr", OF f upto]) (auto intro: push)
  qed
qed

text \<open>The payloads of a registry come protocol by protocol, so its summary and its blob arguments do.\<close>

lemma registry_protocols_sorted:
  assumes "build_payload_registry fs blobs payloads = Inr registry"
  shows "sorted (map pd_protocol registry)"
proof -
  let ?push = "push_protocol_payloads fs (pl_max_per_protocol payloads)"
  obtain dir s1 s2 al where s: "?push dir PpHttp (pl_http payloads) ({}, []) = Inr s1"
    "?push dir PpTls (pl_tls payloads) s1 = Inr s2"
    "?push dir PpQuic (pl_quic payloads) s2 = Inr (al, registry)"
    using assms by (auto simp: build_payload_registry_def Let_def res_bind_Inr_iff split: if_splits)
  have "pushed_upto PpHttp s1" by (rule push_protocol_upto[OF s(1)]) (simp add: pushed_upto_def)
  moreover have up: "pushed_upto q st" if "pushed_upto p st" "p \<le> q" for p q st
    using that by (auto simp: pushed_upto_def intro: order_trans)
  ultimately have "pushed_upto PpTls s2"
    by (intro push_protocol_upto[OF s(2)]) (auto elim!: up simp: less_eq_payload_protocol_def)
  then have "pushed_upto PpQuic (al, registry)"
    by (intro push_protocol_upto[OF s(3)]) (auto elim!: up simp: less_eq_payload_protocol_def)
  then show ?thesis by (simp add: pushed_upto_def)
qed

section \<open>A file the registry drops\<close>

definition all_files :: file_system where
  "all_files = \<lparr> fs_exists = \<lambda>_. True, fs_is_dir = \<lambda>_. True, fs_is_file = \<lambda>_. True,
     fs_read_dir = \<lambda>_. Some [] \<rparr>"

definition clashing_payloads :: payload_config where
  "clashing_payloads = payload_config_default\<lparr> pl_http :=
     \<lparr> py_builtin = [''fake_default_http''], py_files = [''A.bin'', ''a.bin''], py_aliases = [] \<rparr> \<rparr>"

lemma clashing_registry:
  "build_payload_registry all_files \<lparr> bl_auto_load = True, bl_base_dir = Some ''/f'' \<rparr> clashing_payloads =
     Inr [\<lparr> pd_protocol = PpHttp, pd_alias = ''fake_default_http'', pd_path = None, pd_builtin = True \<rparr>,
          \<lparr> pd_protocol = PpHttp, pd_alias = ''a'', pd_path = Some ''/f/a.bin'', pd_builtin = False \<rparr>,
          \<lparr> pd_protocol = PpTls, pd_alias = ''fake_default_tls'', pd_path = None, pd_builtin = True \<rparr>,
          \<lparr> pd_protocol = PpQuic, pd_alias = ''fake_default_quic'', pd_path = None, pd_builtin = True \<rparr>]"
  by (simp add: build_payload_registry_def registry_base_dir_def all_files_def clashing_payloads_def
      payload_config_default_def default_payload_protocol_config_def push_protocol_payloads_def
      push_builtin_def push_payload_def insert_unique_alias_def collect_files_def add_file_def
      validate_file_payload_alias_def validate_payload_file_def builtin_payload_aliases_def
      resolve_payload_path_def path_join_def is_absolute_def alias_from_upper alias_from_lower
      registry_validate_alias_def eval_simps del: registry_validate_alias_Inr)

theorem registry_aliases_unique_witness:
  "\<exists>registry. build_payload_registry all_files
       \<lparr> bl_auto_load = True, bl_base_dir = Some ''/f'' \<rparr> clashing_payloads = Inr registry \<and>
     distinct (map pd_alias registry) \<and> length registry = 4"
  using registry_aliases_unique[OF clashing_registry] clashing_registry by auto

text \<open>
  The validator compares the raw file stems while the registry files a payload under its
  lower-cased, sanitised alias: two listed files whose stems differ only in case are accepted by
  the validator, and the registry silently keeps only one of them.
\<close>

theorem registry_drops_file:
  "\<exists>c fs registry. validate_payloads c = Inr () \<and>
     build_payload_registry fs (ac_blobs c) (ac_payloads c) = Inr registry \<and>
     length (filter (\<lambda>d. pd_protocol d = PpHttp \<and> \<not> pd_builtin d) registry) <
     length (py_files (pl_http (ac_payloads c)))"
proof -
  let ?c = "checker_config\<lparr> ac_payloads := clashing_payloads,
    ac_blobs := \<lparr> bl_auto_load = True, bl_base_dir = Some ''/f'' \<rparr> \<rparr>"
  have "validate_payloads ?c = Inr ()"
    by (simp add: validate_payloads_def validate_payload_protocol_aliases_def
        validate_payload_protocol_file_limit_def claim_alias_def validate_payload_alias_def
        validate_payload_alias_reserved_def payload_file_alias_def clashing_payloads_def
        payload_config_default_def default_payload_protocol_config_def btree_keys_def eval_simps)
  then show ?thesis
    using clashing_registry
    by (intro exI[of _ ?c] exI[of _ all_files] exI) (auto simp: clashing_payloads_def)
qed

section \<open>Aliases per protocol\<close>

lemma remdups_adj_strict: "sorted xs \<Longrightarrow> sorted_wrt (<) (remdups_adj (xs :: 'a::linorder list))"
  by (induction xs rule: remdups_adj.induct) (auto simp: less_le)

text \<open>
  The alias lists handed to the strategy generator are sorted, without repetition, and hold
  exactly the aliases of their protocol; the three TLS keys share one list.
\<close>

theorem aliases_from_payloads_spec:
  "sorted_wrt (<) (for_protocol_key (aliases_from_payloads payloads) key) \<and>
   set (for_protocol_key (aliases_from_payloads payloads) key) =
     {pd_alias d | d. d \<in> set payloads \<and>
        (key = ''http'' \<and> pd_protocol d = PpHttp \<or>
         key \<in> {''tls12'', ''tls13'', ''tls''} \<and> pd_protocol d = PpTls \<or>
         key = ''quic'' \<and> pd_protocol d = PpQuic)}"
proof -
  have s: "sorted_wrt (<) (sort_and_dedup xs) \<and> set (sort_and_dedup xs) = set xs" for xs
    by (simp add: sort_and_dedup_def remdups_adj_strict)
  have a: "set (aliases_of_protocol p payloads) = {pd_alias d | d. d \<in> set payloads \<and> pd_protocol d = p}"
    for p by (auto simp: aliases_of_protocol_def)
  show ?thesis
    unfolding for_protocol_key_def aliases_from_payloads_def using s
    by (cases "key = ''http''"; cases "key \<in> {''tls12'', ''tls13'', ''tls''}"; cases "key = ''quic''")
       (simp_all add: a)
qed

end
