(* ===== verification/Float64.thy ===== *)
theory Float64
  imports Prelude
begin

text \<open>
  IEEE 754 binary64 as its bit pattern: the operations of \<^verbatim>\<open>f64\<close> the program uses, each the
  exact rational result rounded to nearest, ties to even. A NaN result is the canonical quiet
  NaN (Rust leaves its payload unspecified); \<^verbatim>\<open>total_cmp\<close> is the order of the sign-folded bits.
\<close>

type_synonym f64 = u64

definition f64_neg_bit :: "f64 \<Rightarrow> bool" where
  "f64_neg_bit b \<longleftrightarrow> 2 ^ 63 \<le> unat b"

definition f64_expo :: "f64 \<Rightarrow> nat" where
  "f64_expo b = unat b div 2 ^ 52 mod 2 ^ 11"

definition f64_frac :: "f64 \<Rightarrow> nat" where
  "f64_frac b = unat b mod 2 ^ 52"

definition f64_is_nan :: "f64 \<Rightarrow> bool" where
  "f64_is_nan b \<longleftrightarrow> f64_expo b = 2047 \<and> f64_frac b \<noteq> 0"

definition f64_is_inf :: "f64 \<Rightarrow> bool" where
  "f64_is_inf b \<longleftrightarrow> f64_expo b = 2047 \<and> f64_frac b = 0"

definition f64_nan :: f64 where "f64_nan = 0x7FF8000000000000"

definition f64_inf :: "bool \<Rightarrow> f64" where
  "f64_inf neg = (if neg then 0xFFF0000000000000 else 0x7FF0000000000000)"

definition f64_zero :: "bool \<Rightarrow> f64" where
  "f64_zero neg = (if neg then 0x8000000000000000 else 0)"

text \<open>A finite pattern denotes \<open>m * 2 ^ e\<close> up to its sign.\<close>

definition f64_mant :: "f64 \<Rightarrow> nat" where
  "f64_mant b = (if f64_expo b = 0 then f64_frac b else 2 ^ 52 + f64_frac b)"

definition f64_exp :: "f64 \<Rightarrow> int" where
  "f64_exp b = (if f64_expo b = 0 then - 1074 else int (f64_expo b) - 1075)"

fun floor_log2 :: "nat \<Rightarrow> nat" where
  "floor_log2 n = (if n < 2 then 0 else Suc (floor_log2 (n div 2)))"

declare floor_log2.simps [simp del]

lemma floor_log2_numeral [simp]:
  "floor_log2 0 = 0" "floor_log2 1 = 0" "floor_log2 (Suc 0) = 0"
  "floor_log2 (numeral (Num.Bit0 n)) = Suc (floor_log2 (numeral n))"
  "floor_log2 (numeral (Num.Bit1 n)) = Suc (floor_log2 (numeral n))"
  by (subst floor_log2.simps, simp)+

text \<open>
  The magnitude bits of \<open>n / d * 2 ^ x\<close> rounded to nearest even, with unlimited exponent above
  (\<open>n\<close> and \<open>d\<close> positive). The quotient is scaled so that it has 53 bits, fewer for a subnormal.
\<close>

definition scale_div :: "nat \<Rightarrow> nat \<Rightarrow> int \<Rightarrow> nat \<times> nat \<times> nat" where
  "scale_div n d k =
     (let n' = (if k < 0 then n * 2 ^ nat (- k) else n); d' = (if k < 0 then d else d * 2 ^ nat k)
      in (n' div d', n' mod d', d'))"

definition round_mag :: "nat \<Rightarrow> nat \<Rightarrow> int \<Rightarrow> nat" where
  "round_mag n d x =
     (let l = int (floor_log2 n) - int (floor_log2 d) + x;
          e0 = max (- 1074) (l - 53);
          (q0, _, _) = scale_div n d (e0 - x);
          e = (if q0 < 2 ^ 53 then e0 else e0 + 1);
          (q, r, d') = scale_div n d (e - x);
          q' = (if 2 * r > d' \<or> 2 * r = d' \<and> odd q then q + 1 else q)
      in nat (e + 1074) * 2 ^ 52 + q')"

definition f64_round :: "bool \<Rightarrow> nat \<Rightarrow> nat \<Rightarrow> int \<Rightarrow> f64" where
  "f64_round neg n d x =
     (if n = 0 then f64_zero neg
      else let bits = round_mag n d x
           in if 0x7FF0000000000000 \<le> bits then f64_inf neg
              else of_nat (bits + (if neg then 2 ^ 63 else 0)))"

section \<open>Operations\<close>

definition f64_neg :: "f64 \<Rightarrow> f64" where
  "f64_neg b = b + 0x8000000000000000"

definition signed_mant :: "f64 \<Rightarrow> int \<Rightarrow> int" where
  "signed_mant b e = (let m = int (f64_mant b * 2 ^ nat (f64_exp b - e))
                      in if f64_neg_bit b then - m else m)"

definition f64_add :: "f64 \<Rightarrow> f64 \<Rightarrow> f64" where
  "f64_add a b =
     (if f64_is_nan a \<or> f64_is_nan b then f64_nan
      else if f64_is_inf a then
        (if f64_is_inf b \<and> f64_neg_bit a \<noteq> f64_neg_bit b then f64_nan else a)
      else if f64_is_inf b then b
      else let e = min (f64_exp a) (f64_exp b); s = signed_mant a e + signed_mant b e
           in if s = 0 then f64_zero (f64_neg_bit a \<and> f64_neg_bit b)
              else f64_round (s < 0) (nat \<bar>s\<bar>) 1 e)"

definition f64_sub :: "f64 \<Rightarrow> f64 \<Rightarrow> f64" where
  "f64_sub a b = f64_add a (f64_neg b)"

definition f64_mul :: "f64 \<Rightarrow> f64 \<Rightarrow> f64" where
  "f64_mul a b =
     (let neg = (f64_neg_bit a \<noteq> f64_neg_bit b) in
      if f64_is_nan a \<or> f64_is_nan b then f64_nan
      else if f64_is_inf a \<or> f64_is_inf b then
        (if f64_mant a = 0 \<or> f64_mant b = 0 then f64_nan else f64_inf neg)
      else f64_round neg (f64_mant a * f64_mant b) 1 (f64_exp a + f64_exp b))"

definition f64_div :: "f64 \<Rightarrow> f64 \<Rightarrow> f64" where
  "f64_div a b =
     (let neg = (f64_neg_bit a \<noteq> f64_neg_bit b) in
      if f64_is_nan a \<or> f64_is_nan b then f64_nan
      else if f64_is_inf a then (if f64_is_inf b then f64_nan else f64_inf neg)
      else if f64_is_inf b then f64_zero neg
      else if f64_mant b = 0 then (if f64_mant a = 0 then f64_nan else f64_inf neg)
      else f64_round neg (f64_mant a) (f64_mant b) (f64_exp a - f64_exp b))"

section \<open>Comparisons\<close>

text \<open>The order of the patterns: sign and magnitude folded into one integer.\<close>

definition total_key :: "f64 \<Rightarrow> int" where
  "total_key b = (if f64_neg_bit b then - int (unat b - 2 ^ 63) - 1 else int (unat b))"

definition f64_total_cmp :: "f64 \<Rightarrow> f64 \<Rightarrow> ordering" where
  "f64_total_cmp a b = cmp_of (total_key a) (total_key b)"

text \<open>The partial order of IEEE: NaN is unordered, the two zeros are equal.\<close>

definition value_key :: "f64 \<Rightarrow> int" where
  "value_key b = (if f64_neg_bit b then - int (unat b - 2 ^ 63) else int (unat b))"

definition f64_less :: "f64 \<Rightarrow> f64 \<Rightarrow> bool" where
  "f64_less a b \<longleftrightarrow> \<not> f64_is_nan a \<and> \<not> f64_is_nan b \<and> value_key a < value_key b"

definition f64_le :: "f64 \<Rightarrow> f64 \<Rightarrow> bool" where
  "f64_le a b \<longleftrightarrow> \<not> f64_is_nan a \<and> \<not> f64_is_nan b \<and> value_key a \<le> value_key b"

definition f64_max :: "f64 \<Rightarrow> f64 \<Rightarrow> f64" where
  "f64_max a b = (if f64_is_nan a then b else if f64_is_nan b then a else if f64_less a b then b else a)"

definition f64_min :: "f64 \<Rightarrow> f64 \<Rightarrow> f64" where
  "f64_min a b = (if f64_is_nan a then b else if f64_is_nan b then a else if f64_less b a then b else a)"

section \<open>Literals of the program\<close>

definition f64_0_1 :: f64 where "f64_0_1 = 0x3FB999999999999A"
definition f64_0_5 :: f64 where "f64_0_5 = 0x3FE0000000000000"
definition f64_0_7 :: f64 where "f64_0_7 = 0x3FE6666666666666"
definition f64_1 :: f64 where "f64_1 = 0x3FF0000000000000"
definition f64_2 :: f64 where "f64_2 = 0x4000000000000000"
definition f64_3 :: f64 where "f64_3 = 0x4008000000000000"
definition f64_5 :: f64 where "f64_5 = 0x4014000000000000"
definition f64_20 :: f64 where "f64_20 = 0x4034000000000000"
definition f64_100 :: f64 where "f64_100 = 0x4059000000000000"

lemmas f64_defs = f64_neg_bit_def f64_expo_def f64_frac_def f64_is_nan_def f64_is_inf_def
  f64_mant_def f64_exp_def signed_mant_def f64_zero_def f64_inf_def

lemmas f64_literals = f64_0_1_def f64_0_5_def f64_0_7_def f64_1_def f64_2_def f64_3_def f64_5_def
  f64_20_def f64_100_def f64_nan_def

section \<open>The total order\<close>

lemma total_key_inj:
  assumes "total_key a = total_key b" shows "a = b"
proof -
  have "unat a = unat b"
    using assms unfolding total_key_def f64_neg_bit_def by (simp only: split: if_splits)
  then show ?thesis by (rule word_unat_eq_iff[THEN iffD2])
qed

interpretation f64_total: comparator f64_total_cmp
  by (rule comparator_by_key[where key = total_key]) (rule f64_total_cmp_def)

lemma f64_total_cmp_Equal [simp]: "f64_total_cmp a b = Equal \<longleftrightarrow> a = b"
  using total_key_inj by (auto simp: f64_total_cmp_def)

end
