(* ===== verification/NodeSelection.thy ===== *)
theory NodeSelection
  imports PayloadRegistry Float64
begin

text \<open>
  \<^verbatim>\<open>src/graph.rs\<close>, first part: strategy nodes, the diverse selection with its caps, the
  round robin over families and the generation of combined nodes. The \<^verbatim>\<open>HashSet\<close> and
  \<^verbatim>\<open>HashMap\<close> values are only queried by key, so a set and a function model them.
\<close>

section \<open>Nodes\<close>

record strategy_component =
  co_family :: string
  co_action_id :: string
  co_args :: "string list"

record strategy_node =
  sn_id :: string
  sn_family :: string
  sn_action_id :: string
  sn_args :: "string list"
  sn_components :: "strategy_component list"
  sn_is_combined :: bool
  sn_cost :: f64
  sn_risk :: f64
  sn_prior :: "f64 \<times> f64"

definition prior_success_ratio :: "strategy_node \<Rightarrow> f64" where
  "prior_success_ratio node =
     (let (a, b) = sn_prior node
      in if f64_le (f64_add a b) (f64_zero False) then f64_0_5 else f64_div a (f64_add a b))"

definition family_diversity_rank :: "string \<Rightarrow> nat" where
  "family_diversity_rank f =
     (case map_of [(''split'', 0), (''fake'', 1), (''disorder'', 2), (''wsize'', 3),
        (''faked_split'', 4), (''seqovl'', 5), (''syndata'', 6), (''ipfrag'', 7), (''oob'', 8),
        (''udp_len'', 9), (''http_trick'', 10), (''hostfake'', 11), (''ipv6_ext'', 12)] f of
        Some r \<Rightarrow> r | None \<Rightarrow> 99)"

definition combination_family_rank :: "string \<Rightarrow> nat" where
  "combination_family_rank f =
     (case map_of [(''fake'', 0), (''syndata'', 1), (''ipfrag'', 2), (''udp_len'', 3),
        (''oob'', 4), (''split'', 10), (''disorder'', 11), (''faked_split'', 12),
        (''seqovl'', 13), (''wsize'', 14)] f of
        Some r \<Rightarrow> r | None \<Rightarrow> 50)"

definition compare_node_quality :: "strategy_node \<Rightarrow> strategy_node \<Rightarrow> ordering" where
  "compare_node_quality a b =
     then_with (cmp_of (family_diversity_rank (sn_family a)) (family_diversity_rank (sn_family b)))
       (then_with (cmp_of (sn_family a) (sn_family b))
         (then_with (cmp_of (sn_action_id a) (sn_action_id b)) (cmp_of (sn_id a) (sn_id b))))"

definition compare_combination_input :: "strategy_node \<Rightarrow> strategy_node \<Rightarrow> ordering" where
  "compare_combination_input a b =
     then_with (cmp_of (combination_family_rank (sn_family a)) (combination_family_rank (sn_family b)))
       (then_with (cmp_of (sn_family a) (sn_family b))
         (then_with (cmp_of (sn_action_id a) (sn_action_id b)) (cmp_of (sn_id a) (sn_id b))))"

text \<open>Both orders are total, so \<^verbatim>\<open>sort_by\<close> is deterministic up to equal keys.\<close>

interpretation node_quality: comparator compare_node_quality
  unfolding compare_node_quality_def
  by (intro comparator_then_with comparator_cmp_key)

interpretation combination_input: comparator compare_combination_input
  unfolding compare_combination_input_def
  by (intro comparator_then_with comparator_cmp_key)

definition normalize_single_node :: "strategy_node \<Rightarrow> strategy_node" where
  "normalize_single_node node =
     (if sn_is_combined node \<or> sn_components node \<noteq> [] then node
      else node\<lparr> sn_components := [\<lparr> co_family = sn_family node,
             co_action_id = sn_action_id node, co_args = sn_args node \<rparr>] \<rparr>)"

definition reindex_node :: "string \<Rightarrow> nat \<Rightarrow> strategy_node \<Rightarrow> strategy_node" where
  "reindex_node key i node =
     (if sn_is_combined node
      then node\<lparr> sn_id := key @ ''_'' @ sn_family node @ ''_'' @ dec_of_nat i \<rparr>
      else normalize_single_node (node\<lparr> sn_id := key @ ''_'' @ sn_family node @ ''_'' @
             sn_action_id node @ ''_'' @ dec_of_nat i \<rparr>))"

definition reindex_nodes :: "string \<Rightarrow> strategy_node list \<Rightarrow> strategy_node list" where
  "reindex_nodes key nodes = map (\<lambda>(i, n). reindex_node key i n) (zip [0..<length nodes] nodes)"

section \<open>Caps and duplicates\<close>

definition args_key :: "string list \<Rightarrow> string" where
  "args_key args = join [CHR 0x00] args"

record select_state =
  se_seen_args :: "string set"
  se_per_family :: "string \<Rightarrow> nat"
  se_per_action :: "string \<times> string \<Rightarrow> nat"
  se_filtered :: "strategy_node list"

definition select_init :: select_state where
  "select_init = \<lparr> se_seen_args = {}, se_per_family = \<lambda>_. 0, se_per_action = \<lambda>_. 0,
     se_filtered = [] \<rparr>"

definition select_step :: "nat \<Rightarrow> nat \<Rightarrow> select_state \<Rightarrow> strategy_node \<Rightarrow> select_state" where
  "select_step max_per_family max_per_action st node =
     (let key = args_key (sn_args node);
          family = sn_family node; action_key = (sn_family node, sn_action_id node) in
      if key \<in> se_seen_args st then st
      else let st = st\<lparr> se_seen_args := insert key (se_seen_args st) \<rparr> in
        if max_per_family \<le> se_per_family st family then st
        else if max_per_action \<le> se_per_action st action_key then st
        else st\<lparr> se_per_family := (se_per_family st)(family := se_per_family st family + 1),
                 se_per_action := (se_per_action st)(action_key := se_per_action st action_key + 1),
                 se_filtered := se_filtered st @ [node] \<rparr>)"

section \<open>Round robin over the families\<close>

text \<open>
  One pass over \<^verbatim>\<open>family_order\<close>: the selection, the groups and whether the pass selected a node
  or ended the function (\<open>Inl\<close> is the early \<^verbatim>\<open>return\<close>).
\<close>

type_synonym groups = "string \<Rightarrow> strategy_node list"

fun rr_pass :: "nat \<Rightarrow> string list \<Rightarrow> groups \<Rightarrow> strategy_node list \<Rightarrow> bool
    \<Rightarrow> strategy_node list + (strategy_node list \<times> groups \<times> bool)" where
  "rr_pass max_candidates [] groups selected progress = Inr (selected, groups, progress)"
| "rr_pass max_candidates (family # families) groups selected progress =
     (if max_candidates \<le> length selected then Inl selected
      else case groups family of
        [] \<Rightarrow> rr_pass max_candidates families groups selected progress
      | node # rest \<Rightarrow>
          rr_pass max_candidates families (groups(family := rest)) (selected @ [node]) True)"

definition group_total :: "string list \<Rightarrow> groups \<Rightarrow> nat" where
  "group_total order groups = (\<Sum>f \<in> set order. length (groups f))"

lemma rr_pass_total:
  assumes "rr_pass n fs groups selected p = Inr (selected', groups', p')" and "set fs \<subseteq> set order"
  shows "group_total order groups' + length selected' = group_total order groups + length selected \<and>
    group_total order groups' \<le> group_total order groups \<and>
    (p' \<longrightarrow> p \<or> group_total order groups' < group_total order groups)"
  using assms
proof (induction n fs groups selected p rule: rr_pass.induct)
  case (2 n f fs groups selected p)
  from "2.prems"(1) have nl: "\<not> n \<le> length selected" by (auto split: if_splits)
  show ?case
  proof (cases "groups f")
    case Nil
    with 2 nl show ?thesis by simp
  next
    case (Cons node rest)
    with "2.prems"(1) nl
    have r: "rr_pass n fs (groups(f := rest)) (selected @ [node]) True = Inr (selected', groups', p')"
      by simp
    have "group_total order (groups(f := rest)) + 1 = group_total order groups"
      using "2.prems"(2) Cons
      by (simp add: group_total_def sum.remove[of "set order" f])
    with "2.IH"(2)[OF nl Cons r] "2.prems"(2) show ?thesis by (simp add: fun_upd_def)
  qed
qed simp

function rr_loop :: "nat \<Rightarrow> string list \<Rightarrow> groups \<Rightarrow> strategy_node list \<Rightarrow> strategy_node list" where
  "rr_loop max_candidates order groups selected =
     (case rr_pass max_candidates order groups selected False of
        Inl result \<Rightarrow> result
      | Inr (selected', groups', progress) \<Rightarrow>
          if progress then rr_loop max_candidates order groups' selected' else selected')"
  by pat_completeness auto
termination
  by (relation "measure (\<lambda>(_, order, groups, _). group_total order groups)")
     (auto dest: rr_pass_total[OF _ subset_refl])

declare rr_loop.simps [simp del]

definition round_robin_by_family :: "strategy_node list \<Rightarrow> nat \<Rightarrow> strategy_node list" where
  "round_robin_by_family nodes max_candidates =
     (let family_order = dedup_by (\<lambda>f. f) [] (map sn_family nodes);
          order = sort_by (\<lambda>a b. then_with (cmp_of (family_diversity_rank a) (family_diversity_rank b))
                                          (cmp_of a b)) family_order;
          groups = (\<lambda>f. sort_by compare_node_quality (filter (\<lambda>n. sn_family n = f) nodes))
      in rr_loop max_candidates order groups [])"

definition select_diverse_nodes ::
  "strategy_node list \<Rightarrow> string \<Rightarrow> nat \<Rightarrow> nat \<Rightarrow> nat \<Rightarrow> bool \<Rightarrow> strategy_node list" where
  "select_diverse_nodes nodes key max_candidates max_per_family max_per_action round_robin =
     (let st = foldl (select_step max_per_family max_per_action) select_init
                 (sort_by compare_node_quality nodes);
          filtered = se_filtered st;
          selected = (if round_robin then round_robin_by_family filtered max_candidates
                      else take max_candidates (sort_by compare_node_quality filtered))
      in reindex_nodes key selected)"

section \<open>Combined nodes\<close>

definition ordered_components ::
  "strategy_node \<Rightarrow> strategy_node \<Rightarrow> strategy_node \<times> strategy_node" where
  "ordered_components a b = (if compare_combination_input a b = Greater then (b, a) else (a, b))"

definition args_intersect :: "string list \<Rightarrow> string list \<Rightarrow> bool" where
  "args_intersect a b = list_ex (\<lambda>arg. arg \<in> set a) b"

definition combined_node :: "string \<Rightarrow> nat \<Rightarrow> strategy_node \<Rightarrow> strategy_node \<Rightarrow> strategy_node" where
  "combined_node key i first second =
     \<lparr> sn_id = key @ ''_combined_'' @ sn_family first @ ''_'' @ sn_family second @ ''_'' @ dec_of_nat i,
       sn_family = ''combined_'' @ sn_family first @ ''_'' @ sn_family second,
       sn_action_id = sn_action_id first @ ''+'' @ sn_action_id second,
       sn_args = sn_args first @ sn_args second,
       sn_components =
         [\<lparr> co_family = sn_family first, co_action_id = sn_action_id first, co_args = sn_args first \<rparr>,
          \<lparr> co_family = sn_family second, co_action_id = sn_action_id second,
            co_args = sn_args second \<rparr>],
       sn_is_combined = True,
       sn_cost = f64_add (f64_add (sn_cost first) (sn_cost second)) f64_3,
       sn_risk = f64_add (f64_max (sn_risk first) (sn_risk second))
                   (f64_mul f64_0_1 (f64_min (sn_risk first) (sn_risk second))),
       sn_prior = (f64_1, f64_1) \<rparr>"

text \<open>The body of the double loop over the pairs, on the state \<open>(out, seen_args)\<close>.\<close>

definition pair_rejected ::
  "strategy_combination_config \<Rightarrow> string \<Rightarrow> strategy_node \<Rightarrow> strategy_node \<Rightarrow> bool" where
  "pair_rejected cfg key first second \<longleftrightarrow>
     sn_id first = sn_id second \<or>
     sc_require_different_family cfg \<and> sn_family first = sn_family second \<or>
     \<not> sc_allow_same_action cfg \<and> sn_action_id first = sn_action_id second \<or>
     args_intersect (sn_args first) (sn_args second) \<or>
     sc_mode cfg \<noteq> ''force'' \<and> \<not> pair_allowed cfg key (sn_family first) (sn_family second)"

definition combine_step :: "strategy_combination_config \<Rightarrow> string
    \<Rightarrow> strategy_node list \<times> string set \<Rightarrow> strategy_node \<times> strategy_node
    \<Rightarrow> strategy_node list \<times> string set" where
  "combine_step cfg key = (\<lambda>(out, seen_args) (a, b).
     let (first, second) = ordered_components a b in
     if pair_rejected cfg key first second then (out, seen_args)
     else let k = args_key (sn_args first @ sn_args second) in
       if k \<in> seen_args then (out, seen_args)
       else (out @ [combined_node key (length out) first second], insert k seen_args))"

fun pairs :: "'a list \<Rightarrow> ('a \<times> 'a) list" where
  "pairs [] = []"
| "pairs (x # xs) = map (Pair x) xs @ pairs xs"

definition combination_singles :: "strategy_node list \<Rightarrow> strategy_node list" where
  "combination_singles base_nodes =
     sort_by compare_combination_input
       (map normalize_single_node
         (filter (\<lambda>n. \<not> contains_sub ''_legacy'' (sn_action_id n))
           (filter (\<lambda>n. \<not> sn_is_combined n) base_nodes)))"

definition generate_combined_nodes ::
  "string \<Rightarrow> strategy_node list \<Rightarrow> strategy_combination_config \<Rightarrow> strategy_node list" where
  "generate_combined_nodes key base_nodes cfg =
     (if \<not> sc_enabled cfg then []
      else fst (foldl (combine_step cfg key) ([], {}) (pairs (combination_singles base_nodes))))"

section \<open>The round robin is fair\<close>

definition family_group :: "strategy_node list \<Rightarrow> string \<Rightarrow> strategy_node list" where
  "family_group nodes f = filter (\<lambda>n. sn_family n = f) nodes"

text \<open>
  The state during pass \<open>r\<close>: the families in \<open>visited\<close> have had their turn. Of each family the
  selection holds a prefix of its group and the group has lost that prefix.
\<close>

definition rr_inv :: "groups \<Rightarrow> nat \<Rightarrow> string set \<Rightarrow> strategy_node list \<Rightarrow> groups \<Rightarrow> bool" where
  "rr_inv G r visited sel groups \<longleftrightarrow>
     (\<forall>f. let k = (if f \<in> visited then Suc r else r) in
        groups f = drop k (G f) \<and> family_group sel f = take k (G f))"

lemma rr_inv_skip: "rr_inv G r V sel groups \<Longrightarrow> f \<notin> V \<Longrightarrow> groups f = [] \<Longrightarrow>
    rr_inv G r (insert f V) sel groups"
  by (auto simp: rr_inv_def Let_def)

lemma rr_inv_take:
  assumes "rr_inv G r V sel groups" and "f \<notin> V" and "groups f = n # rest" and "sn_family n = f"
  shows "rr_inv G r (insert f V) (sel @ [n]) (groups(f := rest))"
proof -
  have g: "groups f = drop r (G f)" "family_group sel f = take r (G f)"
    using assms(1,2) by (auto simp: rr_inv_def Let_def)
  with assms(3) have "r < length (G f)" "G f ! r = n" "rest = drop (Suc r) (G f)"
    by (auto simp: Cons_nth_drop_Suc[symmetric] not_less dest!: sym[of "_ # _"] split: if_splits)
       (metis Cons_nth_drop_Suc drop_all list.distinct(1) list.inject not_le)+
  with g assms show ?thesis
    by (auto simp: rr_inv_def Let_def family_group_def take_Suc_conv_app_nth)
qed

lemma rr_pass_inv:
  assumes "rr_inv G r V sel groups" and "distinct fs" and "set fs \<inter> V = {}"
    and fam: "\<And>f n. n \<in> set (G f) \<Longrightarrow> sn_family n = f" and "length sel \<le> mx"
  shows "case rr_pass mx fs groups sel p of
      Inl res \<Rightarrow> length res = mx \<and> (\<exists>V' g'. rr_inv G r V' res g')
    | Inr (sel', g', p') \<Rightarrow> length sel' \<le> mx \<and> rr_inv G r (V \<union> set fs) sel' g' \<and>
        (\<not> p' \<longrightarrow> \<not> p \<and> (\<forall>f \<in> set fs. length (G f) \<le> r))"
  using assms
proof (induction mx fs groups sel p arbitrary: V rule: rr_pass.induct)
  case (1 mx groups sel p)
  then show ?case by simp
next
  case (2 mx f fs groups sel p)
  show ?case
  proof (cases "mx \<le> length sel")
    case True
    with "2.prems" show ?thesis by auto
  next
    case False
    have fV: "f \<notin> V" "set fs \<inter> insert f V = {}" "distinct fs" using "2.prems"(2,3) by auto
    have g: "groups f = drop r (G f)" using "2.prems"(1) fV(1) by (auto simp: rr_inv_def Let_def)
    show ?thesis
    proof (cases "groups f")
      case Nil
      from "2.IH"(1)[OF False Nil rr_inv_skip[OF "2.prems"(1) fV(1) Nil] fV(3,2) "2.prems"(4,5)]
      show ?thesis using False Nil g by (auto split: sum.splits)
    next
      case (Cons n rest)
      have "n \<in> set (G f)" using g Cons by (metis in_set_dropD list.set_intros(1))
      then have "sn_family n = f" by (rule "2.prems"(4))
      note inv = rr_inv_take[OF "2.prems"(1) fV(1) Cons this]
      from "2.IH"(2)[OF False Cons, folded fun_upd_def, OF inv fV(3,2) "2.prems"(4)] False
      show ?thesis using Cons by (auto simp: fun_upd_def split: sum.splits)
    qed
  qed
qed

lemma rr_inv_next:
  assumes "rr_inv G r (set order) sel g" and "\<And>f. f \<notin> set order \<Longrightarrow> G f = []"
  shows "rr_inv G (Suc r) {} sel g"
proof -
  have "g f = drop (Suc r) (G f) \<and> family_group sel f = take (Suc r) (G f)" for f
    using assms(1)[unfolded rr_inv_def Let_def, rule_format, of f] assms(2)[of f]
    by (cases "f \<in> set order") auto
  then show ?thesis by (simp add: rr_inv_def)
qed

lemma rr_loop_inv:
  assumes "rr_inv G r {} sel g" and "distinct order" and "\<And>f n. n \<in> set (G f) \<Longrightarrow> sn_family n = f"
    and "length sel \<le> mx" and "\<And>f. f \<notin> set order \<Longrightarrow> G f = []"
  shows "\<exists>r V g'. rr_inv G r V (rr_loop mx order g sel) g' \<and>
    (length (rr_loop mx order g sel) = mx \<or>
     length (rr_loop mx order g sel) \<le> mx \<and> (\<forall>f. g' f = []))"
  using assms
proof (induction mx order g sel arbitrary: r rule: rr_loop.induct)
  case (1 mx order g sel)
  note step = rr_pass_inv[OF "1.prems"(1,2) _ "1.prems"(3,4), of False]
  show ?case
  proof (cases "rr_pass mx order g sel False")
    case (Inl res)
    with step show ?thesis by (subst (1 2 3) rr_loop.simps) auto
  next
    case (Inr t)
    obtain sel' g' p' where t: "t = (sel', g', p')" by (cases t)
    with step Inr have s: "length sel' \<le> mx" "rr_inv G r (set order) sel' g'"
        "\<not> p' \<longrightarrow> (\<forall>f \<in> set order. length (G f) \<le> r)"
      by auto
    have nxt: "rr_inv G (Suc r) {} sel' g'"
      using s(2) "1.prems"(5) by (rule rr_inv_next)
    show ?thesis
    proof (cases p')
      case True
      have "\<exists>r V h. rr_inv G r V (rr_loop mx order g' sel') h \<and>
          (length (rr_loop mx order g' sel') = mx \<or>
           length (rr_loop mx order g' sel') \<le> mx \<and> (\<forall>f. h f = []))"
        using "1.IH"[OF Inr t[symmetric] refl True nxt "1.prems"(2,3) s(1)] "1.prems"(5) by blast
      with Inr t True show ?thesis by (subst (1 2 3) rr_loop.simps) simp
    next
      case False
      have "g' f = []" for f
        using nxt s(3) False "1.prems"(5)[of f]
        by (cases "f \<in> set order") (auto simp: rr_inv_def)
      with Inr t False nxt s(1) show ?thesis by (subst (1 2 3) rr_loop.simps) auto
    qed
  qed
qed

lemma filter_mset_subset:
  assumes "\<And>f. family_group res f = take (k f) (G f)" and "\<And>f. mset (G f) = mset (family_group nodes f)"
  shows "mset res \<subseteq># mset nodes"
proof (rule mset_subset_eqI)
  fix n
  have cnt: "count (mset xs) n = count (mset (family_group xs (sn_family n))) n" for xs
    by (simp add: family_group_def)
  have "count (mset (take (k (sn_family n)) (G (sn_family n)))) n \<le> count (mset (G (sn_family n))) n"
    by (metis append_take_drop_id count_union le_add1 mset_append)
  then show "count (mset res) n \<le> count (mset nodes) n"
    using cnt[of res] cnt[of nodes] assms[of "sn_family n"] by simp
qed

lemma round_robin_sound:
  "(\<exists>r. \<forall>f. \<exists>k \<in> {r, Suc r}.
     family_group (round_robin_by_family nodes mx) f =
       take k (sort_by compare_node_quality (family_group nodes f))) \<and>
   mset (round_robin_by_family nodes mx) \<subseteq># mset nodes \<and>
   length (round_robin_by_family nodes mx) = min mx (length nodes)"
proof -
  let ?G = "\<lambda>f. sort_by compare_node_quality (family_group nodes f)"
  let ?fs = "dedup_by (\<lambda>f. f) [] (map sn_family nodes)"
  define order where "order = sort_by (\<lambda>a b. then_with
    (cmp_of (family_diversity_rank a) (family_diversity_rank b)) (cmp_of a b)) ?fs"
  have rr: "round_robin_by_family nodes mx = rr_loop mx order ?G []"
    by (simp add: round_robin_by_family_def order_def family_group_def)
  have "distinct ?fs" using dedup_by_distinct[of "\<lambda>f. f"] by simp
  then have d: "distinct order" by (simp add: order_def)
  have s: "set order = sn_family ` set nodes"
    using dedup_by_keys[of "\<lambda>f. f" "[]" "map sn_family nodes"] by (simp add: order_def)
  have inv0: "rr_inv ?G 0 {} [] ?G" by (simp add: rr_inv_def family_group_def)
  have fam: "sn_family n = f" if "n \<in> set (?G f)" for f n using that by (simp add: family_group_def)
  have out: "?G f = []" if "f \<notin> set order" for f
  proof -
    have "family_group nodes f = []" using that s by (auto simp: family_group_def filter_empty_conv)
    then show ?thesis by simp
  qed
  from rr_loop_inv[OF inv0 d fam _ out, where mx = mx] obtain r V g' where
    inv: "rr_inv ?G r V (round_robin_by_family nodes mx) g'"
    and len: "length (round_robin_by_family nodes mx) = mx \<or>
      length (round_robin_by_family nodes mx) \<le> mx \<and> (\<forall>f. g' f = [])"
    unfolding rr by auto
  have fair: "\<exists>r. \<forall>f. \<exists>k \<in> {r, Suc r}.
     family_group (round_robin_by_family nodes mx) f = take k (?G f)"
    using inv by (auto simp: rr_inv_def Let_def intro!: exI[of _ r])
  let ?k = "\<lambda>f. if f \<in> V then Suc r else r"
  have grp: "family_group (round_robin_by_family nodes mx) f = take (?k f) (?G f)" for f
    using inv by (auto simp: rr_inv_def Let_def)
  have sub: "mset (round_robin_by_family nodes mx) \<subseteq># mset nodes"
    by (rule filter_mset_subset[OF grp]) simp
  have le: "length (round_robin_by_family nodes mx) \<le> length nodes"
    using size_mset_mono[OF sub] by simp
  have "length (round_robin_by_family nodes mx) = min mx (length nodes)"
  proof (cases "length (round_robin_by_family nodes mx) = mx")
    case True
    with le show ?thesis by simp
  next
    case False
    with len have e: "\<forall>f. g' f = []" "length (round_robin_by_family nodes mx) \<le> mx" by auto
    have "drop (?k f) (?G f) = []" for f
      using e(1) inv by (auto simp: rr_inv_def Let_def split: if_splits)
    then have "take (length (family_group nodes f)) (?G f) = take (?k f) (?G f)" for f
      by (metis drop_eq_Nil length_sort_by order_refl take_all)
    then have "mset (family_group nodes f) = mset (family_group (round_robin_by_family nodes mx) f)" for f
      using grp[of f] by (metis length_sort_by mset_sort_by order_refl take_all)
    then have "mset nodes \<subseteq># mset (round_robin_by_family nodes mx)"
      by (intro filter_mset_subset[where k = "\<lambda>f. length (family_group nodes f)" and G = "family_group nodes"])
         simp_all
    with sub have "length (round_robin_by_family nodes mx) = length nodes"
      by (metis size_mset subset_mset.antisym)
    with e(2) show ?thesis by simp
  qed
  with fair sub show ?thesis by blast
qed

text \<open>
  C24: The round robin is fair. It returns a sub-multiset of the candidates of size
  \<^verbatim>\<open>max_candidates\<close>, or all of them when there are fewer; the nodes chosen of a family are its
  best ones, in order of quality; and there is a round \<open>r\<close> such that every family has had \<open>r\<close>
  or \<open>r + 1\<close> turns, so no family gets two nodes ahead of another that still has some.
\<close>

theorem round_robin_fair:
  "(\<exists>r. \<forall>f. \<exists>k \<in> {r, Suc r}.
     family_group (round_robin_by_family nodes mx) f =
       take k (sort_by compare_node_quality (family_group nodes f))) \<and>
   mset (round_robin_by_family nodes mx) \<subseteq># mset nodes \<and>
   length (round_robin_by_family nodes mx) = min mx (length nodes)"
  by (rule round_robin_sound)

section \<open>The selection respects its caps\<close>

lemma foldl_invariant:
  "P s \<Longrightarrow> (\<And>s x. P s \<Longrightarrow> x \<in> set xs \<Longrightarrow> P (f s x)) \<Longrightarrow> P (foldl f s xs)"
  by (induction xs arbitrary: s) auto

definition node_key :: "strategy_node \<Rightarrow> string" where
  "node_key n = args_key (sn_args n)"

definition action_group :: "strategy_node list \<Rightarrow> string \<times> string \<Rightarrow> strategy_node list" where
  "action_group nodes a = filter (\<lambda>n. (sn_family n, sn_action_id n) = a) nodes"

definition select_inv :: "nat \<Rightarrow> nat \<Rightarrow> select_state \<Rightarrow> bool" where
  "select_inv mf ma st \<longleftrightarrow>
     distinct (map node_key (se_filtered st)) \<and>
     node_key ` set (se_filtered st) \<subseteq> se_seen_args st \<and>
     (\<forall>f. se_per_family st f = length (family_group (se_filtered st) f) \<and>
        length (family_group (se_filtered st) f) \<le> mf) \<and>
     (\<forall>a. se_per_action st a = length (action_group (se_filtered st) a) \<and>
        length (action_group (se_filtered st) a) \<le> ma)"

lemma select_step_cases:
  "select_step mf ma st n = st \<or>
   node_key n \<notin> se_seen_args st \<and>
     (select_step mf ma st n = st\<lparr> se_seen_args := insert (node_key n) (se_seen_args st) \<rparr> \<and>
        (mf \<le> se_per_family st (sn_family n) \<or> ma \<le> se_per_action st (sn_family n, sn_action_id n)) \<or>
      se_per_family st (sn_family n) < mf \<and> se_per_action st (sn_family n, sn_action_id n) < ma \<and>
      select_step mf ma st n = st\<lparr> se_seen_args := insert (node_key n) (se_seen_args st),
        se_per_family := (se_per_family st)(sn_family n := se_per_family st (sn_family n) + 1),
        se_per_action := (se_per_action st)((sn_family n, sn_action_id n) :=
          se_per_action st (sn_family n, sn_action_id n) + 1),
        se_filtered := se_filtered st @ [n] \<rparr>)"
  by (auto simp: select_step_def Let_def node_key_def)

lemma select_inv_step: "select_inv mf ma st \<Longrightarrow> select_inv mf ma (select_step mf ma st n)"
proof -
  assume inv: "select_inv mf ma st"
  consider "select_step mf ma st n = st"
    | "select_step mf ma st n = st\<lparr> se_seen_args := insert (node_key n) (se_seen_args st) \<rparr>"
    | "node_key n \<notin> se_seen_args st" "se_per_family st (sn_family n) < mf"
      "se_per_action st (sn_family n, sn_action_id n) < ma"
      "select_step mf ma st n = st\<lparr> se_seen_args := insert (node_key n) (se_seen_args st),
        se_per_family := (se_per_family st)(sn_family n := se_per_family st (sn_family n) + 1),
        se_per_action := (se_per_action st)((sn_family n, sn_action_id n) :=
          se_per_action st (sn_family n, sn_action_id n) + 1),
        se_filtered := se_filtered st @ [n] \<rparr>"
    using select_step_cases[of mf ma st n] by blast
  then show ?thesis
  proof cases
    case 1
    with inv show ?thesis by simp
  next
    case 2
    with inv show ?thesis by (auto simp: select_inv_def)
  next
    case 3
    with inv show ?thesis
      by (auto simp: select_inv_def family_group_def action_group_def)
  qed
qed

lemma select_inv_fold: "select_inv mf ma (foldl (select_step mf ma) select_init nodes)"
proof (rule foldl_invariant[where P = "select_inv mf ma"])
  show "select_inv mf ma select_init"
    by (simp add: select_inv_def select_init_def family_group_def action_group_def)
qed (rule select_inv_step)

lemma select_filtered_subset:
  "set (se_filtered (foldl (select_step mf ma) select_init nodes)) \<subseteq> set nodes"
proof (rule foldl_invariant[where P = "\<lambda>st. set (se_filtered st) \<subseteq> set nodes"])
  fix st :: select_state and n assume "set (se_filtered st) \<subseteq> set nodes" "n \<in> set nodes"
  then show "set (se_filtered (select_step mf ma st n)) \<subseteq> set nodes"
    using select_step_cases[of mf ma st n] by auto
qed (simp add: select_init_def)

definition selected_nodes :: "strategy_node list \<Rightarrow> nat \<Rightarrow> bool \<Rightarrow> strategy_node list" where
  "selected_nodes filtered mx rr =
     (if rr then round_robin_by_family filtered mx
      else take mx (sort_by compare_node_quality filtered))"

lemma selected_nodes_sub:
  "mset (selected_nodes filtered mx rr) \<subseteq># mset filtered \<and>
   length (selected_nodes filtered mx rr) = min mx (length filtered)"
proof (cases rr)
  case True
  then show ?thesis using round_robin_sound by (simp add: selected_nodes_def)
next
  case False
  have "mset (take mx xs) \<subseteq># mset xs" for xs :: "strategy_node list"
    by (metis append_take_drop_id mset_append mset_subset_eq_add_left)
  from this[of "sort_by compare_node_quality filtered"] False show ?thesis
    by (simp add: selected_nodes_def min.commute)
qed

lemma sub_distinct_map: "mset xs \<subseteq># mset ys \<Longrightarrow> distinct (map h ys) \<Longrightarrow> distinct (map h xs)"
proof -
  assume s: "mset xs \<subseteq># mset ys" and d: "distinct (map h ys)"
  have m: "mset (map h xs) \<subseteq># mset (map h ys)" using s by (simp add: image_mset_subseteq_mono)
  have "count (mset (map h xs)) a = (if a \<in> set (map h xs) then 1 else 0)" for a
  proof (cases "a \<in> set (map h xs)")
    case True
    then have "0 < count (mset (map h xs)) a" by (metis count_mset_0_iff gr0I)
    moreover have "count (mset (map h ys)) a \<le> 1" using distinct_count_atmost_1[THEN iffD1, OF d, rule_format, of a] by simp
    ultimately have "count (mset (map h xs)) a = 1"
      using mset_subset_eq_count[OF m, of a] by linarith
    with True show ?thesis by simp
  next
    case False
    then show ?thesis by (metis count_mset_0_iff)
  qed
  then show ?thesis using distinct_count_atmost_1 by blast
qed

lemma sub_filter_length: "mset xs \<subseteq># mset ys \<Longrightarrow> length (filter P xs) \<le> length (filter P ys)"
  by (metis mset_filter multiset_filter_mono size_mset size_mset_mono)

lemma reindex_node_fields [simp]:
  "sn_args (reindex_node key i n) = sn_args n"
  "sn_family (reindex_node key i n) = sn_family n"
  "sn_action_id (reindex_node key i n) = sn_action_id n"
  by (simp_all add: reindex_node_def normalize_single_node_def)

lemma reindex_map:
  assumes "\<And>i n. h (reindex_node key i n) = h n"
  shows "map h (reindex_nodes key nodes) = map h nodes"
  using assms by (intro nth_equalityI) (auto simp: reindex_nodes_def)

lemma reindex_filter_length:
  assumes "\<And>i n. P (reindex_node key i n) = P n"
  shows "length (filter P (reindex_nodes key nodes)) = length (filter P nodes)"
  using arg_cong[OF reindex_map[of P key nodes, OF assms], of "\<lambda>bs. length (filter (\<lambda>b. b) bs)"]
  by (simp add: filter_map comp_def)

lemma reindex_ids_distinct: "distinct (map sn_id (reindex_nodes key nodes))"
proof -
  have us: "CHR ''_'' \<notin> set (dec_of_nat i)" for i
    by (rule dec_of_nat_not_in) code_simp
  have idx: "map_option snd (rsplit_once (CHR ''_'') (sn_id (reindex_node key i n))) = Some (dec_of_nat i)" for i n
  proof -
    obtain p where "sn_id (reindex_node key i n) = p @ ''_'' @ dec_of_nat i"
      by (cases "sn_is_combined n")
         (force simp: reindex_node_def normalize_single_node_def)+
    with us show ?thesis by (simp add: rsplit_once_Some)
  qed
  have "map (\<lambda>s. map_option snd (rsplit_once (CHR ''_'') s)) (map sn_id (reindex_nodes key nodes)) =
      map (\<lambda>i. Some (dec_of_nat i)) [0..<length nodes]"
    by (intro nth_equalityI) (auto simp: reindex_nodes_def idx)
  moreover have "distinct (map (\<lambda>i. Some (dec_of_nat i)) [0..<length nodes])"
    by (simp add: distinct_map inj_on_def)
  ultimately show ?thesis by (metis distinct_map)
qed

lemma select_diverse_sound:
  "let out = select_diverse_nodes nodes key mx mf ma rr in
     length out \<le> mx \<and> distinct (map node_key out) \<and> distinct (map sn_id out) \<and>
     (\<forall>f. length (family_group out f) \<le> mf) \<and> (\<forall>a. length (action_group out a) \<le> ma) \<and>
     set (map (\<lambda>n. (sn_family n, sn_action_id n, sn_args n)) out) \<subseteq>
       set (map (\<lambda>n. (sn_family n, sn_action_id n, sn_args n)) nodes)"
proof -
  let ?st = "foldl (select_step mf ma) select_init (sort_by compare_node_quality nodes)"
  let ?sel = "selected_nodes (se_filtered ?st) mx rr"
  have out: "select_diverse_nodes nodes key mx mf ma rr = reindex_nodes key ?sel"
    by (simp add: select_diverse_nodes_def selected_nodes_def Let_def)
  have inv: "select_inv mf ma ?st" by (rule select_inv_fold)
  have sub: "mset ?sel \<subseteq># mset (se_filtered ?st)" and len: "length ?sel \<le> mx"
    using selected_nodes_sub by auto
  have "distinct (map node_key ?sel)"
    using sub inv by (auto simp: select_inv_def intro: sub_distinct_map)
  then have d: "distinct (map node_key (reindex_nodes key ?sel))"
    by (simp add: reindex_map node_key_def)
  have f: "length (family_group (reindex_nodes key ?sel) f) \<le> mf" for f
  proof -
    have "length (family_group ?sel f) \<le> length (family_group (se_filtered ?st) f)"
      unfolding family_group_def by (rule sub_filter_length[OF sub])
    also have "\<dots> \<le> mf" using inv unfolding select_inv_def by blast
    finally show ?thesis unfolding family_group_def by (subst reindex_filter_length) simp_all
  qed
  have a: "length (action_group (reindex_nodes key ?sel) a) \<le> ma" for a
  proof -
    have "length (action_group ?sel a) \<le> length (action_group (se_filtered ?st) a)"
      unfolding action_group_def by (rule sub_filter_length[OF sub])
    also have "\<dots> \<le> ma" using inv unfolding select_inv_def by blast
    finally show ?thesis unfolding action_group_def by (subst reindex_filter_length) simp_all
  qed
  let ?h = "\<lambda>n. (sn_family n, sn_action_id n, sn_args n)"
  have "set ?sel \<subseteq> set nodes"
    using set_mset_mono[OF sub] select_filtered_subset[of mf ma "sort_by compare_node_quality nodes"]
    by simp
  then have sub: "set (map ?h (reindex_nodes key ?sel)) \<subseteq> set (map ?h nodes)"
    unfolding reindex_map[of ?h, simplified] by (simp add: image_mono)
  have len: "length (reindex_nodes key ?sel) \<le> mx" using len by (simp add: reindex_nodes_def)
  show ?thesis
    unfolding out Let_def by (intro conjI allI d f a sub len reindex_ids_distinct)
qed

text \<open>
  C19: Whatever the caps, the selected candidates are taken from the given ones, no two run the
  same arguments or carry the same id, no family and no action exceeds its cap, and there are at
  most \<^verbatim>\<open>max_candidates\<close> of them.
\<close>

theorem select_diverse_caps:
  "let out = select_diverse_nodes nodes key mx mf ma rr in
     length out \<le> mx \<and> distinct (map node_key out) \<and> distinct (map sn_id out) \<and>
     (\<forall>f. length (family_group out f) \<le> mf) \<and> (\<forall>a. length (action_group out a) \<le> ma) \<and>
     set (map (\<lambda>n. (sn_family n, sn_action_id n, sn_args n)) out) \<subseteq>
       set (map (\<lambda>n. (sn_family n, sn_action_id n, sn_args n)) nodes)"
  by (rule select_diverse_sound)

section \<open>Combined nodes\<close>

text \<open>What two nodes have to satisfy to be combined, as the configuration documents it.\<close>

definition compatible ::
  "strategy_combination_config \<Rightarrow> string \<Rightarrow> strategy_node \<Rightarrow> strategy_node \<Rightarrow> bool" where
  "compatible cfg key a b \<longleftrightarrow>
     sn_id a \<noteq> sn_id b \<and> set (sn_args a) \<inter> set (sn_args b) = {} \<and>
     (sc_require_different_family cfg \<longrightarrow> sn_family a \<noteq> sn_family b) \<and>
     (sn_action_id a = sn_action_id b \<longrightarrow> sc_allow_same_action cfg) \<and>
     (pair_allowed cfg key (sn_family a) (sn_family b) \<or> sc_mode cfg = ''force'') \<and>
     combination_family_rank (sn_family a) \<le> combination_family_rank (sn_family b)"

lemma args_intersect_iff: "args_intersect a b \<longleftrightarrow> set a \<inter> set b \<noteq> {}"
  by (auto simp: args_intersect_def list_ex_iff)

lemma ordered_components_le:
  assumes "ordered_components a b = (x, y)"
  shows "{x, y} = {a, b} \<and> compare_combination_input x y \<noteq> Greater"
proof (cases "compare_combination_input a b = Greater")
  case True
  moreover have "compare_combination_input b a \<noteq> Greater"
    using True combination_input.le_total[of a b] by simp
  ultimately show ?thesis using assms by (auto simp: ordered_components_def)
next
  case False
  with assms show ?thesis by (auto simp: ordered_components_def)
qed

lemma compatible_not_rejected:
  assumes "\<not> pair_rejected cfg key x y" and "compare_combination_input x y \<noteq> Greater"
  shows "compatible cfg key x y"
proof -
  have "combination_family_rank (sn_family x) \<le> combination_family_rank (sn_family y)"
    using assms(2) by (simp add: compare_combination_input_def then_with_eq_Greater)
  with assms(1) show ?thesis
    by (auto simp: pair_rejected_def compatible_def args_intersect_iff)
qed

lemma set_pairs: "set (pairs xs) \<subseteq> set xs \<times> set xs"
  by (induction xs) auto

definition number_combined :: "string \<Rightarrow> (strategy_node \<times> strategy_node) list \<Rightarrow> strategy_node list" where
  "number_combined key ps = map (\<lambda>i. combined_node key i (fst (ps ! i)) (snd (ps ! i))) [0..<length ps]"

lemma number_combined_snoc:
  "number_combined key (ps @ [(a, b)]) = number_combined key ps @ [combined_node key (length ps) a b]"
  by (auto simp: number_combined_def nth_append)

definition combine_inv :: "strategy_combination_config \<Rightarrow> string \<Rightarrow> strategy_node set
    \<Rightarrow> strategy_node list \<times> string set \<Rightarrow> bool" where
  "combine_inv cfg key S st \<longleftrightarrow>
     (\<exists>ps. fst st = number_combined key ps \<and>
        set ps \<subseteq> {(a, b). a \<in> S \<and> b \<in> S \<and> compatible cfg key a b} \<and>
        distinct (map node_key (fst st)) \<and> snd st = node_key ` set (fst st))"

lemma node_key_combined: "node_key (combined_node key i a b) = args_key (sn_args a @ sn_args b)"
  by (simp add: node_key_def combined_node_def)

lemma combine_step_inv:
  assumes "combine_inv cfg key S st" and "fst p \<in> S" "snd p \<in> S"
  shows "combine_inv cfg key S (combine_step cfg key st p)"
proof -
  obtain out seen where st: "st = (out, seen)" by (cases st)
  obtain a b where p: "p = (a, b)" by (cases p)
  obtain x y where xy: "ordered_components a b = (x, y)" by (cases "ordered_components a b")
  let ?k = "args_key (sn_args x @ sn_args y)"
  obtain ps where ps: "out = number_combined key ps"
      "set ps \<subseteq> {(a, b). a \<in> S \<and> b \<in> S \<and> compatible cfg key a b}"
      "distinct (map node_key out)" "seen = node_key ` set out"
    using assms(1) by (auto simp: combine_inv_def st)
  show ?thesis
  proof (cases "pair_rejected cfg key x y \<or> ?k \<in> seen")
    case True
    then have "combine_step cfg key st p = st"
      by (auto simp: combine_step_def st p xy Let_def)
    with assms(1) show ?thesis by simp
  next
    case False
    then have r: "combine_step cfg key st p = (out @ [combined_node key (length out) x y], insert ?k seen)"
      by (simp add: combine_step_def st p xy Let_def)
    have "compatible cfg key x y"
      using False ordered_components_le[OF xy] compatible_not_rejected by blast
    moreover have "x \<in> S" "y \<in> S" using ordered_components_le[OF xy] assms(2,3) p by auto
    moreover have "length out = length ps" by (simp add: ps(1) number_combined_def)
    ultimately show ?thesis
      using ps False unfolding combine_inv_def r
      by (intro exI[of _ "ps @ [(x, y)]"])
         (auto simp: number_combined_snoc node_key_combined)
  qed
qed

lemma combined_nodes_sound:
  "\<exists>ps. generate_combined_nodes key base cfg = number_combined key ps \<and>
     set ps \<subseteq> {(a, b). a \<in> set (combination_singles base) \<and> b \<in> set (combination_singles base) \<and>
                        compatible cfg key a b} \<and>
     distinct (map node_key (generate_combined_nodes key base cfg))"
proof (cases "sc_enabled cfg")
  case False
  then show ?thesis by (intro exI[of _ "[]"]) (simp add: generate_combined_nodes_def number_combined_def)
next
  case True
  let ?S = "set (combination_singles base)"
  have "combine_inv cfg key ?S
      (foldl (combine_step cfg key) ([], {}) (pairs (combination_singles base)))"
  proof (rule foldl_invariant)
    show "combine_inv cfg key ?S ([], {})"
      by (auto simp: combine_inv_def number_combined_def intro!: exI[of _ "[]"])
  next
    fix st p assume "combine_inv cfg key ?S st" "p \<in> set (pairs (combination_singles base))"
    then show "combine_inv cfg key ?S (combine_step cfg key st p)"
      using set_pairs[of "combination_singles base"] by (intro combine_step_inv) auto
  qed
  with True show ?thesis by (auto simp: combine_inv_def generate_combined_nodes_def)
qed

text \<open>
  C27: every combined candidate is built from two of the single nodes that are compatible under
  the configuration (different ids, disjoint arguments, an allowed pair of families, in rank
  order), carries the arguments of the first followed by those of the second, and no two combined
  candidates run the same arguments.
\<close>

theorem combined_nodes_compatible:
  "\<exists>ps. generate_combined_nodes key base cfg = number_combined key ps \<and>
     set ps \<subseteq> {(a, b). a \<in> set (combination_singles base) \<and> b \<in> set (combination_singles base) \<and>
                        compatible cfg key a b} \<and>
     distinct (map node_key (generate_combined_nodes key base cfg))"
  by (rule combined_nodes_sound)

end
