(* ===== verification/Yaml.thy ===== *)
theory Yaml
  imports RustNum Float64
begin

text \<open>
  Parsed YAML as \<^verbatim>\<open>serde_yaml::Value\<close> presents it: the accessors of the crate's documented
  interface (\<^verbatim>\<open>get\<close>, \<^verbatim>\<open>as_str\<close>, \<^verbatim>\<open>as_sequence\<close>, ...), which look through tags. The
  parser of the text is an argument of the definitions that load a catalogue.
\<close>

datatype yaml_number = YPosInt nat | YNegInt int | YFloat f64

datatype yaml =
    YNull
  | YBool bool
  | YNumber yaml_number
  | YString string
  | YSequence "yaml list"
  | YMapping "(yaml \<times> yaml) list"
  | YTagged string yaml

fun untag :: "yaml \<Rightarrow> yaml" where
  "untag (YTagged t v) = untag v"
| "untag v = v"

definition as_str :: "yaml \<Rightarrow> string option" where
  "as_str v = (case untag v of YString s \<Rightarrow> Some s | _ \<Rightarrow> None)"

definition as_bool :: "yaml \<Rightarrow> bool option" where
  "as_bool v = (case untag v of YBool b \<Rightarrow> Some b | _ \<Rightarrow> None)"

definition as_i64 :: "yaml \<Rightarrow> int option" where
  "as_i64 v =
     (case untag v of
        YNumber (YPosInt n) \<Rightarrow> if n < 2 ^ 63 then Some (int n) else None
      | YNumber (YNegInt i) \<Rightarrow> Some i
      | _ \<Rightarrow> None)"

definition f64_of_int :: "int \<Rightarrow> f64" where
  "f64_of_int i = f64_round (i < 0) (nat \<bar>i\<bar>) 1 0"

definition as_f64 :: "yaml \<Rightarrow> f64 option" where
  "as_f64 v =
     (case untag v of
        YNumber (YPosInt n) \<Rightarrow> Some (f64_of_int (int n))
      | YNumber (YNegInt i) \<Rightarrow> Some (f64_of_int i)
      | YNumber (YFloat f) \<Rightarrow> Some f
      | _ \<Rightarrow> None)"

definition as_sequence :: "yaml \<Rightarrow> yaml list option" where
  "as_sequence v = (case untag v of YSequence xs \<Rightarrow> Some xs | _ \<Rightarrow> None)"

definition as_mapping :: "yaml \<Rightarrow> (yaml \<times> yaml) list option" where
  "as_mapping v = (case untag v of YMapping m \<Rightarrow> Some m | _ \<Rightarrow> None)"

definition yaml_get :: "yaml \<Rightarrow> string \<Rightarrow> yaml option" where
  "yaml_get v key = Option.bind (as_mapping v) (\<lambda>m. map_of m (YString key))"

text \<open>A chain of \<^verbatim>\<open>and_then(|v| v.get(key))\<close>.\<close>

fun yaml_path :: "yaml \<Rightarrow> string list \<Rightarrow> yaml option" where
  "yaml_path v [] = Some v"
| "yaml_path v (key # keys) = Option.bind (yaml_get v key) (\<lambda>w. yaml_path w keys)"

section \<open>Numbers as text\<close>

definition int_to_string :: "int \<Rightarrow> string" where
  "int_to_string i = (if i < 0 then ''-'' else []) @ dec_of_nat (nat \<bar>i\<bar>)"

text \<open>
  \<open>f64\<close>'s \<open>Display\<close>: the shortest decimal digits that read back as the same number (the nearest
  ones among those of that length), written without an exponent. A magnitude is \<open>n / d\<close>.
\<close>

definition f64_fraction :: "f64 \<Rightarrow> nat \<times> nat" where
  "f64_fraction b =
     (if f64_exp b < 0 then (f64_mant b, 2 ^ nat (- f64_exp b))
      else (f64_mant b * 2 ^ nat (f64_exp b), 1))"

fun decimal_lead :: "nat \<Rightarrow> nat \<Rightarrow> nat \<Rightarrow> int" where
  "decimal_lead 0 n d = 0"
| "decimal_lead (Suc fuel) n d =
     (if d \<le> n then int (length (dec_of_nat (n div d))) - 1
      else decimal_lead fuel (n * 10) d - 1)"

definition digits_round_trip :: "f64 \<Rightarrow> nat \<Rightarrow> int \<Rightarrow> bool" where
  "digits_round_trip b q s \<longleftrightarrow>
     0 < q \<and>
     (if s < 0 then f64_round (f64_neg_bit b) q (10 ^ nat (- s)) 0
      else f64_round (f64_neg_bit b) (q * 10 ^ nat s) 1 0) = b"

text \<open>The candidates with \<open>p\<close> digits are the decimals just below and above \<open>n / d\<close>.\<close>

definition shortest_at :: "f64 \<Rightarrow> nat \<Rightarrow> (nat \<times> int) option" where
  "shortest_at b p =
     (let (n, d) = f64_fraction b;
          s = decimal_lead 400 n d - int p + 1;
          (n', d') = (if s < 0 then (n * 10 ^ nat (- s), d) else (n, d * 10 ^ nat s));
          lo = n' div d'; hi = lo + 1;
          near = (if 2 * (n' mod d') < d' then [lo, hi] else [hi, lo])
      in map_option (\<lambda>q. (q, s)) (find (\<lambda>q. digits_round_trip b q s) near))"

fun shortest_from :: "f64 \<Rightarrow> nat \<Rightarrow> nat \<Rightarrow> nat \<times> int" where
  "shortest_from b p 0 = (case shortest_at b p of Some r \<Rightarrow> r | None \<Rightarrow> (0, 0))"
| "shortest_from b p (Suc k) =
     (case shortest_at b p of Some r \<Rightarrow> r | None \<Rightarrow> shortest_from b (Suc p) k)"

definition decimal_string :: "nat \<Rightarrow> int \<Rightarrow> string" where
  "decimal_string q s =
     (let ds = dec_of_nat q in
      if 0 \<le> s then ds @ replicate (nat s) (CHR ''0'')
      else let k = nat (- s) in
        if k < length ds then take (length ds - k) ds @ ''.'' @ drop (length ds - k) ds
        else ''0.'' @ replicate (k - length ds) (CHR ''0'') @ ds)"

definition f64_to_string :: "f64 \<Rightarrow> string" where
  "f64_to_string b =
     (if f64_is_nan b then ''NaN''
      else (if f64_neg_bit b then ''-'' else []) @
        (if f64_is_inf b then ''inf''
         else if f64_mant b = 0 then ''0''
         else let (q, s) = shortest_from b 1 16 in decimal_string q s))"

definition value_to_string :: "yaml \<Rightarrow> string option" where
  "value_to_string v =
     (case as_str v of
        Some s \<Rightarrow> Some s
      | None \<Rightarrow>
        (case as_i64 v of
           Some i \<Rightarrow> Some (int_to_string i)
         | None \<Rightarrow>
           (case as_f64 v of
              Some f \<Rightarrow> Some (f64_to_string f)
            | None \<Rightarrow> map_option (\<lambda>b. if b then ''true'' else ''false'') (as_bool v))))"

definition values_from_yaml :: "yaml \<Rightarrow> string list" where
  "values_from_yaml v =
     (case as_sequence v of
        Some xs \<Rightarrow> List.map_filter value_to_string xs
      | None \<Rightarrow> (case value_to_string v of Some s \<Rightarrow> [s] | None \<Rightarrow> []))"

definition string_list :: "yaml option \<Rightarrow> string list" where
  "string_list v =
     (case Option.bind v as_sequence of Some xs \<Rightarrow> List.map_filter as_str xs | None \<Rightarrow> [])"

definition value_seq :: "yaml \<Rightarrow> string \<Rightarrow> yaml list option" where
  "value_seq v key = Option.bind (yaml_get v key) as_sequence"

definition resolve_ref :: "yaml \<Rightarrow> string \<Rightarrow> yaml option" where
  "resolve_ref root path = yaml_path root (split_on (CHR ''.'') path)"

declare as_str_def [eval_simps] as_bool_def [eval_simps] as_i64_def [eval_simps]
  as_sequence_def [eval_simps] as_mapping_def [eval_simps] yaml_get_def [eval_simps]
  value_to_string_def [eval_simps] values_from_yaml_def [eval_simps] string_list_def [eval_simps]
  value_seq_def [eval_simps] resolve_ref_def [eval_simps] List.map_filter_simps [eval_simps]

end
