(* ===== verification/Catalog.thy ===== *)
theory Catalog
  imports NodeSelection Yaml
begin

text \<open>
  \<^verbatim>\<open>src/graph.rs\<close>, second part: from the YAML catalogue to concrete strategies. The
  parameters of an action are merged from the catalogue, the candidate and the configuration,
  their combinations rendered into \<^verbatim>\<open>--lua-desync\<close> arguments, and the payload and blob options
  derived from them. The file system is an argument, as are the YAML parser and serde's decoding
  of a plain strategy list.
\<close>

section \<open>Arguments\<close>

definition insert_at :: "nat \<Rightarrow> 'a \<Rightarrow> 'a list \<Rightarrow> 'a list" where
  "insert_at i x xs = take i xs @ x # drop i xs"

definition explicit_lua_payload :: "string \<Rightarrow> string option" where
  "explicit_lua_payload lua =
     (case List.map_filter (strip_prefix ''payload='') (split_on (CHR '':'') lua) of
        [] \<Rightarrow> None
      | payload # _ \<Rightarrow> if payload = [] then None else Some payload)"

definition lua_function_name :: "string \<Rightarrow> string" where
  "lua_function_name lua = hd (split_on (CHR '':'') lua)"

definition lua_function_uses_standard_payload :: "string \<Rightarrow> bool" where
  "lua_function_uses_standard_payload f \<longleftrightarrow>
     f \<in> {''drop'', ''fake'', ''rst'', ''multisplit'', ''multidisorder'', ''fakedsplit'',
          ''fakeddisorder'', ''tcpseg'', ''udplen''}"

definition inferred_lua_payload :: "string \<Rightarrow> string option \<Rightarrow> string option" where
  "inferred_lua_payload lua key =
     (if \<not> lua_function_uses_standard_payload (lua_function_name lua) then None
      else if key = Some ''http'' then Some ''http_req''
      else if key = Some ''tls12'' \<or> key = Some ''tls13'' then Some ''tls_client_hello''
      else if key = Some ''quic'' then Some ''quic_initial''
      else None)"

definition lua_payload :: "string option \<Rightarrow> string \<Rightarrow> string option" where
  "lua_payload key lua =
     (case explicit_lua_payload lua of Some p \<Rightarrow> Some p | None \<Rightarrow> inferred_lua_payload lua key)"

definition add_payload_items :: "string list \<Rightarrow> string option \<Rightarrow> string list" where
  "add_payload_items payloads payload =
     (case payload of
        None \<Rightarrow> payloads
      | Some p \<Rightarrow>
          foldl (\<lambda>ps item. if item \<in> set ps then ps else ps @ [item]) payloads
            (filter (\<lambda>item. item \<noteq> []) (split_on (CHR '','') p)))"

fun payload_loop :: "string option \<Rightarrow> string list \<Rightarrow> string list \<Rightarrow> string list" where
  "payload_loop key payloads [] = payloads"
| "payload_loop key payloads (arg # args) =
     (case strip_prefix ''--lua-desync='' arg of
        Some lua \<Rightarrow> payload_loop key (add_payload_items payloads (lua_payload key lua)) args
      | None \<Rightarrow>
          if arg = ''--lua-desync'' then
            (case args of
               [] \<Rightarrow> payloads
             | lua # rest \<Rightarrow> payload_loop key (add_payload_items payloads (lua_payload key lua)) rest)
          else payload_loop key payloads args)"

definition lua_desync_payloads :: "string list \<Rightarrow> string option \<Rightarrow> string list" where
  "lua_desync_payloads args key = payload_loop key [] args"

definition is_lua_desync :: "string \<Rightarrow> bool" where
  "is_lua_desync arg \<longleftrightarrow> arg = ''--lua-desync'' \<or> starts_with ''--lua-desync='' arg"

definition is_payload_option :: "string \<Rightarrow> bool" where
  "is_payload_option arg \<longleftrightarrow> arg = ''--payload'' \<or> starts_with ''--payload='' arg"

definition lua_position :: "string list \<Rightarrow> nat" where
  "lua_position args = (case position is_lua_desync args of Some i \<Rightarrow> i | None \<Rightarrow> length args)"

definition ensure_payload_option :: "string list \<Rightarrow> string option \<Rightarrow> string list" where
  "ensure_payload_option args key =
     (if list_ex is_payload_option args then args
      else let payloads = lua_desync_payloads args key in
        if payloads = [] then args
        else insert_at (lua_position args) (''--payload='' @ join '','' payloads) args)"

section \<open>Blobs read from files\<close>

definition blob_file_sentinel_mark :: string where
  "blob_file_sentinel_mark = ''__zapret_checker_blob_file__''"

definition parse_blob_file_sentinel :: "string \<Rightarrow> (string \<times> string) option" where
  "parse_blob_file_sentinel v =
     Option.bind (strip_prefix blob_file_sentinel_mark v) (\<lambda>rest.
     Option.bind (split_once (CHR ''@'') rest) (\<lambda>(name, p).
     if name = [] \<or> p = [] then None else Some (name, p)))"

definition sentinel_part :: "string \<Rightarrow> string \<times> string list" where
  "sentinel_part part =
     (case Option.bind (strip_prefix ''blob='' part) parse_blob_file_sentinel of
        Some (name, p) \<Rightarrow> (''blob='' @ name, [''--blob='' @ name @ '':@'' @ p])
      | None \<Rightarrow> (part, []))"

definition replace_blob_file_sentinels :: "string \<Rightarrow> string \<times> string list" where
  "replace_blob_file_sentinels lua =
     (let parts = map sentinel_part (split_on (CHR '':'') lua)
      in (join '':'' (map fst parts), concat (map snd parts)))"

definition rewrite_blob_arg :: "string \<Rightarrow> string \<times> string list" where
  "rewrite_blob_arg arg =
     (case strip_prefix ''--lua-desync='' arg of
        None \<Rightarrow> (arg, [])
      | Some lua \<Rightarrow>
          (let (updated_lua, discovered) = replace_blob_file_sentinels lua in
           if discovered = [] then (arg, [])
           else (''--lua-desync='' @ updated_lua, discovered)))"

definition dedup_preserve_order :: "string list \<Rightarrow> string list" where
  "dedup_preserve_order xs = dedup_by (\<lambda>x. x) [] xs"

definition apply_blob_file_options :: "string list \<Rightarrow> string list" where
  "apply_blob_file_options args =
     (let rewritten = map rewrite_blob_arg args; args = map fst rewritten;
          blob_args = concat (map snd rewritten); i = lua_position args in
      if blob_args = [] then args
      else take i args @ dedup_preserve_order blob_args @ drop i args)"

datatype fake_blob_kind = FbHttp | FbTls | FbQuic | FbAll

definition parse_fake_dir_marker :: "string \<Rightarrow> (fake_blob_kind \<times> path) option" where
  "parse_fake_dir_marker v =
     (let (marker, dir) = (case split_once (CHR '':'') v of
                             Some (m, d) \<Rightarrow> (m, d)
                           | None \<Rightarrow> (v, ''/opt/zapret2/files/fake'')) in
      if marker = ''fake_dir_http'' then Some (FbHttp, dir)
      else if marker = ''fake_dir_tls'' then Some (FbTls, dir)
      else if marker = ''fake_dir_quic'' then Some (FbQuic, dir)
      else if marker = ''fake_dir_all'' then Some (FbAll, dir)
      else None)"

definition sanitize_blob_name :: "string \<Rightarrow> string" where
  "sanitize_blob_name v =
     (let out = map (\<lambda>x. case x of
                     Some c \<Rightarrow> if is_alnum c \<or> c = CHR ''_'' then lower_char c else CHR ''_''
                   | None \<Rightarrow> CHR ''_'') (ascii_chars v)
      in if out = [] \<or> \<not> (is_lower (hd out) \<or> is_upper (hd out) \<or> hd out = CHR ''_'')
         then CHR ''_'' # out else out)"

fun fake_kind_name :: "fake_blob_kind \<Rightarrow> string" where
  "fake_kind_name FbHttp = ''http''"
| "fake_kind_name FbTls = ''tls''"
| "fake_kind_name FbQuic = ''quic''"
| "fake_kind_name FbAll = ''fake''"

definition blob_file_sentinel :: "fake_blob_kind \<Rightarrow> path \<Rightarrow> string" where
  "blob_file_sentinel kind p =
     (let filename = (case Option.bind (file_name p) os_to_str of Some n \<Rightarrow> n | None \<Rightarrow> ''blob'');
          name = sanitize_blob_name (''fake_'' @ fake_kind_name kind @ ''_'' @ filename)
      in blob_file_sentinel_mark @ name @ ''@'' @ utf8_lossy p)"

definition fake_blob_kind_matches :: "path \<Rightarrow> fake_blob_kind \<Rightarrow> bool" where
  "fake_blob_kind_matches p kind =
     (let name = to_ascii_lowercase
                   (case Option.bind (file_name p) os_to_str of Some n \<Rightarrow> n | None \<Rightarrow> [])
      in case kind of
           FbHttp \<Rightarrow> contains_sub ''http'' name
         | FbTls \<Rightarrow> contains_sub ''tls'' name \<or> contains_sub ''ssl'' name
         | FbQuic \<Rightarrow> contains_sub ''quic'' name
         | FbAll \<Rightarrow> True)"

definition fake_blob_files :: "file_system \<Rightarrow> fake_blob_kind \<Rightarrow> path \<Rightarrow> string list" where
  "fake_blob_files fs kind dir =
     (case fs_read_dir fs dir of
        None \<Rightarrow> []
      | Some entries \<Rightarrow>
          sort (map (blob_file_sentinel kind)
                 (filter (\<lambda>p. fs_is_file fs p \<and> fake_blob_kind_matches p kind) entries)))"

section \<open>Parameter values\<close>

definition expand_dynamic_param_values :: "file_system \<Rightarrow> string \<Rightarrow> string list \<Rightarrow> string list" where
  "expand_dynamic_param_values fs name vs =
     (if name \<noteq> ''blob'' then vs
      else dedup_preserve_order (concat (map (\<lambda>v.
             case parse_fake_dir_marker v of
               Some (kind, dir) \<Rightarrow> fake_blob_files fs kind dir
             | None \<Rightarrow> [v]) vs)))"

text \<open>\<open>if !values.contains(v) { values.push(v) }\<close> over a list of values.\<close>

definition push_missing :: "string list \<Rightarrow> string list \<Rightarrow> string list" where
  "push_missing vs extra = foldl (\<lambda>vs v. if v \<in> set vs then vs else vs @ [v]) vs extra"

definition maybe_extend_payload_values ::
  "string \<Rightarrow> string \<Rightarrow> payload_aliases option \<Rightarrow> string list \<Rightarrow> string list" where
  "maybe_extend_payload_values key name aliases vs =
     (if name \<noteq> ''blob'' then vs
      else case aliases of None \<Rightarrow> vs | Some a \<Rightarrow> push_missing vs (for_protocol_key a key))"

definition apply_strategy_values ::
  "string \<Rightarrow> string \<Rightarrow> payload_aliases option \<Rightarrow> strategy_values_config option
     \<Rightarrow> string list \<Rightarrow> string list" where
  "apply_strategy_values key name aliases cfg vs =
     (case cfg of
        None \<Rightarrow> vs
      | Some sv \<Rightarrow>
          (case values_for_param sv key name of
             None \<Rightarrow> vs
           | Some config_values \<Rightarrow>
               if sv_mode sv = ''override'' then
                 dedup_preserve_order (maybe_extend_payload_values key name aliases config_values)
               else push_missing vs config_values))"

definition param_values_from_action :: "yaml \<Rightarrow> bool \<Rightarrow> yaml \<Rightarrow> string list" where
  "param_values_from_action root use_action_values def =
     (let values_seq = Option.bind (yaml_get def ''values'') as_sequence;
          values_ref = Option.bind (yaml_get def ''values_ref'') as_str;
          ref_seq = Option.bind values_ref (\<lambda>r. Option.bind (resolve_ref root r) as_sequence);
          ref_values = (case ref_seq of Some xs \<Rightarrow> List.map_filter value_to_string xs | None \<Rightarrow> [])
      in if use_action_values \<and> values_seq \<noteq> None
         then List.map_filter value_to_string (the values_seq)
         else if use_action_values \<and> values_ref \<noteq> None \<and> ref_values \<noteq> [] then ref_values
         else case Option.bind (yaml_get def ''default'') value_to_string of
           Some d \<Rightarrow> [d]
         | None \<Rightarrow>
             (case values_seq of
                Some xs \<Rightarrow> List.map_filter value_to_string (take 1 xs)
              | None \<Rightarrow>
                  if values_ref \<noteq> None
                  then (case ref_seq of
                          Some (x # _) \<Rightarrow> (case value_to_string x of Some v \<Rightarrow> [v] | None \<Rightarrow> [])
                        | _ \<Rightarrow> [])
                  else values_from_yaml def))"

text \<open>What the functions below read besides the catalogue itself.\<close>

record render_context =
  rc_fs :: file_system
  rc_root :: yaml
  rc_key :: string
  rc_use_action_values :: bool
  rc_aliases :: "payload_aliases option"
  rc_strategy_values :: "strategy_values_config option"

definition final_values :: "render_context \<Rightarrow> string \<Rightarrow> string list \<Rightarrow> string list" where
  "final_values rc name vs =
     apply_strategy_values (rc_key rc) name (rc_aliases rc) (rc_strategy_values rc)
       (maybe_extend_payload_values (rc_key rc) name (rc_aliases rc)
         (expand_dynamic_param_values (rc_fs rc) name vs))"

definition merged_action_values ::
  "render_context \<Rightarrow> (yaml \<times> yaml) list \<Rightarrow> (yaml \<times> yaml) list option \<Rightarrow> (string \<times> string list) list" where
  "merged_action_values rc action_map override_map =
     List.map_filter (\<lambda>(name, def).
       case as_str name of
         None \<Rightarrow> None
       | Some name \<Rightarrow>
           (let vs = final_values rc name
                  (case Option.bind override_map (\<lambda>m. map_of m (YString name)) of
                     Some v \<Rightarrow> values_from_yaml v
                   | None \<Rightarrow> param_values_from_action (rc_root rc) (rc_use_action_values rc) def)
            in if vs = [] then None else Some (name, vs))) action_map"

definition merged_param_values ::
  "render_context \<Rightarrow> yaml option \<Rightarrow> yaml option \<Rightarrow> (string \<times> string list) list" where
  "merged_param_values rc action_params overrides =
     (let override_map = Option.bind overrides as_mapping;
          out = (case Option.bind action_params as_mapping of
                   Some m \<Rightarrow> merged_action_values rc m override_map | None \<Rightarrow> []);
          seen = fst ` set out
      in out @ (case override_map of
           None \<Rightarrow> []
         | Some m \<Rightarrow>
             List.map_filter (\<lambda>(name, v).
               case as_str name of
                 None \<Rightarrow> None
               | Some name \<Rightarrow>
                   if name \<in> seen then None
                   else let vs = final_values rc name (values_from_yaml v)
                        in if vs = [] then None else Some (name, vs)) m))"

type_synonym combo = "(string \<times> string) list"

definition param_combinations :: "(string \<times> string list) list \<Rightarrow> combo list" where
  "param_combinations keys_values =
     foldl (\<lambda>out (key, vs). concat (map (\<lambda>existing. map (\<lambda>v. existing @ [(key, v)]) vs) out))
       [[]] keys_values"

section \<open>Rendering\<close>

definition combo_get :: "combo \<Rightarrow> string \<Rightarrow> string \<Rightarrow> string" where
  "combo_get combo name dflt = (case map_of combo name of Some v \<Rightarrow> v | None \<Rightarrow> dflt)"

definition fooling_suffix :: "string \<Rightarrow> string" where
  "fooling_suffix v =
     (case map_of [(''badsum'', '':badsum''), (''autottl'', '':autottl''),
        (''badsum_autottl'', '':badsum:autottl''), (''md5sig'', '':md5sig''),
        (''md5sig_autottl'', '':md5sig:autottl''), (''timestamp'', '':timestamp''),
        (''badseq'', '':badseq''), (''badack'', '':badack'')] v of
        Some s \<Rightarrow> s | None \<Rightarrow> [])"

definition tls_mod_suffix :: "string \<Rightarrow> string" where
  "tls_mod_suffix v =
     (if v = ''random_sni'' then '':tls_mod=random_sni''
      else if v = ''random_session_id'' then '':tls_mod=random_session_id'' else [])"

definition suffixes :: "combo \<Rightarrow> (string \<times> string) list" where
  "suffixes combo =
     (let valued = (\<lambda>name. let v = combo_get combo name ''none''
                           in if v = ''none'' then [] else '':'' @ name @ ''='' @ v) in
      [(''{{fooling_suffix}}'', fooling_suffix (combo_get combo ''fooling'' ''none'')),
       (''{{tls_mod_suffix}}'', tls_mod_suffix (combo_get combo ''tls_mod'' ''none'')),
       (''{{pattern_suffix}}'',
         if combo_get combo ''pattern'' ''zero'' = ''random'' then '':pattern=random'' else []),
       (''{{seqovl_pattern_suffix}}'',
         if combo_get combo ''seqovl_pattern'' ''zero'' = ''random''
         then '':seqovl_pattern=random'' else []),
       (''{{rstack_suffix}}'',
         if combo_get combo ''rstack'' ''false'' = ''true'' then '':rstack'' else []),
       (''{{midhost_suffix}}'', valued ''midhost''),
       (''{{disorder_after_suffix}}'', valued ''disorder_after''),
       (''{{ipfrag_suffix}}'', [])])"

definition apply_suffixes :: "string \<Rightarrow> combo \<Rightarrow> string" where
  "apply_suffixes rendered combo =
     foldl (\<lambda>r (pat, to). replace_sub pat to r) rendered (suffixes combo)"

definition render_combo :: "string \<Rightarrow> combo \<Rightarrow> string" where
  "render_combo tmpl combo =
     apply_suffixes
       (foldl (\<lambda>r (name, v). replace_sub (''{{'' @ name @ ''}}'') v r) tmpl combo) combo"

definition unresolved :: "string \<Rightarrow> bool" where
  "unresolved s \<longleftrightarrow> contains_sub ''{{'' s \<or> contains_sub ''}}'' s"

record catalog_action =
  ca_id :: string
  ca_protocols :: "string list"
  ca_template :: string
  ca_params :: "yaml option"

definition render_lua_desync_variants ::
  "render_context \<Rightarrow> catalog_action \<Rightarrow> yaml option \<Rightarrow> string list" where
  "render_lua_desync_variants rc action overrides =
     filter (\<lambda>r. \<not> unresolved r)
       (map (render_combo (ca_template action))
         (param_combinations (merged_param_values rc (ca_params action) overrides)))"

section \<open>Families\<close>

record catalog_family =
  cf_id :: string
  cf_enabled :: bool
  cf_protocols :: "string list"
  cf_cost :: f64
  cf_risk :: f64
  cf_prior :: "f64 \<times> f64"
  cf_actions :: "catalog_action list"

definition parse_action :: "yaml \<Rightarrow> catalog_action option" where
  "parse_action action =
     Option.bind (Option.bind (yaml_get action ''id'') as_str) (\<lambda>id.
     Option.bind (Option.bind (yaml_path action [''render'', ''lua_desync'']) as_str) (\<lambda>tmpl.
     Some \<lparr> ca_id = id, ca_protocols = string_list (yaml_get action ''protocols''),
            ca_template = tmpl, ca_params = yaml_get action ''params'' \<rparr>))"

definition parse_prior :: "yaml option \<Rightarrow> f64 \<times> f64" where
  "parse_prior v =
     (case Option.bind v as_sequence of
        Some (x # y # _) \<Rightarrow>
          (case (as_f64 x, as_f64 y) of (Some a, Some b) \<Rightarrow> (a, b) | _ \<Rightarrow> (f64_2, f64_2))
      | _ \<Rightarrow> (f64_2, f64_2))"

definition parse_family :: "yaml \<Rightarrow> catalog_family option" where
  "parse_family family =
     Option.bind (Option.bind (yaml_get family ''id'') as_str) (\<lambda>id.
     Some \<lparr> cf_id = id,
       cf_enabled = (case Option.bind (yaml_get family ''enabled'') as_bool of
                       Some b \<Rightarrow> b | None \<Rightarrow> True),
       cf_protocols = string_list (yaml_get family ''protocols''),
       cf_cost = (case Option.bind (yaml_get family ''cost'') as_f64 of
                    Some c \<Rightarrow> c | None \<Rightarrow> f64_5),
       cf_risk = (case Option.bind (yaml_get family ''risk'') as_f64 of
                    Some r \<Rightarrow> r | None \<Rightarrow> f64_3),
       cf_prior = parse_prior (yaml_get family ''prior''),
       cf_actions = (case Option.bind (yaml_get family ''actions'') as_sequence of
                       Some xs \<Rightarrow> List.map_filter parse_action xs | None \<Rightarrow> []) \<rparr>)"

text \<open>\<open>HashMap::insert\<close> per family: a later family with the same id replaces an earlier one.\<close>

definition catalog_families :: "yaml list \<Rightarrow> string \<Rightarrow> catalog_family option" where
  "catalog_families families =
     foldl (\<lambda>m family. case parse_family family of
                         None \<Rightarrow> m | Some f \<Rightarrow> m(cf_id f \<mapsto> f)) Map.empty families"

definition protocol_matches :: "string list \<Rightarrow> string \<Rightarrow> string \<Rightarrow> bool" where
  "protocol_matches protocols key tmpl =
     (if list_ex (\<lambda>p. p = key) protocols then True
      else if protocols \<noteq> [] then False
      else let t = to_ascii_lowercase tmpl; has = (\<lambda>p. contains_sub p t) in
        if key = ''http'' then has ''http'' \<or> has ''http_host'' \<or> has ''http_request''
        else if key = ''tls12'' \<or> key = ''tls13''
        then has ''tls'' \<or> has ''sni'' \<or> has ''sniext'' \<or> has ''host''
        else if key = ''quic'' then has ''quic'' \<or> has ''udp'' \<or> has ''http3''
        else False)"

section \<open>Strategies of a family\<close>

type_synonym append_state = "strategy_node list \<times> string set"

definition strategy_args :: "string \<Rightarrow> string \<Rightarrow> string list" where
  "strategy_args key lua =
     ensure_payload_option (apply_blob_file_options [''--lua-desync='' @ lua]) (Some key)"

definition append_variant :: "string \<Rightarrow> catalog_family \<Rightarrow> catalog_action
    \<Rightarrow> append_state \<Rightarrow> string \<Rightarrow> append_state" where
  "append_variant key family action = (\<lambda>(nodes, seen) lua.
     let args = strategy_args key lua; k = args_key args in
     if k \<in> seen then (nodes, seen)
     else (nodes @ [\<lparr>
         sn_id = key @ ''_'' @ cf_id family @ ''_'' @ ca_id action @ ''_'' @ dec_of_nat (length nodes),
         sn_family = cf_id family, sn_action_id = ca_id action, sn_args = args,
         sn_components = [\<lparr> co_family = cf_id family, co_action_id = ca_id action, co_args = args \<rparr>],
         sn_is_combined = False, sn_cost = cf_cost family, sn_risk = cf_risk family,
         sn_prior = cf_prior family \<rparr>], insert k seen))"

definition action_selected :: "string \<Rightarrow> string set option \<Rightarrow> catalog_action \<Rightarrow> bool" where
  "action_selected key action_filter action \<longleftrightarrow>
     \<not> contains_sub ''_legacy'' (ca_id action) \<and>
     (case action_filter of Some ids \<Rightarrow> ca_id action \<in> ids | None \<Rightarrow> True) \<and>
     protocol_matches (ca_protocols action) key (ca_template action)"

definition append_family_actions :: "render_context \<Rightarrow> (string \<Rightarrow> catalog_family option) \<Rightarrow> string
    \<Rightarrow> yaml option \<Rightarrow> append_state \<Rightarrow> append_state" where
  "append_family_actions rc catalog family_id candidate st =
     (case catalog family_id of
        None \<Rightarrow> st
      | Some family \<Rightarrow>
          if \<not> cf_enabled family \<or> \<not> protocol_matches (cf_protocols family) (rc_key rc) [] then st
          else
            let action_filter = map_option (\<lambda>seq. set (List.map_filter as_str seq))
                   (Option.bind (Option.bind candidate (\<lambda>v. yaml_get v ''actions'')) as_sequence);
                overrides = Option.bind candidate (\<lambda>v. yaml_get v ''params'')
            in foldl (\<lambda>st action.
                 if action_selected (rc_key rc) action_filter action
                 then foldl (append_variant (rc_key rc) family action) st
                        (render_lua_desync_variants rc action overrides)
                 else st) st (cf_actions family))"

section \<open>Loading\<close>

record load_options =
  lo_protocol_key :: string
  lo_search_mode :: string
  lo_max_candidates :: nat
  lo_max_per_family :: nat
  lo_max_per_action :: nat
  lo_round_robin_families :: bool
  lo_payload_aliases :: "payload_aliases option"
  lo_strategy_values :: "strategy_values_config option"
  lo_strategy_combinations :: "strategy_combination_config option"

datatype graph_error =
    GeRead | GeYaml string | GeDecode | MissingFamilies | MissingSignal string
  | MissingExpand string | UnsupportedSearchMode string | NoCandidates string string

definition signal_nodes :: "render_context \<Rightarrow> (string \<Rightarrow> catalog_family option)
    \<Rightarrow> graph_error + append_state" where
  "signal_nodes rc catalog =
     res_bind (ok_or (MissingSignal (rc_key rc))
       (Option.bind (yaml_path (rc_root rc) [''candidate_generators'', ''signal'', rc_key rc])
          as_sequence)) (\<lambda>candidates.
     Inr (foldl (\<lambda>st candidate.
            case Option.bind (yaml_get candidate ''family'') as_str of
              None \<Rightarrow> st
            | Some family_id \<Rightarrow> append_family_actions rc catalog family_id (Some candidate) st)
          ([], {}) candidates))"

definition expand_nodes :: "render_context \<Rightarrow> (string \<Rightarrow> catalog_family option)
    \<Rightarrow> graph_error + append_state" where
  "expand_nodes rc catalog =
     res_bind (ok_or (MissingExpand (rc_key rc))
       (Option.bind (yaml_path (rc_root rc)
          [''candidate_generators'', ''expand'', rc_key rc, ''family_order'']) as_sequence))
       (\<lambda>family_order.
     Inr (foldl (\<lambda>st family_id. append_family_actions rc catalog family_id None st) ([], {})
            (List.map_filter as_str family_order)))"

definition context_of :: "file_system \<Rightarrow> yaml \<Rightarrow> load_options \<Rightarrow> bool \<Rightarrow> render_context" where
  "context_of fs root opts use_action_values =
     \<lparr> rc_fs = fs, rc_root = root, rc_key = lo_protocol_key opts,
       rc_use_action_values = use_action_values, rc_aliases = lo_payload_aliases opts,
       rc_strategy_values = lo_strategy_values opts \<rparr>"

definition catalog_nodes :: "file_system \<Rightarrow> yaml \<Rightarrow> load_options \<Rightarrow> graph_error + append_state" where
  "catalog_nodes fs root opts =
     res_bind (ok_or MissingFamilies (value_seq root ''families'')) (\<lambda>families.
     let catalog = catalog_families families;
         catalog_order = List.map_filter (\<lambda>f. Option.bind (yaml_get f ''id'') as_str) families;
         mode = lo_search_mode opts
     in if mode = ''signal'' then signal_nodes (context_of fs root opts False) catalog
        else if mode = ''expand'' then expand_nodes (context_of fs root opts True) catalog
        else if mode = ''force'' then
          Inr (foldl (\<lambda>st family_id.
                 append_family_actions (context_of fs root opts True) catalog family_id None st)
               ([], {}) catalog_order)
        else Inl (UnsupportedSearchMode mode))"

definition select_with :: "load_options \<Rightarrow> strategy_node list \<Rightarrow> strategy_node list" where
  "select_with opts nodes =
     select_diverse_nodes nodes (lo_protocol_key opts) (lo_max_candidates opts) (lo_max_per_family opts)
       (lo_max_per_action opts) (lo_round_robin_families opts)"

definition parse_catalog_strategies :: "file_system \<Rightarrow> yaml \<Rightarrow> load_options
    \<Rightarrow> graph_error + strategy_node list" where
  "parse_catalog_strategies fs root opts =
     res_bind (catalog_nodes fs root opts) (\<lambda>(nodes, _).
     if nodes = [] then Inl (NoCandidates (lo_protocol_key opts) (lo_search_mode opts))
     else Inr (select_with opts nodes))"

text \<open>\<open>serde_yaml::from_value\<close> for a node belongs to serde: it is the argument \<open>decode\<close>.\<close>

fun decode_all :: "(yaml \<Rightarrow> 'a option) \<Rightarrow> yaml list \<Rightarrow> 'a list option" where
  "decode_all decode [] = Some []"
| "decode_all decode (v # vs) =
     Option.bind (decode v) (\<lambda>x. map_option (Cons x) (decode_all decode vs))"

definition parse_simple_strategies :: "(yaml \<Rightarrow> strategy_node option) \<Rightarrow> yaml list
    \<Rightarrow> graph_error + strategy_node list" where
  "parse_simple_strategies decode strategies =
     res_bind (ok_or GeDecode (decode_all decode strategies)) (\<lambda>nodes.
     Inr (map (\<lambda>node.
       normalize_single_node
         (if sn_action_id node = [] \<or> sn_action_id node = ''manual''
          then node\<lparr> sn_action_id := sn_family node \<rparr> else node)) nodes))"

definition add_combined :: "load_options \<Rightarrow> strategy_node list \<Rightarrow> strategy_node list" where
  "add_combined opts nodes =
     (case lo_strategy_combinations opts of
        None \<Rightarrow> nodes
      | Some cfg \<Rightarrow>
          let remaining = lo_max_candidates opts - length nodes in
          if remaining > 0
          then nodes @ take remaining (generate_combined_nodes (lo_protocol_key opts) nodes cfg)
          else nodes)"

definition load_for_protocol_mode ::
  "file_system \<Rightarrow> (path \<Rightarrow> string option) \<Rightarrow> (string \<Rightarrow> string + yaml)
     \<Rightarrow> (yaml \<Rightarrow> strategy_node option) \<Rightarrow> path \<Rightarrow> load_options \<Rightarrow> graph_error + strategy_node list" where
  "load_for_protocol_mode fs read_to_string parse_yaml decode strategies_path opts =
     res_bind (ok_or GeRead (read_to_string strategies_path)) (\<lambda>text.
     res_bind (lift_err GeYaml (parse_yaml text)) (\<lambda>root.
     res_bind (case value_seq root ''strategies'' of
                 Some strategies \<Rightarrow>
                   res_bind (parse_simple_strategies decode strategies) (\<lambda>ns. Inr (select_with opts ns))
               | None \<Rightarrow> parse_catalog_strategies fs root opts) (\<lambda>nodes.
     Inr (add_combined opts nodes))))"

text \<open>Loading with the default options; only the library's users call these two.\<close>

definition no_strategy_limit :: nat where
  "no_strategy_limit = 2 ^ 64 - 1"

definition default_round_robin_families :: bool where
  "default_round_robin_families = True"

definition default_load_options :: "string \<Rightarrow> load_options" where
  "default_load_options protocol_key =
     \<lparr> lo_protocol_key = protocol_key, lo_search_mode = ''signal'',
       lo_max_candidates = no_strategy_limit, lo_max_per_family = no_strategy_limit,
       lo_max_per_action = no_strategy_limit,
       lo_round_robin_families = default_round_robin_families,
       lo_payload_aliases = None, lo_strategy_values = None, lo_strategy_combinations = None \<rparr>"

definition graph_load_for_protocol ::
  "file_system \<Rightarrow> (path \<Rightarrow> string option) \<Rightarrow> (string \<Rightarrow> string + yaml)
     \<Rightarrow> (yaml \<Rightarrow> strategy_node option) \<Rightarrow> path \<Rightarrow> string \<Rightarrow> graph_error + strategy_node list" where
  "graph_load_for_protocol fs read_to_string parse_yaml decode strategies_path protocol_key =
     load_for_protocol_mode fs read_to_string parse_yaml decode strategies_path
       (default_load_options protocol_key)"

definition graph_load ::
  "file_system \<Rightarrow> (path \<Rightarrow> string option) \<Rightarrow> (string \<Rightarrow> string + yaml)
     \<Rightarrow> (yaml \<Rightarrow> strategy_node option) \<Rightarrow> path \<Rightarrow> graph_error + strategy_node list" where
  "graph_load fs read_to_string parse_yaml decode strategies_path =
     load_for_protocol_mode fs read_to_string parse_yaml decode strategies_path
       (default_load_options ''tls13'')"

section \<open>All combinations of the parameters\<close>

definition combo_of :: "combo \<Rightarrow> (string \<times> string list) list \<Rightarrow> bool" where
  "combo_of c kvs \<longleftrightarrow> list_all2 (\<lambda>(k, v) (k', vs). k = k' \<and> v \<in> set vs) c kvs"

lemma param_combinations_snoc:
  "param_combinations (kvs @ [(key, vs)]) =
     concat (map (\<lambda>c. map (\<lambda>v. c @ [(key, v)]) vs) (param_combinations kvs))"
  by (simp add: param_combinations_def)

lemma combo_of_snoc:
  "combo_of c (kvs @ [(key, vs)]) \<longleftrightarrow> (\<exists>c' v. c = c' @ [(key, v)] \<and> combo_of c' kvs \<and> v \<in> set vs)"
proof
  assume "combo_of c (kvs @ [(key, vs)])"
  then obtain c' z where "c = c' @ z" "combo_of c' kvs" "list_all2 (\<lambda>(k, v) (k', vs). k = k' \<and> v \<in> set vs) z [(key, vs)]"
    by (auto simp: combo_of_def list_all2_append2)
  then show "\<exists>c' v. c = c' @ [(key, v)] \<and> combo_of c' kvs \<and> v \<in> set vs"
    by (auto simp: list_all2_Cons2)
qed (auto simp: combo_of_def intro: list_all2_appendI)

text \<open>
  The parameter combinations are the full Cartesian product: exactly the assignments that
  give every key, in order, one of its values, and as many as the product of the value counts.
\<close>

theorem param_combinations_product:
  "set (param_combinations kvs) = {c. combo_of c kvs} \<and>
   length (param_combinations kvs) = prod_list (map (\<lambda>(_, vs). length vs) kvs)"
proof (induction kvs rule: rev_induct)
  case Nil
  then show ?case by (auto simp: param_combinations_def combo_of_def)
next
  case (snoc kv kvs)
  obtain key vs where kv: "kv = (key, vs)" by (cases kv)
  have "set (param_combinations (kvs @ [(key, vs)])) = {c. combo_of c (kvs @ [(key, vs)])}"
    using snoc.IH by (auto simp: param_combinations_snoc combo_of_snoc)
  moreover have "length (concat (map (\<lambda>c. map (\<lambda>v. c @ [(key, v)]) vs) xs)) = length xs * length vs"
    for xs :: "combo list" by (induction xs) auto
  ultimately show ?case using snoc.IH by (simp add: kv param_combinations_snoc)
qed

section \<open>The arguments of a strategy\<close>

lemma strip_prefix_append [simp]: "strip_prefix p (p @ r) = Some r"
  by simp

lemma insert_before_last: "insert_at (length xs) y (xs @ [z]) = xs @ [y, z]"
  by (simp add: insert_at_def)

lemma takeWhile_not_all: "\<forall>x \<in> set xs. \<not> P x \<Longrightarrow> P z \<Longrightarrow> takeWhile (\<lambda>x. \<not> P x) (xs @ [z]) = xs"
  by (induction xs) auto

lemma lua_position_last:
  assumes "\<forall>x \<in> set xs. \<not> is_lua_desync x" and "is_lua_desync z"
  shows "lua_position (xs @ [z]) = length xs"
  using takeWhile_not_all[of xs is_lua_desync z] assms
  by (simp add: lua_position_def position_def Let_def)

lemma is_lua_desync_arg: "is_lua_desync (''--lua-desync='' @ lua)"
  unfolding is_lua_desync_def starts_with_iff by blast

lemma blob_not_lua: "\<not> is_lua_desync (''--blob='' @ s)"
  by (simp add: is_lua_desync_def starts_with_iff)

lemma sentinel_part_blobs: "list_all (starts_with ''--blob='') (snd (sentinel_part part))"
  unfolding sentinel_part_def
  by (auto split: option.splits simp: starts_with_iff simp del: append.simps)

lemma blob_options_shape:
  "\<exists>blobs lua'. apply_blob_file_options [''--lua-desync='' @ lua] = blobs @ [''--lua-desync='' @ lua'] \<and>
     list_all (starts_with ''--blob='') blobs \<and> distinct blobs"
proof -
  let ?r = "replace_blob_file_sentinels lua"
  have lp: "lua_position [''--lua-desync='' @ l] = 0" for l
    using lua_position_last[of "[]"] is_lua_desync_arg by simp
  have rw: "rewrite_blob_arg (''--lua-desync='' @ lua) =
      (if snd ?r = [] then (''--lua-desync='' @ lua, []) else (''--lua-desync='' @ fst ?r, snd ?r))"
    by (simp add: rewrite_blob_arg_def split_def Let_def)
  have blobs: "list_all (starts_with ''--blob='') (snd ?r)"
    using sentinel_part_blobs
    by (auto simp: replace_blob_file_sentinels_def Let_def list_all_iff)
  show ?thesis
  proof (cases "snd ?r = []")
    case True
    then show ?thesis
      by (intro exI[of _ "[]"] exI[of _ lua])
         (simp add: apply_blob_file_options_def rw Let_def del: append.simps)
  next
    case False
    have "list_all (starts_with ''--blob='') (dedup_preserve_order (snd ?r))"
      using blobs dedup_by_subset[of "\<lambda>x. x" "[]" "snd ?r"]
      by (auto simp: dedup_preserve_order_def list_all_iff)
    moreover have "distinct (dedup_preserve_order (snd ?r))"
      using dedup_by_distinct[of "\<lambda>x. x"] by (simp add: dedup_preserve_order_def)
    ultimately show ?thesis
      using False
      by (intro exI[of _ "dedup_preserve_order (snd ?r)"] exI[of _ "fst ?r"])
         (simp add: apply_blob_file_options_def rw Let_def lp del: append.simps)
  qed
qed

lemma prefix_not_payload:
  "\<not> is_payload_option (''--blob='' @ s)" "\<not> is_payload_option (''--lua-desync='' @ s)"
  "is_payload_option (''--payload='' @ s)"
  by (simp_all add: is_payload_option_def starts_with_iff)

text \<open>
  The arguments of a generated strategy are, in this order, the \<^verbatim>\<open>--blob=\<close> definitions
  without repetition, at most one \<^verbatim>\<open>--payload=\<close> filter, and the one \<^verbatim>\<open>--lua-desync=\<close>
  action they apply to: nfqws reads them in that order.
\<close>

theorem strategy_args_shape:
  "\<exists>blobs payload lua'. strategy_args key lua = blobs @ payload @ [''--lua-desync='' @ lua'] \<and>
     list_all (starts_with ''--blob='') blobs \<and> distinct blobs \<and>
     list_all (starts_with ''--payload='') payload \<and> length payload \<le> 1"
proof -
  obtain blobs lua' where ap: "apply_blob_file_options [''--lua-desync='' @ lua] =
      blobs @ [''--lua-desync='' @ lua']" and bl: "list_all (starts_with ''--blob='') blobs"
    and d: "distinct blobs"
    using blob_options_shape by blast
  let ?z = "''--lua-desync='' @ lua'"
  have b: "\<not> is_payload_option x \<and> \<not> is_lua_desync x" if "x \<in> set blobs" for x
    using bl that prefix_not_payload(1) blob_not_lua
    by (metis list_all_iff starts_with_iff)
  then have np: "\<not> list_ex is_payload_option (blobs @ [?z])"
    using prefix_not_payload(2) by (auto simp: list_ex_iff simp del: append.simps)
  have pos: "lua_position (blobs @ [?z]) = length blobs"
    using b is_lua_desync_arg by (intro lua_position_last) blast+
  let ?ps = "lua_desync_payloads (blobs @ [?z]) (Some key)"
  let ?pay = "if ?ps = [] then [] else [''--payload='' @ join '','' ?ps]"
  have "strategy_args key lua = blobs @ ?pay @ [?z]"
    unfolding strategy_args_def ap ensure_payload_option_def Let_def pos
    using np insert_before_last[of blobs] by (auto simp del: append.simps)
  moreover have "list_all (starts_with ''--payload='') ?pay" by (auto simp: starts_with_iff)
  ultimately show ?thesis using bl d by (intro exI[of _ blobs] exI[of _ ?pay] exI[of _ lua']) auto
qed

section \<open>The sentinel of a blob file is undone\<close>

lemma sanitize_chars: "c \<in> set (sanitize_blob_name v) \<Longrightarrow> is_alnum c \<or> c = CHR ''_''"
proof -
  have low: "is_alnum (lower_char c) \<or> lower_char c = CHR ''_''" if "is_alnum c \<or> c = CHR ''_''" for c
  proof (cases "is_upper c")
    case True
    then have "is_lower (lower_char c)"
      by (simp add: lower_char_def is_upper_def is_lower_def of_char_of)
    then show ?thesis by (simp add: is_alnum_def)
  next
    case False
    with that show ?thesis by (simp add: lower_char_def)
  qed
  let ?f = "\<lambda>x. case x of Some c \<Rightarrow> if is_alnum c \<or> c = CHR ''_'' then lower_char c else CHR ''_''
                   | None \<Rightarrow> CHR ''_''"
  have "is_alnum (?f x) \<or> ?f x = CHR ''_''" for x
    using low by (cases x) (simp_all del: de_Morgan_disj)
  moreover have "set (sanitize_blob_name v) \<subseteq> insert (CHR ''_'') (?f ` set (ascii_chars v))"
    by (simp add: sanitize_blob_name_def Let_def) blast
  ultimately show "c \<in> set (sanitize_blob_name v) \<Longrightarrow> is_alnum c \<or> c = CHR ''_''" by blast
qed

lemma special_not_alnum: "\<not> is_alnum (CHR ''@'')" "\<not> is_alnum (CHR '':'')"
  by code_simp+



section \<open>The loaded strategies\<close>

text \<open>The candidates generated from a catalogue so far: each runs its own arguments.\<close>

definition append_inv :: "render_context \<Rightarrow> (string \<Rightarrow> catalog_family option) \<Rightarrow> append_state \<Rightarrow> bool" where
  "append_inv rc catalog st \<longleftrightarrow>
     distinct (map node_key (fst st)) \<and> snd st = node_key ` set (fst st) \<and>
     (\<forall>n \<in> set (fst st). \<exists>family action lua. catalog (sn_family n) = Some family \<and>
        cf_enabled family \<and> protocol_matches (cf_protocols family) (rc_key rc) [] \<and>
        action \<in> set (cf_actions family) \<and> ca_id action = sn_action_id n \<and>
        \<not> contains_sub ''_legacy'' (ca_id action) \<and> \<not> unresolved lua \<and>
        sn_args n = strategy_args (rc_key rc) lua \<and> \<not> sn_is_combined n)"

lemma append_variant_inv:
  assumes "append_inv rc catalog st" and "catalog (cf_id family) = Some family"
    and "cf_enabled family" "protocol_matches (cf_protocols family) (rc_key rc) []"
    and "action \<in> set (cf_actions family)" "\<not> contains_sub ''_legacy'' (ca_id action)"
    and "\<not> unresolved lua"
  shows "append_inv rc catalog (append_variant (rc_key rc) family action st lua)"
proof -
  obtain nodes seen where st: "st = (nodes, seen)" by (cases st)
  let ?args = "strategy_args (rc_key rc) lua"
  show ?thesis
  proof (cases "args_key ?args \<in> seen")
    case True
    with assms(1) show ?thesis by (simp add: append_variant_def st Let_def)
  next
    case False
    obtain n where n: "append_variant (rc_key rc) family action st lua =
        (nodes @ [n], insert (args_key ?args) seen)"
      and f: "sn_family n = cf_id family" "sn_action_id n = ca_id action" "sn_args n = ?args"
        "\<not> sn_is_combined n"
      using False by (simp add: append_variant_def st Let_def)
    have "node_key n = args_key ?args" by (simp add: node_key_def f)
    then show ?thesis
      unfolding n using assms f False
      by (auto simp: append_inv_def st)
  qed
qed

text \<open>A catalogue maps an id to a family of that id.\<close>

definition catalog_wf :: "(string \<Rightarrow> catalog_family option) \<Rightarrow> bool" where
  "catalog_wf catalog \<longleftrightarrow> (\<forall>id f. catalog id = Some f \<longrightarrow> cf_id f = id)"

lemma catalog_families_wf: "catalog_wf (catalog_families families)"
  unfolding catalog_families_def
  by (rule foldl_invariant[where P = catalog_wf])
     (auto simp: catalog_wf_def split: option.splits)

lemma append_family_inv:
  assumes "append_inv rc catalog st" and "catalog_wf catalog"
  shows "append_inv rc catalog (append_family_actions rc catalog family_id candidate st)"
proof (cases "catalog family_id")
  case None
  with assms show ?thesis by (simp add: append_family_actions_def)
next
  case (Some family)
  with assms(2) have id: "catalog (cf_id family) = Some family" by (auto simp: catalog_wf_def)
  show ?thesis
  proof (cases "\<not> cf_enabled family \<or> \<not> protocol_matches (cf_protocols family) (rc_key rc) []")
    case True
    with Some assms show ?thesis by (simp add: append_family_actions_def)
  next
    case False
    have step: "append_inv rc catalog (foldl (append_variant (rc_key rc) family action) st
        (render_lua_desync_variants rc action ov))"
      if "append_inv rc catalog st" "action \<in> set (cf_actions family)"
        "action_selected (rc_key rc) flt action" for st action flt ov
    proof (rule foldl_invariant[where P = "append_inv rc catalog"])
      fix st' lua assume "append_inv rc catalog st'"
        "lua \<in> set (render_lua_desync_variants rc action ov)"
      with id False that(2,3) show
        "append_inv rc catalog (append_variant (rc_key rc) family action st' lua)"
        by (intro append_variant_inv) (auto simp: action_selected_def render_lua_desync_variants_def)
    qed (rule that(1))
    show ?thesis
      unfolding append_family_actions_def Some Let_def
      using False assms(1) by (simp) (rule foldl_invariant[where P = "append_inv rc catalog"], auto intro: step)
  qed
qed

lemma append_inv_init: "append_inv rc catalog ([], {})"
  by (simp add: append_inv_def)

lemma signal_nodes_inv:
  assumes "signal_nodes rc catalog = Inr st" and "catalog_wf catalog"
  shows "append_inv rc catalog st"
  using assms
  by (auto simp: signal_nodes_def res_bind_Inr_iff
      intro!: foldl_invariant[where P = "append_inv rc catalog"] append_inv_init
        append_family_inv split: option.splits)

lemma expand_nodes_inv:
  assumes "expand_nodes rc catalog = Inr st" and "catalog_wf catalog"
  shows "append_inv rc catalog st"
  using assms
  by (auto simp: expand_nodes_def res_bind_Inr_iff
      intro!: foldl_invariant[where P = "append_inv rc catalog"] append_inv_init append_family_inv)

lemma catalog_nodes_inv:
  assumes "catalog_nodes fs root opts = Inr st"
  shows "\<exists>families b. value_seq root ''families'' = Some families \<and>
    append_inv (context_of fs root opts b) (catalog_families families) st"
proof -
  obtain families where f: "value_seq root ''families'' = Some families"
    using assms by (auto simp: catalog_nodes_def res_bind_Inr_iff ok_or_Inr_iff)
  let ?c = "catalog_families families"
  consider "signal_nodes (context_of fs root opts False) ?c = Inr st"
    | "expand_nodes (context_of fs root opts True) ?c = Inr st"
    | "\<exists>ids. st = foldl (\<lambda>st family_id.
         append_family_actions (context_of fs root opts True) ?c family_id None st) ([], {}) ids"
    using assms f by (auto simp: catalog_nodes_def Let_def ok_or_def split: if_splits)
  then show ?thesis
  proof cases
    case 1
    with f show ?thesis using signal_nodes_inv[OF _ catalog_families_wf] by blast
  next
    case 2
    with f show ?thesis using expand_nodes_inv[OF _ catalog_families_wf] by blast
  next
    case 3
    then obtain ids where st: "st = foldl (\<lambda>st family_id.
         append_family_actions (context_of fs root opts True) ?c family_id None st) ([], {}) ids"
      by blast
    have "append_inv (context_of fs root opts True) ?c st"
      unfolding st
      by (rule foldl_invariant[where P = "append_inv (context_of fs root opts True) ?c"])
         (auto intro: append_inv_init append_family_inv catalog_families_wf)
    with f show ?thesis by blast
  qed
qed


text \<open>A catalogue with one family of two actions, one of them a legacy one.\<close>

definition tiny_catalog :: yaml where
  "tiny_catalog = YMapping [(YString ''families'', YSequence [YMapping
     [(YString ''id'', YString ''fake''),
      (YString ''protocols'', YSequence [YString ''http'']),
      (YString ''actions'', YSequence
        [YMapping [(YString ''id'', YString ''f_legacy''),
           (YString ''protocols'', YSequence [YString ''http'']),
           (YString ''render'', YMapping [(YString ''lua_desync'', YString ''fake'')])],
         YMapping [(YString ''id'', YString ''f''),
           (YString ''protocols'', YSequence [YString ''http'']),
           (YString ''render'', YMapping [(YString ''lua_desync'', YString ''fake'')])]])]])]"

definition tiny_options :: load_options where
  "tiny_options = \<lparr> lo_protocol_key = ''http'', lo_search_mode = ''force'', lo_max_candidates = 5,
     lo_max_per_family = 5, lo_max_per_action = 5, lo_round_robin_families = True,
     lo_payload_aliases = None, lo_strategy_values = None, lo_strategy_combinations = None \<rparr>"

lemma tiny_args: "strategy_args ''http'' ''fake'' = [''--payload=http_req'', ''--lua-desync=fake'']"
  by (simp add: strategy_args_def apply_blob_file_options_def rewrite_blob_arg_def
      replace_blob_file_sentinels_def sentinel_part_def ensure_payload_option_def
      is_payload_option_def lua_desync_payloads_def add_payload_items_def lua_payload_def
      explicit_lua_payload_def inferred_lua_payload_def lua_function_name_def
      lua_function_uses_standard_payload_def lua_position_def position_def is_lua_desync_def
      insert_at_def eval_simps del: strip_prefix_Some_iff)

lemma tiny_families:
  "value_seq tiny_catalog ''families'' = Some fs \<Longrightarrow> catalog_families fs ''fake'' = Some
    \<lparr> cf_id = ''fake'', cf_enabled = True, cf_protocols = [''http''], cf_cost = f64_5, cf_risk = f64_3,
      cf_prior = (f64_2, f64_2), cf_actions =
       [\<lparr> ca_id = ''f_legacy'', ca_protocols = [''http''], ca_template = ''fake'', ca_params = None \<rparr>,
        \<lparr> ca_id = ''f'', ca_protocols = [''http''], ca_template = ''fake'', ca_params = None \<rparr>] \<rparr>"
  by (auto simp: tiny_catalog_def catalog_families_def parse_family_def parse_action_def
      parse_prior_def eval_simps)

lemma tiny_nodes:
  "catalog_nodes fs tiny_catalog tiny_options =
     Inr ([\<lparr> sn_id = ''http_fake_f_0'', sn_family = ''fake'', sn_action_id = ''f'',
            sn_args = [''--payload=http_req'', ''--lua-desync=fake''],
            sn_components = [\<lparr> co_family = ''fake'', co_action_id = ''f'',
              co_args = [''--payload=http_req'', ''--lua-desync=fake''] \<rparr>],
            sn_is_combined = False, sn_cost = f64_5, sn_risk = f64_3, sn_prior = (f64_2, f64_2) \<rparr>],
          {args_key [''--payload=http_req'', ''--lua-desync=fake'']})"
proof -
  obtain fams where f: "value_seq tiny_catalog ''families'' = Some fams"
    and ids: "List.map_filter (\<lambda>f. Option.bind (yaml_get f ''id'') as_str) fams = [''fake'']"
    by (simp add: tiny_catalog_def eval_simps)
  have r: "render_lua_desync_variants rc
      \<lparr> ca_id = ''f'', ca_protocols = [''http''], ca_template = ''fake'', ca_params = None \<rparr> None = [''fake'']" for rc
    by (simp add: render_lua_desync_variants_def merged_param_values_def param_combinations_def
        render_combo_def apply_suffixes_def suffixes_def replace_sub.simps unresolved_def
        contains_sub_def fooling_suffix_def tls_mod_suffix_def combo_get_def eval_simps)
  have d: "dec_of_nat 0 = ''0''"
    by (simp add: dec_of_nat_def radix_of_nat.simps digit_char_def char_of_def bit_0)
  show ?thesis
    by (simp add: catalog_nodes_def f ids ok_or_def tiny_options_def[THEN arg_cong, of lo_search_mode]
        append_family_actions_def tiny_families[OF f] action_selected_def
        protocol_matches_def contains_sub_def context_of_def tiny_options_def starts_with_eval
        Let_def r append_variant_def tiny_args d)
qed


text \<open>
  C25: What loading a catalogue or a plain strategy list returns: at most \<^verbatim>\<open>max_candidates\<close>
  strategies, the selected single ones first, which run different arguments and respect the caps
  per family and per action, followed by combined ones that again run different arguments.
\<close>

theorem load_bounded:
  assumes "load_for_protocol_mode fs read_file parse_yaml decode p opts = Inr nodes"
  shows "\<exists>singles combined. nodes = singles @ combined \<and> length nodes \<le> lo_max_candidates opts \<and>
    distinct (map node_key singles) \<and> distinct (map node_key combined) \<and>
    distinct (map sn_id singles) \<and>
    (\<forall>f. length (family_group singles f) \<le> lo_max_per_family opts) \<and>
    (\<forall>a. length (action_group singles a) \<le> lo_max_per_action opts) \<and>
    list_all sn_is_combined combined"
proof -
  obtain base where n: "nodes = add_combined opts (select_with opts base)"
    using assms
    by (auto simp: load_for_protocol_mode_def parse_catalog_strategies_def res_bind_Inr_iff
        split: option.splits if_splits)
  let ?s = "select_with opts base"
  obtain ids where c: "nodes = ?s @ take (lo_max_candidates opts - length ?s) ids"
    and ids: "distinct (map node_key ids)" "list_all sn_is_combined ids"
  proof (cases "lo_strategy_combinations opts")
    case None
    with n that[of "[]"] show thesis by (simp add: add_combined_def)
  next
    case (Some cfg)
    let ?c = "generate_combined_nodes (lo_protocol_key opts) ?s cfg"
    have "list_all sn_is_combined ?c"
      using combined_nodes_sound[of "lo_protocol_key opts" ?s cfg]
      by (auto simp: number_combined_def combined_node_def list_all_iff)
    with Some n that[of ?c] combined_nodes_sound[of "lo_protocol_key opts" ?s cfg] show thesis
      by (auto simp: add_combined_def Let_def split: if_splits)
  qed
  have caps: "length ?s \<le> lo_max_candidates opts" "distinct (map node_key ?s)" "distinct (map sn_id ?s)"
    "\<forall>f. length (family_group ?s f) \<le> lo_max_per_family opts"
    "\<forall>a. length (action_group ?s a) \<le> lo_max_per_action opts"
    using select_diverse_sound[of base "lo_protocol_key opts" "lo_max_candidates opts"
        "lo_max_per_family opts" "lo_max_per_action opts" "lo_round_robin_families opts"]
    by (simp_all add: select_with_def Let_def)
  let ?t = "take (lo_max_candidates opts - length ?s) ids"
  have "distinct (map node_key ?t)" using ids(1) by (metis distinct_take take_map)
  moreover have "list_all sn_is_combined ?t" using ids(2) by (auto simp: list_all_iff dest: in_set_takeD)
  ultimately show ?thesis using c caps by (intro exI[of _ ?s] exI[of _ ?t]) simp
qed

theorem load_bounded_witness:
  "\<exists>nodes. load_for_protocol_mode all_files (\<lambda>_. Some []) (\<lambda>_. Inr tiny_catalog) (\<lambda>_. None)
     ''strategies.yaml'' tiny_options = Inr nodes \<and> length nodes \<le> 5"
proof -
  obtain nodes where n: "load_for_protocol_mode all_files (\<lambda>_. Some []) (\<lambda>_. Inr tiny_catalog)
      (\<lambda>_. None) ''strategies.yaml'' tiny_options = Inr nodes"
  proof -
    have "value_seq tiny_catalog ''strategies'' = None" by (simp add: tiny_catalog_def eval_simps)
    then show thesis
      using that
      by (simp add: load_for_protocol_mode_def ok_or_def lift_err_def parse_catalog_strategies_def
          tiny_nodes)
  qed
  have "lo_max_candidates tiny_options = 5" by (simp add: tiny_options_def)
  with load_bounded[OF n] n show ?thesis by auto
qed

end
