(* ===== verification/Http.thy ===== *)
theory Http
  imports Types RustStd
begin

text \<open>
  \<^verbatim>\<open>src/probe.rs\<close>, the pure part: parsing the bytes of an HTTP response, deciding when
  enough was read, classifying the outcome, and the text of the request. Bytes are characters.
\<close>

section \<open>Parsing a response\<close>

definition crlf :: string where "crlf = [CHR 0x0D, CHR 0x0A]"

definition header_end :: string where "header_end = crlf @ crlf"

definition parse_http_status :: "string \<Rightarrow> probe_error_class + u16" where
  "parse_http_status bytes =
     (if \<not> utf8_valid bytes then Inl InvalidHttpResponse
      else case lines bytes of
        [] \<Rightarrow> Inl InvalidHttpResponse
      | line # _ \<Rightarrow>
          res_bind (ok_or InvalidHttpResponse (next_word line)) (\<lambda>(proto, rest).
          if \<not> starts_with ''HTTP/'' proto then Inl InvalidHttpResponse
          else res_bind (ok_or InvalidHttpResponse (next_word rest)) (\<lambda>(code, _).
            ok_or InvalidHttpResponse (parse_u16 code))))"

record http_response_read =
  hr_status :: "u16 option"
  hr_header_bytes :: nat
  hr_body_bytes :: nat
  hr_total_bytes :: nat
  hr_first_byte_ms :: "nat option"
  hr_headers_complete :: bool

definition http_response_read_default :: http_response_read where
  "http_response_read_default = \<lparr> hr_status = None, hr_header_bytes = 0, hr_body_bytes = 0,
     hr_total_bytes = 0, hr_first_byte_ms = None, hr_headers_complete = False \<rparr>"

definition parse_http_response_read :: "string \<Rightarrow> nat option \<Rightarrow> http_response_read" where
  "parse_http_response_read bytes first_byte_ms =
     (let headers_end = find_sub header_end bytes;
          headers_complete = (headers_end \<noteq> None);
          header_bytes = (case headers_end of Some idx \<Rightarrow> idx + 4 | None \<Rightarrow> 0);
          body_bytes = (if headers_complete then length bytes - header_bytes else 0);
          status = (if headers_complete
                    then (case parse_http_status (take header_bytes bytes) of
                            Inr s \<Rightarrow> Some s | Inl _ \<Rightarrow> None)
                    else None)
      in \<lparr> hr_status = status, hr_header_bytes = header_bytes, hr_body_bytes = body_bytes,
           hr_total_bytes = length bytes, hr_first_byte_ms = first_byte_ms,
           hr_headers_complete = headers_complete \<rparr>)"

section \<open>Classification\<close>

definition status_is_success :: "u16 option \<Rightarrow> bool" where
  "status_is_success status = (case status of Some s \<Rightarrow> 200 \<le> s \<and> s < 400 | None \<Rightarrow> False)"

definition is_http_block_status :: "u16 \<Rightarrow> bool" where
  "is_http_block_status s \<longleftrightarrow> s = 403 \<or> s = 451"

definition probe_outcome_for_http_status :: "u16 option \<Rightarrow> probe_outcome" where
  "probe_outcome_for_http_status status =
     (case status of
        Some s \<Rightarrow> if is_http_block_status s then HttpBlockPage
                  else if status_is_success (Some s) then Success
                  else EmptyResponse
      | None \<Rightarrow> EmptyResponse)"

definition classify_http_response ::
  "u16 option \<Rightarrow> bool \<Rightarrow> nat \<Rightarrow> http_method \<Rightarrow> read_mode \<Rightarrow> nat
     \<Rightarrow> probe_outcome \<times> probe_error_class option \<times> string option" where
  "classify_http_response status headers_complete body_bytes mth mode min_body_bytes =
     (if \<not> headers_complete then
        (EmptyResponse, Some InvalidHttpResponse, Some ''HTTP response headers incomplete'')
      else case status of
        None \<Rightarrow> (EmptyResponse, Some InvalidHttpResponse, Some ''invalid HTTP response status'')
      | Some s \<Rightarrow>
          if is_http_block_status s then
            (HttpBlockPage, Some InvalidHttpResponse, Some ''HTTP block page/status'')
          else if \<not> status_is_success (Some s) then
            (EmptyResponse, Some InvalidHttpResponse,
             Some (''HTTP status '' @ dec_of_nat (unat s) @ '' not in 2xx/3xx''))
          else if mth = Head \<or> mode = Headers then (Success, None, None)
          else if min_body_bytes \<le> body_bytes then (Success, None, None)
          else (BodyTooSmall, Some EcBodyTooSmall,
                Some (''HTTP body too small: got '' @ dec_of_nat body_bytes @ '' bytes, need '' @
                      dec_of_nat min_body_bytes)))"

definition http_read_criteria_met ::
  "http_response_read \<Rightarrow> http_method \<Rightarrow> read_mode \<Rightarrow> nat \<Rightarrow> bool" where
  "http_read_criteria_met read mth mode min_body_bytes =
     (if \<not> hr_headers_complete read then False
      else if mth = Head \<or> mode = Headers then True
      else if (case hr_status read of Some s \<Rightarrow> is_http_block_status s | None \<Rightarrow> False) then True
      else if (case hr_status read of Some s \<Rightarrow> \<not> status_is_success (Some s) | None \<Rightarrow> False)
      then True
      else case mode of
        Headers \<Rightarrow> True
      | Body \<Rightarrow> min_body_bytes \<le> hr_body_bytes read
      | Full \<Rightarrow> False)"

definition http_timeout_can_succeed ::
  "http_response_read \<Rightarrow> http_method \<Rightarrow> read_mode \<Rightarrow> nat \<Rightarrow> bool" where
  "http_timeout_can_succeed read mth mode min_body_bytes =
     (if http_read_criteria_met read mth mode min_body_bytes then True
      else mode = Full \<and> hr_headers_complete read \<and> status_is_success (hr_status read) \<and>
           min_body_bytes \<le> hr_body_bytes read)"

definition compute_transfer_level ::
  "nat option \<Rightarrow> nat option \<Rightarrow> http_response_read \<Rightarrow> nat \<Rightarrow> bool \<Rightarrow> transfer_level" where
  "compute_transfer_level connect_ms tls_ms read verify_transfer_bytes uses_tls =
     (if connect_ms = None then TlNone
      else if verify_transfer_bytes \<le> hr_body_bytes read then TlVerified
      else if 0 < hr_body_bytes read then TlBody
      else if hr_headers_complete read then TlHeaders
      else if uses_tls \<and> tls_ms \<noteq> None then TlTlsHandshake
      else TlConnected)"

definition compute_dpi_suspicious :: "bool \<Rightarrow> nat \<Rightarrow> nat \<Rightarrow> probe_outcome \<Rightarrow> bool" where
  "compute_dpi_suspicious response_started total_bytes dpi_detection_bytes outcome \<longleftrightarrow>
     response_started \<and> total_bytes < dpi_detection_bytes \<and> outcome \<noteq> Success"

section \<open>The request\<close>

definition host_header :: "string \<Rightarrow> u16 \<Rightarrow> probe_protocol \<Rightarrow> string" where
  "host_header host port protocol =
     (if port = default_port protocol then host else host @ '':'' @ dec_of_nat (unat port))"

definition build_http_request :: "probe_task \<Rightarrow> string" where
  "build_http_request task =
     (let rq = pt_request task;
          p = (if rq_path_and_query rq = [] then ''/'' else rq_path_and_query rq)
      in method_as_str (rq_method rq) @ '' '' @ p @ '' HTTP/1.1'' @ crlf @
         ''Host: '' @ host_header (pt_target_host task) (pt_target_port task) (pt_protocol task) @ crlf @
         ''User-Agent: '' @ rq_user_agent rq @ crlf @
         ''Accept: */*'' @ crlf @ ''Connection: close'' @ crlf @ crlf)"

section \<open>Properties of the parser\<close>

lemma find_sub_bound: "find_sub pat s = Some i \<Longrightarrow> i + length pat \<le> length s"
proof (induction s arbitrary: i)
  case Nil
  then show ?case by (auto split: if_splits)
next
  case (Cons c s)
  have "starts_with pat (c # s) \<Longrightarrow> length pat \<le> length (c # s)"
    by (metis length_append le_add1 starts_with_iff)
  with Cons show ?case by (auto split: if_splits)
qed

lemma starts_with_longer: "length pat \<le> length s \<Longrightarrow> starts_with pat (s @ t) = starts_with pat s"
  by (auto simp: starts_with_iff append_eq_append_conv2)

text \<open>The first occurrence stays the first one when more bytes arrive.\<close>

lemma find_sub_stable: "find_sub pat s = Some i \<Longrightarrow> find_sub pat (s @ t) = Some i"
proof (induction s arbitrary: i)
  case Nil
  then show ?case by (cases t) (auto split: if_splits simp: starts_with_iff)
next
  case (Cons c s)
  show ?case
  proof (cases "starts_with pat (c # s)")
    case True
    then have "starts_with pat (c # s @ t)"
      by (metis append_Cons append_assoc starts_with_iff)
    with True Cons.prems show ?thesis by simp
  next
    case False
    with Cons.prems obtain j where j: "find_sub pat s = Some j" "i = Suc j" by auto
    then have "length pat \<le> length (c # s)" using find_sub_bound[OF j(1)] by simp
    with False have "\<not> starts_with pat (c # s @ t)"
      using starts_with_longer[of pat "c # s" t] by simp
    with Cons.IH[OF j(1)] j(2) show ?thesis by simp
  qed
qed

lemma length_header_end [simp]: "length header_end = 4"
  by (simp add: header_end_def crlf_def)

lemma response_accounting_sound:
  "let r = parse_http_response_read bytes t in
     hr_total_bytes r = length bytes \<and> hr_first_byte_ms r = t \<and>
     (if contains_sub header_end bytes
      then hr_headers_complete r \<and> 4 \<le> hr_header_bytes r \<and>
           hr_header_bytes r + hr_body_bytes r = length bytes \<and>
           (\<exists>h. take (hr_header_bytes r) bytes = h @ header_end)
      else \<not> hr_headers_complete r \<and> hr_header_bytes r = 0 \<and> hr_body_bytes r = 0 \<and>
           hr_status r = None)"
proof (cases "find_sub header_end bytes")
  case None
  then show ?thesis by (simp add: parse_http_response_read_def contains_sub_def Let_def)
next
  case (Some i)
  have b: "i + 4 \<le> length bytes" using find_sub_bound[OF Some] by simp
  have "starts_with header_end (drop i bytes)"
    using Some by (induction bytes arbitrary: i) (auto split: if_splits simp: starts_with_iff)
  then have "take 4 (drop i bytes) = header_end" by (auto simp: starts_with_iff)
  then have "take (i + 4) bytes = take i bytes @ header_end" by (simp add: take_add)
  with Some b show ?thesis by (auto simp: parse_http_response_read_def contains_sub_def Let_def)
qed

text \<open>
  The byte accounting of a response: headers and body add up to the bytes read once the
  empty line was seen, and nothing is attributed to headers, body or status before that.
\<close>

theorem response_accounting:
  "let r = parse_http_response_read bytes t in
     hr_total_bytes r = length bytes \<and> hr_first_byte_ms r = t \<and>
     (if contains_sub header_end bytes
      then hr_headers_complete r \<and> 4 \<le> hr_header_bytes r \<and>
           hr_header_bytes r + hr_body_bytes r = length bytes \<and>
           (\<exists>h. take (hr_header_bytes r) bytes = h @ header_end)
      else \<not> hr_headers_complete r \<and> hr_header_bytes r = 0 \<and> hr_body_bytes r = 0 \<and>
           hr_status r = None)"
  by (rule response_accounting_sound)

text \<open>
  Once the headers are complete, more data changes the body and total counts only: the
  status and the header length that decided how to go on reading never change.
\<close>

theorem response_headers_stable:
  assumes "hr_headers_complete (parse_http_response_read bytes t)"
  shows "parse_http_response_read (bytes @ more_bytes) t =
    (parse_http_response_read bytes t)\<lparr>
      hr_body_bytes := hr_body_bytes (parse_http_response_read bytes t) + length more_bytes,
      hr_total_bytes := length bytes + length more_bytes \<rparr>"
proof (cases "find_sub header_end bytes")
  case None
  with assms show ?thesis by (simp add: parse_http_response_read_def Let_def)
next
  case (Some i)
  with find_sub_bound[OF Some] show ?thesis
    by (simp add: parse_http_response_read_def find_sub_stable[OF Some] Let_def)
qed

lemma sample_headers:
  "hr_headers_complete (parse_http_response_read (''HTTP/1.1 200 OK'' @ header_end) None)"
  by (simp add: parse_http_response_read_def header_end_def crlf_def Let_def eval_simps)

theorem response_headers_stable_witness:
  "hr_body_bytes (parse_http_response_read ((''HTTP/1.1 200 OK'' @ header_end) @ ''abc'') None) =
     hr_body_bytes (parse_http_response_read (''HTTP/1.1 200 OK'' @ header_end) None) + 3"
  unfolding response_headers_stable[OF sample_headers] by simp

text \<open>
  The verdict on a response, exactly: success needs complete headers, a status of the 2xx or
  3xx range, and, for a method and mode that reads the body, enough body bytes; an error class is
  reported exactly when it is no success.
\<close>

theorem classify_success_iff:
  "classify_http_response status complete body mth mode min_body = (outcome, cls, msg) \<Longrightarrow>
   (outcome = Success \<longleftrightarrow> complete \<and> (\<exists>s. status = Some s \<and> 200 \<le> s \<and> s < 400) \<and>
      (mth = Head \<or> mode = Headers \<or> min_body \<le> body)) \<and>
   (cls = None \<longleftrightarrow> outcome = Success) \<and> (msg = None \<longleftrightarrow> outcome = Success) \<and>
   (outcome = HttpBlockPage \<longleftrightarrow> complete \<and> (status = Some 403 \<or> status = Some 451))"
  by (auto simp: classify_http_response_def status_is_success_def is_http_block_status_def
      word_less_nat_alt word_le_nat_alt split: option.splits if_splits)

theorem classify_success_iff_witness:
  "classify_http_response (Some 302) True 10 Get Body 5 = (Success, None, None)"
  using classify_success_iff[of "Some 302" True 10 Get Body 5]
  by (simp add: classify_http_response_def status_is_success_def is_http_block_status_def
      word_less_nat_alt word_le_nat_alt)

lemma block_not_success: "is_http_block_status s \<Longrightarrow> \<not> status_is_success (Some s)"
  by (auto simp: is_http_block_status_def status_is_success_def word_less_nat_alt)

text \<open>
  C31: when the reading loop stops because it may succeed (the criteria are met, or a full read
  timed out late enough), the verdict is never "body too small", and it is success for every
  2xx or 3xx status: the two decision procedures agree.
\<close>

theorem criteria_agree_with_verdict:
  assumes "http_timeout_can_succeed read mth mode min_body"
  shows "fst (classify_http_response (hr_status read) (hr_headers_complete read)
      (hr_body_bytes read) mth mode min_body) \<noteq> BodyTooSmall \<and>
    (status_is_success (hr_status read) \<longrightarrow>
     fst (classify_http_response (hr_status read) (hr_headers_complete read)
       (hr_body_bytes read) mth mode min_body) = Success)"
proof (cases "hr_status read")
  case None
  then show ?thesis by (simp add: classify_http_response_def status_is_success_def)
next
  case (Some s)
  then show ?thesis
    using assms block_not_success[of s]
    by (cases mode)
       (simp_all add: http_timeout_can_succeed_def http_read_criteria_met_def
          classify_http_response_def split: if_splits)
qed

theorem criteria_agree_with_verdict_witness:
  "fst (classify_http_response (Some 200) True 7 Get Full 7) = Success"
  using criteria_agree_with_verdict[of
      "\<lparr> hr_status = Some 200, hr_header_bytes = 19, hr_body_bytes = 7, hr_total_bytes = 26,
         hr_first_byte_ms = None, hr_headers_complete = True \<rparr>" Get Full 7]
  by (simp add: http_timeout_can_succeed_def status_is_success_def word_less_nat_alt word_le_nat_alt)

section \<open>The request is one request\<close>

lemma find_header_end_line:
  assumes "CHR 0x0D \<notin> set l"
  shows "find_sub header_end (l @ crlf @ rest) =
    (if starts_with crlf rest then Some (length l)
     else map_option ((+) (length l + 2)) (find_sub header_end rest))"
  using assms
proof (induction l)
  case Nil
  have "starts_with header_end (crlf @ rest) = starts_with crlf rest"
    by (simp add: header_end_def crlf_def starts_with_eval)
  moreover have "\<not> starts_with header_end (CHR 0x0A # rest)"
    by (simp add: header_end_def crlf_def starts_with_eval)
  ultimately show ?case
    by (simp add: crlf_def option.map_comp comp_def)
next
  case (Cons c l)
  then have "\<not> starts_with header_end (c # l @ crlf @ rest)"
    by (auto simp: header_end_def crlf_def starts_with_eval)
  with Cons show ?case by (auto simp: option.map_comp comp_def)
qed

text \<open>
  With a host, path and user agent free of carriage returns, the request ends with the first
  empty line it contains: exactly one request head is sent, whatever those fields hold.
\<close>

theorem request_single_head:
  assumes "CHR 0x0D \<notin> set (pt_target_host task)"
    and "CHR 0x0D \<notin> set (rq_path_and_query (pt_request task))"
    and "CHR 0x0D \<notin> set (rq_user_agent (pt_request task))"
  shows "find_sub header_end (build_http_request task) =
    Some (length (build_http_request task) - 4)"
proof -
  let ?rq = "pt_request task"
  let ?l1 = "method_as_str (rq_method ?rq) @ '' '' @ (if rq_path_and_query ?rq = [] then ''/''
      else rq_path_and_query ?rq) @ '' HTTP/1.1''"
  let ?l2 = "''Host: '' @ host_header (pt_target_host task) (pt_target_port task) (pt_protocol task)"
  let ?l3 = "''User-Agent: '' @ rq_user_agent ?rq"
  let ?l4 = "''Accept: */*''" and ?l5 = "''Connection: close''"
  have req: "build_http_request task =
      ?l1 @ crlf @ (?l2 @ crlf @ (?l3 @ crlf @ (?l4 @ crlf @ (?l5 @ crlf @ crlf))))"
    by (simp add: build_http_request_def Let_def)
  have d: "CHR 0x0D \<notin> set (dec_of_nat n)" for n
    by (rule dec_of_nat_not_in) (simp add: is_digit_def)
  have n: "CHR 0x0D \<notin> set ?l1" "CHR 0x0D \<notin> set ?l2" "CHR 0x0D \<notin> set ?l3"
      "CHR 0x0D \<notin> set ?l4" "CHR 0x0D \<notin> set ?l5"
    using assms d by (cases "rq_method ?rq"; auto simp: host_header_def)+
  have s: "\<not> starts_with crlf (?l2 @ r)" "\<not> starts_with crlf (?l3 @ r)"
      "\<not> starts_with crlf (?l4 @ r)" "\<not> starts_with crlf (?l5 @ r)" "starts_with crlf crlf" for r
    by (simp_all add: crlf_def starts_with_eval)
  show ?thesis
    unfolding req
    by (simp only: find_header_end_line n s not_False_eq_True if_False if_True option.map
        length_append) (simp add: crlf_def)
qed

definition sample_request :: http_request_spec where
  "sample_request = \<lparr> rq_method = Get, rq_path_and_query = ''/'', rq_user_agent = ''agent'',
     rq_read_mode = Body, rq_min_body_bytes = 3, rq_dpi_detection_bytes = 16384,
     rq_verify_transfer_bytes = 32768, rq_max_read_bytes = 65536 \<rparr>"

definition sample_timeouts :: probe_timeouts where
  "sample_timeouts = \<lparr> to_connect_ms = 3000, to_tls_ms = 3000, to_first_byte_ms = 5000,
     to_total_ms = 10000 \<rparr>"

definition sample_task :: probe_task where
  "sample_task = \<lparr> pt_strategy_id = ''s'', pt_worker_id = 0, pt_strategy_args = [],
     pt_target_host = ''example.org'', pt_target_ip = V4 0, pt_target_port = 8080,
     pt_protocol = HttpPlain, pt_path = ''/'', pt_request = sample_request,
     pt_timeouts = sample_timeouts \<rparr>"

theorem request_single_head_witness:
  "find_sub header_end (build_http_request sample_task) =
     Some (length (build_http_request sample_task) - 4)"
  by (rule request_single_head) (simp_all add: sample_task_def sample_request_def)

end
