(* ===== verification/World.thy ===== *)
theory World
  imports NetAddr RustStd
begin

text \<open>
  The operating system as the effectful components see it: commands that are run, child processes
  and sleeps. The program's state is the log of what happened so far; the system answers every
  call by a function of the log, so it may answer the same call differently every time. An
  operation returns its result and the extended log. Also the two pieces of Rust's formatting the
  messages use.
\<close>

section \<open>Formatting\<close>

text \<open>\<open>{:?}\<close> of strings and vectors of strings, for ASCII text.\<close>

definition debug_char :: "char \<Rightarrow> string" where
  "debug_char c =
     (if c = CHR 0x22 \<or> c = CHR 0x5C then [CHR 0x5C, c]
      else if c = CHR 0x09 then [CHR 0x5C, CHR ''t'']
      else if c = CHR 0x0A then [CHR 0x5C, CHR ''n'']
      else if c = CHR 0x0D then [CHR 0x5C, CHR ''r'']
      else if c = CHR 0x00 then [CHR 0x5C, CHR ''0'']
      else if (of_char c :: nat) < 32 \<or> (of_char c :: nat) = 127
      then CHR 0x5C # ''u{'' @ radix_of_nat 16 (of_char c) @ ''}''
      else [c])"

definition debug_str :: "string \<Rightarrow> string" where
  "debug_str s = CHR 0x22 # concat (map debug_char s) @ [CHR 0x22]"

definition debug_strs :: "string list \<Rightarrow> string" where
  "debug_strs ss = ''['' @ join '', '' (map debug_str ss) @ '']''"

text \<open>\<open>str::rsplit_once\<close> with a string as separator.\<close>

definition rsplit_once_sub :: "string \<Rightarrow> string \<Rightarrow> (string \<times> string) option" where
  "rsplit_once_sub p s =
     (case find_sub (rev p) (rev s) of
        None \<Rightarrow> None
      | Some i \<Rightarrow> Some (take (length s - i - length p) s, drop (length s - i) s))"

section \<open>The operating system\<close>

text \<open>An I/O result of the runtime: \<open>Inl\<close> is the text of the error.\<close>

type_synonym 'a io = "string + 'a"

text \<open>What a finished command leaves; the status is the text Rust prints for it.\<close>

record cmd_output =
  co_success :: bool
  co_status :: string
  co_stdout :: string
  co_stderr :: string

text \<open>A child process is named by the length of the log at its start.\<close>

type_synonym child = nat

datatype event =
    Ran string "string list" "cmd_output io"
  | Fed string "string list" string "cmd_output io"
  | Spawned string "string list" "string option" "unit io"
  | Slept nat
  | Polled child "string option io"
  | Waited child nat "string io option"
  | Killed child "unit io"
  | Probed

type_synonym log = "event list"

record os =
  os_run :: "log \<Rightarrow> string \<Rightarrow> string list \<Rightarrow> cmd_output io"
  os_feed :: "log \<Rightarrow> string \<Rightarrow> string list \<Rightarrow> string \<Rightarrow> cmd_output io"
  os_spawn :: "log \<Rightarrow> string \<Rightarrow> string list \<Rightarrow> string option \<Rightarrow> unit io"
  os_poll :: "log \<Rightarrow> child \<Rightarrow> string option io"
  os_wait :: "log \<Rightarrow> child \<Rightarrow> nat \<Rightarrow> string io option"
  os_kill :: "log \<Rightarrow> child \<Rightarrow> unit io"
  os_child_id :: "log \<Rightarrow> child \<Rightarrow> nat option"
  os_child_output :: "log \<Rightarrow> child \<Rightarrow> string \<times> string"
  os_library_path :: "string option"

definition run_command :: "os \<Rightarrow> string \<Rightarrow> string list \<Rightarrow> log \<Rightarrow> cmd_output io \<times> log" where
  "run_command os prog args log = (let r = os_run os log prog args in (r, log @ [Ran prog args r]))"

definition feed_command :: "os \<Rightarrow> string \<Rightarrow> string list \<Rightarrow> string \<Rightarrow> log \<Rightarrow> cmd_output io \<times> log" where
  "feed_command os prog args input log =
     (let r = os_feed os log prog args input in (r, log @ [Fed prog args input r]))"

definition spawn_command :: "os \<Rightarrow> string \<Rightarrow> string list \<Rightarrow> string option \<Rightarrow> log \<Rightarrow> child io \<times> log" where
  "spawn_command os prog args libs log =
     (let r = os_spawn os log prog args libs
      in (case r of Inl e \<Rightarrow> Inl e | Inr _ \<Rightarrow> Inr (length log), log @ [Spawned prog args libs r]))"

definition poll_child :: "os \<Rightarrow> child \<Rightarrow> log \<Rightarrow> string option io \<times> log" where
  "poll_child os c log = (let r = os_poll os log c in (r, log @ [Polled c r]))"

definition wait_child :: "os \<Rightarrow> child \<Rightarrow> nat \<Rightarrow> log \<Rightarrow> string io option \<times> log" where
  "wait_child os c ms log = (let r = os_wait os log c ms in (r, log @ [Waited c ms r]))"

definition kill_child :: "os \<Rightarrow> child \<Rightarrow> log \<Rightarrow> unit io \<times> log" where
  "kill_child os c log = (let r = os_kill os log c in (r, log @ [Killed c r]))"

lemmas world_defs = run_command_def feed_command_def spawn_command_def poll_child_def
  wait_child_def kill_child_def Let_def

section \<open>What a log says\<close>

text \<open>The child processes that were started and not yet seen to have ended.\<close>

fun live_after :: "child set \<Rightarrow> nat \<Rightarrow> event list \<Rightarrow> child set" where
  "live_after cs n [] = cs"
| "live_after cs n (Spawned _ _ _ (Inr _) # es) = live_after (insert n cs) (Suc n) es"
| "live_after cs n (Polled c (Inr (Some _)) # es) = live_after (cs - {c}) (Suc n) es"
| "live_after cs n (Waited c _ (Some (Inr _)) # es) = live_after (cs - {c}) (Suc n) es"
| "live_after cs n (_ # es) = live_after cs (Suc n) es"

definition live :: "log \<Rightarrow> child set" where
  "live log = live_after {} 0 log"

lemma live_after_append:
  "live_after cs n (es @ fs) = live_after (live_after cs n es) (n + length es) fs"
  by (induction cs n es rule: live_after.induct) simp_all

lemma live_append [simp]: "live (log @ es) = live_after (live log) (length log) es"
  by (simp add: live_def live_after_append)

lemma live_after_bound: "c \<in> live_after cs n es \<Longrightarrow> \<forall>c \<in> cs. c < n \<Longrightarrow> c < n + length es"
  by (induction cs n es rule: live_after.induct) fastforce+

lemma live_bound: "c \<in> live log \<Longrightarrow> c < length log"
  unfolding live_def by (drule live_after_bound) simp_all

end
