(* ===== verification/Tls.thy ===== *)
theory Tls
  imports RustStr
begin

text \<open>
  The TLS configurations of \<^verbatim>\<open>src/probe.rs\<close>: which versions a connection may use and which roots
  it trusts. The certificates of the system, the check of a certificate by rustls and the
  conversion of a configuration for QUIC are outside the repository: they are arguments.
\<close>

section \<open>The library\<close>

datatype tls_probe_version = Tls12 | Tls13

type_synonym certificate = string

record client_config =
  cc_versions :: "tls_probe_version list"
  cc_roots :: "certificate list"
  cc_alpn :: "string list"

text \<open>One answer of \<^verbatim>\<open>load_native_certs\<close>: the certificates found and the errors met, as text.\<close>

record native_certs =
  nc_certs :: "certificate list"
  nc_errors :: "string list"

record tls_library =
  tl_accepts :: "certificate \<Rightarrow> bool"
  tl_quic :: "client_config \<Rightarrow> string + unit"

section \<open>The configurations\<close>

text \<open>\<^verbatim>\<open>RootCertStore::add\<close> with its error ignored, and the text of a list of errors.\<close>

definition add_root :: "tls_library \<Rightarrow> certificate list \<Rightarrow> certificate \<Rightarrow> certificate list" where
  "add_root lib roots cert = (if tl_accepts lib cert then roots @ [cert] else roots)"

definition certs_error :: "native_certs \<Rightarrow> string option" where
  "certs_error found =
     (if nc_errors found \<noteq> [] \<and> nc_certs found = []
      then Some (''['' @ join '', '' (nc_errors found) @ '']'') else None)"

definition build_tls_config :: "tls_library \<Rightarrow> native_certs \<Rightarrow> certificate list \<Rightarrow> tls_probe_version
    \<Rightarrow> client_config \<times> string option" where
  "build_tls_config lib found extra version =
     (let roots = foldl (add_root lib) [] (nc_certs found);
          roots = foldl (add_root lib) roots extra;
          versions = (case version of Tls12 \<Rightarrow> [Tls12] | Tls13 \<Rightarrow> [Tls13])
      in (\<lparr> cc_versions = versions, cc_roots = roots, cc_alpn = [] \<rparr>, certs_error found))"

definition build_quic_client_config :: "tls_library \<Rightarrow> native_certs \<Rightarrow> string + client_config" where
  "build_quic_client_config lib found =
     (case certs_error found of
        Some e \<Rightarrow> Inl e
      | None \<Rightarrow>
         (let roots = foldl (add_root lib) [] (nc_certs found);
              crypto = \<lparr> cc_versions = [Tls13], cc_roots = roots, cc_alpn = [''h3''] \<rparr>
          in case tl_quic lib crypto of Inl e \<Rightarrow> Inl e | Inr _ \<Rightarrow> Inr crypto))"

lemma foldl_add_root: "foldl (add_root lib) roots certs = roots @ filter (tl_accepts lib) certs"
  by (induction certs arbitrary: roots) (simp_all add: add_root_def)

lemma build_tls_config_eq:
  "build_tls_config lib found extra version =
     (\<lparr> cc_versions = [version], cc_roots = filter (tl_accepts lib) (nc_certs found @ extra),
        cc_alpn = [] \<rparr>, certs_error found)"
  by (cases version) (simp_all add: build_tls_config_def foldl_add_root)

lemma build_quic_Inr:
  "build_quic_client_config lib found = Inr cfg \<longleftrightarrow>
     certs_error found = None \<and> tl_quic lib cfg = Inr () \<and>
     cfg = \<lparr> cc_versions = [Tls13], cc_roots = filter (tl_accepts lib) (nc_certs found),
       cc_alpn = [''h3''] \<rparr>"
  by (auto simp: build_quic_client_config_def foldl_add_root Let_def split: option.splits sum.splits)

end
