(* ===== verification/Probe.thy ===== *)
theory Probe
  imports Http Isolation World Tls
begin

text \<open>
  \<^verbatim>\<open>src/probe.rs\<close>, the effectful part: preparing a socket and running one probe over it. The
  network, the clock and the cancellation token are the environment: every operation the code
  awaits takes its result as an argument (\<open>wait\<close>), and the clock readings that end up in a result
  are arguments next to it. The TLS and QUIC stacks are the crates rustls and quinn.
\<close>

section \<open>Results of a failed probe\<close>

record probe_context =
  cx_qnum :: u16
  cx_baseline :: bool

definition uses_tls :: "probe_protocol \<Rightarrow> bool" where
  "uses_tls p \<longleftrightarrow> p = Tls12Http11 \<or> p = Tls13Http11"

definition ctx_qnum :: "probe_context \<Rightarrow> u16 option" where
  "ctx_qnum ctx = (if cx_baseline ctx then None else Some (cx_qnum ctx))"

definition probe_failure_kind :: "bool \<Rightarrow> failure_kind" where
  "probe_failure_kind baseline = (if baseline then TargetFailure else StrategyFailure)"

text \<open>The times measured so far: connect, TLS handshake and first byte.\<close>

type_synonym timings = "nat option \<times> nat option \<times> nat option"

definition failure ::
  "probe_task \<Rightarrow> probe_context \<Rightarrow> u16 \<Rightarrow> probe_outcome \<Rightarrow> failure_kind \<Rightarrow> probe_error_class
     \<Rightarrow> string \<Rightarrow> nat \<Rightarrow> timings \<Rightarrow> http_response_read option \<Rightarrow> probe_result" where
  "failure task ctx source_port outcome kind cls msg total_ms t read =
     (let (connect_ms, tls_ms, first_byte_ms) = t;
          rs = (case read of Some r \<Rightarrow> r
                | None \<Rightarrow> http_response_read_default\<lparr> hr_first_byte_ms := first_byte_ms \<rparr>);
          rq = pt_request task;
          response_started = (hr_first_byte_ms rs \<noteq> None \<or> hr_total_bytes rs > 0)
      in \<lparr> pr_strategy_id = pt_strategy_id task, pr_worker_id = pt_worker_id task,
           pr_qnum = ctx_qnum ctx, pr_assigned_source_port = Some source_port,
           pr_target_host = pt_target_host task, pr_target_ip = pt_target_ip task,
           pr_target_port = pt_target_port task, pr_protocol = pt_protocol task,
           pr_path = rq_path_and_query rq, pr_method = rq_method rq,
           pr_read_mode = rq_read_mode rq, pr_setup_ms = None, pr_connect_ms = connect_ms,
           pr_tls_ms = tls_ms,
           pr_first_byte_ms = (case hr_first_byte_ms rs of Some f \<Rightarrow> Some f | None \<Rightarrow> first_byte_ms),
           pr_total_ms = total_ms, pr_outcome = outcome, pr_http_status = hr_status rs,
           pr_bytes_read = hr_total_bytes rs, pr_header_bytes = hr_header_bytes rs,
           pr_body_bytes = hr_body_bytes rs, pr_total_bytes = hr_total_bytes rs,
           pr_transfer_level = compute_transfer_level connect_ms tls_ms rs
             (rq_verify_transfer_bytes rq) (uses_tls (pt_protocol task)),
           pr_dpi_suspicious = compute_dpi_suspicious response_started (hr_total_bytes rs)
             (rq_dpi_detection_bytes rq) outcome,
           pr_failure_kind = Some kind, pr_error_class = Some cls,
           pr_error_message = Some msg \<rparr>)"

definition cancelled_result :: "probe_task \<Rightarrow> probe_context \<Rightarrow> u16 \<Rightarrow> nat \<Rightarrow> probe_result" where
  "cancelled_result task ctx source_port total_ms =
     failure task ctx source_port OutCancelled FkCancelled EcCancelled ''cancelled'' total_ms
       (None, None, None) None"

section \<open>Waiting\<close>

text \<open>
  \<open>cancellable_timeout\<close>: what happened first to a future under a deadline and a cancellation
  token (\<open>tokio::select!\<close> may pick either when both are ready).
\<close>

datatype 'a wait = WDone 'a | WTimeout | WCancelled

section \<open>The HTTP exchange\<close>

text \<open>
  What the environment contributes to one turn of the reading loop: whether the token is
  cancelled, the elapsed time when the turn starts, the result of the read, and the elapsed time
  when the turn ends the probe.
\<close>

record read_turn =
  rt_cancelled :: bool
  rt_elapsed_ms :: nat
  rt_read :: "nat \<Rightarrow> nat \<Rightarrow> string io wait"
  rt_end_ms :: nat

definition max_read :: "probe_task \<Rightarrow> nat" where
  "max_read task = max 1 (rq_max_read_bytes (pt_request task))"

definition criteria :: "probe_task \<Rightarrow> http_response_read \<Rightarrow> bool" where
  "criteria task read =
     http_read_criteria_met read (rq_method (pt_request task)) (rq_read_mode (pt_request task))
       (rq_min_body_bytes (pt_request task))"

definition timeout_ok :: "probe_task \<Rightarrow> http_response_read \<Rightarrow> bool" where
  "timeout_ok task read =
     http_timeout_can_succeed read (rq_method (pt_request task)) (rq_read_mode (pt_request task))
       (rq_min_body_bytes (pt_request task))"

definition read_timeout :: "probe_task \<Rightarrow> read_turn \<Rightarrow> nat" where
  "read_timeout task turn = max (to_total_ms (pt_timeouts task) - rt_elapsed_ms turn) 1"

text \<open>
  A read is given its deadline and the room in the buffer. The \<open>while\<close> loop of \<open>http_over_stream\<close>. The result is \<open>Inl r\<close> when the probe ends inside the
  loop and \<open>Inr read\<close> when the loop is left. A read never returns more than its buffer holds.
\<close>

function read_loop :: "probe_task \<Rightarrow> probe_context \<Rightarrow> u16 \<Rightarrow> timings \<Rightarrow> (nat \<Rightarrow> read_turn) \<Rightarrow> nat
    \<Rightarrow> string \<Rightarrow> http_response_read \<Rightarrow> probe_result + http_response_read" where
  "read_loop task ctx source_port t env i buf read =
     (if criteria task read \<or> max_read task \<le> length buf then Inr read
      else let turn = env i; kind = probe_failure_kind (cx_baseline ctx);
               fail = (\<lambda>outcome cls msg.
                 failure task ctx source_port outcome kind cls msg (rt_end_ms turn) t (Some read)) in
        if rt_cancelled turn then Inl (cancelled_result task ctx source_port (rt_end_ms turn))
        else if to_total_ms (pt_timeouts task) \<le> rt_elapsed_ms turn then
          (if timeout_ok task read then Inr read
           else Inl (fail Timeout ReadTimeout ''read timeout''))
        else let read_len = min (max_read task - length buf) 4096;
                 read_timeout_ms = read_timeout task turn in
          case rt_read turn read_timeout_ms read_len of
            WDone (Inr bytes) \<Rightarrow>
              (let got = take read_len bytes in
               if got = [] then Inr read
               else let buf' = buf @ got in
                 read_loop task ctx source_port t env (Suc i) buf'
                   (parse_http_response_read buf' (snd (snd t))))
          | WDone (Inl e) \<Rightarrow>
              if criteria task read then Inr read
              else Inl (fail TcpReset ReadFailed e)
          | WTimeout \<Rightarrow>
              if timeout_ok task read then Inr read
              else Inl (fail Timeout ReadTimeout ''read timeout'')
          | WCancelled \<Rightarrow> Inl (cancelled_result task ctx source_port (rt_end_ms turn)))"
  by pat_completeness auto
termination
  by (relation "measure (\<lambda>(task, _, _, _, _, _, buf, _). max_read task - length buf)")
     (auto simp: min_def length_greater_0_conv[symmetric] simp del: length_greater_0_conv)

declare read_loop.simps [simp del]

definition build_http_probe_result ::
  "probe_task \<Rightarrow> probe_context \<Rightarrow> u16 \<Rightarrow> nat \<Rightarrow> timings \<Rightarrow> http_response_read \<Rightarrow> probe_outcome
     \<Rightarrow> failure_kind option \<Rightarrow> probe_error_class option \<Rightarrow> string option \<Rightarrow> probe_result" where
  "build_http_probe_result task ctx source_port total_ms t read outcome fk cls msg =
     (let (connect_ms, tls_ms, _) = t; rq = pt_request task;
          response_started = (hr_first_byte_ms read \<noteq> None \<or> hr_total_bytes read > 0)
      in \<lparr> pr_strategy_id = pt_strategy_id task, pr_worker_id = pt_worker_id task,
           pr_qnum = ctx_qnum ctx, pr_assigned_source_port = Some source_port,
           pr_target_host = pt_target_host task, pr_target_ip = pt_target_ip task,
           pr_target_port = pt_target_port task, pr_protocol = pt_protocol task,
           pr_path = rq_path_and_query rq, pr_method = rq_method rq,
           pr_read_mode = rq_read_mode rq, pr_setup_ms = None, pr_connect_ms = connect_ms,
           pr_tls_ms = tls_ms, pr_first_byte_ms = hr_first_byte_ms read,
           pr_total_ms = total_ms, pr_outcome = outcome, pr_http_status = hr_status read,
           pr_bytes_read = hr_total_bytes read, pr_header_bytes = hr_header_bytes read,
           pr_body_bytes = hr_body_bytes read, pr_total_bytes = hr_total_bytes read,
           pr_transfer_level = compute_transfer_level connect_ms tls_ms read
             (rq_verify_transfer_bytes rq) (uses_tls (pt_protocol task)),
           pr_dpi_suspicious = compute_dpi_suspicious response_started (hr_total_bytes read)
             (rq_dpi_detection_bytes rq) outcome,
           pr_failure_kind = fk, pr_error_class = cls, pr_error_message = msg \<rparr>)"

record http_env =
  he_write :: "string \<Rightarrow> unit io"
  he_first_read :: "nat \<Rightarrow> string io wait"
  he_first_byte_ms :: nat
  he_turns :: "nat \<Rightarrow> read_turn"
  he_end_ms :: nat

definition http_over_stream :: "probe_task \<Rightarrow> probe_context \<Rightarrow> u16 \<Rightarrow> nat option \<Rightarrow> nat option
    \<Rightarrow> http_env \<Rightarrow> probe_result" where
  "http_over_stream task ctx source_port connect_ms tls_ms env =
     (let kind = probe_failure_kind (cx_baseline ctx);
          fail = (\<lambda>outcome cls msg. failure task ctx source_port outcome kind cls msg
                    (he_end_ms env) (connect_ms, tls_ms, None) None) in
      case he_write env (build_http_request task) of
        Inl e \<Rightarrow> fail EmptyResponse ReadFailed e
      | Inr _ \<Rightarrow>
         (case he_first_read env (to_first_byte_ms (pt_timeouts task)) of
            WDone (Inr bytes) \<Rightarrow>
              (let chunk = take 4096 bytes in
               if chunk = [] then fail EmptyResponse ReadFailed ''empty response''
               else
                 let t = (connect_ms, tls_ms, Some (he_first_byte_ms env));
                     buf = take (max_read task) chunk
                 in case read_loop task ctx source_port t (he_turns env) 0 buf
                           (parse_http_response_read buf (Some (he_first_byte_ms env))) of
                      Inl r \<Rightarrow> r
                    | Inr read \<Rightarrow>
                        (let rq = pt_request task;
                             (outcome, cls, msg) = classify_http_response (hr_status read)
                               (hr_headers_complete read) (hr_body_bytes read) (rq_method rq)
                               (rq_read_mode rq) (rq_min_body_bytes rq);
                             fk = (if outcome = Success then None else Some kind)
                         in build_http_probe_result task ctx source_port (he_end_ms env) t read
                              outcome fk cls msg))
          | WDone (Inl e) \<Rightarrow> fail TcpReset ReadFailed e
          | WTimeout \<Rightarrow> fail Timeout FirstByteTimeout ''first byte timeout''
          | WCancelled \<Rightarrow> cancelled_result task ctx source_port (he_end_ms env)))"

section \<open>TLS and QUIC\<close>

text \<open>
  A native prober: one local address for each address family, and the TLS configurations it was
  created with. Each of the two loads the certificates of the system anew.
\<close>

record native_prober =
  np_bind_ipv4 :: ip_addr
  np_bind_ipv6 :: ip_addr
  np_tls12_config :: client_config
  np_tls13_config :: client_config
  np_tls_config_error :: "string option"

definition first_error :: "string option \<Rightarrow> string option \<Rightarrow> string option" where
  "first_error a b = (case a of Some e \<Rightarrow> Some e | None \<Rightarrow> b)"

definition native_prober_new :: "tls_library \<Rightarrow> (tls_probe_version \<Rightarrow> native_certs) \<Rightarrow> ip_addr \<Rightarrow> ip_addr
    \<Rightarrow> native_prober" where
  "native_prober_new lib load bind_ipv4 bind_ipv6 =
     (let (tls12_config, tls12_error) = build_tls_config lib (load Tls12) [] Tls12;
          (tls13_config, tls13_error) = build_tls_config lib (load Tls13) [] Tls13
      in \<lparr> np_bind_ipv4 = bind_ipv4, np_bind_ipv6 = bind_ipv6, np_tls12_config = tls12_config,
           np_tls13_config = tls13_config,
           np_tls_config_error = first_error tls12_error tls13_error \<rparr>)"

definition with_extra_root_certs :: "tls_library \<Rightarrow> (tls_probe_version \<Rightarrow> native_certs)
    \<Rightarrow> certificate list \<Rightarrow> native_prober \<Rightarrow> native_prober" where
  "with_extra_root_certs lib load certs np =
     (let (tls12_config, tls12_error) = build_tls_config lib (load Tls12) certs Tls12;
          (tls13_config, tls13_error) = build_tls_config lib (load Tls13) certs Tls13
      in np\<lparr> np_tls12_config := tls12_config, np_tls13_config := tls13_config,
           np_tls_config_error := first_error tls12_error tls13_error \<rparr>)"

text \<open>
  The environment of a TLS probe: whether the host is a valid server name, and the result of a
  handshake with a configuration and a host.
\<close>

record tls_env =
  te_server_name :: "string \<Rightarrow> unit io"
  te_handshake :: "client_config \<Rightarrow> string \<Rightarrow> nat \<Rightarrow> unit io wait"
  te_tls_ms :: nat
  te_end_ms :: nat

definition https_http11 :: "native_prober \<Rightarrow> probe_task \<Rightarrow> probe_context \<Rightarrow> u16 \<Rightarrow> nat option \<Rightarrow> tls_probe_version
    \<Rightarrow> tls_env \<Rightarrow> http_env \<Rightarrow> probe_result" where
  "https_http11 np task ctx source_port connect_ms version te env =
     (let fail = (\<lambda>outcome kind cls msg. failure task ctx source_port outcome kind cls msg
                    (te_end_ms te) (connect_ms, None, None) None);
          kind = probe_failure_kind (cx_baseline ctx) in
      case np_tls_config_error np of
        Some e \<Rightarrow> fail InternalError InfrastructureFailure TlsFailed e
      | None \<Rightarrow>
         let tls_config = (case version of Tls12 \<Rightarrow> np_tls12_config np | Tls13 \<Rightarrow> np_tls13_config np) in
         (case te_server_name te (pt_target_host task) of
            Inl e \<Rightarrow> fail TlsAlert InfrastructureFailure TlsFailed e
          | Inr _ \<Rightarrow>
             (case te_handshake te tls_config (pt_target_host task)
                     (to_tls_ms (pt_timeouts task)) of
                WDone (Inr _) \<Rightarrow>
                  http_over_stream task ctx source_port connect_ms (Some (te_tls_ms te)) env
              | WDone (Inl e) \<Rightarrow> fail TlsAlert kind TlsFailed e
              | WTimeout \<Rightarrow> fail Timeout kind TlsTimeout ''TLS timeout''
              | WCancelled \<Rightarrow> cancelled_result task ctx source_port (te_end_ms te))))"

text \<open>A QUIC probe loads the certificates itself.\<close>

record quic_env =
  qe_library :: tls_library
  qe_certs :: native_certs
  qe_connecting :: "client_config \<Rightarrow> ip_addr \<Rightarrow> u16 \<Rightarrow> string \<Rightarrow> unit io"
  qe_connection :: "nat \<Rightarrow> unit io wait"
  qe_connect_ms :: nat
  qe_end_ms :: nat

definition quic_probe :: "probe_task \<Rightarrow> probe_context \<Rightarrow> u16 \<Rightarrow> quic_env \<Rightarrow> probe_result" where
  "quic_probe task ctx source_port qe =
     (let fail = (\<lambda>outcome kind cls msg t. failure task ctx source_port outcome kind cls msg
                    (qe_end_ms qe) t None);
          none = (None, None, None); kind = probe_failure_kind (cx_baseline ctx) in
      case build_quic_client_config (qe_library qe) (qe_certs qe) of
        Inl e \<Rightarrow> fail InternalError InfrastructureFailure TlsFailed e none
      | Inr quic_config \<Rightarrow>
         (case qe_connecting qe quic_config (pt_target_ip task) (pt_target_port task) (pt_target_host task) of
            Inl e \<Rightarrow> fail InternalError InfrastructureFailure ConnectFailed e none
          | Inr _ \<Rightarrow>
             (case qe_connection qe
                    (max (to_connect_ms (pt_timeouts task)) (to_tls_ms (pt_timeouts task))) of
                WDone (Inr _) \<Rightarrow>
                  fail InternalError InfrastructureFailure EcInternalError
                    ''QUIC probe does not verify HTTP transfer''
                    (Some (qe_connect_ms qe), Some (qe_connect_ms qe), None)
              | WDone (Inl e) \<Rightarrow> fail TlsAlert kind TlsFailed e none
              | WTimeout \<Rightarrow> fail Timeout kind ConnectTimeout ''QUIC connect timeout'' none
              | WCancelled \<Rightarrow> cancelled_result task ctx source_port (qe_end_ms qe))))"

section \<open>A probe over a prepared socket\<close>

datatype prepared_transport = PtTcp | PtQuic

record prepared_socket =
  ps_transport :: prepared_transport
  ps_source_port :: u16

record connect_env =
  ce_cancelled :: bool
  ce_connect :: "ip_addr \<Rightarrow> u16 \<Rightarrow> nat \<Rightarrow> unit io wait"
  ce_connect_ms :: nat
  ce_local_port :: "u16 option"
  ce_end_ms :: nat

record probe_env =
  pe_connect :: connect_env
  pe_tls :: tls_env
  pe_http :: http_env
  pe_quic :: quic_env

definition probe_with_prepared_socket ::
  "native_prober \<Rightarrow> probe_task \<Rightarrow> probe_context \<Rightarrow> prepared_socket \<Rightarrow> probe_env \<Rightarrow> probe_result" where
  "probe_with_prepared_socket np task ctx prepared env =
     (let ce = pe_connect env; port = ps_source_port prepared;
          kind = probe_failure_kind (cx_baseline ctx) in
      if ce_cancelled ce then cancelled_result task ctx port (ce_end_ms ce)
      else case ps_transport prepared of
        PtQuic \<Rightarrow> quic_probe task ctx port (pe_quic env)
      | PtTcp \<Rightarrow>
         (case ce_connect ce (pt_target_ip task) (pt_target_port task)
                 (to_connect_ms (pt_timeouts task)) of
            WDone (Inl e) \<Rightarrow>
              failure task ctx port Refused kind ConnectFailed e (ce_end_ms ce) (None, None, None) None
          | WTimeout \<Rightarrow>
              failure task ctx port Timeout kind ConnectTimeout ''connect timeout'' (ce_end_ms ce)
                (None, None, None) None
          | WCancelled \<Rightarrow> cancelled_result task ctx port (ce_end_ms ce)
          | WDone (Inr _) \<Rightarrow>
              (let connect_ms = Some (ce_connect_ms ce);
                   port = (if port = 0 then (case ce_local_port ce of Some p \<Rightarrow> p | None \<Rightarrow> port)
                           else port)
               in case pt_protocol task of
                    HttpPlain \<Rightarrow>
                      http_over_stream task ctx port connect_ms None (pe_http env)
                  | Tls12Http11 \<Rightarrow> https_http11 np task ctx port connect_ms Tls12 (pe_tls env) (pe_http env)
                  | Tls13Http11 \<Rightarrow> https_http11 np task ctx port connect_ms Tls13 (pe_tls env) (pe_http env)
                  | QuicHttp3Future \<Rightarrow>
                      failure task ctx port InternalError InfrastructureFailure EcInternalError
                        ''QUIC probe reached TCP path unexpectedly'' (ce_end_ms ce)
                        (connect_ms, None, None) None)))"

section \<open>Preparing the socket\<close>

datatype probe_error =
    PeSocketCreate string | PeBind string | PeLocalAddr string | PeSocketMark string

text \<open>
  The socket calls: \<open>sk_create\<close> is asked for an address family (true for IPv4), \<open>sk_bind\<close> for a
  local address with port 0.
\<close>

record socket_env =
  sk_create :: "bool \<Rightarrow> unit io"
  sk_set_mark :: "u32 \<Rightarrow> so_mark_error + unit"
  sk_nonblocking :: "unit io"
  sk_bind :: "ip_addr \<Rightarrow> unit io"
  sk_local_addr :: "u16 io"

definition bind_ip :: "native_prober \<Rightarrow> ip_addr \<Rightarrow> ip_addr" where
  "bind_ip np target_ip = (case target_ip of V4 _ \<Rightarrow> np_bind_ipv4 np | V6 _ \<Rightarrow> np_bind_ipv6 np)"

definition map_io :: "(string \<Rightarrow> 'e) \<Rightarrow> 'a io \<Rightarrow> 'e + 'a" where
  "map_io f r = (case r of Inl e \<Rightarrow> Inl (f e) | Inr v \<Rightarrow> Inr v)"

definition prepare_tcp_socket ::
  "native_prober \<Rightarrow> ip_addr \<Rightarrow> socket_env \<Rightarrow> probe_error + prepared_socket" where
  "prepare_tcp_socket np target_ip se =
     res_bind (map_io PeSocketCreate (sk_create se (is_ipv4 target_ip))) (\<lambda>_.
     res_bind (map_io PeBind (sk_bind se (bind_ip np target_ip))) (\<lambda>_.
     res_bind (map_io PeLocalAddr (sk_local_addr se)) (\<lambda>port.
     Inr \<lparr> ps_transport = PtTcp, ps_source_port = port \<rparr>)))"

definition prepare_quic_endpoint ::
  "native_prober \<Rightarrow> ip_addr \<Rightarrow> socket_env \<Rightarrow> probe_error + prepared_socket" where
  "prepare_quic_endpoint np target_ip se =
     res_bind (map_io PeBind (sk_bind se (bind_ip np target_ip))) (\<lambda>_.
     res_bind (map_io PeLocalAddr (sk_local_addr se)) (\<lambda>port.
     Inr \<lparr> ps_transport = PtQuic, ps_source_port = port \<rparr>))"

definition prepare_transport :: "native_prober \<Rightarrow> probe_protocol \<Rightarrow> ip_addr \<Rightarrow> socket_env
    \<Rightarrow> probe_error + prepared_socket" where
  "prepare_transport np protocol target_ip se =
     (case protocol of
        QuicHttp3Future \<Rightarrow> prepare_quic_endpoint np target_ip se
      | _ \<Rightarrow> prepare_tcp_socket np target_ip se)"

text \<open>The text of a \<open>ProbeError\<close>.\<close>

definition so_mark_error_text :: "so_mark_error \<Rightarrow> string" where
  "so_mark_error_text e =
     (case e of
        UnsupportedPlatform \<Rightarrow> ''SO_MARK is only supported on Linux''
      | SetFailed m \<Rightarrow> ''failed to set SO_MARK: '' @ m)"

definition probe_error_text :: "probe_error \<Rightarrow> string" where
  "probe_error_text e =
     (case e of
        PeSocketCreate m \<Rightarrow> ''socket create failed: '' @ m
      | PeBind m \<Rightarrow> ''bind failed: '' @ m
      | PeLocalAddr m \<Rightarrow> ''local_addr failed: '' @ m
      | PeSocketMark m \<Rightarrow> ''socket mark failed: '' @ m)"

text \<open>With a mark the socket is not bound: the kernel picks the port when it connects.\<close>

definition prepare_tcp_socket_fwmark ::
  "ip_addr \<Rightarrow> u32 \<Rightarrow> socket_env \<Rightarrow> probe_error + prepared_socket" where
  "prepare_tcp_socket_fwmark target_ip mark se =
     res_bind (map_io PeSocketCreate (sk_create se (is_ipv4 target_ip))) (\<lambda>_.
     res_bind (case sk_set_mark se mark of
         Inl e \<Rightarrow> Inl (PeSocketMark (so_mark_error_text e)) | Inr _ \<Rightarrow> Inr ()) (\<lambda>_.
     res_bind (map_io PeBind (sk_nonblocking se)) (\<lambda>_.
     Inr \<lparr> ps_transport = PtTcp, ps_source_port = 0 \<rparr>)))"

definition prepare_transport_fwmark :: "native_prober \<Rightarrow> probe_protocol \<Rightarrow> ip_addr \<Rightarrow> u32
    \<Rightarrow> socket_env \<Rightarrow> probe_error + prepared_socket" where
  "prepare_transport_fwmark np protocol target_ip mark se =
     (case protocol of
        QuicHttp3Future \<Rightarrow> prepare_quic_endpoint np target_ip se
      | _ \<Rightarrow> prepare_tcp_socket_fwmark target_ip mark se)"

section \<open>The probe of the native backend\<close>

text \<open>
  \<open>ProbeBackend::probe\<close>: the whole probe runs under the total timeout; \<open>outer\<close> says whether,
  within the deadline it is given, it completed, timed out or was cancelled, and \<open>end_ms\<close> is the clock at its end.
\<close>

definition outer_result :: "probe_task \<Rightarrow> probe_context \<Rightarrow> nat \<Rightarrow> probe_outcome \<Rightarrow> failure_kind
    \<Rightarrow> probe_error_class \<Rightarrow> string \<Rightarrow> probe_result" where
  "outer_result task ctx end_ms outcome kind cls msg =
     (infrastructure_failure task (ctx_qnum ctx) None cls msg end_ms)\<lparr>
       pr_outcome := outcome, pr_failure_kind := Some kind \<rparr>"

definition native_probe :: "native_prober \<Rightarrow> probe_task \<Rightarrow> probe_context \<Rightarrow> socket_env \<Rightarrow> probe_env
    \<Rightarrow> (nat \<Rightarrow> unit wait) \<Rightarrow> nat \<Rightarrow> probe_result" where
  "native_probe np task ctx se env outer end_ms =
     (let result =
        (case prepare_transport np (pt_protocol task) (pt_target_ip task) se of
           Inr prepared \<Rightarrow>
             (case outer (to_total_ms (pt_timeouts task)) of
                WDone _ \<Rightarrow> probe_with_prepared_socket np task ctx prepared env
              | WTimeout \<Rightarrow> outer_result task ctx end_ms Timeout
                  (probe_failure_kind (cx_baseline ctx)) ReadTimeout ''total timeout''
              | WCancelled \<Rightarrow> outer_result task ctx end_ms OutCancelled FkCancelled EcCancelled
                  ''cancelled'')
         | Inl e \<Rightarrow> infrastructure_failure task (ctx_qnum ctx) None BindFailed
             (probe_error_text e) end_ms)
      in if cx_baseline ctx then result\<lparr> pr_qnum := None \<rparr> else result)"

section \<open>Every result is coherent\<close>

text \<open>The fields that repeat the task, whatever happened.\<close>

definition echoes_task :: "probe_task \<Rightarrow> probe_result \<Rightarrow> bool" where
  "echoes_task task r \<longleftrightarrow>
     pr_strategy_id r = pt_strategy_id task \<and> pr_worker_id r = pt_worker_id task \<and>
     pr_target_host r = pt_target_host task \<and> pr_target_ip r = pt_target_ip task \<and>
     pr_target_port r = pt_target_port task \<and> pr_protocol r = pt_protocol task \<and>
     pr_path r = rq_path_and_query (pt_request task) \<and>
     pr_method r = rq_method (pt_request task) \<and> pr_read_mode r = rq_read_mode (pt_request task)"

definition bytes_ok :: "probe_task \<Rightarrow> probe_result \<Rightarrow> bool" where
  "bytes_ok task r \<longleftrightarrow>
     pr_bytes_read r = pr_total_bytes r \<and>
     pr_header_bytes r + pr_body_bytes r \<le> pr_total_bytes r \<and> pr_total_bytes r \<le> max_read task"

text \<open>
  What the layers above rely on: success has no failure kind and no error, a failed baseline is
  charged to the target and a failed strategy probe to the strategy (or to the infrastructure, or
  to a cancellation), and only an unsuccessful response can look like interference.
\<close>

definition verdict_ok :: "probe_context \<Rightarrow> probe_result \<Rightarrow> bool" where
  "verdict_ok ctx r \<longleftrightarrow>
     (pr_outcome r = Success \<longleftrightarrow> pr_failure_kind r = None) \<and>
     (pr_error_class r = None \<longleftrightarrow> pr_outcome r = Success) \<and>
     (pr_failure_kind r = Some StrategyFailure \<longrightarrow> \<not> cx_baseline ctx) \<and>
     (pr_failure_kind r = Some TargetFailure \<longrightarrow> cx_baseline ctx) \<and>
     (pr_outcome r = OutCancelled \<longleftrightarrow> pr_failure_kind r = Some FkCancelled) \<and>
     (pr_dpi_suspicious r \<longrightarrow> pr_outcome r \<noteq> Success)"

text \<open>What success means.\<close>

definition success_ok :: "probe_task \<Rightarrow> probe_result \<Rightarrow> bool" where
  "success_ok task r \<longleftrightarrow>
     (pr_outcome r = Success \<longrightarrow>
        (\<exists>s. pr_http_status r = Some s \<and> 200 \<le> s \<and> s < 400) \<and>
        (rq_method (pt_request task) = Head \<or> rq_read_mode (pt_request task) = Headers \<or>
         rq_min_body_bytes (pt_request task) \<le> pr_body_bytes r) \<and>
        pr_connect_ms r \<noteq> None)"

definition result_ok :: "probe_task \<Rightarrow> probe_context \<Rightarrow> probe_result \<Rightarrow> bool" where
  "result_ok task ctx r \<longleftrightarrow>
     echoes_task task r \<and> bytes_ok task r \<and> verdict_ok ctx r \<and> success_ok task r \<and>
     pr_qnum r = ctx_qnum ctx"

lemmas result_ok_defs = result_ok_def echoes_task_def bytes_ok_def verdict_ok_def success_ok_def

definition read_ok :: "probe_task \<Rightarrow> http_response_read \<Rightarrow> bool" where
  "read_ok task r \<longleftrightarrow> hr_header_bytes r + hr_body_bytes r \<le> hr_total_bytes r \<and>
     hr_total_bytes r \<le> max_read task"

lemma read_ok_parse: "length buf \<le> max_read task \<Longrightarrow> read_ok task (parse_http_response_read buf t)"
  using response_accounting_sound[of buf t] by (auto simp: read_ok_def Let_def split: if_splits)

lemma failure_ok:
  assumes "outcome \<noteq> Success" and "case read of Some r \<Rightarrow> read_ok task r | None \<Rightarrow> True"
    and "kind = StrategyFailure \<longrightarrow> \<not> cx_baseline ctx" "kind = TargetFailure \<longrightarrow> cx_baseline ctx"
    and "outcome = OutCancelled \<longleftrightarrow> kind = FkCancelled"
  shows "result_ok task ctx (failure task ctx port outcome kind cls msg ms t read)"
  using assms
  by (cases read; cases t)
     (simp_all add: failure_def result_ok_defs read_ok_def http_response_read_default_def
        compute_dpi_suspicious_def Let_def)

lemma probe_failure_kind_simps [simp]:
  "probe_failure_kind b = StrategyFailure \<longleftrightarrow> \<not> b" "probe_failure_kind b = TargetFailure \<longleftrightarrow> b"
  "probe_failure_kind b \<noteq> FkCancelled"
  by (simp_all add: probe_failure_kind_def)

lemma cancelled_ok: "result_ok task ctx (cancelled_result task ctx port ms)"
  unfolding cancelled_result_def by (rule failure_ok) simp_all

lemma infrastructure_ok:
  "result_ok task ctx (infrastructure_failure task (ctx_qnum ctx) None cls msg ms)"
  by (simp add: infrastructure_failure_def result_ok_defs)

lemma read_loop_ok:
  assumes "read_ok task read" and "length buf \<le> max_read task"
  shows "case read_loop task ctx port t env i buf read of
      Inl r \<Rightarrow> result_ok task ctx r | Inr read' \<Rightarrow> read_ok task read'"
  using assms
proof (induction task ctx port t env i buf read rule: read_loop.induct)
  case (1 task ctx port t env i buf read)
  have f: "result_ok task ctx (failure task ctx port o1 (probe_failure_kind (cx_baseline ctx)) cls
      msg ms t (Some read))" if "o1 \<noteq> Success" "o1 \<noteq> OutCancelled" for o1 cls msg ms
    using that "1.prems" by (intro failure_ok) auto
  let ?room = "min (max_read task - length buf) 4096"
  let ?next = "rt_read (env i) (read_timeout task (env i)) ?room"
  show ?case
  proof (cases "criteria task read \<or> max_read task \<le> length buf \<or> rt_cancelled (env i) \<or>
      to_total_ms (pt_timeouts task) \<le> rt_elapsed_ms (env i) \<or>
      (\<nexists>bytes. ?next = WDone (Inr bytes) \<and> take ?room bytes \<noteq> [])")
    case True
    then show ?thesis
      using f cancelled_ok "1.prems"
      by (subst read_loop.simps) (auto simp: Let_def split: wait.splits sum.splits)
  next
    case False
    then obtain bytes where b: "?next = WDone (Inr bytes)" and ne: "take ?room bytes \<noteq> []"
      by blast
    have "length buf < max_read task" using False by auto
    then have len: "length (buf @ take ?room bytes) \<le> max_read task"
      by (simp add: min_le_iff_disj min.coboundedI1 le_diff_conv2[symmetric])
    have "read_loop task ctx port t env i buf read =
        read_loop task ctx port t env (Suc i) (buf @ take ?room bytes)
          (parse_http_response_read (buf @ take ?room bytes) (snd (snd t)))"
      using False b ne by (subst read_loop.simps) (auto simp: Let_def)
    then show ?thesis
      using False b ne len read_ok_parse by (auto intro!: "1.IH")
  qed
qed

lemma build_result_ok:
  assumes "read_ok task read" and "connect_ms \<noteq> None"
    and "classify_http_response (hr_status read) (hr_headers_complete read)
       (hr_body_bytes read) (rq_method (pt_request task)) (rq_read_mode (pt_request task))
       (rq_min_body_bytes (pt_request task)) = (outcome, cls, msg)"
    and "fk = (if outcome = Success then None else Some (probe_failure_kind (cx_baseline ctx)))"
  shows "result_ok task ctx (build_http_probe_result task ctx port ms (connect_ms, tls_ms, fb) read
      outcome fk cls msg)"
proof -
  have n: "outcome \<noteq> OutCancelled" "cls = None \<longleftrightarrow> outcome = Success"
    using assms(3) by (auto simp: classify_http_response_def split: if_splits option.splits)
  have s: "(\<exists>s. hr_status read = Some s \<and> 200 \<le> s \<and> s < 400) \<and>
      (rq_method (pt_request task) = Head \<or> rq_read_mode (pt_request task) = Headers \<or>
       rq_min_body_bytes (pt_request task) \<le> hr_body_bytes read)" if "outcome = Success"
    using assms(3) that
    by (auto simp: classify_http_response_def status_is_success_def word_less_nat_alt
        word_le_nat_alt split: if_splits option.splits)
  show ?thesis
    using assms(1,2,4) n s
    by (auto simp: build_http_probe_result_def result_ok_defs read_ok_def compute_dpi_suspicious_def
        Let_def)
qed


lemma http_over_stream_ok:
  assumes "connect_ms \<noteq> None"
  shows "result_ok task ctx (http_over_stream task ctx port connect_ms tls_ms env)"
proof -
  have f: "result_ok task ctx (failure task ctx port o1 (probe_failure_kind (cx_baseline ctx)) cls
      msg ms t None)" if "o1 \<noteq> Success" "o1 \<noteq> OutCancelled" for o1 cls msg ms t
    using that by (intro failure_ok) auto
  let ?fb = "Some (he_first_byte_ms env)"
  have loop: "case read_loop task ctx port t (he_turns env) 0 buf (parse_http_response_read buf ?fb) of
      Inl r \<Rightarrow> result_ok task ctx r | Inr read' \<Rightarrow> read_ok task read'"
    if "length buf \<le> max_read task" for t buf
    using that by (intro read_loop_ok read_ok_parse)
  show ?thesis
  proof (cases "\<exists>u bytes. he_write env (build_http_request task) = Inr u \<and>
      he_first_read env (to_first_byte_ms (pt_timeouts task)) = WDone (Inr bytes) \<and>
      take 4096 bytes \<noteq> []")
    case False
    then show ?thesis
      by (auto simp: http_over_stream_def Let_def f cancelled_ok split: sum.splits wait.splits)
  next
    case True
    then obtain bytes where e: "he_write env (build_http_request task) = Inr ()"
      "he_first_read env (to_first_byte_ms (pt_timeouts task)) = WDone (Inr bytes)"
      "take 4096 bytes \<noteq> []" by auto
    let ?buf = "take (max_read task) (take 4096 bytes)"
    have l: "length ?buf \<le> max_read task" by simp
    show ?thesis
    proof (cases "read_loop task ctx port (connect_ms, tls_ms, ?fb) (he_turns env) 0 ?buf
        (parse_http_response_read ?buf ?fb)")
      case (Inl r)
      then show ?thesis
        using e loop[OF l, of "(connect_ms, tls_ms, ?fb)"]
        by (simp add: http_over_stream_def Let_def del: take_take)
    next
      case (Inr read)
      then have "read_ok task read" using loop[OF l, of "(connect_ms, tls_ms, ?fb)"] by simp
      then show ?thesis
        unfolding http_over_stream_def Let_def using e Inr
        by (auto intro!: build_result_ok[OF _ assms] split: prod.split simp del: take_take)
    qed
  qed
qed


lemma https_ok:
  "connect_ms \<noteq> None \<Longrightarrow> result_ok task ctx (https_http11 np task ctx port connect_ms v te env)"
  by (auto simp: https_http11_def Let_def intro!: failure_ok cancelled_ok http_over_stream_ok
      split: option.splits sum.splits wait.splits)

lemma quic_ok: "result_ok task ctx (quic_probe task ctx port qe)"
  by (auto simp: quic_probe_def Let_def intro!: failure_ok cancelled_ok
      split: sum.splits wait.splits)

lemma quic_not_success: "pr_outcome (quic_probe task ctx port qe) \<noteq> Success"
  by (auto simp: quic_probe_def Let_def failure_def cancelled_result_def
      split: sum.splits wait.splits)

lemma prepared_ok: "result_ok task ctx (probe_with_prepared_socket np task ctx prepared env)"
  by (auto simp: probe_with_prepared_socket_def Let_def
      intro!: failure_ok cancelled_ok http_over_stream_ok https_ok quic_ok
      split: prepared_transport.splits sum.splits wait.splits probe_protocol.splits option.splits)

lemma outer_ok:
  assumes "outcome \<noteq> Success" "kind = StrategyFailure \<longrightarrow> \<not> cx_baseline ctx"
    "kind = TargetFailure \<longrightarrow> cx_baseline ctx" "outcome = OutCancelled \<longleftrightarrow> kind = FkCancelled"
  shows "result_ok task ctx (outer_result task ctx ms outcome kind cls msg)"
  using assms by (simp add: outer_result_def infrastructure_failure_def result_ok_defs)

lemma qnum_reset: "result_ok task ctx r \<Longrightarrow> cx_baseline ctx \<Longrightarrow> r\<lparr> pr_qnum := None \<rparr> = r"
  by (simp add: result_ok_def ctx_qnum_def)

text \<open>
  C7: whatever the network, the clock and the cancellation token do, the result of a native probe
  is coherent: it repeats the task it answers, its byte counts add up and never exceed the read
  limit, it is a success exactly when it carries no failure kind and no error class, a success
  stands for a 2xx or 3xx answer over an established connection with enough body, a failed
  baseline is never charged to a strategy nor a failed strategy probe to the target, and only an
  unsuccessful probe is called suspicious. A baseline carries no queue number.
\<close>

theorem native_probe_coherent:
  "result_ok task ctx (native_probe np task ctx se env outer end_ms)"
proof -
  let ?r = "case prepare_transport np (pt_protocol task) (pt_target_ip task) se of
           Inr prepared \<Rightarrow>
             (case outer (to_total_ms (pt_timeouts task)) of
                WDone _ \<Rightarrow> probe_with_prepared_socket np task ctx prepared env
              | WTimeout \<Rightarrow> outer_result task ctx end_ms Timeout
                  (probe_failure_kind (cx_baseline ctx)) ReadTimeout ''total timeout''
              | WCancelled \<Rightarrow> outer_result task ctx end_ms OutCancelled FkCancelled EcCancelled
                  ''cancelled'')
         | Inl e \<Rightarrow> infrastructure_failure task (ctx_qnum ctx) None BindFailed
             (probe_error_text e) end_ms"
  have "result_ok task ctx ?r"
    by (auto intro!: prepared_ok outer_ok infrastructure_ok split: sum.splits wait.splits)
  then show ?thesis
    using qnum_reset[of task ctx ?r] unfolding native_probe_def Let_def by simp
qed

lemma quic_prepared:
  "prepare_transport np QuicHttp3Future ip se = Inr p \<Longrightarrow> ps_transport p = PtQuic"
  by (auto simp: prepare_transport_def prepare_quic_endpoint_def res_bind_Inr_iff)

text \<open>
  C33: a probe over QUIC never succeeds, and even an established QUIC connection is reported as an
  internal error of the infrastructure.
\<close>

theorem quic_never_succeeds:
  assumes "pt_protocol task = QuicHttp3Future"
  shows "pr_outcome (native_probe np task ctx se env outer end_ms) \<noteq> Success \<and>
    (\<forall>port cfg ok.
        build_quic_client_config (qe_library (pe_quic env)) (qe_certs (pe_quic env)) = Inr cfg \<and>
        qe_connecting (pe_quic env) cfg (pt_target_ip task) (pt_target_port task)
          (pt_target_host task) = Inr () \<and>
        qe_connection (pe_quic env) (max (to_connect_ms (pt_timeouts task))
          (to_tls_ms (pt_timeouts task))) = WDone (Inr ok) \<longrightarrow>
      pr_failure_kind (quic_probe task ctx port (pe_quic env)) = Some InfrastructureFailure)"
proof -
  have "pr_outcome (native_probe np task ctx se env outer end_ms) \<noteq> Success"
    using assms quic_not_success
    by (auto simp: native_probe_def Let_def probe_with_prepared_socket_def quic_prepared
        outer_result_def infrastructure_failure_def cancelled_result_def failure_def
        split: sum.splits wait.splits)
  then show ?thesis by (simp add: quic_probe_def Let_def failure_def)
qed


text \<open>A network that answers every call: the response has headers and a body of three bytes.\<close>

definition sample_response :: string where
  "sample_response = ''HTTP/1.1 200 OK'' @ header_end @ ''abc''"

definition sample_tls_library :: tls_library where
  "sample_tls_library = \<lparr> tl_accepts = (\<lambda>cert. cert \<noteq> ''expired''), tl_quic = (\<lambda>_. Inr ()) \<rparr>"

definition sample_certs :: native_certs where
  "sample_certs = \<lparr> nc_certs = [''root'', ''expired''], nc_errors = [] \<rparr>"

definition sample_env :: probe_env where
  "sample_env =
     \<lparr> pe_connect = \<lparr> ce_cancelled = False, ce_connect = (\<lambda>_ _ _. WDone (Inr ())),
         ce_connect_ms = 5, ce_local_port = None, ce_end_ms = 5 \<rparr>,
       pe_tls = \<lparr> te_server_name = (\<lambda>_. Inr ()),
         te_handshake = (\<lambda>_ _ _. WDone (Inr ())), te_tls_ms = 7, te_end_ms = 12 \<rparr>,
       pe_http = \<lparr> he_write = (\<lambda>_. Inr ()), he_first_read = (\<lambda>_. WDone (Inr sample_response)),
         he_first_byte_ms = 9,
         he_turns = (\<lambda>_. \<lparr> rt_cancelled = False, rt_elapsed_ms = 20,
           rt_read = (\<lambda>_ _. WDone (Inr [])), rt_end_ms = 20 \<rparr>), he_end_ms = 21 \<rparr>,
       pe_quic = \<lparr> qe_library = sample_tls_library, qe_certs = sample_certs,
         qe_connecting = (\<lambda>_ _ _ _. Inr ()),
         qe_connection = (\<lambda>_. WDone (Inr ())), qe_connect_ms = 6, qe_end_ms = 8 \<rparr> \<rparr>"

definition sample_sockets :: socket_env where
  "sample_sockets = \<lparr> sk_create = (\<lambda>_. Inr ()), sk_set_mark = (\<lambda>_. Inr ()), sk_nonblocking = Inr (),
     sk_bind = (\<lambda>_. Inr ()), sk_local_addr = Inr 40000 \<rparr>"

definition sample_prober :: native_prober where
  "sample_prober = native_prober_new sample_tls_library (\<lambda>_. sample_certs) (V4 0) (V6 0)"

definition sample_ctx :: probe_context where
  "sample_ctx = \<lparr> cx_qnum = 200, cx_baseline = False \<rparr>"

theorem quic_never_succeeds_witness:
  "pr_outcome (native_probe sample_prober (sample_task\<lparr> pt_protocol := QuicHttp3Future \<rparr>)
     sample_ctx sample_sockets sample_env (\<lambda>_. WDone ()) 9) \<noteq> Success"
  using quic_never_succeeds[of "sample_task\<lparr> pt_protocol := QuicHttp3Future \<rparr>"] by simp

lemma http_over_stream_once:
  assumes "he_write (pe_http env) (build_http_request task) = Inr ()"
    and "he_first_read (pe_http env) (to_first_byte_ms (pt_timeouts task)) = WDone (Inr bytes)"
    and "bytes \<noteq> []" and "length bytes \<le> 4096" and "length bytes \<le> max_read task"
    and "rd = parse_http_response_read bytes (Some (he_first_byte_ms (pe_http env)))"
    and "criteria task rd" and "hr_status rd = Some s" and "200 \<le> s" and "s < 400"
  shows "http_over_stream task ctx port c tls (pe_http env) =
      build_http_probe_result task ctx port (he_end_ms (pe_http env))
        (c, tls, Some (he_first_byte_ms (pe_http env))) rd Success None None None"
proof -
  have t: "take (max_read task) (take 4096 bytes) = bytes" "take 4096 bytes = bytes"
    "take (max_read task) bytes = bytes"
    using assms(4,5) by simp_all
  have verdict: "classify_http_response (hr_status rd) (hr_headers_complete rd) (hr_body_bytes rd)
      (rq_method (pt_request task)) (rq_read_mode (pt_request task))
      (rq_min_body_bytes (pt_request task)) = (Success, None, None)"
    using assms(7-10)
    by (auto simp: criteria_def http_read_criteria_met_def classify_http_response_def
        status_is_success_def is_http_block_status_def word_less_nat_alt word_le_nat_alt
        split: if_splits read_mode.splits)
  have "read_loop task ctx port tm (he_turns (pe_http env)) 0 bytes rd = Inr rd" for tm
    using assms(7) by (subst read_loop.simps) simp
  then show ?thesis
    using assms(1-3) verdict unfolding http_over_stream_def Let_def assms(6)[symmetric]
    by (simp add: t assms(6)[symmetric])
qed


lemma sample_words:
  "lines (''HTTP/1.1 200 OK'' @ header_end) = [''HTTP/1.1 200 OK'', '''']"
  "next_word ''HTTP/1.1 200 OK'' = Some (''HTTP/1.1'', '' 200 OK'')"
  "next_word '' 200 OK'' = Some (''200'', '' OK'')"
  by code_simp+

lemma sample_status: "parse_http_status (''HTTP/1.1 200 OK'' @ header_end) = Inr 200"
proof -
  have "parse_u16 ''200'' = Some 200" by (simp add: eval_simps)
  moreover have "utf8_valid (''HTTP/1.1 200 OK'' @ header_end)"
    by (simp add: header_end_def crlf_def eval_simps)
  ultimately show ?thesis
    unfolding parse_http_status_def sample_words by (simp add: sample_words eval_simps)
qed

lemma sample_parse:
  "parse_http_response_read sample_response (Some 9) =
     \<lparr> hr_status = Some 200, hr_header_bytes = 19, hr_body_bytes = 3, hr_total_bytes = 22,
       hr_first_byte_ms = Some 9, hr_headers_complete = True \<rparr>"
  using sample_status
  by (simp add: sample_response_def parse_http_response_read_def header_end_def crlf_def Let_def
      eval_simps)


section \<open>What a success over TLS stands for\<close>

fun tls_version_of :: "probe_protocol \<Rightarrow> tls_probe_version option" where
  "tls_version_of Tls12Http11 = Some Tls12"
| "tls_version_of Tls13Http11 = Some Tls13"
| "tls_version_of HttpPlain = None"
| "tls_version_of QuicHttp3Future = None"

definition prober_config :: "native_prober \<Rightarrow> tls_probe_version \<Rightarrow> client_config" where
  "prober_config np v = (case v of Tls12 \<Rightarrow> np_tls12_config np | Tls13 \<Rightarrow> np_tls13_config np)"

lemma https_success:
  "pr_outcome (https_http11 np task ctx port c v te env) = Success \<Longrightarrow>
     np_tls_config_error np = None \<and> te_server_name te (pt_target_host task) = Inr () \<and>
     te_handshake te (prober_config np v) (pt_target_host task) (to_tls_ms (pt_timeouts task)) =
       WDone (Inr ())"
  by (auto simp: https_http11_def prober_config_def Let_def failure_def cancelled_result_def
      split: option.splits sum.splits wait.splits)

lemma prepared_tls_success:
  assumes "pr_outcome (probe_with_prepared_socket np task ctx prepared env) = Success"
    and "tls_version_of (pt_protocol task) = Some v"
  shows "np_tls_config_error np = None \<and> te_server_name (pe_tls env) (pt_target_host task) = Inr () \<and>
     te_handshake (pe_tls env) (prober_config np v) (pt_target_host task) (to_tls_ms (pt_timeouts task)) =
       WDone (Inr ())"
  using assms quic_not_success
  by (auto simp: probe_with_prepared_socket_def Let_def failure_def cancelled_result_def
      split: prepared_transport.splits sum.splits wait.splits probe_protocol.splits if_splits
      dest!: https_success)

lemma native_prober_new_facts:
  "prober_config (native_prober_new lib load b4 b6) v =
     \<lparr> cc_versions = [v], cc_roots = filter (tl_accepts lib) (nc_certs (load v)), cc_alpn = [] \<rparr>"
  "np_tls_config_error (native_prober_new lib load b4 b6) = None \<longleftrightarrow>
     (\<forall>v. nc_errors (load v) = [] \<or> nc_certs (load v) \<noteq> [])"
proof -
  have all: "(\<forall>v. P v) \<longleftrightarrow> P Tls12 \<and> P Tls13" for P by (metis tls_probe_version.exhaust)
  show "prober_config (native_prober_new lib load b4 b6) v =
     \<lparr> cc_versions = [v], cc_roots = filter (tl_accepts lib) (nc_certs (load v)), cc_alpn = [] \<rparr>"
    by (cases v) (simp_all add: prober_config_def native_prober_new_def build_tls_config_eq)
  show "np_tls_config_error (native_prober_new lib load b4 b6) = None \<longleftrightarrow>
     (\<forall>v. nc_errors (load v) = [] \<or> nc_certs (load v) \<noteq> [])"
    by (auto simp: all native_prober_new_def build_tls_config_eq first_error_def certs_error_def
        split: option.splits)
qed

text \<open>
  C29: A native probe that succeeds over TLS shook hands in time, for the name of its target, with a
  configuration that offers exactly the version of its protocol and trusts exactly the accepted
  certificates of the system, and the system's certificates could be loaded for both versions.
\<close>

theorem tls_success_verified:
  assumes "pr_outcome (native_probe (native_prober_new lib load b4 b6) task ctx se env outer end_ms) =
      Success"
    and "tls_version_of (pt_protocol task) = Some v"
  shows "te_server_name (pe_tls env) (pt_target_host task) = Inr () \<and>
    te_handshake (pe_tls env)
      \<lparr> cc_versions = [v], cc_roots = filter (tl_accepts lib) (nc_certs (load v)), cc_alpn = [] \<rparr>
      (pt_target_host task) (to_tls_ms (pt_timeouts task)) = WDone (Inr ()) \<and>
    (\<forall>v. nc_errors (load v) = [] \<or> nc_certs (load v) \<noteq> [])"
proof -
  let ?np = "native_prober_new lib load b4 b6"
  obtain prepared where
    "pr_outcome (probe_with_prepared_socket ?np task ctx prepared env) = Success"
    using assms(1)
    by (auto simp: native_probe_def Let_def outer_result_def infrastructure_failure_def
        split: sum.splits wait.splits if_splits)
  from prepared_tls_success[OF this assms(2)] show ?thesis
    by (simp add: native_prober_new_facts)
qed

theorem tls_success_verified_witness:
  "te_handshake (pe_tls sample_env) \<lparr> cc_versions = [Tls13], cc_roots = [''root''], cc_alpn = [] \<rparr>
     (pt_target_host sample_task) (to_tls_ms (pt_timeouts sample_task)) = WDone (Inr ())"
proof -
  let ?task = "sample_task\<lparr> pt_protocol := Tls13Http11 \<rparr>"
  have len: "length sample_response = 22"
    by (simp add: sample_response_def header_end_def crlf_def)
  then have ne: "sample_response \<noteq> []" by auto
  have hs: "http_over_stream ?task sample_ctx port c tls (pe_http sample_env) =
      build_http_probe_result ?task sample_ctx port 21 (c, tls, Some 9)
        (parse_http_response_read sample_response (Some 9)) Success None None None" for port c tls
    using http_over_stream_once[of sample_env ?task sample_response _ 200 sample_ctx port c tls] ne len
    by (simp add: sample_parse sample_task_def sample_env_def sample_request_def criteria_def
        http_read_criteria_met_def max_read_def status_is_success_def is_http_block_status_def)
  have np: "np_tls_config_error sample_prober = None"
    by (simp add: sample_prober_def native_prober_new_facts sample_certs_def)
  have env: "\<not> ce_cancelled (pe_connect sample_env)"
      "ce_connect (pe_connect sample_env) a b t = WDone (Inr ())"
      "te_server_name (pe_tls sample_env) h = Inr ()"
      "te_handshake (pe_tls sample_env) cfg h t = WDone (Inr ())" for a b t h cfg
    by (simp_all add: sample_env_def)
  have "pr_outcome (native_probe sample_prober ?task sample_ctx sample_sockets sample_env
      (\<lambda>_. WDone ()) 30) = Success"
    by (simp add: native_probe_def probe_with_prepared_socket_def https_http11_def Let_def env np hs
        prepare_transport_def prepare_tcp_socket_def sample_sockets_def map_io_def
        build_http_probe_result_def)
  from tls_success_verified[OF this[unfolded sample_prober_def], of Tls13] show ?thesis
    by (simp add: sample_certs_def sample_tls_library_def)
qed

text \<open>The same probe over a prepared socket, as a worker runs it.\<close>

lemma sample_probe_success:
  "pr_outcome (probe_with_prepared_socket np sample_task sample_ctx
     \<lparr> ps_transport = PtTcp, ps_source_port = 40000 \<rparr> sample_env) = Success"
proof -
  have len: "length sample_response = 22"
    by (simp add: sample_response_def header_end_def crlf_def)
  then have ne: "sample_response \<noteq> []" by auto
  have "http_over_stream sample_task sample_ctx port c None (pe_http sample_env) =
      build_http_probe_result sample_task sample_ctx port 21 (c, None, Some 9)
        (parse_http_response_read sample_response (Some 9)) Success None None None" for port c
    using http_over_stream_once[of sample_env sample_task sample_response _ 200 sample_ctx port c None] ne len
    by (simp add: sample_parse sample_task_def sample_env_def sample_request_def criteria_def
        http_read_criteria_met_def max_read_def status_is_success_def is_http_block_status_def)
  note hs = this
  have env: "\<not> ce_cancelled (pe_connect sample_env)"
      "ce_connect (pe_connect sample_env) a b t = WDone (Inr ())" for a b t
    by (simp_all add: sample_env_def)
  have "pt_protocol sample_task = HttpPlain" by (simp add: sample_task_def)
  then show ?thesis
    by (simp add: probe_with_prepared_socket_def Let_def env hs build_http_probe_result_def)
qed

end
