(* ===== verification/Transitions.thy ===== *)
theory Transitions
  imports Prelude
begin

text \<open>
  Labelled transition systems, for the components whose tasks interleave: reachability, traces,
  and two interfaces, an inductive invariant and a refinement with stuttering. The components
  interpret both on their own step relations.
\<close>

section \<open>Reachable states and traces\<close>

inductive reachable :: "('s \<Rightarrow> bool) \<Rightarrow> ('s \<Rightarrow> 'e \<Rightarrow> 's \<Rightarrow> bool) \<Rightarrow> 's \<Rightarrow> bool"
  for init step where
  reach_init: "init s \<Longrightarrow> reachable init step s"
| reach_step: "reachable init step s \<Longrightarrow> step s e s' \<Longrightarrow> reachable init step s'"

inductive trace_of :: "('s \<Rightarrow> 'e \<Rightarrow> 's \<Rightarrow> bool) \<Rightarrow> 's \<Rightarrow> 'e list \<Rightarrow> 's \<Rightarrow> bool"
  for step where
  trace_Nil: "trace_of step s [] s"
| trace_Cons: "step s e s' \<Longrightarrow> trace_of step s' es s'' \<Longrightarrow> trace_of step s (e # es) s''"

inductive_cases trace_NilE [elim!]: "trace_of step s [] s'"
inductive_cases trace_ConsE [elim!]: "trace_of step s (e # es) s''"

inductive_simps trace_Nil_iff [simp]: "trace_of step s [] s'"
inductive_simps trace_Cons_iff: "trace_of step s (e # es) s''"

lemma trace_reachable:
  "trace_of step s es s' \<Longrightarrow> reachable init step s \<Longrightarrow> reachable init step s'"
  by (induction rule: trace_of.induct) (auto intro: reach_step)

lemma trace_append:
  "trace_of step s es s' \<Longrightarrow> trace_of step s' fs s'' \<Longrightarrow> trace_of step s (es @ fs) s''"
  by (induction rule: trace_of.induct) (auto intro: trace_Cons)

lemma trace_snoc: "trace_of step s es s' \<Longrightarrow> step s' e s'' \<Longrightarrow> trace_of step s (es @ [e]) s''"
  by (rule trace_append) (auto intro: trace_of.intros)

section \<open>Inductive invariants\<close>

locale inductive_invariant =
  fixes init :: "'s \<Rightarrow> bool" and step :: "'s \<Rightarrow> 'e \<Rightarrow> 's \<Rightarrow> bool" and inv :: "'s \<Rightarrow> bool"
  assumes inv_init: "init s \<Longrightarrow> inv s"
    and inv_step: "inv s \<Longrightarrow> step s e s' \<Longrightarrow> inv s'"
begin

lemma reachable_inv: "reachable init step s \<Longrightarrow> inv s"
  by (induction rule: reachable.induct) (auto intro: inv_init inv_step)

lemma trace_inv: "trace_of step s es s' \<Longrightarrow> inv s \<Longrightarrow> inv s'"
  by (induction rule: trace_of.induct) (auto intro: inv_step)

end

section \<open>Refinement\<close>

text \<open>
  A concrete system refines an abstract one through an abstraction of its states and a partial
  abstraction of its events; a concrete step whose event has no image leaves the abstract state
  alone.
\<close>

locale refines = inductive_invariant init step inv
  for init :: "'s \<Rightarrow> bool" and step :: "'s \<Rightarrow> 'e \<Rightarrow> 's \<Rightarrow> bool" and inv :: "'s \<Rightarrow> bool" +
  fixes ainit :: "'a \<Rightarrow> bool" and astep :: "'a \<Rightarrow> 'f \<Rightarrow> 'a \<Rightarrow> bool"
    and abs_state :: "'s \<Rightarrow> 'a" and abs_event :: "'e \<Rightarrow> 'f option"
  assumes sim_init: "init s \<Longrightarrow> ainit (abs_state s)"
    and sim_step: "inv s \<Longrightarrow> step s e s' \<Longrightarrow> abs_event e = Some f \<Longrightarrow>
      astep (abs_state s) f (abs_state s')"
    and sim_stutter: "inv s \<Longrightarrow> step s e s' \<Longrightarrow> abs_event e = None \<Longrightarrow> abs_state s' = abs_state s"
begin

lemma trace_refines:
  "trace_of step s es s' \<Longrightarrow> inv s \<Longrightarrow>
   trace_of astep (abs_state s) (List.map_filter abs_event es) (abs_state s')"
proof (induction rule: trace_of.induct)
  case (trace_Nil s)
  then show ?case by (simp add: List.map_filter_simps)
next
  case (trace_Cons s e s' es s'')
  then have i: "inv s'" by (blast intro: inv_step)
  show ?case
  proof (cases "abs_event e")
    case None
    then have "abs_state s' = abs_state s" using trace_Cons by (blast intro: sim_stutter)
    then show ?thesis using None trace_Cons.IH i by (simp add: List.map_filter_simps)
  next
    case (Some f)
    then have "astep (abs_state s) f (abs_state s')" using trace_Cons by (blast intro: sim_step)
    then show ?thesis
      using Some trace_Cons.IH i by (simp add: List.map_filter_simps trace_of.trace_Cons)
  qed
qed

lemma reachable_refines: "reachable init step s \<Longrightarrow> reachable ainit astep (abs_state s)"
proof (induction rule: reachable.induct)
  case (reach_init s)
  then show ?case by (simp add: reachable.reach_init sim_init)
next
  case (reach_step s e s')
  then have i: "inv s" by (simp add: reachable_inv)
  show ?case
  proof (cases "abs_event e")
    case None
    then show ?thesis using sim_stutter[OF i reach_step.hyps(2)] reach_step.IH by simp
  next
    case (Some f)
    then show ?thesis using sim_step[OF i reach_step.hyps(2)] reach_step.IH by (metis reachable.reach_step)
  qed
qed

end

end
