(* ===== verification/QueueAlloc.thy ===== *)
theory QueueAlloc
  imports Transitions RustNum
begin

text \<open>
  \<^verbatim>\<open>src/queue.rs\<close>: the allocator of NFQUEUE numbers. Its operations run interleaved, so it is a
  transition system over the deque behind the mutex, the \<^verbatim>\<open>Notify\<close> with its single permit, the
  tasks inside \<^verbatim>\<open>acquire\<close> and the leases they hold. Tasks are numbered; every step is one
  critical section or one operation on the \<^verbatim>\<open>Notify\<close>.
\<close>

section \<open>The state\<close>

datatype queue_error = EmptyPool

text \<open>
  \<open>qa_gap\<close> holds the tasks that found the deque empty and have released the lock but not yet
  created the \<^verbatim>\<open>notified()\<close> future; \<open>qa_waiting\<close> those that wait on it, in order, and \<open>qa_woken\<close>
  those whose wait is over and that will lock again. \<open>qa_spawned\<close> are the numbers of dropped
  leases whose release task has not run yet.
\<close>

record queue_state =
  qa_available :: "u16 list"
  qa_permit :: bool
  qa_gap :: "nat list"
  qa_waiting :: "nat list"
  qa_woken :: "nat list"
  qa_held :: "(nat \<times> u16) list"
  qa_spawned :: "u16 list"

definition queue_numbers :: "u16 \<Rightarrow> u16 \<Rightarrow> u16 list" where
  "queue_numbers base_qnum qnum_count = map (\<lambda>n. base_qnum + of_nat n) [0..<unat qnum_count]"

definition queue_new :: "u16 \<Rightarrow> u16 \<Rightarrow> queue_error + queue_state" where
  "queue_new base_qnum qnum_count =
     (if qnum_count = 0 then Inl EmptyPool
      else Inr \<lparr> qa_available = queue_numbers base_qnum qnum_count, qa_permit = False, qa_gap = [],
                 qa_waiting = [], qa_woken = [], qa_held = [], qa_spawned = [] \<rparr>)"

section \<open>Operations\<close>

text \<open>\<open>Notify::notify_one\<close>: wake the first waiter, or leave one permit.\<close>

definition notify_one :: "queue_state \<Rightarrow> queue_state" where
  "notify_one s =
     (case qa_waiting s of
        [] \<Rightarrow> s\<lparr> qa_permit := True \<rparr>
      | t # ts \<Rightarrow> s\<lparr> qa_waiting := ts, qa_woken := qa_woken s @ [t] \<rparr>)"

definition release_qnum :: "u16 \<Rightarrow> queue_state \<Rightarrow> queue_state" where
  "release_qnum q s =
     (if q \<in> set (qa_available s) then s
      else notify_one (s\<lparr> qa_available := qa_available s @ [q] \<rparr>))"

text \<open>One turn of the loop of \<open>acquire\<close>: pop the front, or fall out of the lock empty-handed.\<close>

definition try_pop :: "nat \<Rightarrow> queue_state \<Rightarrow> queue_state" where
  "try_pop t s =
     (case qa_available s of
        q # qs \<Rightarrow> s\<lparr> qa_available := qs, qa_held := (t, q) # qa_held s \<rparr>
      | [] \<Rightarrow> s\<lparr> qa_gap := qa_gap s @ [t] \<rparr>)"

text \<open>\<open>notified().await\<close>: a stored permit is taken at once, otherwise the task waits.\<close>

definition await_notified :: "nat \<Rightarrow> queue_state \<Rightarrow> queue_state" where
  "await_notified t s =
     (if qa_permit s then s\<lparr> qa_permit := False, qa_gap := remove1 t (qa_gap s),
                             qa_woken := qa_woken s @ [t] \<rparr>
      else s\<lparr> qa_gap := remove1 t (qa_gap s), qa_waiting := qa_waiting s @ [t] \<rparr>)"

datatype queue_event =
    Acquire nat u16
  | AcquireEmpty nat
  | Retry nat u16
  | RetryEmpty nat
  | Await nat
  | Release nat u16
  | DropLease nat u16
  | SpawnedRelease u16

inductive queue_step :: "queue_state \<Rightarrow> queue_event \<Rightarrow> queue_state \<Rightarrow> bool" where
  acquire: "qa_available s = q # qs \<Longrightarrow> queue_step s (Acquire t q) (try_pop t s)"
| acquire_empty: "qa_available s = [] \<Longrightarrow> queue_step s (AcquireEmpty t) (try_pop t s)"
| retry: "t \<in> set (qa_woken s) \<Longrightarrow> qa_available s = q # qs \<Longrightarrow>
    queue_step s (Retry t q) (try_pop t (s\<lparr> qa_woken := remove1 t (qa_woken s) \<rparr>))"
| retry_empty: "t \<in> set (qa_woken s) \<Longrightarrow> qa_available s = [] \<Longrightarrow>
    queue_step s (RetryEmpty t) (try_pop t (s\<lparr> qa_woken := remove1 t (qa_woken s) \<rparr>))"
| await: "t \<in> set (qa_gap s) \<Longrightarrow> queue_step s (Await t) (await_notified t s)"
| release: "(t, q) \<in> set (qa_held s) \<Longrightarrow>
    queue_step s (Release t q) (release_qnum q (s\<lparr> qa_held := remove1 (t, q) (qa_held s) \<rparr>))"
| drop_lease: "(t, q) \<in> set (qa_held s) \<Longrightarrow>
    queue_step s (DropLease t q) (s\<lparr> qa_held := remove1 (t, q) (qa_held s),
      qa_spawned := qa_spawned s @ [q] \<rparr>)"
| spawned_release: "q \<in> set (qa_spawned s) \<Longrightarrow>
    queue_step s (SpawnedRelease q) (release_qnum q (s\<lparr> qa_spawned := remove1 q (qa_spawned s) \<rparr>))"

inductive_cases queue_stepE: "queue_step s e s'"

lemmas queue_defs = try_pop_def release_qnum_def notify_one_def await_notified_def

section \<open>Every number is in exactly one place\<close>

definition queue_content :: "queue_state \<Rightarrow> u16 multiset" where
  "queue_content s = mset (qa_available s) + mset (map snd (qa_held s)) + mset (qa_spawned s)"

lemma distinct_queue_numbers: "distinct (queue_numbers base n)"
proof -
  have "inj_on (\<lambda>i. base + of_nat i :: u16) {0..<unat n}"
  proof (rule inj_onI)
    fix i j assume "i \<in> {0..<unat n}" "j \<in> {0..<unat n}" and e: "base + of_nat i = base + (of_nat j :: u16)"
    then have b: "i < 2 ^ 16" "j < 2 ^ 16" using unat_u16[of n] by (auto simp del: unat_u16)
    from e have "(of_nat i :: u16) = of_nat j" by simp
    then have "unat (of_nat i :: u16) = unat (of_nat j :: u16)" by simp
    with b show "i = j" by (simp add: unat_of_nat)
  qed
  then show ?thesis by (simp add: queue_numbers_def distinct_map)
qed

lemma content_distinct:
  assumes "queue_content s = mset (queue_numbers base n)"
  shows "distinct (qa_available s @ map snd (qa_held s) @ qa_spawned s)"
proof -
  have "mset (qa_available s @ map snd (qa_held s) @ qa_spawned s) = mset (queue_numbers base n)"
    using assms by (simp add: queue_content_def ac_simps)
  then show ?thesis using distinct_queue_numbers mset_eq_imp_distinct_iff by blast
qed

lemma mset_map_remove1: "x \<in> set xs \<Longrightarrow> add_mset (f x) (mset (map f (remove1 x xs))) = mset (map f xs)"
  by (induction xs) auto

lemma release_content:
  "q \<notin> set (qa_available s) \<Longrightarrow> queue_content (release_qnum q s) = add_mset q (queue_content s)"
  by (simp add: queue_content_def release_qnum_def notify_one_def split: list.splits)

lemma queue_content_step:
  assumes "queue_content s = mset (queue_numbers base n)" and "queue_step s e s'"
  shows "queue_content s' = mset (queue_numbers base n)"
  using assms(2)
proof (cases rule: queue_step.cases)
  case (release t q)
  let ?s = "s\<lparr> qa_held := remove1 (t, q) (qa_held s) \<rparr>"
  have "add_mset q (mset (map snd (qa_held ?s))) = mset (map snd (qa_held s))"
    using mset_map_remove1[OF release(3), of snd] by simp
  then have "add_mset q (queue_content ?s) = queue_content s"
    unfolding queue_content_def by (simp add: ac_simps)
  moreover have "q \<notin> set (qa_available ?s)"
    using content_distinct[OF assms(1)] release(3) by force
  ultimately show ?thesis
    using assms(1) release(2) release_content[of q ?s] by simp
next
  case (drop_lease t q)
  have "add_mset q (mset (map snd (remove1 (t, q) (qa_held s)))) = mset (map snd (qa_held s))"
    using mset_map_remove1[OF drop_lease(3), of snd] by simp
  then have "queue_content s' = queue_content s"
    unfolding queue_content_def drop_lease(2) by (simp add: ac_simps)
  then show ?thesis using assms(1) by simp
next
  case (spawned_release q)
  let ?s = "s\<lparr> qa_spawned := remove1 q (qa_spawned s) \<rparr>"
  have "add_mset q (queue_content ?s) = queue_content s"
    using spawned_release(3) by (simp add: queue_content_def)
  moreover have "q \<notin> set (qa_available ?s)"
    using content_distinct[OF assms(1)] spawned_release(3) by auto
  ultimately show ?thesis
    using assms(1) spawned_release(2) release_content[of q ?s] by simp
qed (use assms(1) in \<open>simp_all add: queue_content_def queue_defs\<close>)


section \<open>Refinement of a pool of leases\<close>

text \<open>
  What the allocator promises: numbers are free or out, a lease takes a free one and a return
  makes it free again. A number whose lease was dropped is out until its release task has run.
\<close>

record lease_pool =
  lp_free :: "u16 set"
  lp_out :: "u16 set"

datatype lease_event = Take u16 | Return u16

definition lease_init :: "u16 set \<Rightarrow> lease_pool \<Rightarrow> bool" where
  "lease_init ns p \<longleftrightarrow> lp_free p = ns \<and> lp_out p = {}"

inductive lease_step :: "lease_pool \<Rightarrow> lease_event \<Rightarrow> lease_pool \<Rightarrow> bool" where
  take: "q \<in> lp_free p \<Longrightarrow>
    lease_step p (Take q) \<lparr> lp_free = lp_free p - {q}, lp_out = insert q (lp_out p) \<rparr>"
| return: "q \<in> lp_out p \<Longrightarrow>
    lease_step p (Return q) \<lparr> lp_free = insert q (lp_free p), lp_out = lp_out p - {q} \<rparr>"

inductive_simps lease_step_Take: "lease_step p (Take q) p'"
inductive_simps lease_step_Return: "lease_step p (Return q) p'"

definition queue_abs :: "queue_state \<Rightarrow> lease_pool" where
  "queue_abs s = \<lparr> lp_free = set (qa_available s),
                   lp_out = snd ` set (qa_held s) \<union> set (qa_spawned s) \<rparr>"

fun queue_abs_event :: "queue_event \<Rightarrow> lease_event option" where
  "queue_abs_event (Acquire t q) = Some (Take q)"
| "queue_abs_event (Retry t q) = Some (Take q)"
| "queue_abs_event (Release t q) = Some (Return q)"
| "queue_abs_event (SpawnedRelease q) = Some (Return q)"
| "queue_abs_event _ = None"

definition queue_start :: "u16 \<Rightarrow> u16 \<Rightarrow> queue_state \<Rightarrow> bool" where
  "queue_start base n s \<longleftrightarrow> queue_new base n = Inr s"

definition queue_inv :: "u16 \<Rightarrow> u16 \<Rightarrow> queue_state \<Rightarrow> bool" where
  "queue_inv base n s \<longleftrightarrow> queue_content s = mset (queue_numbers base n)"

lemma pop_abs:
  assumes "qa_available s = q # qs" and "distinct (qa_available s @ map snd (qa_held s) @ qa_spawned s)"
  shows "lease_step (queue_abs s) (Take q) (queue_abs (try_pop t s))"
proof -
  have "queue_abs (try_pop t s) = \<lparr> lp_free = lp_free (queue_abs s) - {q},
      lp_out = insert q (lp_out (queue_abs s)) \<rparr>"
    using assms by (auto simp: queue_abs_def try_pop_def)
  then show ?thesis using assms(1) by (simp add: lease_step_Take) (simp add: queue_abs_def)
qed

lemma release_abs:
  assumes "q \<notin> set (qa_available s)"
  shows "lp_free (queue_abs (release_qnum q s)) = insert q (set (qa_available s))"
    and "lp_out (queue_abs (release_qnum q s)) = lp_out (queue_abs s)"
  using assms by (auto simp: queue_abs_def release_qnum_def notify_one_def split: list.splits)

lemma return_abs:
  assumes "distinct (q # qa_available s @ map snd (qa_held s) @ qa_spawned s)"
    and "p = \<lparr> lp_free = set (qa_available s), lp_out = insert q (lp_out (queue_abs s)) \<rparr>"
  shows "lease_step p (Return q) (queue_abs (release_qnum q s))"
proof -
  have "q \<notin> lp_out (queue_abs s)" using assms(1) by (auto simp: queue_abs_def)
  then have "queue_abs (release_qnum q s) = \<lparr> lp_free = insert q (lp_free p), lp_out = lp_out p - {q} \<rparr>"
    using assms release_abs[of q s] by (simp add: lease_pool.equality)
  then show ?thesis using assms(2) by (simp add: lease_step_Return)
qed

lemma image_remove1: "x \<in> set xs \<Longrightarrow> f ` set xs = insert (f x) (f ` set (remove1 x xs))"
  by (induction xs) auto

lemma distinct_map_remove1:
  "x \<in> set xs \<Longrightarrow> distinct (map f xs) \<Longrightarrow>
   distinct (f x # map f (remove1 x xs)) \<and> f ` set xs = insert (f x) (f ` set (remove1 x xs))"
  using image_remove1[of x xs f] mset_map_remove1[of x xs f]
    mset_eq_imp_distinct_iff[of "f x # map f (remove1 x xs)" "map f xs"] by simp

interpretation queue: refines "queue_start base n" queue_step "queue_inv base n"
  "lease_init (set (queue_numbers base n))" lease_step queue_abs queue_abs_event
proof
  show "queue_start base n s \<Longrightarrow> queue_inv base n s" for s
    by (auto simp: queue_start_def queue_new_def queue_inv_def queue_content_def split: if_splits)
  show "queue_inv base n s \<Longrightarrow> queue_step s e s' \<Longrightarrow> queue_inv base n s'" for s e s'
    unfolding queue_inv_def by (rule queue_content_step)
  show "queue_start base n s \<Longrightarrow> lease_init (set (queue_numbers base n)) (queue_abs s)" for s
    by (auto simp: queue_start_def queue_new_def lease_init_def queue_abs_def split: if_splits)
next
  fix s e s' f
  assume i: "queue_inv base n s" and st: "queue_step s e s'" and e: "queue_abs_event e = Some f"
  have d: "distinct (qa_available s @ map snd (qa_held s) @ qa_spawned s)"
    using i by (intro content_distinct) (simp add: queue_inv_def)
  from st show "lease_step (queue_abs s) f (queue_abs s')"
  proof (cases rule: queue_step.cases)
    case (acquire q qs t)
    then show ?thesis using e pop_abs[OF _ d, of q qs t] by simp
  next
    case (retry t q qs)
    then show ?thesis
      using e d pop_abs[of "s\<lparr> qa_woken := remove1 t (qa_woken s) \<rparr>" q qs t] by (simp add: queue_abs_def)
  next
    case (release t q)
    have "distinct (map snd (qa_held s))" using d by simp
    from distinct_map_remove1[OF release(3) this] show ?thesis
      using return_abs[of q "s\<lparr> qa_held := remove1 (t, q) (qa_held s) \<rparr>" "queue_abs s"] release e d
      by (auto simp: queue_abs_def)
  next
    case (spawned_release q)
    have "distinct (map id (qa_spawned s))" using d by simp
    from distinct_map_remove1[OF spawned_release(3) this]
    have "insert q (snd ` set (qa_held s) \<union> set (remove1 q (qa_spawned s))) =
        snd ` set (qa_held s) \<union> set (qa_spawned s)" by auto
    then show ?thesis
      using return_abs[of q "s\<lparr> qa_spawned := remove1 q (qa_spawned s) \<rparr>" "queue_abs s"]
        spawned_release e d
      by (simp add: queue_abs_def) blast
  qed (use e in auto)
next
  fix s e s'
  assume "queue_inv base n s" and st: "queue_step s e s'" and e: "queue_abs_event e = None"
  from st show "queue_abs s' = queue_abs s"
  proof (cases rule: queue_step.cases)
    case (drop_lease t q)
    then show ?thesis
      using image_remove1[OF drop_lease(3), of snd] by (auto simp: queue_abs_def)
  qed (use e in \<open>auto simp: queue_abs_def queue_defs\<close>)
qed


text \<open>
  C23: whatever the interleaving of acquisitions, releases and dropped leases, every number is at
  any time free, leased once, or about to be freed, and the acquisitions and releases form a run
  of the abstract pool: a number is only ever handed out while it is free.
\<close>

theorem queue_refines_pool:
  assumes "queue_new base n = Inr s0" and "trace_of queue_step s0 es s"
  shows "mset (qa_available s @ map snd (qa_held s) @ qa_spawned s) = mset (queue_numbers base n) \<and>
    distinct (map snd (qa_held s)) \<and>
    trace_of lease_step \<lparr> lp_free = set (queue_numbers base n), lp_out = {} \<rparr>
      (List.map_filter queue_abs_event es) (queue_abs s)"
proof -
  have i0: "queue_inv base n s0"
    using assms(1) queue.inv_init by (simp add: queue_start_def)
  have a0: "queue_abs s0 = \<lparr> lp_free = set (queue_numbers base n), lp_out = {} \<rparr>"
    using assms(1) by (auto simp: queue_new_def queue_abs_def split: if_splits)
  have "queue_inv base n s" by (rule queue.trace_inv[OF assms(2) i0])
  then have c: "queue_content s = mset (queue_numbers base n)" by (simp add: queue_inv_def)
  show ?thesis
    using queue.trace_refines[OF assms(2) i0] content_distinct[OF c] c a0
    by (simp add: queue_content_def ac_simps)
qed

text \<open>Two numbers; tasks 3 and 4 find the deque empty before the two leases come back.\<close>

definition lost_wakeup_events :: "queue_event list" where
  "lost_wakeup_events = [Acquire 1 200, Acquire 2 201, AcquireEmpty 3, AcquireEmpty 4,
     Release 1 200, Release 2 201, Await 3, Await 4, Retry 3 200]"

definition lost_wakeup_state :: queue_state where
  "lost_wakeup_state = \<lparr> qa_available = [201], qa_permit = False, qa_gap = [], qa_waiting = [4],
     qa_woken = [], qa_held = [(3, 200)], qa_spawned = [] \<rparr>"

lemma queue_stepI:
  "qa_available s = q # qs \<Longrightarrow> s' = try_pop t s \<Longrightarrow> queue_step s (Acquire t q) s'"
  "qa_available s = [] \<Longrightarrow> s' = try_pop t s \<Longrightarrow> queue_step s (AcquireEmpty t) s'"
  "t \<in> set (qa_woken s) \<Longrightarrow> qa_available s = q # qs \<Longrightarrow>
     s' = try_pop t (s\<lparr> qa_woken := remove1 t (qa_woken s) \<rparr>) \<Longrightarrow> queue_step s (Retry t q) s'"
  "t \<in> set (qa_gap s) \<Longrightarrow> s' = await_notified t s \<Longrightarrow> queue_step s (Await t) s'"
  "(t, q) \<in> set (qa_held s) \<Longrightarrow>
     s' = release_qnum q (s\<lparr> qa_held := remove1 (t, q) (qa_held s) \<rparr>) \<Longrightarrow> queue_step s (Release t q) s'"
  by (auto intro: queue_step.intros)

lemma two_numbers: "queue_new 200 2 = Inr \<lparr> qa_available = [200, 201], qa_permit = False,
    qa_gap = [], qa_waiting = [], qa_woken = [], qa_held = [], qa_spawned = [] \<rparr>"
  by (simp add: queue_new_def queue_numbers_def upt_conv_Cons)

lemma lost_wakeup_run:
  "\<exists>s0. queue_new 200 2 = Inr s0 \<and> trace_of queue_step s0 lost_wakeup_events lost_wakeup_state"
  unfolding two_numbers lost_wakeup_events_def lost_wakeup_state_def
  by (intro exI conjI, rule refl)
     ((rule trace_Cons, rule queue_stepI, simp_all add: queue_defs del: trace_Nil_iff)+, rule trace_Nil)

theorem queue_refines_pool_witness:
  "distinct (map snd (qa_held lost_wakeup_state)) \<and>
   trace_of lease_step \<lparr> lp_free = set (queue_numbers 200 2), lp_out = {} \<rparr>
     [Take 200, Take 201, Return 200, Return 201, Take 200] (queue_abs lost_wakeup_state)"
proof -
  obtain s0 where s0: "queue_new 200 2 = Inr s0"
    and t: "trace_of queue_step s0 lost_wakeup_events lost_wakeup_state"
    using lost_wakeup_run by blast
  show ?thesis
    using queue_refines_pool[OF s0 t]
    by (simp add: lost_wakeup_events_def List.map_filter_simps)
qed

text \<open>
  Two releases that both happen between a failed look at the deque and the wait leave a
  single permit for two tasks: a state is reachable in which a task waits although a number is
  free, nothing is about to wake it, and no step but the release of another lease ever will.
\<close>

theorem queue_wakeup_lost:
  "\<exists>s t. reachable (queue_start 200 2) queue_step s \<and> qa_waiting s = [t] \<and> qa_available s \<noteq> [] \<and>
     qa_permit s = False \<and> qa_woken s = [] \<and>
     \<not> (\<exists>e s'. queue_step s e s' \<and> qa_waiting s' \<noteq> [t] \<and> (\<nexists>u q. e = Release u q))"
proof -
  obtain s0 where s0: "queue_new 200 2 = Inr s0"
    and t: "trace_of queue_step s0 lost_wakeup_events lost_wakeup_state"
    using lost_wakeup_run by blast
  have "reachable (queue_start 200 2) queue_step lost_wakeup_state"
    by (rule trace_reachable[OF t reach_init]) (simp add: queue_start_def s0)
  moreover have "qa_waiting s' = [4] \<or> (\<exists>u q. e = Release u q)"
    if "queue_step lost_wakeup_state e s'" for e s'
    using that by (cases rule: queue_step.cases) (auto simp: lost_wakeup_state_def queue_defs)
  ultimately show ?thesis
    by (intro exI[of _ lost_wakeup_state] exI[of _ 4]) (auto simp: lost_wakeup_state_def)
qed

end
