(* ===== verification/Firewall.thy ===== *)
theory Firewall
  imports World Isolation
begin

text \<open>
  \<^verbatim>\<open>src/firewall.rs\<close>: the rules that send the packets of one worker to its NFQUEUE number. The
  three managers behind the trait \<^verbatim>\<open>FirewallManager\<close> are one datatype here, and an operation of
  the trait is a function of the manager and the log.
\<close>

section \<open>Data\<close>

datatype firewall_error = CommandFailed string | FwIo string

definition firewall_error_text :: "firewall_error \<Rightarrow> string" where
  "firewall_error_text e =
     (case e of CommandFailed m \<Rightarrow> ''command failed: '' @ m | FwIo m \<Rightarrow> ''io error: '' @ m)"

datatype l4_protocol = Tcp | Udp

datatype firewall_hook = Output | Postrouting

record worker_firewall_rule =
  fr_worker_id :: nat
  fr_qnum :: u16
  fr_source_port :: u16
  fr_target_ip :: ip_addr
  fr_target_port :: u16
  fr_protocol :: l4_protocol
  fr_hook :: firewall_hook

record nft_manager =
  nm_table :: string
  nm_hook :: firewall_hook
  nm_priority :: string
  nm_cleanup_on_start :: bool

record vmap_manager = nft_manager +
  vm_desync_mark :: u32
  vm_assignments :: "worker_assignment list"

datatype firewall_manager = Nftables nft_manager | NftablesVmap vmap_manager | Iptables

section \<open>Rendering\<close>

fun chain_name :: "firewall_hook \<Rightarrow> string" where
  "chain_name Output = ''output''"
| "chain_name Postrouting = ''postrouting''"

fun proto_name :: "l4_protocol \<Rightarrow> string" where
  "proto_name Tcp = ''tcp''"
| "proto_name Udp = ''udp''"

definition ip_keyword :: "ip_addr \<Rightarrow> string" where
  "ip_keyword ip = (if is_ipv4 ip then ''ip'' else ''ip6'')"

abbreviation port_text :: "u16 \<Rightarrow> string" where
  "port_text p \<equiv> dec_of_nat (unat p)"

definition nft_add_rule :: "nft_manager \<Rightarrow> worker_firewall_rule \<Rightarrow> string list" where
  "nft_add_rule m rule =
     [''add'', ''rule'', ''inet'', nm_table m, chain_name (fr_hook rule),
      ip_keyword (fr_target_ip rule), ''daddr'', ip_to_string (fr_target_ip rule),
      proto_name (fr_protocol rule), ''sport'', port_text (fr_source_port rule),
      proto_name (fr_protocol rule), ''dport'', port_text (fr_target_port rule),
      ''queue'', ''num'', port_text (fr_qnum rule), ''bypass'']"

definition nft_delete_rule_by_handle ::
  "nft_manager \<Rightarrow> worker_firewall_rule \<Rightarrow> u64 \<Rightarrow> string list" where
  "nft_delete_rule_by_handle m rule handle =
     [''delete'', ''rule'', ''inet'', nm_table m, chain_name (fr_hook rule), ''handle'',
      dec_of_nat (unat handle)]"

definition nft_list_chain :: "nft_manager \<Rightarrow> firewall_hook \<Rightarrow> string list" where
  "nft_list_chain m hook = [''-a'', ''list'', ''chain'', ''inet'', nm_table m, chain_name hook]"

definition delete_table :: "string \<Rightarrow> string list" where
  "delete_table table = [''delete'', ''table'', ''inet'', table]"

text \<open>\<^verbatim>\<open>find_nft_rule_handle\<close>: the first line that contains every part of the rule.\<close>

definition line_matches :: "worker_firewall_rule \<Rightarrow> string \<Rightarrow> bool" where
  "line_matches rule line \<longleftrightarrow>
     contains_sub (ip_keyword (fr_target_ip rule) @ '' daddr '' @ ip_to_string (fr_target_ip rule)) line \<and>
     contains_sub (proto_name (fr_protocol rule) @ '' sport '' @ port_text (fr_source_port rule)) line \<and>
     contains_sub (proto_name (fr_protocol rule) @ '' dport '' @ port_text (fr_target_port rule)) line \<and>
     contains_sub ''queue'' line \<and> contains_sub (port_text (fr_qnum rule)) line \<and>
     contains_sub ''# handle '' line"

definition line_handle :: "string \<Rightarrow> u64 option" where
  "line_handle line =
     Option.bind (rsplit_once_sub ''# handle '' line) (\<lambda>(_, handle).
     Option.bind (next_word handle) (\<lambda>(word, _). parse_u64 word))"

definition find_nft_rule_handle :: "string \<Rightarrow> worker_firewall_rule \<Rightarrow> u64 option" where
  "find_nft_rule_handle output rule =
     Option.bind (find (line_matches rule) (lines output)) line_handle"

text \<open>The script of the map-based manager; its lines are joined by line feeds.\<close>

definition meta_element :: "worker_assignment \<Rightarrow> string option" where
  "meta_element a = map_option (\<lambda>mark. ''            '' @ hex_alt mark @ '' : queue num '' @
     port_text (wa_qnum a) @ '' bypass,'') (wa_fwmark a)"

definition meta_elements :: "worker_assignment list \<Rightarrow> string" where
  "meta_elements as = join [CHR 0x0A] (List.map_filter meta_element as)"

definition vmap_setup_script :: "vmap_manager \<Rightarrow> string" where
  "vmap_setup_script m =
     (let chain = chain_name (nm_hook m); elements = meta_elements (vm_assignments m);
          prio = nm_priority m in
      join [CHR 0x0A]
       [''table inet '' @ nm_table m @ '' {'',
        ''    map meta_mark_queue {'',
        ''        type mark : meta mark;'',
        ''        elements = {'',
        elements,
        ''        };'',
        ''    }'',
        '''',
        ''    map ct_mark_queue {'',
        ''        type mark : meta mark;'',
        ''        elements = {'',
        elements,
        ''        };'',
        ''    }'',
        '''',
        ''    chain '' @ chain @ '' {'',
        ''        type filter hook '' @ chain @ '' priority '' @ prio @ ''; policy accept;'',
        ''        meta mark '' @ hex_alt (vm_desync_mark m) @
          '' notrack counter accept comment '' @ [CHR 0x22] @ ''desync bypass'' @ [CHR 0x22],
        ''        meta mark vmap @meta_mark_queue'',
        ''        ct mark set meta mark'',
        ''        ct mark vmap @ct_mark_queue'',
        ''    }'',
        '''',
        ''    chain input {'',
        ''        type filter hook input priority '' @ prio @ ''; policy accept;'',
        ''        ct mark vmap @ct_mark_queue'',
        ''    }'',
        ''}''])"

definition iptables_add_rule :: "worker_firewall_rule \<Rightarrow> string list" where
  "iptables_add_rule rule =
     [''-t'', ''mangle'', ''-A'',
      (case fr_hook rule of Output \<Rightarrow> ''OUTPUT'' | Postrouting \<Rightarrow> ''POSTROUTING''),
      ''-p'', proto_name (fr_protocol rule), ''-d'', ip_to_string (fr_target_ip rule),
      ''--sport'', port_text (fr_source_port rule), ''--dport'', port_text (fr_target_port rule),
      ''-j'', ''NFQUEUE'', ''--queue-num'', port_text (fr_qnum rule), ''--queue-bypass'']"

definition iptables_delete_rule :: "worker_firewall_rule \<Rightarrow> string list" where
  "iptables_delete_rule rule = (iptables_add_rule rule)[2 := ''-D'']"

section \<open>Running the commands\<close>

definition command_result :: "string \<Rightarrow> string list \<Rightarrow> cmd_output io \<Rightarrow> firewall_error + unit" where
  "command_result prog args r =
     (case r of
        Inl e \<Rightarrow> Inl (FwIo e)
      | Inr out \<Rightarrow> if co_success out then Inr ()
          else Inl (CommandFailed (prog @ '' '' @ debug_strs args @ '' -> '' @ co_status out)))"

text \<open>\<^verbatim>\<open>nft\<close> and \<^verbatim>\<open>nft_quiet\<close> differ only in where the command's output goes.\<close>

definition nft :: "os \<Rightarrow> string list \<Rightarrow> log \<Rightarrow> (firewall_error + unit) \<times> log" where
  "nft os args log =
     (let (r, log) = run_command os ''nft'' args log in (command_result ''nft'' args r, log))"

definition nft_quiet :: "os \<Rightarrow> string list \<Rightarrow> log \<Rightarrow> (firewall_error + unit) \<times> log" where
  "nft_quiet os args log =
     (let (r, log) = run_command os ''nft'' args log in (command_result ''nft'' args r, log))"

definition nft_output :: "os \<Rightarrow> string list \<Rightarrow> log \<Rightarrow> (firewall_error + string) \<times> log" where
  "nft_output os args log =
     (let (r, log) = run_command os ''nft'' args log in
      (case r of
         Inl e \<Rightarrow> Inl (FwIo e)
       | Inr out \<Rightarrow> if co_success out then Inr (utf8_lossy (co_stdout out))
           else Inl (CommandFailed (''nft '' @ debug_strs args @ '' -> '' @ co_status out @
             '', stderr='' @ trim (utf8_lossy (co_stderr out)))), log))"

definition nft_apply_script :: "os \<Rightarrow> string \<Rightarrow> log \<Rightarrow> (firewall_error + unit) \<times> log" where
  "nft_apply_script os script log =
     (let (r, log) = feed_command os ''nft'' [''-f'', ''-''] script log in
      (case r of
         Inl e \<Rightarrow> Inl (FwIo e)
       | Inr out \<Rightarrow> if co_success out then Inr ()
           else Inl (CommandFailed (''nft script failed: '' @ trim (utf8_lossy (co_stderr out)))), log))"

definition iptables :: "os \<Rightarrow> worker_firewall_rule \<Rightarrow> string list \<Rightarrow> log
    \<Rightarrow> (firewall_error + unit) \<times> log" where
  "iptables os rule args log =
     (let binary = (if is_ipv4 (fr_target_ip rule) then ''iptables'' else ''ip6tables'');
          (r, log) = run_command os binary args log
      in (command_result binary args r, log))"

section \<open>The manager of nftables rules\<close>

definition nft_cleanup_all :: "os \<Rightarrow> nft_manager \<Rightarrow> log \<Rightarrow> (firewall_error + unit) \<times> log" where
  "nft_cleanup_all os m log = (Inr (), snd (nft_quiet os (delete_table (nm_table m)) log))"

definition nft_setup :: "os \<Rightarrow> nft_manager \<Rightarrow> log \<Rightarrow> (firewall_error + unit) \<times> log" where
  "nft_setup os m log =
     (let log = (if nm_cleanup_on_start m then snd (nft_cleanup_all os m log) else log);
          log = snd (nft os [''add'', ''table'', ''inet'', nm_table m] log);
          log = snd (nft os [''add'', ''chain'', ''inet'', nm_table m, chain_name (nm_hook m),
            ''{'', ''type'', ''filter'', ''hook'', chain_name (nm_hook m), ''priority'',
            nm_priority m, '';'', ''}''] log)
      in (Inr (), log))"

definition nft_install_rule :: "os \<Rightarrow> nft_manager \<Rightarrow> worker_firewall_rule \<Rightarrow> log
    \<Rightarrow> (firewall_error + unit) \<times> log" where
  "nft_install_rule os m rule log = nft os (nft_add_rule m rule) log"

definition find_rule_handle :: "os \<Rightarrow> nft_manager \<Rightarrow> worker_firewall_rule \<Rightarrow> log
    \<Rightarrow> (firewall_error + u64 option) \<times> log" where
  "find_rule_handle os m rule log =
     (let (r, log) = nft_output os (nft_list_chain m (fr_hook rule)) log in
      (case r of Inl e \<Rightarrow> Inl e | Inr output \<Rightarrow> Inr (find_nft_rule_handle output rule), log))"

definition nft_remove_rule :: "os \<Rightarrow> nft_manager \<Rightarrow> worker_firewall_rule \<Rightarrow> log
    \<Rightarrow> (firewall_error + unit) \<times> log" where
  "nft_remove_rule os m rule log =
     (let (r, log) = find_rule_handle os m rule log in
      case r of
        Inl e \<Rightarrow> (Inl e, log)
      | Inr None \<Rightarrow> (Inr (), log)
      | Inr (Some handle) \<Rightarrow> nft os (nft_delete_rule_by_handle m rule handle) log)"

section \<open>The manager of the nftables map\<close>

definition vmap_setup :: "os \<Rightarrow> vmap_manager \<Rightarrow> log \<Rightarrow> (firewall_error + unit) \<times> log" where
  "vmap_setup os m log =
     (let log = (if nm_cleanup_on_start m then snd (nft_quiet os (delete_table (nm_table m)) log)
                 else log)
      in nft_apply_script os (vmap_setup_script m) log)"

definition vmap_cleanup_all :: "os \<Rightarrow> vmap_manager \<Rightarrow> log \<Rightarrow> (firewall_error + unit) \<times> log" where
  "vmap_cleanup_all os m log = (Inr (), snd (nft_quiet os (delete_table (nm_table m)) log))"

section \<open>The manager of iptables rules\<close>

definition iptables_install_rule :: "os \<Rightarrow> worker_firewall_rule \<Rightarrow> log
    \<Rightarrow> (firewall_error + unit) \<times> log" where
  "iptables_install_rule os rule log = iptables os rule (iptables_add_rule rule) log"

definition iptables_remove_rule :: "os \<Rightarrow> worker_firewall_rule \<Rightarrow> log
    \<Rightarrow> (firewall_error + unit) \<times> log" where
  "iptables_remove_rule os rule log = iptables os rule (iptables_delete_rule rule) log"

section \<open>The operations of the trait\<close>

definition fw_setup :: "os \<Rightarrow> firewall_manager \<Rightarrow> log \<Rightarrow> (firewall_error + unit) \<times> log" where
  "fw_setup os mgr log =
     (case mgr of
        Nftables m \<Rightarrow> nft_setup os m log
      | NftablesVmap m \<Rightarrow> vmap_setup os m log
      | Iptables \<Rightarrow> (Inr (), log))"

definition fw_install_worker_rule :: "os \<Rightarrow> firewall_manager \<Rightarrow> worker_firewall_rule \<Rightarrow> log
    \<Rightarrow> (firewall_error + unit) \<times> log" where
  "fw_install_worker_rule os mgr rule log =
     (case mgr of
        Nftables m \<Rightarrow> nft_install_rule os m rule log
      | NftablesVmap m \<Rightarrow> (Inr (), log)
      | Iptables \<Rightarrow> iptables_install_rule os rule log)"

definition fw_remove_worker_rule :: "os \<Rightarrow> firewall_manager \<Rightarrow> worker_firewall_rule \<Rightarrow> log
    \<Rightarrow> (firewall_error + unit) \<times> log" where
  "fw_remove_worker_rule os mgr rule log =
     (case mgr of
        Nftables m \<Rightarrow> nft_remove_rule os m rule log
      | NftablesVmap m \<Rightarrow> (Inr (), log)
      | Iptables \<Rightarrow> iptables_remove_rule os rule log)"

definition fw_cleanup_all :: "os \<Rightarrow> firewall_manager \<Rightarrow> log \<Rightarrow> (firewall_error + unit) \<times> log" where
  "fw_cleanup_all os mgr log =
     (case mgr of
        Nftables m \<Rightarrow> nft_cleanup_all os m log
      | NftablesVmap m \<Rightarrow> vmap_cleanup_all os m log
      | Iptables \<Rightarrow> (Inr (), log))"

lemmas firewall_defs = fw_setup_def fw_install_worker_rule_def fw_remove_worker_rule_def
  fw_cleanup_all_def nft_setup_def vmap_setup_def nft_remove_rule_def find_rule_handle_def
  nft_install_rule_def nft_cleanup_all_def vmap_cleanup_all_def iptables_install_rule_def
  iptables_remove_rule_def nft_def nft_quiet_def nft_output_def nft_apply_script_def iptables_def

section \<open>Finding the handle of a rule\<close>

lemma find_sub_at:
  "x \<notin> set u \<Longrightarrow> find_sub (x # xs) (u @ (x # xs) @ v) = Some (length u)"
  by (induction u) (auto simp: starts_with_iff)

lemma rsplit_once_sub_last:
  assumes "p \<noteq> []" and "last p \<notin> set b"
  shows "rsplit_once_sub p (a @ p @ b) = Some (a, b)"
proof -
  obtain xs where p: "rev p = last p # xs"
    using assms(1) by (metis append_butlast_last_id rev_eq_Cons_iff rev_rev_ident)
  have "find_sub (rev p) (rev b @ rev p @ rev a) = Some (length b)"
    using find_sub_at[of "last p" "rev b" xs "rev a"] assms(2) by (simp add: p)
  then show ?thesis by (simp add: rsplit_once_sub_def)
qed

lemma next_word_graphic:
  assumes "s \<noteq> []" and "\<forall>c \<in> set s. is_graphic c"
  shows "next_word s = Some (s, [])"
proof -
  have "trim_start s = s"
    using assms by (cases s) (simp_all add: trim_start.simps ws_len_graphic)
  moreover have "take_word s = s"
    using assms(2) by (induction s) (simp_all add: ws_len_graphic)
  ultimately show ?thesis using assms(1) by (simp add: next_word_def)
qed

lemma dec_graphic: "c \<in> set (dec_of_nat n) \<Longrightarrow> is_graphic c"
  using set_radix_of_nat[of 10 n] digit_char_graphic by (auto simp: dec_of_nat_def)

lemma line_handle_dec: "line_handle (body @ ''# handle '' @ dec_of_nat (unat h)) = Some h"
proof -
  have "CHR '' '' \<notin> set (dec_of_nat (unat h))"
    by (rule dec_of_nat_not_in) (simp add: is_digit_def)
  then have "rsplit_once_sub ''# handle '' (body @ ''# handle '' @ dec_of_nat (unat h)) =
      Some (body, dec_of_nat (unat h))"
    by (intro rsplit_once_sub_last) simp_all
  moreover have "next_word (dec_of_nat (unat h)) = Some (dec_of_nat (unat h), [])"
    by (intro next_word_graphic) (auto simp: dec_of_nat_def dest: dec_graphic[unfolded dec_of_nat_def])
  ultimately show ?thesis by (simp add: line_handle_def del: append.simps)
qed

text \<open>
  In a listing whose lines before the rule's own do not match the rule, the handle that
  deletes the rule is found: the number after the last mark of its line.
\<close>

theorem rule_handle_found:
  assumes "lines output = before @ (body @ ''# handle '' @ dec_of_nat (unat h)) # after"
    and "line_matches rule (body @ ''# handle '' @ dec_of_nat (unat h))"
    and "list_all (\<lambda>l. \<not> line_matches rule l) before"
  shows "find_nft_rule_handle output rule = Some h"
proof -
  have "find (line_matches rule) (before @ l # rest) = Some l" if "line_matches rule l" for l rest
    using assms(3) that by (induction before) auto
  then show ?thesis
    using assms(1,2) line_handle_dec by (simp add: find_nft_rule_handle_def)
qed

text \<open>A line of \<^verbatim>\<open>nft -a list chain\<close>, as in \<^verbatim>\<open>tests/firewall_render_tests.rs\<close>.\<close>

definition listed_line :: "worker_firewall_rule \<Rightarrow> nat \<Rightarrow> string" where
  "listed_line rule h =
     ip_keyword (fr_target_ip rule) @ '' daddr '' @ ip_to_string (fr_target_ip rule) @ '' '' @
     proto_name (fr_protocol rule) @ '' sport '' @ port_text (fr_source_port rule) @ '' '' @
     proto_name (fr_protocol rule) @ '' dport '' @ port_text (fr_target_port rule) @
     '' queue flags bypass to '' @ port_text (fr_qnum rule) @ '' '' @ ''# handle '' @ dec_of_nat h"

definition sample_rule :: worker_firewall_rule where
  "sample_rule = \<lparr> fr_worker_id = 0, fr_qnum = 200, fr_source_port = 4000,
     fr_target_ip = V4 0x01010101, fr_target_port = 443, fr_protocol = Tcp, fr_hook = Output \<rparr>"

lemma sample_texts: "dec_of_nat 200 = ''200''" "dec_of_nat 4000 = ''4000''" "dec_of_nat 443 = ''443''"
  "dec_of_nat 40001 = ''40001''" "dec_of_nat 5 = ''5''" "dec_of_nat 6 = ''6''" "dec_of_nat (Suc 0) = ''1''"
  by (simp_all add: dec_of_nat_def radix_of_nat.simps digit_char_def char_of_def bit_0)

lemma sample_ip: "ip_to_string (V4 0x01010101) = ''1.1.1.1''"
  by (simp add: ipv4_to_string_def octet_def sample_texts)

lemma sample_lines:
  "listed_line sample_rule 6 = ''ip daddr 1.1.1.1 tcp sport 4000 tcp dport 443 queue flags bypass to 200 # handle 6''"
  "listed_line (sample_rule\<lparr> fr_source_port := 40001 \<rparr>) 5 =
     ''ip daddr 1.1.1.1 tcp sport 40001 tcp dport 443 queue flags bypass to 200 # handle 5''"
  by (simp_all add: listed_line_def sample_rule_def ip_keyword_def sample_texts sample_ip del: ip_to_string.simps)


lemmas match_eval = line_matches_def sample_rule_def ip_keyword_def sample_texts sample_ip
  contains_sub_def starts_with_eval

lemma sample_matches:
  "line_matches sample_rule (listed_line sample_rule 6)"
  "line_matches sample_rule (listed_line (sample_rule\<lparr> fr_source_port := 40001 \<rparr>) 5)"
  unfolding sample_lines by (simp_all add: match_eval del: ip_to_string.simps strip_prefix_Some_iff)

lemma sample_listing:
  "lines (listed_line sample_rule 6) = [listed_line sample_rule 6]"
  "lines (listed_line (sample_rule\<lparr> fr_source_port := 40001 \<rparr>) 5 @ [CHR 0x0A] @
     listed_line sample_rule 6) =
   [listed_line (sample_rule\<lparr> fr_source_port := 40001 \<rparr>) 5, listed_line sample_rule 6]"
  unfolding sample_lines by code_simp+

lemma handle_6: "listed_line sample_rule 6 =
   ''ip daddr 1.1.1.1 tcp sport 4000 tcp dport 443 queue flags bypass to 200 '' @
   ''# handle '' @ dec_of_nat (unat (6 :: u64))"
  unfolding sample_lines by (simp add: sample_texts)

lemma handle_5: "listed_line (sample_rule\<lparr> fr_source_port := 40001 \<rparr>) 5 =
   ''ip daddr 1.1.1.1 tcp sport 40001 tcp dport 443 queue flags bypass to 200 '' @
   ''# handle '' @ dec_of_nat (unat (5 :: u64))"
  unfolding sample_lines by (simp add: sample_texts)

theorem rule_handle_found_witness:
  "find_nft_rule_handle (listed_line sample_rule 6) sample_rule = Some 6"
proof (rule rule_handle_found)
  show "lines (listed_line sample_rule 6) =
      [] @ (''ip daddr 1.1.1.1 tcp sport 4000 tcp dport 443 queue flags bypass to 200 '' @
        ''# handle '' @ dec_of_nat (unat (6 :: u64))) # []"
    by (simp only: handle_6[symmetric] sample_listing append_Nil)
qed (simp_all only: handle_6[symmetric] sample_matches list.pred_inject)

text \<open>
  Parts of a rule are searched for as text, so a port that begins with the digits of another
  matches it: of two rules that differ in the source port only, the search for the second can
  return the handle of the first, whose rule is then deleted instead.
\<close>

theorem rule_handle_of_other_rule:
  "\<exists>output rule other h h'. lines output = [listed_line other h, listed_line rule h'] \<and>
     fr_source_port other \<noteq> fr_source_port rule \<and> h \<noteq> h' \<and>
     find_nft_rule_handle output rule = Some (of_nat h)"
proof -
  let ?other = "sample_rule\<lparr> fr_source_port := 40001 \<rparr>"
  let ?out = "listed_line ?other 5 @ [CHR 0x0A] @ listed_line sample_rule 6"
  have "find_nft_rule_handle ?out sample_rule = line_handle (listed_line ?other 5)"
    unfolding find_nft_rule_handle_def sample_listing by (simp add: sample_matches)
  then have "find_nft_rule_handle ?out sample_rule = Some 5"
    unfolding handle_5 line_handle_dec .
  moreover have "fr_source_port ?other \<noteq> fr_source_port sample_rule" by (simp add: sample_rule_def)
  ultimately have "lines ?out = [listed_line ?other 5, listed_line sample_rule 6] \<and>
     fr_source_port ?other \<noteq> fr_source_port sample_rule \<and> (5 :: nat) \<noteq> 6 \<and>
     find_nft_rule_handle ?out sample_rule = Some (of_nat 5)"
    by (simp only: sample_listing) simp
  then show ?thesis by blast
qed

section \<open>The maps of the generated script\<close>

text \<open>Reading an element of a map back: the mark and the queue number.\<close>

definition read_element :: "string \<Rightarrow> (u32 \<times> u16) option" where
  "read_element line =
     Option.bind (strip_prefix ''            0x'' line) (\<lambda>r.
     Option.bind (split_once (CHR '' '') r) (\<lambda>(mark, r).
     Option.bind (strip_prefix '': queue num '' r) (\<lambda>r.
     Option.bind (split_once (CHR '' '') r) (\<lambda>(num, r).
     Option.bind (parse_u32_radix 16 mark) (\<lambda>m.
     Option.bind (parse_u16 num) (\<lambda>q.
     if r = ''bypass,'' then Some (m, q) else None))))))"

definition mark_table :: "worker_assignment list \<Rightarrow> (u32 \<times> u16) list" where
  "mark_table as = List.map_filter (\<lambda>a. map_option (\<lambda>m. (m, wa_qnum a)) (wa_fwmark a)) as"

lemma hex_no_space: "\<not> is_graphic c \<Longrightarrow> c \<notin> set (radix_of_nat 16 n)"
  using set_radix_of_nat[of 16 n] digit_char_graphic by auto

lemma space_not_graphic: "\<not> is_graphic (CHR '' '')" "\<not> is_graphic (CHR 0x0A)"
  by (simp_all add: is_graphic_def)

lemma read_meta_element:
  assumes "wa_fwmark a = Some m" and "meta_element a = Some l"
  shows "read_element l = Some (m, wa_qnum a)" and "CHR 0x0A \<notin> set l"
proof -
  let ?h = "radix_of_nat 16 (unat m)" and ?q = "dec_of_nat (unat (wa_qnum a))"
  have l: "l = ''            0x'' @ ?h @ '' '' @ '': queue num '' @ ?q @ '' '' @ ''bypass,''"
    using assms by (simp add: meta_element_def hex_alt_def)
  have d: "\<not> is_graphic c \<Longrightarrow> c \<notin> set ?q" for c using dec_graphic by blast
  have h: "split_once (CHR '' '') (?h @ CHR '' '' # r) = Some (?h, r)" for r
    using hex_no_space[OF space_not_graphic(1)] by (simp add: split_once_Some)
  have q: "split_once (CHR '' '') (?q @ CHR '' '' # r) = Some (?q, r)" for r
    using d[OF space_not_graphic(1)] by (simp add: split_once_Some)
  have p: "parse_u32_radix 16 ?h = Some m" using parse_u32_hex_padded[of 0 m] by simp
  have "strip_prefix ''            0x'' l = Some (?h @ CHR '' '' # '': queue num '' @ ?q @ '' '' @ ''bypass,'')"
    unfolding l by simp
  moreover have "strip_prefix '': queue num '' ('': queue num '' @ ?q @ '' '' @ ''bypass,'') =
      Some (?q @ CHR '' '' # ''bypass,'')"
    by simp
  ultimately show "read_element l = Some (m, wa_qnum a)"
    unfolding read_element_def by (simp add: h q p del: strip_prefix_Some_iff append.simps)
  show "CHR 0x0A \<notin> set l"
    unfolding l using d[OF space_not_graphic(2)] hex_no_space[OF space_not_graphic(2)] by simp
qed

lemma map_filter_map_filter:
  assumes "\<And>a b. a \<in> set xs \<Longrightarrow> f a = Some b \<Longrightarrow> g b = h a" and "\<And>a. a \<in> set xs \<Longrightarrow> f a = None \<Longrightarrow> h a = None"
  shows "List.map_filter g (List.map_filter f xs) = List.map_filter h xs"
  using assms
proof (induction xs)
  case Nil
  then show ?case by (simp add: List.map_filter_simps)
next
  case (Cons a xs)
  have "List.map_filter g (List.map_filter f xs) = List.map_filter h xs" using Cons by simp
  moreover have "f a = None \<Longrightarrow> h a = None" "\<And>b. f a = Some b \<Longrightarrow> g b = h a" using Cons.prems by simp_all
  ultimately show ?case by (cases "f a"; cases "h a") (simp_all add: List.map_filter_simps)
qed

lemma join_middle:
  "xs \<noteq> [] \<Longrightarrow> ys \<noteq> [] \<Longrightarrow> join d (xs @ [e] @ ys) = join d xs @ d @ e @ d @ join d ys"
proof (induction xs)
  case (Cons x xs)
  then show ?case by (cases "xs = []") (simp_all add: join_Cons)
qed simp

lemma join_twice:
  "\<exists>a b c. join d (s1 # s2 # s3 # s4 # e # t1 # t2 # t3 # t4 # t5 # t6 # e # u # us) =
     a @ d @ e @ d @ b @ d @ e @ d @ c"
  using join_middle[of "[s1, s2, s3, s4]" "[t1, t2, t3, t4, t5, t6, e] @ u # us" d e]
    join_middle[of "[t1, t2, t3, t4, t5, t6]" "u # us" d e]
  by (simp del: join.simps) blast


section \<open>The rules that iptables holds\<close>

text \<open>
  The rules appended and not deleted since by the commands of a log, each as the program and the
  arguments that appended it: a successful \<^verbatim>\<open>-D\<close> removes the rule its other arguments describe.
\<close>

definition ip_rule_change :: "event \<Rightarrow> (string \<times> string list) multiset \<Rightarrow> (string \<times> string list) multiset" where
  "ip_rule_change e rules =
     (case e of
        Ran prog args (Inr out) \<Rightarrow>
          if co_success out \<and> (prog = ''iptables'' \<or> prog = ''ip6tables'') \<and> 2 < length args then
            (if args ! 2 = ''-A'' then add_mset (prog, args) rules
             else if args ! 2 = ''-D'' then rules - {#(prog, args[2 := ''-A''])#}
             else rules)
          else rules
      | _ \<Rightarrow> rules)"

definition ip_rules :: "log \<Rightarrow> (string \<times> string list) multiset" where
  "ip_rules log = fold ip_rule_change log {#}"

lemma ip_rules_snoc: "ip_rules (log @ [e]) = ip_rule_change e (ip_rules log)"
  by (simp add: ip_rules_def)

lemma ip_rules_other [simp]:
  "ip_rules (log @ [Slept n]) = ip_rules log" "ip_rules (log @ [Probed]) = ip_rules log"
  "ip_rules (log @ [Spawned p a l r]) = ip_rules log" "ip_rules (log @ [Polled c q]) = ip_rules log"
  "ip_rules (log @ [Waited c n w]) = ip_rules log" "ip_rules (log @ [Killed c k]) = ip_rules log"
  "prog \<noteq> ''iptables'' \<Longrightarrow> prog \<noteq> ''ip6tables'' \<Longrightarrow> ip_rules (log @ [Ran prog args o']) = ip_rules log"
  by (auto simp: ip_rules_snoc ip_rule_change_def split: sum.split)

definition ip_rule_key :: "worker_firewall_rule \<Rightarrow> string \<times> string list" where
  "ip_rule_key rule = (if is_ipv4 (fr_target_ip rule) then ''iptables'' else ''ip6tables'',
     iptables_add_rule rule)"

lemma iptables_args:
  "2 < length (iptables_add_rule rule)" "iptables_add_rule rule ! 2 = ''-A''"
  "2 < length (iptables_delete_rule rule)" "iptables_delete_rule rule ! 2 = ''-D''"
  "(iptables_delete_rule rule)[2 := ''-A''] = iptables_add_rule rule"
  by (simp_all add: iptables_add_rule_def iptables_delete_rule_def)

lemma iptables_install:
  assumes "fw_install_worker_rule os Iptables rule log = (r, log')"
  shows "live log' = live log"
    and "r = Inr () \<Longrightarrow> ip_rules log' = add_mset (ip_rule_key rule) (ip_rules log)"
    and "r = Inl e \<Longrightarrow> ip_rules log' = ip_rules log"
  using assms iptables_args(1,2)[of rule]
  by (auto simp: firewall_defs run_command_def Let_def command_result_def ip_rules_snoc
      ip_rule_change_def ip_rule_key_def split: sum.splits if_splits)

lemma iptables_remove:
  assumes "fw_remove_worker_rule os Iptables rule log = (r, log')"
  shows "live log' = live log"
    and "r = Inr () \<Longrightarrow> ip_rules log' = ip_rules log - {#ip_rule_key rule#}"
    and "r = Inl e \<Longrightarrow> ip_rules log' = ip_rules log"
  using assms iptables_args(3-5)[of rule]
  by (auto simp: firewall_defs run_command_def Let_def command_result_def ip_rules_snoc
      ip_rule_change_def ip_rule_key_def split: sum.splits if_splits)

end
