(* ===== verification/Nfqws.thy ===== *)
theory Nfqws
  imports World
begin

text \<open>
  \<^verbatim>\<open>src/nfqws.rs\<close>: the arguments of an nfqws2 process and the protocol that starts and stops it.
  The tasks that forward its output to the log of the program are left out.
\<close>

datatype nfqws_error = StartFailed string | ExitedEarly string | StopFailed string | NfIo string

definition nfqws_error_text :: "nfqws_error \<Rightarrow> string" where
  "nfqws_error_text e =
     (case e of
        StartFailed m \<Rightarrow> ''start failed: '' @ m
      | ExitedEarly m \<Rightarrow> ''exited early: '' @ m
      | StopFailed m \<Rightarrow> ''stop failed: '' @ m
      | NfIo m \<Rightarrow> ''io error: '' @ m)"

record nfqws_instance_config =
  ni_qnum :: u16
  ni_binary :: path
  ni_library_paths :: "path list"
  ni_base_args :: "string list"
  ni_strategy_args :: "string list"
  ni_worker_id :: nat
  ni_strategy_id :: string
  ni_start_grace_ms :: nat
  ni_log_stdout :: bool
  ni_log_stderr :: bool

record nfqws_handle =
  nh_qnum :: u16
  nh_worker_id :: nat
  nh_strategy_id :: string
  nh_child :: child

definition build_nfqws_args :: "nfqws_instance_config \<Rightarrow> string list" where
  "build_nfqws_args cfg =
     ni_base_args cfg @ [''--qnum='' @ dec_of_nat (unat (ni_qnum cfg))] @ ni_strategy_args cfg"

definition render_library_path :: "os \<Rightarrow> path list \<Rightarrow> string" where
  "render_library_path os paths =
     (let parts = map utf8_lossy paths;
          extra = (case os_library_path os of
                     Some existing \<Rightarrow> if existing \<noteq> [] then [existing] else []
                   | None \<Rightarrow> [])
      in join '':'' (parts @ extra))"

definition nfqws_start :: "os \<Rightarrow> nfqws_instance_config \<Rightarrow> log \<Rightarrow> (nfqws_error + nfqws_handle) \<times> log" where
  "nfqws_start os cfg log =
     (let args = ni_base_args cfg @ [''--qnum='' @ dec_of_nat (unat (ni_qnum cfg))] @ ni_strategy_args cfg;
          libs = (if ni_library_paths cfg = [] then None
                  else Some (render_library_path os (ni_library_paths cfg)));
          (spawned, log) = spawn_command os (ni_binary cfg) args libs log in
      case spawned of
        Inl e \<Rightarrow> (Inl (StartFailed e), log)
      | Inr c \<Rightarrow>
          let log = log @ [Slept (ni_start_grace_ms cfg)];
              (polled, log) = poll_child os c log in
          case polled of
            Inl e \<Rightarrow> (Inl (NfIo e), log)
          | Inr (Some status) \<Rightarrow>
              let (out, err) = os_child_output os log c in
              (Inl (ExitedEarly (''status='' @ status @ '', args='' @
                 debug_strs (build_nfqws_args cfg) @ '', stdout='' @ trim out @
                 '', stderr='' @ trim err)), log)
          | Inr None \<Rightarrow>
              (Inr \<lparr> nh_qnum = ni_qnum cfg, nh_worker_id = ni_worker_id cfg,
                     nh_strategy_id = ni_strategy_id cfg, nh_child = c \<rparr>, log))"

text \<open>After the graceful attempt timed out: kill and wait once more.\<close>

definition kill_and_wait :: "os \<Rightarrow> nat \<Rightarrow> child \<Rightarrow> log \<Rightarrow> (nfqws_error + unit) \<times> log" where
  "kill_and_wait os stop_timeout_ms c log =
     (let (killed, log) = kill_child os c log in
      case killed of
        Inl e \<Rightarrow> (Inl (StopFailed e), log)
      | Inr _ \<Rightarrow>
          let (waited, log) = wait_child os c stop_timeout_ms log in
          (case waited of
             Some (Inr _) \<Rightarrow> Inr ()
           | Some (Inl e) \<Rightarrow> Inl (StopFailed e)
           | None \<Rightarrow> Inl (StopFailed ''kill timeout''), log))"

text \<open>The result of the \<^verbatim>\<open>kill -TERM\<close> command is ignored.\<close>

definition send_term :: "os \<Rightarrow> child \<Rightarrow> log \<Rightarrow> log" where
  "send_term os c log =
     (case os_child_id os log c of
        Some pid \<Rightarrow> snd (run_command os ''kill'' [''-TERM'', dec_of_nat pid] log)
      | None \<Rightarrow> log)"

definition nfqws_stop :: "os \<Rightarrow> nat \<Rightarrow> nfqws_handle \<Rightarrow> log \<Rightarrow> (nfqws_error + unit) \<times> log" where
  "nfqws_stop os stop_timeout_ms handle log =
     (let c = nh_child handle; (polled, log) = poll_child os c log in
      case polled of
        Inl e \<Rightarrow> (Inl (NfIo e), log)
      | Inr (Some _) \<Rightarrow> (Inr (), log)
      | Inr None \<Rightarrow>
          let log = send_term os c log;
              (waited, log) = wait_child os c stop_timeout_ms log in
          case waited of
            Some (Inr _) \<Rightarrow> (Inr (), log)
          | Some (Inl e) \<Rightarrow> (Inl (StopFailed e), log)
          | None \<Rightarrow> kill_and_wait os stop_timeout_ms c log)"

lemmas nfqws_defs = nfqws_start_def nfqws_stop_def kill_and_wait_def world_defs

section \<open>Processes started and stopped\<close>

lemma nfqws_start_live:
  assumes "nfqws_start os cfg log = (r, log')"
  shows "r = Inr h \<Longrightarrow> live log' = insert (nh_child h) (live log) \<and> nh_child h \<notin> live log"
    and "r = Inl e \<Longrightarrow> \<nexists>m. e = NfIo m \<Longrightarrow> live log' = live log"
    and "live log \<subseteq> live log'"
  using assms live_bound[of "length log" log]
  by (auto simp: nfqws_defs split: sum.splits option.splits prod.splits dest: live_bound)

lemma kill_and_wait_live:
  assumes "kill_and_wait os ms c log = (r, log')"
  shows "r = Inr () \<Longrightarrow> live log' = live log - {c}"
    and "live log - {c} \<subseteq> live log'" and "live log' \<subseteq> live log"
  using assms by (auto simp: nfqws_defs split: sum.splits option.splits)

lemma send_term_live [simp]: "live (send_term os c log) = live log"
  by (simp add: send_term_def run_command_def Let_def split: option.split)

lemma nfqws_stop_live:
  assumes "nfqws_stop os ms h log = (r, log')"
  shows "r = Inr () \<Longrightarrow> live log' = live log - {nh_child h}"
    and "live log - {nh_child h} \<subseteq> live log'" and "live log' \<subseteq> live log"
  using assms kill_and_wait_live[of os ms "nh_child h" _ r log']
  by (fastforce simp: nfqws_stop_def poll_child_def wait_child_def Let_def
      split: sum.splits option.splits)+

end
