(* ===== verification/Worker.thy ===== *)
theory Worker
  imports Probe Firewall Nfqws NodeSelection
begin

text \<open>
  \<^verbatim>\<open>src/worker.rs\<close> and \<^verbatim>\<open>run_strategy_tests\<close> of \<^verbatim>\<open>src/worker_pool.rs\<close>: one strategy run
  against one target, from the prepared socket over the nfqws2 process and the firewall rule to
  the probe and the teardown, and the runs of a strategy against all its targets. The operations
  of the two traits the runtime calls are a record, with the contract the teardown relies on as a
  locale.
\<close>

section \<open>The runtime\<close>

record worker_runtime =
  wr_firewall :: firewall_manager
  wr_stop_timeout_ms :: nat
  wr_native_probe :: native_prober
  wr_nfqws_binary :: path
  wr_nfqws_library_paths :: "path list"
  wr_nfqws_base_args :: "string list"
  wr_nfqws_start_grace_ms :: nat
  wr_nfqws_log_stdout :: bool
  wr_nfqws_log_stderr :: bool
  wr_firewall_hook :: firewall_hook
  wr_isolation_mode :: isolation_mode

record services =
  sv_install :: "worker_firewall_rule \<Rightarrow> log \<Rightarrow> (firewall_error + unit) \<times> log"
  sv_remove :: "worker_firewall_rule \<Rightarrow> log \<Rightarrow> (firewall_error + unit) \<times> log"
  sv_start :: "nfqws_instance_config \<Rightarrow> log \<Rightarrow> (nfqws_error + nfqws_handle) \<times> log"
  sv_stop :: "nfqws_handle \<Rightarrow> log \<Rightarrow> (nfqws_error + unit) \<times> log"

definition runtime_services :: "os \<Rightarrow> worker_runtime \<Rightarrow> services" where
  "runtime_services os rt =
     \<lparr> sv_install = fw_install_worker_rule os (wr_firewall rt),
       sv_remove = fw_remove_worker_rule os (wr_firewall rt),
       sv_start = nfqws_start os, sv_stop = nfqws_stop os (wr_stop_timeout_ms rt) \<rparr>"

text \<open>The network and the clock, as functions of what happened before.\<close>

record worker_env =
  we_sockets :: "log \<Rightarrow> socket_env"
  we_probe :: "log \<Rightarrow> probe_env"
  we_in_time :: "log \<Rightarrow> nat \<Rightarrow> bool"
  we_elapsed_ms :: "log \<Rightarrow> nat"

section \<open>One run\<close>

definition nfqws_config :: "worker_runtime \<Rightarrow> probe_task \<Rightarrow> u16 \<Rightarrow> nfqws_instance_config" where
  "nfqws_config rt task qnum =
     \<lparr> ni_qnum = qnum, ni_binary = wr_nfqws_binary rt,
       ni_library_paths = wr_nfqws_library_paths rt, ni_base_args = wr_nfqws_base_args rt,
       ni_strategy_args = pt_strategy_args task, ni_worker_id = pt_worker_id task,
       ni_strategy_id = pt_strategy_id task, ni_start_grace_ms = wr_nfqws_start_grace_ms rt,
       ni_log_stdout = wr_nfqws_log_stdout rt, ni_log_stderr = wr_nfqws_log_stderr rt \<rparr>"

definition worker_rule :: "worker_runtime \<Rightarrow> probe_task \<Rightarrow> u16 \<Rightarrow> u16 \<Rightarrow> worker_firewall_rule" where
  "worker_rule rt task qnum source_port =
     \<lparr> fr_worker_id = pt_worker_id task, fr_qnum = qnum, fr_source_port = source_port,
       fr_target_ip = pt_target_ip task, fr_target_port = pt_target_port task,
       fr_protocol = (if pt_protocol task = QuicHttp3Future then Udp else Tcp),
       fr_hook = wr_firewall_hook rt \<rparr>"

definition timed_out_result :: "probe_task \<Rightarrow> u16 \<Rightarrow> u16 \<Rightarrow> nat \<Rightarrow> probe_result" where
  "timed_out_result task qnum source_port ms =
     (infrastructure_failure task (Some qnum) (Some source_port) ReadTimeout ''total timeout'' ms)\<lparr>
       pr_outcome := Timeout, pr_failure_kind := Some StrategyFailure \<rparr>"

text \<open>An error of the teardown is recorded only in a result that has none.\<close>

definition note_error :: "probe_error_class \<Rightarrow> ('e + unit) \<Rightarrow> probe_result \<Rightarrow> probe_result" where
  "note_error cls outcome result =
     (case outcome of
        Inr _ \<Rightarrow> result
      | Inl _ \<Rightarrow> if pr_error_class result = None then result\<lparr> pr_error_class := Some cls \<rparr> else result)"

text \<open>The probe and the teardown, once the process runs and the rule is installed.\<close>

definition probe_and_teardown :: "services \<Rightarrow> worker_runtime \<Rightarrow> worker_env \<Rightarrow> probe_task \<Rightarrow> u16
    \<Rightarrow> prepared_socket \<Rightarrow> nfqws_handle \<Rightarrow> worker_firewall_rule \<Rightarrow> log \<Rightarrow> probe_result \<times> log" where
  "probe_and_teardown sv rt env task qnum prepared handle rule log =
     (let source_port = ps_source_port prepared; setup_ms = we_elapsed_ms env log;
          ctx = \<lparr> cx_qnum = qnum, cx_baseline = False \<rparr>;
          result = (if we_in_time env log (to_total_ms (pt_timeouts task))
                    then probe_with_prepared_socket (wr_native_probe rt) task ctx prepared (we_probe env log)
                    else timed_out_result task qnum source_port (we_elapsed_ms env (log @ [Probed])));
          log = log @ [Probed];
          source_port = (case pr_assigned_source_port result of
                           Some p \<Rightarrow> if p \<noteq> 0 then p else source_port
                         | None \<Rightarrow> source_port);
          result = result\<lparr> pr_setup_ms := Some setup_ms \<rparr>;
          (result, log) =
            (if wr_isolation_mode rt = SourcePort
             then let (removed, log) = sv_remove sv rule log
                  in (note_error FirewallRemoveFailed removed result, log)
             else (result, log));
          (stopped, log) = sv_stop sv handle log;
          result = note_error NfqwsStopFailed stopped result
      in (result\<lparr> pr_qnum := Some qnum, pr_assigned_source_port := Some source_port \<rparr>, log))"

text \<open>
  \<^verbatim>\<open>run_worker_task\<close>; \<open>None\<close> is the panic of an assignment without a mark in fwmark mode.
\<close>

definition prepare_worker_socket :: "worker_runtime \<Rightarrow> probe_task \<Rightarrow> worker_assignment \<Rightarrow> socket_env
    \<Rightarrow> (probe_error + prepared_socket) option" where
  "prepare_worker_socket rt task assignment se =
     (case wr_isolation_mode rt of
        SourcePort \<Rightarrow>
          Some (prepare_transport (wr_native_probe rt) (pt_protocol task) (pt_target_ip task) se)
      | Fwmark \<Rightarrow> map_option (\<lambda>mark. prepare_transport_fwmark (wr_native_probe rt) (pt_protocol task)
          (pt_target_ip task) mark se) (wa_fwmark assignment))"

definition run_worker_task :: "services \<Rightarrow> worker_runtime \<Rightarrow> worker_env \<Rightarrow> probe_task
    \<Rightarrow> worker_assignment \<Rightarrow> log \<Rightarrow> (probe_result \<times> log) option" where
  "run_worker_task sv rt env task assignment log =
     map_option (\<lambda>prepared.
       let qnum = wa_qnum assignment in
       case prepared of
         Inl e \<Rightarrow> (infrastructure_failure task (Some qnum) None BindFailed (probe_error_text e)
                     (we_elapsed_ms env log), log)
       | Inr prepared \<Rightarrow>
           let source_port = ps_source_port prepared;
               (started, log) = sv_start sv (nfqws_config rt task qnum) log in
           case started of
             Inl e \<Rightarrow> (infrastructure_failure task (Some qnum) (Some source_port) NfqwsStartFailed
                         (nfqws_error_text e) (we_elapsed_ms env log), log)
           | Inr handle \<Rightarrow>
               let rule = worker_rule rt task qnum source_port;
                   (installed, log) = (if wr_isolation_mode rt = SourcePort
                                       then sv_install sv rule log else (Inr (), log)) in
               case installed of
                 Inl e \<Rightarrow>
                   let log = snd (sv_stop sv handle log) in
                   (infrastructure_failure task (Some qnum) (Some source_port)
                      FirewallInstallFailed (firewall_error_text e) (we_elapsed_ms env log), log)
               | Inr _ \<Rightarrow> probe_and_teardown sv rt env task qnum prepared handle rule log)
       (prepare_worker_socket rt task assignment (we_sockets env log))"

definition run_strategy_task :: "services \<Rightarrow> worker_runtime \<Rightarrow> worker_env \<Rightarrow> strategy_task
    \<Rightarrow> worker_assignment \<Rightarrow> log \<Rightarrow> (probe_result \<times> log) option" where
  "run_strategy_task sv rt env task assignment log =
     run_worker_task sv rt env (from_strategy_task task (wa_worker_id assignment)) assignment log"

section \<open>The branches of a run\<close>

abbreviation run_rule :: "worker_runtime \<Rightarrow> probe_task \<Rightarrow> worker_assignment \<Rightarrow> prepared_socket
    \<Rightarrow> worker_firewall_rule" where
  "run_rule rt task a ps \<equiv> worker_rule rt task (wa_qnum a) (ps_source_port ps)"

lemma run_worker_task_cases:
  assumes "run_worker_task sv rt env task a log = Some (r, log')"
  obtains (no_socket) e where "prepare_worker_socket rt task a (we_sockets env log) = Some (Inl e)"
      "r = infrastructure_failure task (Some (wa_qnum a)) None BindFailed (probe_error_text e)
         (we_elapsed_ms env log)" "log' = log"
  | (not_started) ps e where "prepare_worker_socket rt task a (we_sockets env log) = Some (Inr ps)"
      "sv_start sv (nfqws_config rt task (wa_qnum a)) log = (Inl e, log')"
      "r = infrastructure_failure task (Some (wa_qnum a)) (Some (ps_source_port ps)) NfqwsStartFailed
         (nfqws_error_text e) (we_elapsed_ms env log')"
  | (not_installed) ps h l1 e l2 where
      "prepare_worker_socket rt task a (we_sockets env log) = Some (Inr ps)"
      "sv_start sv (nfqws_config rt task (wa_qnum a)) log = (Inr h, l1)"
      "sv_install sv (run_rule rt task a ps) l1 = (Inl e, l2)" "log' = snd (sv_stop sv h l2)"
      "r = infrastructure_failure task (Some (wa_qnum a)) (Some (ps_source_port ps))
         FirewallInstallFailed (firewall_error_text e) (we_elapsed_ms env log')"
  | (ran) ps h l1 l2 where
      "prepare_worker_socket rt task a (we_sockets env log) = Some (Inr ps)"
      "sv_start sv (nfqws_config rt task (wa_qnum a)) log = (Inr h, l1)"
      "if wr_isolation_mode rt = SourcePort then sv_install sv (run_rule rt task a ps) l1 = (Inr (), l2)
       else l2 = l1"
      "probe_and_teardown sv rt env task (wa_qnum a) ps h (run_rule rt task a ps) l2 = (r, log')"
proof -
  obtain p where p: "prepare_worker_socket rt task a (we_sockets env log) = Some p"
    using assms by (auto simp: run_worker_task_def)
  show thesis
  proof (cases p)
    case (Inl e)
    show thesis by (rule no_socket[of e]) (use assms p Inl in \<open>auto simp: run_worker_task_def\<close>)
  next
    case ps: (Inr ps)
    obtain started l1 where s: "sv_start sv (nfqws_config rt task (wa_qnum a)) log = (started, l1)"
      by fastforce
    show thesis
    proof (cases started)
      case (Inl e)
      show thesis
        by (rule not_started[of ps e]) (use assms p ps s Inl in \<open>auto simp: run_worker_task_def Let_def\<close>)
    next
      case h: (Inr h)
      obtain inst l2 where i: "(if wr_isolation_mode rt = SourcePort
          then sv_install sv (run_rule rt task a ps) l1 else (Inr (), l1)) = (inst, l2)"
        by fastforce
      show thesis
      proof (cases inst)
        case (Inl e)
        then have e: "sv_install sv (run_rule rt task a ps) l1 = (Inl e, l2)" using i by (auto split: if_splits)
        show thesis
          by (rule not_installed[OF p[unfolded ps] s[unfolded h] e])
             (use assms p ps s h i Inl in \<open>auto simp: run_worker_task_def Let_def\<close>)
      next
        case (Inr u)
        then have u: "if wr_isolation_mode rt = SourcePort
            then sv_install sv (run_rule rt task a ps) l1 = (Inr (), l2) else l2 = l1"
          using i by (auto split: if_splits)
        show thesis
          by (rule ran[OF p[unfolded ps] s[unfolded h] u])
             (use assms p ps s h i Inr in \<open>auto simp: run_worker_task_def Let_def\<close>)
      qed
    qed
  qed
qed

lemma teardown_log:
  "probe_and_teardown sv rt env task q p h rule l = (r, l') \<Longrightarrow>
     l' = snd (sv_stop sv h (if wr_isolation_mode rt = SourcePort then snd (sv_remove sv rule (l @ [Probed]))
                             else l @ [Probed]))"
  by (auto simp: probe_and_teardown_def Let_def split: prod.splits if_splits)

section \<open>The contract of the services, and the teardown\<close>

text \<open>
  What a run relies on: installing a rule adds it to the rules in force and removing it takes it
  away again, a started process is a new live one, stopping it ends it, and neither touches what
  the other keeps. A failed operation changes nothing, except that a process whose state could not
  be read after its start (\<open>NfIo\<close>) may be left behind. A manager that has to find a rule before it
  can remove it promises so only for a rule that is \<open>removable\<close>.
\<close>

locale task_services =
  fixes sv :: services and rules :: "log \<Rightarrow> 'r multiset" and key :: "worker_firewall_rule \<Rightarrow> 'r multiset"
    and removable :: "worker_firewall_rule \<Rightarrow> log \<Rightarrow> bool"
  assumes install: "sv_install sv r l = (res, l') \<Longrightarrow> live l' = live l \<and>
      rules l' = (case res of Inr _ \<Rightarrow> rules l + key r | Inl _ \<Rightarrow> rules l)"
    and remove: "sv_remove sv r l = (res, l') \<Longrightarrow> removable r l \<Longrightarrow> live l' = live l \<and>
      rules l' = (case res of Inr _ \<Rightarrow> rules l - key r | Inl _ \<Rightarrow> rules l)"
    and start: "sv_start sv c l = (Inr h, l') \<Longrightarrow> live l' = insert (nh_child h) (live l) \<and>
      nh_child h \<notin> live l" "sv_start sv c l = (Inl e, l') \<Longrightarrow> \<nexists>m. e = NfIo m \<Longrightarrow> live l' = live l"
    and start_rules: "sv_start sv c l = (started, l') \<Longrightarrow> rules l' = rules l"
    and stop: "sv_stop sv h l = (Inr (), l') \<Longrightarrow> live l' = live l - {nh_child h}"
    and stop_rules: "sv_stop sv h l = (stopped, l') \<Longrightarrow> rules l' = rules l"
    and probed: "rules (l @ [Probed]) = rules l"
    and appends: "\<exists>es. snd (sv_install sv r l) = l @ es" "\<exists>es. snd (sv_remove sv r l) = l @ es"
      "\<exists>es. snd (sv_stop sv h l) = l @ es"
begin

lemma teardown_extends:
  assumes "probe_and_teardown sv rt env task q p h rule l = (r, l')"
  shows "\<exists>es. l' = (l @ [Probed]) @ es"
proof -
  let ?l1 = "if wr_isolation_mode rt = SourcePort then snd (sv_remove sv rule (l @ [Probed])) else l @ [Probed]"
  have "\<exists>es. ?l1 = (l @ [Probed]) @ es"
    using appends(2)[of rule "l @ [Probed]"] by (cases "wr_isolation_mode rt = SourcePort") simp_all
  then obtain es where "?l1 = (l @ [Probed]) @ es" by blast
  moreover obtain fs where "snd (sv_stop sv h ?l1) = ?l1 @ fs" using appends(3) by blast
  ultimately show ?thesis unfolding teardown_log[OF assms] by simp
qed

lemma teardown_clean:
  assumes "probe_and_teardown sv rt env task q p h rule l = (r, l')"
    and "wr_isolation_mode rt = SourcePort \<Longrightarrow> removable rule (l @ [Probed])"
    and "\<forall>l. is_ok (fst (sv_remove sv rule l))" "\<forall>l. is_ok (fst (sv_stop sv h l))"
  shows "live l' = live l - {nh_child h} \<and>
    rules l' = (if wr_isolation_mode rt = SourcePort then rules l - key rule else rules l)"
proof -
  have st: "\<exists>l'. sv_stop sv h l = (Inr (), l') \<and> live l' = live l - {nh_child h} \<and> rules l' = rules l"
    for l using assms(4)[rule_format, of l] stop[of h l] stop_rules[of h l]
    by (cases "sv_stop sv h l") (auto simp: is_ok_iff)
  show ?thesis
  proof (cases "wr_isolation_mode rt = SourcePort")
    case True
    obtain l1 where l1: "sv_remove sv rule (l @ [Probed]) = (Inr (), l1)" "live l1 = live l"
      "rules l1 = rules l - key rule"
      using assms(3)[rule_format, of "l @ [Probed]"] remove[of rule "l @ [Probed]"] assms(2)[OF True] probed
      by (cases "sv_remove sv rule (l @ [Probed])") (auto simp: is_ok_iff split: sum.splits)
    obtain l2 where l2: "sv_stop sv h l1 = (Inr (), l2)" "live l2 = live l - {nh_child h}" "rules l2 = rules l1"
      using st[of l1] l1(2) by auto
    have "l' = l2"
      using assms(1) l1(1) l2(1) True by (auto simp: probe_and_teardown_def Let_def split: if_splits)
    then show ?thesis using l1 l2 True by simp
  next
    case False
    obtain l3 where l3: "sv_stop sv h (l @ [Probed]) = (Inr (), l3)" "live l3 = live l - {nh_child h}"
      "rules l3 = rules l"
      using st[of "l @ [Probed]"] probed by auto
    have "l' = l3"
      using assms(1) l3(1) False by (auto simp: probe_and_teardown_def Let_def split: if_splits)
    then show ?thesis using l3 False by simp
  qed
qed

lemma run_clean:
  assumes "run_worker_task sv rt env task a l = Some (r, l')"
    and "\<forall>rule l. is_ok (fst (sv_remove sv rule l))" "\<forall>h l. is_ok (fst (sv_stop sv h l))"
    and "\<nexists>c l m. fst (sv_start sv c l) = Inl (NfIo m)"
    and "\<And>ps l2 es. prepare_worker_socket rt task a (we_sockets env l) = Some (Inr ps) \<Longrightarrow>
      l' = l2 @ es \<Longrightarrow> rules l2 = rules l + key (run_rule rt task a ps) \<Longrightarrow>
      wr_isolation_mode rt = SourcePort \<Longrightarrow> removable (run_rule rt task a ps) l2"
  shows "live l' = live l \<and> rules l' = rules l"
  using assms(1)
proof (cases rule: run_worker_task_cases)
  case (not_started ps e)
  then have "\<nexists>m. e = NfIo m" using assms(4) by (metis fst_conv)
  then show ?thesis using start(2)[OF not_started(2)] start_rules[OF not_started(2)] by simp
next
  case (not_installed ps h l1 e l2)
  obtain u where "sv_stop sv h l2 = (Inr u, l')"
    using assms(3) not_installed(4) by (metis is_ok_iff prod.collapse)
  then show ?thesis
    using stop[of h l2 l'] stop_rules[of h l2 "Inr u" l'] install[OF not_installed(3)] start(1)[OF not_installed(2)]
      start_rules[OF not_installed(2)] by auto
next
  case (ran ps h l1 l2)
  have "live l2 = live l1 \<and> rules l2 =
      (if wr_isolation_mode rt = SourcePort then rules l1 + key (run_rule rt task a ps) else rules l1)"
    using ran(3) install[of "run_rule rt task a ps" l1 "Inr ()" l2] by (auto split: if_splits)
  moreover have "removable (run_rule rt task a ps) (l2 @ [Probed])" if "wr_isolation_mode rt = SourcePort"
    using assms(5)[OF ran(1) _ _ that, of "l2 @ [Probed]"] teardown_extends[OF ran(4)] calculation
      start_rules[OF ran(2)] that by (auto simp: probed)
  ultimately show ?thesis
    using teardown_clean[OF ran(4)] assms(2,3) start(1)[OF ran(2)] start_rules[OF ran(2)] by auto
qed simp

text \<open>A success was measured while the process of the run was live and its rule in force.\<close>

lemma success_covered:
  assumes "run_worker_task sv rt env task a l = Some (r, l')" and "pr_outcome r = Success"
  shows "\<exists>l1 c es rule. l' = l1 @ Probed # es \<and> c \<notin> live l \<and> live l1 = insert c (live l) \<and>
    fr_qnum rule = wa_qnum a \<and>
    rules l1 = (if wr_isolation_mode rt = SourcePort then rules l + key rule else rules l)"
  using assms(1)
proof (cases rule: run_worker_task_cases)
  case (ran ps h l1 l2)
  obtain es where "l' = l2 @ Probed # es" using teardown_extends[OF ran(4)] by auto
  moreover have "live l2 = insert (nh_child h) (live l) \<and> nh_child h \<notin> live l \<and> rules l2 =
      (if wr_isolation_mode rt = SourcePort then rules l + key (run_rule rt task a ps) else rules l)"
    using ran(3) start(1)[OF ran(2)] start_rules[OF ran(2)]
      install[of "run_rule rt task a ps" l1 "Inr ()" l2] by (auto split: if_splits)
  ultimately show ?thesis
    by (intro exI[of _ l2] exI[of _ "nh_child h"] exI[of _ es] exI[of _ "run_rule rt task a ps"])
       (simp add: worker_rule_def)
qed (use assms(2) in \<open>simp_all add: infrastructure_failure_def\<close>)

end

section \<open>The managers meet the contract\<close>

text \<open>Starting and stopping a process leaves only events that concern no rule.\<close>

fun process_event :: "event \<Rightarrow> bool" where
  "process_event (Ran prog _ _) \<longleftrightarrow> prog = ''kill''"
| "process_event (Fed _ _ _ _) \<longleftrightarrow> False"
| "process_event _ \<longleftrightarrow> True"

lemma start_events:
  "\<exists>es. snd (nfqws_start os cfg log) = log @ es \<and> list_all process_event es"
  by (auto simp: nfqws_defs split: sum.splits option.splits prod.splits)

lemma stop_events:
  "\<exists>es. snd (nfqws_stop os ms h log) = log @ es \<and> list_all process_event es"
  by (auto simp: nfqws_defs send_term_def split: sum.splits option.splits)

lemma rules_kept:
  "list_all process_event es \<Longrightarrow> (\<And>l e. process_event e \<Longrightarrow> rules (l @ [e]) = rules l) \<Longrightarrow>
     rules (log @ es) = rules log"
  by (induction es rule: rev_induct) (simp_all flip: append_assoc)

lemma firewall_appends:
  "\<exists>es. snd (fw_install_worker_rule os mgr rule log) = log @ es"
  "\<exists>es. snd (fw_remove_worker_rule os mgr rule log) = log @ es"
  by (auto simp: firewall_defs run_command_def Let_def split: firewall_manager.split sum.split option.split)

lemma process_services:
  assumes "\<And>r l res l'. fw_install_worker_rule os (wr_firewall rt) r l = (res, l') \<Longrightarrow> live l' = live l \<and>
      rules l' = (case res of Inr _ \<Rightarrow> rules l + key r | Inl _ \<Rightarrow> rules l)"
    and "\<And>r l res l'. fw_remove_worker_rule os (wr_firewall rt) r l = (res, l') \<Longrightarrow> removable r l \<Longrightarrow>
      live l' = live l \<and> rules l' = (case res of Inr _ \<Rightarrow> rules l - key r | Inl _ \<Rightarrow> rules l)"
    and "\<And>l e. process_event e \<Longrightarrow> rules (l @ [e]) = rules l"
  shows "task_services (runtime_services os rt) rules key removable"
proof
  note kept = rules_kept[of _ rules, OF _ assms(3)]
  show "sv_start (runtime_services os rt) c l = (started, l') \<Longrightarrow> rules l' = rules l" for c l started l'
    using start_events[of os c l] kept by (auto simp: runtime_services_def)
  show "sv_stop (runtime_services os rt) h l = (stopped, l') \<Longrightarrow> rules l' = rules l" for h l stopped l'
    using stop_events[of os "wr_stop_timeout_ms rt" h l] kept by (auto simp: runtime_services_def)
  show "\<exists>es. snd (sv_stop (runtime_services os rt) h l) = l @ es" for h l
    using stop_events[of os "wr_stop_timeout_ms rt" h l] by (auto simp: runtime_services_def)
  show "rules (l @ [Probed]) = rules l" for l using assms(3)[of Probed] by simp
qed (use assms(1,2) in \<open>auto simp: runtime_services_def nfqws_start_live nfqws_stop_live firewall_appends
    dest: nfqws_start_live(1)\<close>)

lemma ip_rules_process: "process_event e \<Longrightarrow> ip_rules (l @ [e]) = ip_rules l"
  by (cases e) simp_all

text \<open>The managers that name the rule they delete, each with the real process manager.\<close>

interpretation iptables_run: task_services "runtime_services os (rt\<lparr> wr_firewall := Iptables \<rparr>)"
  ip_rules "\<lambda>rule. {#ip_rule_key rule#}" "\<lambda>_ _. True"
proof (rule process_services[OF _ _ ip_rules_process])
  fix r l res l'
  assume "fw_install_worker_rule os (wr_firewall (rt\<lparr> wr_firewall := Iptables \<rparr>)) r l = (res, l')"
  then have i: "fw_install_worker_rule os Iptables r l = (res, l')" by simp
  show "live l' = live l \<and> ip_rules l' =
      (case res of Inr _ \<Rightarrow> ip_rules l + {#ip_rule_key r#} | Inl _ \<Rightarrow> ip_rules l)"
    using iptables_install[OF i] by (cases res) auto
next
  fix r l res l'
  assume "fw_remove_worker_rule os (wr_firewall (rt\<lparr> wr_firewall := Iptables \<rparr>)) r l = (res, l')"
  then have i: "fw_remove_worker_rule os Iptables r l = (res, l')" by simp
  show "live l' = live l \<and> ip_rules l' =
      (case res of Inr _ \<Rightarrow> ip_rules l - {#ip_rule_key r#} | Inl _ \<Rightarrow> ip_rules l)"
    using iptables_remove[OF i] by (cases res) auto
qed

interpretation vmap_run: task_services "runtime_services os (rt\<lparr> wr_firewall := NftablesVmap m \<rparr>)"
  ip_rules "\<lambda>rule. {#}" "\<lambda>_ _. True"
  by (rule process_services[OF _ _ ip_rules_process]) (auto simp: firewall_defs)

lemma runtime_Iptables: "wr_firewall rt = Iptables \<Longrightarrow> rt = rt\<lparr> wr_firewall := Iptables \<rparr>"
  by simp

text \<open>
  With the iptables manager, one run of a strategy ends with the processes and the rules it
  began with, whichever of its branches was taken, as long as iptables deletes the rules it is
  told to, nfqws2 can be stopped, and the state of a new process can be read.
\<close>

theorem worker_run_cleans_up:
  assumes "wr_firewall rt = Iptables"
    and "run_worker_task (runtime_services os rt) rt env task a log = Some (r, log')"
    and "\<forall>rule l. is_ok (fst (fw_remove_worker_rule os Iptables rule l))"
    and "\<forall>h l. is_ok (fst (nfqws_stop os (wr_stop_timeout_ms rt) h l))"
    and "\<forall>c l m. fst (nfqws_start os c l) \<noteq> Inl (NfIo m)"
  shows "live log' = live log \<and> ip_rules log' = ip_rules log"
  using iptables_run.run_clean[of os rt rt env task a log r log'] assms runtime_Iptables[OF assms(1)]
  by (simp add: runtime_services_def)

text \<open>
  A run that reports a success has probed while its own nfqws2 process was live and, in
  source-port mode with iptables, while a rule for its queue number was in force that was not
  there before.
\<close>

theorem success_probed_under_rule:
  assumes "wr_firewall rt = Iptables"
    and "run_worker_task (runtime_services os rt) rt env task a log = Some (r, log')"
    and "pr_outcome r = Success"
  shows "\<exists>before c after rule. log' = before @ Probed # after \<and> c \<notin> live log \<and>
    live before = insert c (live log) \<and> fr_qnum rule = wa_qnum a \<and>
    (wr_isolation_mode rt = SourcePort \<longrightarrow>
       ip_rules before = add_mset (ip_rule_key rule) (ip_rules log))"
proof -
  have "\<exists>l1 c es rule. log' = l1 @ Probed # es \<and> c \<notin> live log \<and> live l1 = insert c (live log) \<and>
    fr_qnum rule = wa_qnum a \<and> ip_rules l1 =
      (if wr_isolation_mode rt = SourcePort then ip_rules log + {#ip_rule_key rule#} else ip_rules log)"
    using iptables_run.success_covered[of os rt rt env task a log r log'] assms(2,3)
      runtime_Iptables[OF assms(1)] by simp
  then show ?thesis by (auto split: if_splits)
qed

section \<open>A concrete run\<close>

text \<open>A system in which every command succeeds and a process lives until it is waited for.\<close>

definition ok_output :: cmd_output where
  "ok_output = \<lparr> co_success = True, co_status = ''exit status: 0'', co_stdout = [], co_stderr = [] \<rparr>"

definition sample_os :: os where
  "sample_os = \<lparr> os_run = \<lambda>_ _ _. Inr ok_output, os_feed = \<lambda>_ _ _ _. Inr ok_output,
     os_spawn = \<lambda>_ _ _ _. Inr (), os_poll = \<lambda>_ _. Inr None,
     os_wait = \<lambda>_ _ _. Some (Inr ''exit status: 0''), os_kill = \<lambda>_ _. Inr (),
     os_child_id = \<lambda>_ c. Some 77, os_child_output = \<lambda>_ _. ([], []), os_library_path = None \<rparr>"

definition sample_runtime :: worker_runtime where
  "sample_runtime = \<lparr> wr_firewall = Iptables, wr_stop_timeout_ms = 1000,
     wr_native_probe = sample_prober, wr_nfqws_binary = ''/opt/nfqws2'', wr_nfqws_library_paths = [],
     wr_nfqws_base_args = [], wr_nfqws_start_grace_ms = 50, wr_nfqws_log_stdout = False,
     wr_nfqws_log_stderr = False, wr_firewall_hook = Output, wr_isolation_mode = SourcePort \<rparr>"

definition sample_worker_env :: worker_env where
  "sample_worker_env = \<lparr> we_sockets = \<lambda>_. sample_sockets, we_probe = \<lambda>_. sample_env,
     we_in_time = \<lambda>_ _. True, we_elapsed_ms = \<lambda>_. 60 \<rparr>"

definition sample_assignment :: worker_assignment where
  "sample_assignment = \<lparr> wa_worker_id = 0, wa_qnum = 200, wa_fwmark = None, wa_source_port = None \<rparr>"

lemma sample_os_ok:
  "is_ok (fst (fw_remove_worker_rule sample_os Iptables rule l))"
  "is_ok (fst (nfqws_stop sample_os ms h l))"
  "fst (nfqws_start sample_os c l) \<noteq> Inl (NfIo m)"
  by (simp_all add: sample_os_def firewall_defs nfqws_defs send_term_def command_result_def ok_output_def)

lemma sample_run:
  obtains r log where "run_worker_task (runtime_services sample_os sample_runtime) sample_runtime
    sample_worker_env sample_task sample_assignment [] = Some (r, log)"
  by (cases "run_worker_task (runtime_services sample_os sample_runtime) sample_runtime
        sample_worker_env sample_task sample_assignment []")
     (auto simp: run_worker_task_def prepare_worker_socket_def sample_runtime_def)

theorem worker_run_cleans_up_witness:
  "\<exists>r log. run_worker_task (runtime_services sample_os sample_runtime) sample_runtime
      sample_worker_env sample_task sample_assignment [] = Some (r, log) \<and>
    live log = {} \<and> ip_rules log = {#}"
proof -
  obtain r log where run: "run_worker_task (runtime_services sample_os sample_runtime) sample_runtime
    sample_worker_env sample_task sample_assignment [] = Some (r, log)"
    by (rule sample_run)
  have "wr_firewall sample_runtime = Iptables" by (simp add: sample_runtime_def)
  from worker_run_cleans_up[OF this run] sample_os_ok run show ?thesis
    by (auto simp: live_def ip_rules_def)
qed

lemma note_error_outcome: "pr_outcome (note_error c e x) = pr_outcome x"
  by (simp add: note_error_def split: sum.split)

lemma probe_and_teardown_outcome:
  assumes "we_in_time env log (to_total_ms (pt_timeouts task))"
  shows "pr_outcome (fst (probe_and_teardown sv rt env task q prepared h rule log)) =
    pr_outcome (probe_with_prepared_socket (wr_native_probe rt) task \<lparr> cx_qnum = q, cx_baseline = False \<rparr> prepared
      (we_probe env log))"
  using assms by (simp add: probe_and_teardown_def Let_def note_error_outcome split: prod.split)

lemma sample_socket:
  "wr_isolation_mode rt = SourcePort \<Longrightarrow> prepare_worker_socket rt sample_task a sample_sockets =
     Some (Inr \<lparr> ps_transport = PtTcp, ps_source_port = 40000 \<rparr>)"
  by (simp add: prepare_worker_socket_def prepare_transport_def prepare_tcp_socket_def sample_sockets_def
      map_io_def sample_task_def)

lemma sample_success:
  assumes "run_worker_task sv rt sample_worker_env sample_task sample_assignment l = Some (r, l')"
    and "wr_isolation_mode rt = SourcePort"
    and "\<forall>c l. is_ok (fst (sv_start sv c l))" "\<forall>rule l. is_ok (fst (sv_install sv rule l))"
  shows "pr_outcome r = Success"
proof -
  have env: "we_sockets sample_worker_env l = sample_sockets" "we_probe sample_worker_env l = sample_env"
      "we_in_time sample_worker_env l n" for l n
    by (simp_all add: sample_worker_env_def)
  have q: "wa_qnum sample_assignment = 200" by (simp add: sample_assignment_def)
  from assms(1) show ?thesis
  proof (cases rule: run_worker_task_cases)
    case (ran ps h l1 l2)
    then have ps: "ps = \<lparr> ps_transport = PtTcp, ps_source_port = 40000 \<rparr>"
      using sample_socket[OF assms(2)] by (simp add: env)
    have "pr_outcome r = pr_outcome (fst (probe_and_teardown sv rt sample_worker_env sample_task
        (wa_qnum sample_assignment) ps h (run_rule rt sample_task sample_assignment ps) l2))"
      by (simp add: ran(4))
    also have "\<dots> = pr_outcome (probe_with_prepared_socket (wr_native_probe rt) sample_task sample_ctx ps sample_env)"
      by (subst probe_and_teardown_outcome) (simp_all add: env q sample_ctx_def)
    finally show ?thesis by (simp add: ps sample_probe_success)
  next
    case (not_started ps e)
    then show ?thesis using assms(3) by (metis fst_conv is_ok.simps(1))
  next
    case (not_installed ps h l1 e l2)
    then show ?thesis using assms(4) by (metis fst_conv is_ok.simps(1))
  qed (use sample_socket[OF assms(2)] in \<open>simp add: env\<close>)
qed

lemma sample_run_success:
  assumes "run_worker_task (runtime_services sample_os sample_runtime) sample_runtime
    sample_worker_env sample_task sample_assignment [] = Some (r, log)"
  shows "pr_outcome r = Success"
  by (rule sample_success[OF assms])
     (simp_all add: sample_runtime_def runtime_services_def nfqws_defs firewall_defs sample_os_def
        command_result_def ok_output_def)

theorem success_probed_under_rule_witness:
  "\<exists>r log before after rule. run_worker_task (runtime_services sample_os sample_runtime) sample_runtime
      sample_worker_env sample_task sample_assignment [] = Some (r, log) \<and>
    log = before @ Probed # after \<and> fr_qnum rule = 200 \<and>
    ip_rules before = {#ip_rule_key rule#}"
proof -
  obtain r log where run: "run_worker_task (runtime_services sample_os sample_runtime) sample_runtime
    sample_worker_env sample_task sample_assignment [] = Some (r, log)"
    by (rule sample_run)
  have f: "wr_firewall sample_runtime = Iptables" "wr_isolation_mode sample_runtime = SourcePort"
    "wa_qnum sample_assignment = 200"
    by (simp_all add: sample_runtime_def sample_assignment_def)
  from success_probed_under_rule[OF f(1) run sample_run_success[OF run]] f(2,3) run show ?thesis
    by (auto simp: ip_rules_def)
qed

end
