(* ===== verification/StrategyTests.thy ===== *)
theory StrategyTests
  imports Worker
begin

text \<open>
  The runs of one strategy against all its targets (\<^verbatim>\<open>run_strategy_tests\<close> of
  \<^verbatim>\<open>src/worker_pool.rs\<close>), on top of a single run: what the attempts are about and how they make
  the result of the strategy.
\<close>

section \<open>All targets of a strategy\<close>

definition strategy_task_for :: "strategy_node \<Rightarrow> probe_timeouts \<Rightarrow> strategy_probe_target
    \<Rightarrow> strategy_task" where
  "strategy_task_for node timeouts target =
     \<lparr> sk_strategy_id = sn_id node, sk_strategy_args = sn_args node, sk_target_host = st_host target,
       sk_target_ip = st_ip target, sk_target_port = st_port target, sk_protocol = st_protocol target,
       sk_path = rq_path_and_query (st_request target), sk_request = st_request target,
       sk_timeouts = timeouts \<rparr>"

text \<open>The loop over the targets: the attempts so far, the last result and the first failure.\<close>

type_synonym tests_state = "probe_result list \<times> probe_result option \<times> probe_result option"

fun strategy_tests_loop :: "(strategy_task \<Rightarrow> log \<Rightarrow> (probe_result \<times> log) option) \<Rightarrow> strategy_node
    \<Rightarrow> probe_timeouts \<Rightarrow> strategy_probe_target list \<Rightarrow> tests_state \<Rightarrow> log
    \<Rightarrow> (tests_state \<times> log) option" where
  "strategy_tests_loop run node timeouts [] st log = Some (st, log)"
| "strategy_tests_loop run node timeouts (target # targets) (attempts, last_result, first_failure) log =
     (case run (strategy_task_for node timeouts target) log of
        None \<Rightarrow> None
      | Some (result, log) \<Rightarrow>
          let success = (pr_outcome result = Success);
              first_failure = (if success then first_failure
                else case first_failure of Some f \<Rightarrow> Some f | None \<Rightarrow> Some result)
          in strategy_tests_loop run node timeouts targets
               (attempts @ [result], Some result, first_failure) log)"

definition run_strategy_tests :: "services \<Rightarrow> worker_runtime \<Rightarrow> worker_env \<Rightarrow> strategy_node
    \<Rightarrow> worker_assignment \<Rightarrow> strategy_probe_target list \<Rightarrow> probe_timeouts \<Rightarrow> log
    \<Rightarrow> ((probe_result \<times> probe_result list) \<times> log) option" where
  "run_strategy_tests sv rt env node assignment targets timeouts log =
     (case strategy_tests_loop (\<lambda>task. run_strategy_task sv rt env task assignment) node timeouts
             targets ([], None, None) log of
        None \<Rightarrow> None
      | Some ((attempts, last_result, first_failure), log) \<Rightarrow>
          map_option (\<lambda>result. ((result, attempts), log))
            (case first_failure of Some f \<Rightarrow> Some f | None \<Rightarrow> last_result))"

section \<open>What the attempts are\<close>

text \<open>Every result of a run is about the task of the run and carries the queue number of the worker.\<close>

lemma note_error_echoes: "echoes_task task (note_error c e x) = echoes_task task x"
  by (simp add: note_error_def echoes_task_def split: sum.split)

lemma probe_and_teardown_echoes:
  assumes "probe_and_teardown sv rt env task q prepared h rule log = (r, log')"
  shows "echoes_task task r \<and> pr_qnum r = Some q"
proof -
  have upd: "echoes_task task (x\<lparr> pr_setup_ms := s \<rparr>) = echoes_task task x"
      "echoes_task task (x\<lparr> pr_qnum := n, pr_assigned_source_port := p \<rparr>) = echoes_task task x" for x s n p
    by (simp_all add: echoes_task_def)
  have "echoes_task task (timed_out_result task q port ms)" for port ms
    by (simp add: timed_out_result_def infrastructure_failure_def echoes_task_def)
  moreover have "echoes_task task (probe_with_prepared_socket np task ctx p e)" for np ctx p e
    using prepared_ok by (simp add: result_ok_def)
  ultimately show ?thesis
    using assms
    by (auto simp: probe_and_teardown_def Let_def upd note_error_echoes split: prod.splits if_splits)
qed

lemma run_echoes:
  assumes "run_worker_task sv rt env task a log = Some (r, log')"
  shows "echoes_task task r \<and> pr_qnum r = Some (wa_qnum a)"
proof -
  have inf: "echoes_task task (infrastructure_failure task q p c m ms) \<and>
      pr_qnum (infrastructure_failure task q p c m ms) = q" for q p c m ms
    by (simp add: infrastructure_failure_def echoes_task_def)
  show ?thesis
    using assms by (cases rule: run_worker_task_cases) (auto simp: inf dest: probe_and_teardown_echoes)
qed

lemma run_returns:
  "wr_isolation_mode rt = SourcePort \<Longrightarrow> \<exists>r. run_strategy_task sv rt env task a log = Some r"
  by (auto simp: run_strategy_task_def run_worker_task_def prepare_worker_socket_def)

text \<open>The loop invariant: what the three variables hold after the attempts so far.\<close>

definition tests_inv :: "tests_state \<Rightarrow> bool" where
  "tests_inv st =
     (case st of (attempts, last_result, first_failure) \<Rightarrow>
        last_result = (if attempts = [] then None else Some (last attempts)) \<and>
        first_failure = find (\<lambda>r. pr_outcome r \<noteq> Success) attempts)"

lemma find_append:
  "find P (xs @ ys) = (case find P xs of Some x \<Rightarrow> Some x | None \<Rightarrow> find P ys)"
  by (induction xs) auto

lemma strategy_tests_loop_inv:
  assumes "strategy_tests_loop run node timeouts targets st log = Some ((attempts, l, f), log')"
    and "tests_inv st"
  shows "tests_inv (attempts, l, f) \<and> (\<exists>new. attempts = fst st @ new \<and>
    list_all2 (\<lambda>t r. \<exists>l l'. run (strategy_task_for node timeouts t) l = Some (r, l')) targets new)"
  using assms
proof (induction run node timeouts targets st log rule: strategy_tests_loop.induct)
  case (1 run node timeouts st log)
  then show ?case by auto
next
  case (2 run node timeouts target targets attempts0 last_result first_failure log)
  obtain r l1 where run: "run (strategy_task_for node timeouts target) log = Some (r, l1)"
    using "2.prems"(1) by (auto split: option.splits)
  let ?f = "if pr_outcome r = Success then first_failure
    else case first_failure of Some f \<Rightarrow> Some f | None \<Rightarrow> Some r"
  have "tests_inv (attempts0 @ [r], Some r, ?f)"
    using "2.prems"(2) by (auto simp: tests_inv_def find_append split: option.splits)
  with "2.IH"[OF run refl refl refl] "2.prems"(1) run show ?case
    by (fastforce intro!: exI[of _ "r # new" for new])
qed

lemma strategy_tests_loop_returns:
  "(\<And>task log. \<exists>r. run task log = Some r) \<Longrightarrow>
    \<exists>r. strategy_tests_loop run node timeouts targets st log = Some r"
proof (induction targets arbitrary: st log)
  case Nil
  then show ?case by (cases st) simp
next
  case (Cons target targets)
  obtain r l1 where "run (strategy_task_for node timeouts target) log = Some (r, l1)"
    using Cons.prems by (metis prod.collapse)
  then show ?case using Cons.IH[OF Cons.prems] by (cases st) simp
qed

lemma strategy_tests_total:
  assumes "wr_isolation_mode rt = SourcePort"
  shows "run_strategy_tests sv rt env node a targets timeouts log = None \<longleftrightarrow> targets = []"
proof -
  let ?run = "\<lambda>task. run_strategy_task sv rt env task a"
  obtain at l f log' where loop:
    "strategy_tests_loop ?run node timeouts targets ([], None, None) log = Some ((at, l, f), log')"
    using strategy_tests_loop_returns[of ?run node timeouts targets "([], None, None)" log]
      run_returns[OF assms] by (metis prod_cases3 surj_pair)
  have inv: "tests_inv (at, l, f)" "length at = length targets"
    using strategy_tests_loop_inv[OF loop] by (auto simp: tests_inv_def dest: list_all2_lengthD)
  then show ?thesis
    using loop by (auto simp: run_strategy_tests_def tests_inv_def split: option.splits)
qed

lemma strategy_tests_sound:
  assumes "run_strategy_tests sv rt env node a targets timeouts log = Some ((result, attempts), log')"
  shows "list_all2 (\<lambda>t r. echoes_task (from_strategy_task (strategy_task_for node timeouts t)
        (wa_worker_id a)) r \<and> pr_qnum r = Some (wa_qnum a)) targets attempts"
    and "result = (case find (\<lambda>r. pr_outcome r \<noteq> Success) attempts of
        Some f \<Rightarrow> f | None \<Rightarrow> last attempts)"
    and "pr_outcome result = Success \<longleftrightarrow> (\<forall>r\<in>set attempts. pr_outcome r = Success)"
    and "result \<in> set attempts"
proof -
  obtain l f log1 where loop: "strategy_tests_loop (\<lambda>task. run_strategy_task sv rt env task a) node
      timeouts targets ([], None, None) log = Some ((attempts, l, f), log1)"
    and res: "(case f of Some f \<Rightarrow> Some f | None \<Rightarrow> l) = Some result"
    using assms by (auto simp: run_strategy_tests_def split: option.splits)
  have inv: "tests_inv (attempts, l, f)" and
    runs: "list_all2 (\<lambda>t r. \<exists>l l'. run_strategy_task sv rt env (strategy_task_for node timeouts t) a l =
      Some (r, l')) targets attempts"
    using strategy_tests_loop_inv[OF loop] by (auto simp: tests_inv_def)
  show "list_all2 (\<lambda>t r. echoes_task (from_strategy_task (strategy_task_for node timeouts t)
      (wa_worker_id a)) r \<and> pr_qnum r = Some (wa_qnum a)) targets attempts"
    using runs by (rule list_all2_mono) (auto simp: run_strategy_task_def dest: run_echoes)
  show r: "result = (case find (\<lambda>r. pr_outcome r \<noteq> Success) attempts of
      Some f \<Rightarrow> f | None \<Rightarrow> last attempts)"
    using inv res by (auto simp: tests_inv_def split: option.splits if_splits)
  have ne: "attempts \<noteq> []" using inv res by (auto simp: tests_inv_def)
  then show "result \<in> set attempts" using r by (auto simp: find_Some_iff split: option.splits)
  show "pr_outcome result = Success \<longleftrightarrow> (\<forall>r\<in>set attempts. pr_outcome r = Success)"
    using r ne by (auto simp: find_None_iff find_Some_iff split: option.splits)
qed

text \<open>
  C11: the run of a strategy makes one attempt per target, in the order of the targets and whatever
  the earlier attempts gave, each about its own target and under the worker's queue number; the
  result of the strategy is its first failure, or else the last attempt, so it is a success exactly
  when every target succeeded.
\<close>

theorem strategy_tests_result:
  assumes "run_strategy_tests sv rt env node a targets timeouts log = Some ((result, attempts), log')"
  shows "list_all2 (\<lambda>t r. echoes_task (from_strategy_task (strategy_task_for node timeouts t)
        (wa_worker_id a)) r \<and> pr_qnum r = Some (wa_qnum a)) targets attempts \<and>
    result = (case find (\<lambda>r. pr_outcome r \<noteq> Success) attempts of
        Some f \<Rightarrow> f | None \<Rightarrow> last attempts) \<and>
    (pr_outcome result = Success \<longleftrightarrow> (\<forall>r\<in>set attempts. pr_outcome r = Success))"
  using strategy_tests_sound[OF assms] by blast

definition sample_node :: strategy_node where
  "sample_node = \<lparr> sn_id = ''s1'', sn_family = ''fake'', sn_action_id = ''a1'', sn_args = [],
     sn_components = [], sn_is_combined = False, sn_cost = 1, sn_risk = 1, sn_prior = (1, 1) \<rparr>"

definition sample_probe_target :: strategy_probe_target where
  "sample_probe_target = \<lparr> st_original = ''http://e.test/'', st_host = ''e.test'', st_ip = V4 1,
     st_port = 80, st_protocol = HttpPlain, st_request = pt_request sample_task \<rparr>"

theorem strategy_tests_result_witness:
  "\<exists>result attempts log. run_strategy_tests (runtime_services sample_os sample_runtime) sample_runtime
      sample_worker_env sample_node sample_assignment [sample_probe_target, sample_probe_target]
      (pt_timeouts sample_task) [] = Some ((result, attempts), log) \<and>
    length attempts = 2 \<and> (pr_outcome result = Success \<longleftrightarrow> (\<forall>r\<in>set attempts. pr_outcome r = Success))"
proof -
  have "wr_isolation_mode sample_runtime = SourcePort" by (simp add: sample_runtime_def)
  from strategy_tests_total[OF this, of "runtime_services sample_os sample_runtime" sample_worker_env
      sample_node sample_assignment "[sample_probe_target, sample_probe_target]"
      "pt_timeouts sample_task" "[]"]
  obtain result attempts log where run: "run_strategy_tests (runtime_services sample_os sample_runtime)
      sample_runtime sample_worker_env sample_node sample_assignment
      [sample_probe_target, sample_probe_target] (pt_timeouts sample_task) [] =
      Some ((result, attempts), log)"
    by (metis list.distinct(1) not_None_eq prod.collapse)
  from strategy_tests_result[OF run] run show ?thesis
    by (auto dest: list_all2_lengthD)
qed

end
