(* ===== verification/Ranking.thy ===== *)
theory Ranking
  imports Yaml Types NodeSelection
begin

text \<open>
  \<^verbatim>\<open>src/bayes.rs\<close>, \<^verbatim>\<open>src/scoring.rs\<close>, \<^verbatim>\<open>src/pruning.rs\<close>, \<^verbatim>\<open>src/ordering.rs\<close> and
  \<^verbatim>\<open>finalize_results\<close> of \<^verbatim>\<open>src/scheduler.rs\<close>: the posterior of each strategy and its file, the
  score of a result, the greedy ordering of nodes, and how the results of the pool become the
  results of the run.
\<close>

section \<open>Posteriors\<close>

record posterior =
  po_alpha :: f64
  po_beta :: f64
  po_tests :: u64

type_synonym bayes = "string \<rightharpoonup> posterior"

definition posterior_mean :: "posterior \<Rightarrow> f64" where
  "posterior_mean p = f64_div (po_alpha p) (f64_add (po_alpha p) (po_beta p))"

definition new_posterior :: "f64 \<times> f64 \<Rightarrow> posterior" where
  "new_posterior prior = \<lparr> po_alpha = fst prior, po_beta = snd prior, po_tests = 0 \<rparr>"

definition bayes_get_or_insert :: "string \<Rightarrow> f64 \<times> f64 \<Rightarrow> bayes \<Rightarrow> posterior \<times> bayes" where
  "bayes_get_or_insert key prior b =
     (case b key of
        Some p \<Rightarrow> (p, b)
      | None \<Rightarrow> (new_posterior prior, b(key \<mapsto> new_posterior prior)))"

definition bayes_update :: "string \<Rightarrow> f64 \<times> f64 \<Rightarrow> probe_result \<Rightarrow> bayes \<Rightarrow> bayes" where
  "bayes_update key prior result b =
     (if pr_failure_kind result = Some InfrastructureFailure then b
      else let (p, b) = bayes_get_or_insert key prior b in
        case pr_outcome result of
          Success \<Rightarrow> b(key \<mapsto> p\<lparr> po_alpha := f64_add (po_alpha p) f64_1, po_tests := po_tests p + 1 \<rparr>)
        | OutCancelled \<Rightarrow> b
        | Timeout \<Rightarrow> b(key \<mapsto> p\<lparr> po_beta := f64_add (po_beta p) f64_0_7, po_tests := po_tests p + 1 \<rparr>)
        | _ \<Rightarrow> b(key \<mapsto> p\<lparr> po_beta := f64_add (po_beta p) f64_1, po_tests := po_tests p + 1 \<rparr>))"

text \<open>The random jitter is an argument.\<close>

definition f64_0_03 :: f64 where "f64_0_03 = 0x3F9EB851EB851EB8"
definition f64_0_04 :: f64 where "f64_0_04 = 0x3FA47AE147AE147B"

definition thompson_like_score :: "bayes \<Rightarrow> f64 \<Rightarrow> string \<Rightarrow> f64 \<times> f64 \<Rightarrow> f64 \<Rightarrow> f64 \<Rightarrow> f64" where
  "thompson_like_score b jitter key prior cost risk =
     (let p = (case b key of Some p \<Rightarrow> p | None \<Rightarrow> new_posterior prior)
      in f64_sub (f64_sub (f64_add (posterior_mean p) jitter) (f64_mul f64_0_03 cost))
           (f64_mul f64_0_04 risk))"

section \<open>The state file\<close>

text \<open>
  The JSON and YAML codecs are arguments, and so is what the file system says to a read, a
  directory creation or a write; the text files themselves are a map.
\<close>

record bayes_codec =
  bc_parse_json :: "string \<Rightarrow> string + bayes"
  bc_print_json :: "bayes \<Rightarrow> string + string"
  bc_parse_yaml :: "string \<Rightarrow> string + yaml"
  bc_print_yaml :: "yaml \<Rightarrow> string + string"
  bc_from_value :: "yaml \<Rightarrow> string + bayes"
  bc_to_value :: "bayes \<Rightarrow> string + yaml"

record bayes_disk =
  bd_read :: "path \<Rightarrow> string + unit"
  bd_create_dir :: "path \<Rightarrow> string + unit"
  bd_write :: "path \<Rightarrow> string + unit"

type_synonym files = "path \<rightharpoonup> string"

definition read_file :: "bayes_disk \<Rightarrow> path \<Rightarrow> string \<Rightarrow> string + string" where
  "read_file d p text = res_bind (bd_read d p) (\<lambda>_. Inr text)"

definition bayes_load :: "bayes_codec \<Rightarrow> bayes_disk \<Rightarrow> files \<Rightarrow> path \<Rightarrow> string + bayes" where
  "bayes_load c d files p =
     (case files p of
        None \<Rightarrow> Inr Map.empty
      | Some text \<Rightarrow>
          res_bind (read_file d p text) (\<lambda>text.
          if Option.bind (file_extension p) os_to_str = Some ''json'' then bc_parse_json c text
          else res_bind (bc_parse_yaml c text) (\<lambda>v.
            case (case yaml_get v ''runtime_posteriors'' of
                    Some ps \<Rightarrow> Some ps | None \<Rightarrow> yaml_get v ''posteriors'') of
              Some ps \<Rightarrow> bc_from_value c ps
            | None \<Rightarrow> Inr Map.empty)))"

text \<open>\<open>Mapping::insert\<close> replaces the value of a present key in place.\<close>

fun assoc_put :: "'k \<Rightarrow> 'v \<Rightarrow> ('k \<times> 'v) list \<Rightarrow> ('k \<times> 'v) list" where
  "assoc_put k v [] = [(k, v)]"
| "assoc_put k v ((k', v') # m) = (if k' = k then (k, v) # m else (k', v') # assoc_put k v m)"

fun yaml_put :: "string \<Rightarrow> yaml \<Rightarrow> yaml \<Rightarrow> yaml" where
  "yaml_put k v (YTagged t w) = YTagged t (yaml_put k v w)"
| "yaml_put k v (YMapping m) = YMapping (assoc_put (YString k) v m)"
| "yaml_put k v w = w"

text \<open>\<open>Path::parent\<close>, up to repeated separators.\<close>

definition path_parent :: "path \<Rightarrow> path option" where
  "path_parent p =
     (let cs = path_components p
      in if cs = [] then None
         else Some ((if is_absolute p then ''/'' else []) @ join ''/'' (butlast cs)))"

definition bayes_root :: "bayes_codec \<Rightarrow> yaml \<Rightarrow> yaml" where
  "bayes_root c v = (if as_mapping v = None then YMapping [] else v)"

definition bayes_save :: "bayes_codec \<Rightarrow> bayes_disk \<Rightarrow> files \<Rightarrow> path \<Rightarrow> bayes \<Rightarrow> string + files" where
  "bayes_save c d files p b =
     res_bind (case path_parent p of Some parent \<Rightarrow> bd_create_dir d parent | None \<Rightarrow> Inr ()) (\<lambda>_.
     if Option.bind (file_extension p) os_to_str = Some ''json'' then
       res_bind (bc_print_json c b) (\<lambda>text.
       res_bind (bd_write d p) (\<lambda>_. Inr (files(p \<mapsto> text))))
     else
       res_bind (case files p of
           None \<Rightarrow> Inr (YMapping [])
         | Some text \<Rightarrow> res_bind (read_file d p text) (\<lambda>text.
             Inr (case bc_parse_yaml c text of Inr v \<Rightarrow> v | Inl _ \<Rightarrow> YMapping []))) (\<lambda>root.
       res_bind (bc_to_value c b) (\<lambda>v.
       res_bind (bc_print_yaml c (yaml_put ''runtime_posteriors'' v (bayes_root c root))) (\<lambda>text.
       res_bind (bd_write d p) (\<lambda>_. Inr (files(p \<mapsto> text)))))))"

section \<open>Scores\<close>

record score_weights =
  sw_success :: f64
  sw_timeout_penalty :: f64
  sw_cost_penalty :: f64
  sw_risk_penalty :: f64

definition default_weights :: score_weights where
  "default_weights = \<lparr> sw_success = f64_100, sw_timeout_penalty = f64_20, sw_cost_penalty = f64_3,
     sw_risk_penalty = f64_5 \<rparr>"

definition outcome_score :: "score_weights \<Rightarrow> probe_outcome \<Rightarrow> f64" where
  "outcome_score w outcome =
     (case outcome of
        Success \<Rightarrow> sw_success w
      | OutCancelled \<Rightarrow> f64_zero False | DnsFailure \<Rightarrow> f64_zero False
      | NetworkUnreachable \<Rightarrow> f64_zero False | InternalError \<Rightarrow> f64_zero False
      | _ \<Rightarrow> f64_neg (sw_timeout_penalty w))"

definition adaptive_score :: "probe_result \<Rightarrow> f64 \<Rightarrow> f64 \<Rightarrow> score_weights \<Rightarrow> f64" where
  "adaptive_score result cost risk w =
     (if pr_failure_kind result \<in> {Some InfrastructureFailure, Some FkCancelled} then f64_zero False
      else f64_sub (f64_sub (outcome_score w (pr_outcome result)) (f64_mul cost (sw_cost_penalty w)))
             (f64_mul risk (sw_risk_penalty w)))"

definition should_update_strategy_score :: "probe_result \<Rightarrow> bool" where
  "should_update_strategy_score result \<longleftrightarrow> pr_failure_kind result \<noteq> Some InfrastructureFailure"

section \<open>The results of the pool\<close>

record indexed_pool_result =
  ir_strategy_index :: nat
  ir_node :: strategy_node
  ir_result :: probe_result
  ir_attempts :: "probe_result list"
  ir_worker_id :: nat
  ir_qnum :: u16

record strategy_run_result =
  sr_node :: strategy_node
  sr_result :: probe_result
  sr_attempts :: "probe_result list"
  sr_adaptive_score :: f64
  sr_worker_id :: nat
  sr_qnum :: u16

definition run_result :: "score_weights \<Rightarrow> indexed_pool_result \<Rightarrow> strategy_run_result" where
  "run_result w item =
     \<lparr> sr_node = ir_node item, sr_result = ir_result item, sr_attempts = ir_attempts item,
       sr_adaptive_score = adaptive_score (ir_result item) (sn_cost (ir_node item))
         (sn_risk (ir_node item)) w,
       sr_worker_id = ir_worker_id item, sr_qnum = ir_qnum item \<rparr>"

fun finalize_results :: "score_weights \<Rightarrow> indexed_pool_result list \<Rightarrow> bayes
    \<Rightarrow> strategy_run_result list \<times> bayes" where
  "finalize_results w [] b = ([], b)"
| "finalize_results w (item # items) b =
     (let b = (if should_update_strategy_score (ir_result item)
               then bayes_update (sn_id (ir_node item)) (sn_prior (ir_node item)) (ir_result item) b
               else b);
          (out, b) = finalize_results w items b
      in (run_result w item # out, b))"

definition unique_attempt_targets :: "probe_result list \<Rightarrow> nat" where
  "unique_attempt_targets attempts =
     card ((\<lambda>a. (pr_target_host a, pr_target_port a, pr_path a)) ` set attempts)"

section \<open>The greedy ordering\<close>

definition transition_cost :: "(string \<times> string \<rightharpoonup> f64) \<Rightarrow> string \<Rightarrow> strategy_node \<Rightarrow> f64" where
  "transition_cost tr family n =
     (case tr (family, sn_family n) of Some c \<Rightarrow> c | None \<Rightarrow> sn_cost n)"

definition compare_start :: "strategy_node \<Rightarrow> strategy_node \<Rightarrow> ordering" where
  "compare_start a b =
     then_with (f64_total_cmp (sn_cost a) (sn_cost b))
       (then_with (f64_total_cmp (sn_risk a) (sn_risk b)) (cmp_of (sn_id a) (sn_id b)))"

definition compare_next :: "(string \<times> string \<rightharpoonup> f64) \<Rightarrow> string \<Rightarrow> strategy_node \<Rightarrow> strategy_node
    \<Rightarrow> ordering" where
  "compare_next tr family a b =
     then_with (f64_total_cmp (transition_cost tr family a) (transition_cost tr family b))
       (then_with (f64_total_cmp (sn_cost a) (sn_cost b)) (cmp_of (sn_id a) (sn_id b)))"

function greedy_tail :: "(string \<times> string \<rightharpoonup> f64) \<Rightarrow> strategy_node \<Rightarrow> strategy_node list
    \<Rightarrow> strategy_node list" where
  "greedy_tail tr last_node remaining =
     (case min_index_by (compare_next tr (sn_family last_node)) remaining of
        None \<Rightarrow> []
      | Some i \<Rightarrow> remaining ! i # greedy_tail tr (remaining ! i) (remove_at i remaining))"
  by pat_completeness auto
termination
  by (relation "measure (\<lambda>(_, _, r). length r)")
     (auto simp: length_remove_at dest: min_index_by_bound)

declare greedy_tail.simps [simp del]

definition tsp_like_local_ordering :: "strategy_node list \<Rightarrow> (string \<times> string \<rightharpoonup> f64)
    \<Rightarrow> strategy_node list" where
  "tsp_like_local_ordering nodes tr =
     (case sort_by compare_start nodes of
        [] \<Rightarrow> []
      | n # remaining \<Rightarrow> n # greedy_tail tr n remaining)"

section \<open>What the ordering promises\<close>

context comparator
begin

lemma min_index_by_least:
  "min_index_by cmp xs = Some i \<Longrightarrow> y \<in> set xs \<Longrightarrow> cmp (xs ! i) y \<noteq> Greater"
proof (induction xs arbitrary: i y)
  case (Cons x xs)
  show ?case
  proof (cases "min_index_by cmp xs")
    case None
    then show ?thesis using Cons.prems by (auto simp: cmp_refl)
  next
    case (Some j)
    have j: "\<forall>y \<in> set xs. cmp (xs ! j) y \<noteq> Greater" using Cons.IH[OF Some] by simp
    show ?thesis
    proof (cases "cmp x (xs ! j) = Greater")
      case True
      then have "cmp (xs ! j) x \<noteq> Greater" using le_total by blast
      moreover have "i = Suc j" using True Some Cons.prems(1) by simp
      ultimately show ?thesis using j Cons.prems(2) by auto
    next
      case False
      have "cmp x y \<noteq> Greater" if "y \<in> set xs" for y
        using cmp_trans[OF False, of y] j that by blast
      moreover have "i = 0" using False Some Cons.prems(1) by simp
      ultimately show ?thesis using Cons.prems(2) cmp_refl[of x] by auto
    qed
  qed
qed simp

lemma sort_by_least:
  assumes "sort_by cmp xs = y # ys"
  shows "\<forall>x \<in> set xs. cmp y x \<noteq> Greater"
proof -
  have "set xs = insert y (set ys)" using arg_cong[OF assms, of set] by simp
  moreover have "\<forall>x \<in> set ys. cmp y x \<noteq> Greater" using sorted_sort_by[of xs] unfolding assms by simp
  ultimately show ?thesis by (simp add: cmp_refl)
qed

end

lemma mset_greedy_tail: "mset (greedy_tail tr n ns) = mset ns"
proof (induction tr n ns rule: greedy_tail.induct)
  case (1 tr n ns)
  show ?case
  proof (cases "min_index_by (compare_next tr (sn_family n)) ns")
    case None
    then show ?thesis by (simp add: greedy_tail.simps)
  next
    case (Some i)
    with 1[OF Some] show ?thesis
      by (subst greedy_tail.simps) (simp add: mset_remove_at min_index_by_bound)
  qed
qed

interpretation next_cmp: comparator "compare_next tr family"
  unfolding compare_next_def
  by (intro comparator_then_with comparator_on[OF f64_total.comparator_axioms]
      comparator_cmp_key)

interpretation start_cmp: comparator compare_start
  unfolding compare_start_def
  by (intro comparator_then_with comparator_on[OF f64_total.comparator_axioms] comparator_cmp_key)

text \<open>Each node is followed by a cheapest one of those that are left.\<close>

fun greedy_path :: "(string \<times> string \<rightharpoonup> f64) \<Rightarrow> strategy_node list \<Rightarrow> bool" where
  "greedy_path tr (a # b # ns) =
     ((\<forall>c \<in> set ns. compare_next tr (sn_family a) b c \<noteq> Greater) \<and> greedy_path tr (b # ns))"
| "greedy_path tr _ = True"

lemma greedy_tail_path: "greedy_path tr (n # greedy_tail tr n ns)"
proof (induction tr n ns rule: greedy_tail.induct)
  case (1 tr n ns)
  show ?case
  proof (cases "min_index_by (compare_next tr (sn_family n)) ns")
    case None
    then show ?thesis by (simp add: greedy_tail.simps)
  next
    case (Some i)
    let ?t = "greedy_tail tr (ns ! i) (remove_at i ns)"
    have "set ?t \<subseteq> set ns"
      using mset_greedy_tail[of tr "ns ! i" "remove_at i ns"]
        mset_remove_at[OF min_index_by_bound[OF Some]] by (metis insert_subset set_mset_add_mset_insert
        set_mset_mset subset_insertI)
    then have "\<forall>c \<in> set ?t. compare_next tr (sn_family n) (ns ! i) c \<noteq> Greater"
      using next_cmp.min_index_by_least[OF Some] by blast
    with 1[OF Some] Some show ?thesis by (subst greedy_tail.simps) simp
  qed
qed

text \<open>
  The ordering visits every node exactly once, starts with a cheapest one, and goes on with a
  cheapest transition among the nodes that are left.
\<close>

theorem local_ordering_greedy:
  "mset (tsp_like_local_ordering nodes tr) = mset nodes \<and>
   greedy_path tr (tsp_like_local_ordering nodes tr) \<and>
   (nodes = [] \<or> (\<forall>n \<in> set nodes. compare_start (hd (tsp_like_local_ordering nodes tr)) n \<noteq> Greater))"
proof (cases "sort_by compare_start nodes")
  case Nil
  then have "nodes = []" using length_sort_by[of compare_start nodes] by simp
  then show ?thesis by (simp add: tsp_like_local_ordering_def)
next
  case (Cons n ns)
  then have m: "mset nodes = add_mset n (mset ns)" by (metis mset.simps(2) mset_sort_by)
  have "\<forall>c \<in> set nodes. compare_start n c \<noteq> Greater"
    using start_cmp.sort_by_least[OF Cons] .
  then show ?thesis
    using Cons m greedy_tail_path by (simp add: tsp_like_local_ordering_def mset_greedy_tail)
qed

section \<open>What the results say of the posteriors\<close>

definition counted :: "probe_result \<Rightarrow> bool" where
  "counted r \<longleftrightarrow> pr_failure_kind r \<noteq> Some InfrastructureFailure \<and> pr_outcome r \<noteq> OutCancelled"

definition tests_of :: "bayes \<Rightarrow> string \<Rightarrow> u64" where
  "tests_of b key = (case b key of Some p \<Rightarrow> po_tests p | None \<Rightarrow> 0)"

definition entry_of :: "bayes \<Rightarrow> string \<Rightarrow> f64 \<times> f64 \<Rightarrow> posterior" where
  "entry_of b key prior = (case b key of Some p \<Rightarrow> p | None \<Rightarrow> new_posterior prior)"

lemma bayes_update_effect:
  "tests_of (bayes_update key prior r b) k =
     tests_of b k + (if k = key \<and> counted r then 1 else 0)"
  "k \<noteq> key \<Longrightarrow> bayes_update key prior r b k = b k"
  "\<not> counted r \<Longrightarrow> bayes_update key prior r b = b \<or>
     b key = None \<and> bayes_update key prior r b = b(key \<mapsto> new_posterior prior)"
  "b k = Some p \<Longrightarrow> \<exists>p'. bayes_update key prior r b k = Some p'"
  by (auto simp: bayes_update_def bayes_get_or_insert_def counted_def tests_of_def new_posterior_def
      split: option.split probe_outcome.split)

definition update_item :: "bayes \<Rightarrow> indexed_pool_result \<Rightarrow> bayes" where
  "update_item b item =
     bayes_update (sn_id (ir_node item)) (sn_prior (ir_node item)) (ir_result item) b"

lemma finalize_results_fold:
  "finalize_results w items b = (map (run_result w) items, foldl update_item b items)"
proof (induction items arbitrary: b)
  case (Cons item items)
  have "(if should_update_strategy_score (ir_result item)
         then bayes_update (sn_id (ir_node item)) (sn_prior (ir_node item)) (ir_result item) b
         else b) = update_item b item"
    by (simp add: should_update_strategy_score_def update_item_def bayes_update_def)
  then show ?case using Cons by simp
qed simp

lemma tests_of_update_item:
  "tests_of (update_item b item) k =
     tests_of b k + (if sn_id (ir_node item) = k \<and> counted (ir_result item) then 1 else 0)"
  by (auto simp: update_item_def bayes_update_effect(1))

lemma foldl_update_tests:
  "tests_of (foldl update_item b items) k = tests_of b k +
     of_nat (length (filter (\<lambda>i. sn_id (ir_node i) = k \<and> counted (ir_result i)) items))"
  by (induction items arbitrary: b) (simp_all add: tests_of_update_item)

lemma foldl_update_uncounted:
  assumes "b k = Some p" and "\<forall>i \<in> set items. sn_id (ir_node i) = k \<longrightarrow> \<not> counted (ir_result i)"
  shows "foldl update_item b items k = Some p"
  using assms
proof (induction items arbitrary: b)
  case (Cons i items)
  have "update_item b i k = Some p"
  proof (cases "sn_id (ir_node i) = k")
    case True
    then show ?thesis
      using Cons.prems bayes_update_effect(3)[of "ir_result i" "sn_id (ir_node i)" "sn_prior (ir_node i)" b]
      by (auto simp: update_item_def)
  next
    case False
    then show ?thesis using Cons.prems(1) by (simp add: update_item_def bayes_update_effect(2))
  qed
  with Cons show ?case by simp
qed simp

text \<open>
  The results of the pool keep their order and every field, each with its score; the test
  count of a strategy grows by its results that are neither an infrastructure failure nor
  cancelled (modulo \<open>2 ^ 64\<close>), and the posterior of a strategy without such a result is the one it
  had.
\<close>

theorem finalize_results_counts:
  "case finalize_results w items b of (out, b') \<Rightarrow>
     out = map (run_result w) items \<and>
     (\<forall>k. tests_of b' k = tests_of b k +
        of_nat (length (filter (\<lambda>i. sn_id (ir_node i) = k \<and> counted (ir_result i)) items)) \<and>
        (case b k of None \<Rightarrow> True
         | Some p \<Rightarrow> b' k = Some p \<or> (\<exists>i \<in> set items. sn_id (ir_node i) = k \<and> counted (ir_result i))))"
proof -
  have "foldl update_item b items k = Some p \<or> (\<exists>i \<in> set items. sn_id (ir_node i) = k \<and> counted (ir_result i))"
    if "b k = Some p" for k p
    using foldl_update_uncounted[of b k p items] that by blast
  then show ?thesis
    by (simp add: finalize_results_fold foldl_update_tests split: option.split)
qed

section \<open>The state file round trip\<close>

lemma map_of_assoc_put: "map_of (assoc_put k v m) = (map_of m)(k \<mapsto> v)"
  by (induction m) auto

lemma yaml_get_put:
  "as_mapping y \<noteq> None \<Longrightarrow>
    yaml_get (yaml_put k v y) k' = (if k' = k then Some v else yaml_get y k')"
proof (induction k v y rule: yaml_put.induct)
  case (1 k v t w)
  then show ?case by (simp add: yaml_get_def as_mapping_def)
next
  case (2 k v m)
  then show ?case by (simp add: yaml_get_def as_mapping_def map_of_assoc_put)
qed (auto simp: as_mapping_def)

lemma bayes_root_mapping: "as_mapping (bayes_root c v) \<noteq> None"
  by (simp add: bayes_root_def as_mapping_def)


definition sample_codec :: bayes_codec where
  "sample_codec =
     (let doc = YMapping [(YString ''runtime_posteriors'', YNull)] in
      \<lparr> bc_parse_json = \<lambda>_. Inr Map.empty, bc_print_json = \<lambda>_. Inr ''{}'',
        bc_parse_yaml = \<lambda>_. Inr doc,
        bc_print_yaml = \<lambda>v. if v = doc then Inr ''runtime_posteriors:'' else Inl ''unsupported'',
        bc_from_value = \<lambda>_. Inr Map.empty, bc_to_value = \<lambda>_. Inr YNull \<rparr>)"

definition sample_disk :: bayes_disk where
  "sample_disk = \<lparr> bd_read = \<lambda>_. Inr (), bd_create_dir = \<lambda>_. Inr (), bd_write = \<lambda>_. Inr () \<rparr>"


end
