(* ===== verification/Pool.thy ===== *)
theory Pool
  imports Ranking Transitions Config
begin

text \<open>
  \<^verbatim>\<open>src/worker_pool.rs\<close>: the producer of the tasks, the workers, the two bounded channels
  between them, the stop rule and the collector, as one labelled transition system. A step is what
  a task does between two points at which another one can interfere: a load or store of the shared
  flag, a channel operation, one poll of a \<^verbatim>\<open>select!\<close>. The backend that runs a strategy is a
  relation, and so the result of a run is any that the backend allows.
\<close>

section \<open>The state\<close>

record indexed_pool_task =
  it_strategy_index :: nat
  it_node :: strategy_node
  it_targets :: "strategy_probe_target list"
  it_timeouts :: probe_timeouts

record pool_config =
  wp_workers :: workers_config
  wp_isolation :: isolation_config
  wp_stop_at_success :: nat

text \<open>
  The backend (the trait \<^verbatim>\<open>PoolWorkerBackend\<close>): which results and attempts a worker may get for
  a task.
\<close>

type_synonym backend = "worker_assignment \<Rightarrow> indexed_pool_task \<Rightarrow> probe_result \<times> probe_result list \<Rightarrow> bool"

text \<open>
  Where the producer is: before the next node, before the checks of \<open>enqueue\<close>, at the first poll
  of its \<^verbatim>\<open>select!\<close>, after \<open>stopped\<close> has read the flag but before it waits for the notification,
  waiting for room in the channel (with the notification received or not), and finished.
\<close>

datatype producer =
    PrNext | PrEnqueue indexed_pool_task | PrSelect indexed_pool_task | PrArm indexed_pool_task
  | PrWait indexed_pool_task bool | PrDone

text \<open>
  Where a worker is: at the outer and at the inner check of the flag, about to look into the
  channel, with a task in hand, running it, sending its result, and returned.
\<close>

datatype worker =
    WLoop | WPoll | WRecv | WGot indexed_pool_task | WBusy indexed_pool_task
  | WSend indexed_pool_result | WExit

datatype collector =
    Collecting | AwaitProducer | Draining | Joining | Finished "indexed_pool_result list"

record pool_state =
  pl_todo :: "indexed_pool_task list"
  pl_producer :: producer
  pl_tasks :: "indexed_pool_task list"
  pl_workers :: "worker list"
  pl_results :: "indexed_pool_result list"
  pl_collector :: collector
  pl_collected :: "indexed_pool_result list"
  pl_success_count :: nat
  pl_stop_enqueue :: bool
  pl_cancelled :: bool

datatype pool_event =
    Produce | Enqueue | ProducerStop | WorkerRun nat | Slept nat | Receive nat | Deliver nat
  | Collect | Advance | Cancel

definition pool_init :: "worker_assignment list \<Rightarrow> indexed_pool_task list \<Rightarrow> pool_state" where
  "pool_init assignments tasks =
     \<lparr> pl_todo = tasks, pl_producer = PrNext, pl_tasks = [],
       pl_workers = map (\<lambda>_. WLoop) assignments, pl_results = [], pl_collector = Collecting,
       pl_collected = [], pl_success_count = 0, pl_stop_enqueue = False, pl_cancelled = False \<rparr>"

section \<open>The operations\<close>

definition should_stop :: "pool_state \<Rightarrow> bool" where
  "should_stop s \<longleftrightarrow> pl_cancelled s \<or> pl_stop_enqueue s"

text \<open>\<open>notify_waiters\<close> reaches a producer that already waits, and no other.\<close>

definition notify_waiters :: "producer \<Rightarrow> producer" where
  "notify_waiters p = (case p of PrWait t _ \<Rightarrow> PrWait t True | _ \<Rightarrow> p)"

definition record_success :: "pool_config \<Rightarrow> pool_state \<Rightarrow> pool_state" where
  "record_success cfg s =
     (if wp_stop_at_success cfg = 0 then s
      else let count = pl_success_count s + 1; s = s\<lparr> pl_success_count := count \<rparr> in
        if wp_stop_at_success cfg \<le> count
        then s\<lparr> pl_stop_enqueue := True, pl_producer := notify_waiters (pl_producer s) \<rparr>
        else s)"

text \<open>One received result: the stop rule first, then the list of the results.\<close>

definition collect_result :: "pool_config \<Rightarrow> indexed_pool_result \<Rightarrow> pool_state \<Rightarrow> pool_state" where
  "collect_result cfg r s =
     (let s = (if pr_outcome (ir_result r) = Success then record_success cfg s else s)
      in s\<lparr> pl_collected := pl_collected s @ [r] \<rparr>)"

definition indexed_result :: "worker_assignment \<Rightarrow> indexed_pool_task
    \<Rightarrow> probe_result \<times> probe_result list \<Rightarrow> indexed_pool_result" where
  "indexed_result a t res =
     \<lparr> ir_strategy_index = it_strategy_index t, ir_node = it_node t, ir_result = fst res,
       ir_attempts = snd res, ir_worker_id = wa_worker_id a, ir_qnum = wa_qnum a \<rparr>"

definition sort_results :: "indexed_pool_result list \<Rightarrow> indexed_pool_result list" where
  "sort_results = sort_by (\<lambda>a b. cmp_of (ir_strategy_index a) (ir_strategy_index b))"

abbreviation set_worker :: "nat \<Rightarrow> worker \<Rightarrow> pool_state \<Rightarrow> pool_state" where
  "set_worker i w s \<equiv> s\<lparr> pl_workers := (pl_workers s)[i := w] \<rparr>"

definition at_worker :: "pool_state \<Rightarrow> nat \<Rightarrow> worker \<Rightarrow> bool" where
  "at_worker s i w \<longleftrightarrow> i < length (pl_workers s) \<and> pl_workers s ! i = w"

definition all_exited :: "pool_state \<Rightarrow> bool" where
  "all_exited s \<longleftrightarrow> (\<forall>w \<in> set (pl_workers s). w = WExit)"

definition returned :: "pool_state \<Rightarrow> bool" where
  "returned s \<longleftrightarrow> (\<exists>out. pl_collector s = Finished out)"

section \<open>The steps\<close>

text \<open>
  The channel of the tasks stays open while the producer runs, since its context holds the sender,
  and its receiver is never dropped before \<open>run\<close> returns, since \<open>run\<close> itself keeps one handle of
  it. The channel of the results is open to receive until the last worker has returned, and closed
  to senders when \<open>run\<close> has returned.
\<close>

text \<open>The producer: the loop of the scheduler over its nodes, and \<open>EnqueueContext::enqueue\<close>.\<close>

inductive producer_step :: "pool_config \<Rightarrow> pool_state \<Rightarrow> pool_event \<Rightarrow> pool_state \<Rightarrow> bool"
  for cfg :: pool_config
where
  produce_end: "pl_producer s = PrNext \<Longrightarrow> pl_todo s = [] \<Longrightarrow>
    producer_step cfg s Produce (s\<lparr> pl_producer := PrDone \<rparr>)"
| produce_stop: "pl_producer s = PrNext \<Longrightarrow> pl_todo s = t # ts \<Longrightarrow> should_stop s \<Longrightarrow>
    producer_step cfg s ProducerStop (s\<lparr> pl_producer := PrDone, pl_todo := [] \<rparr>)"
| produce_next: "pl_producer s = PrNext \<Longrightarrow> pl_todo s = t # ts \<Longrightarrow> \<not> should_stop s \<Longrightarrow>
    producer_step cfg s Produce (s\<lparr> pl_producer := PrEnqueue t, pl_todo := ts \<rparr>)"
| enqueue_stop: "pl_producer s \<in> {PrEnqueue t, PrSelect t} \<Longrightarrow> should_stop s \<Longrightarrow>
    producer_step cfg s ProducerStop (s\<lparr> pl_producer := PrDone, pl_todo := [] \<rparr>)"
| enqueue_checked: "pl_producer s = PrEnqueue t \<Longrightarrow> \<not> should_stop s \<Longrightarrow>
    producer_step cfg s Produce (s\<lparr> pl_producer := PrSelect t \<rparr>)"
| stopped_loaded: "pl_producer s = PrSelect t \<Longrightarrow> \<not> should_stop s \<Longrightarrow>
    producer_step cfg s Produce (s\<lparr> pl_producer := PrArm t \<rparr>)"
| stopped_armed: "pl_producer s = PrArm t \<Longrightarrow>
    producer_step cfg s Produce (s\<lparr> pl_producer := PrWait t False \<rparr>)"
| send_stop: "pl_producer s = PrWait t notified \<Longrightarrow> pl_cancelled s \<or> notified \<Longrightarrow>
    producer_step cfg s ProducerStop (s\<lparr> pl_producer := PrDone, pl_todo := [] \<rparr>)"
| send_task: "pl_producer s = PrWait t False \<Longrightarrow> \<not> pl_cancelled s \<Longrightarrow>
    length (pl_tasks s) < wk_task_channel_size (wp_workers cfg) \<Longrightarrow>
    producer_step cfg s Enqueue
      (s\<lparr> pl_producer := PrNext, pl_tasks := pl_tasks s @ [t] \<rparr>)"

text \<open>A worker: \<open>worker_loop\<close>.\<close>

inductive worker_step :: "pool_config \<Rightarrow> backend \<Rightarrow> worker_assignment list
    \<Rightarrow> pool_state \<Rightarrow> pool_event \<Rightarrow> pool_state \<Rightarrow> bool"
  for cfg :: pool_config and backend :: backend and assignments :: "worker_assignment list"
where
  worker_stop: "at_worker s i w \<Longrightarrow> w \<in> {WLoop, WPoll} \<Longrightarrow> pl_stop_enqueue s \<Longrightarrow>
    worker_step cfg backend assignments s (WorkerRun i) (set_worker i WExit s)"
| worker_loop: "at_worker s i WLoop \<Longrightarrow> \<not> pl_stop_enqueue s \<Longrightarrow>
    worker_step cfg backend assignments s (WorkerRun i) (set_worker i WPoll s)"
| worker_poll: "at_worker s i WPoll \<Longrightarrow> \<not> pl_stop_enqueue s \<Longrightarrow>
    worker_step cfg backend assignments s (WorkerRun i) (set_worker i WRecv s)"
| recv_task: "at_worker s i WRecv \<Longrightarrow> pl_tasks s = t # ts \<Longrightarrow>
    worker_step cfg backend assignments s (Receive i) (set_worker i (WGot t) s\<lparr> pl_tasks := ts \<rparr>)"
| recv_closed: "at_worker s i WRecv \<Longrightarrow> pl_tasks s = [] \<Longrightarrow> pl_producer s = PrDone \<Longrightarrow>
    worker_step cfg backend assignments s (WorkerRun i) (set_worker i WExit s)"
| recv_empty_cancelled: "at_worker s i WRecv \<Longrightarrow> pl_tasks s = [] \<Longrightarrow> pl_producer s \<noteq> PrDone \<Longrightarrow>
    pl_cancelled s \<Longrightarrow> worker_step cfg backend assignments s (WorkerRun i) (set_worker i WExit s)"
| recv_empty: "at_worker s i WRecv \<Longrightarrow> pl_tasks s = [] \<Longrightarrow> pl_producer s \<noteq> PrDone \<Longrightarrow>
    \<not> pl_cancelled s \<Longrightarrow> worker_step cfg backend assignments s (Slept i) (set_worker i WPoll s)"
| got_cancelled: "at_worker s i (WGot t) \<Longrightarrow> pl_cancelled s \<Longrightarrow>
    worker_step cfg backend assignments s (WorkerRun i) (set_worker i WExit s)"
| got_task: "at_worker s i (WGot t) \<Longrightarrow> \<not> pl_cancelled s \<Longrightarrow>
    worker_step cfg backend assignments s (WorkerRun i) (set_worker i (WBusy t) s)"
| ran_task: "at_worker s i (WBusy t) \<Longrightarrow> backend (assignments ! i) t res \<Longrightarrow>
    worker_step cfg backend assignments s (WorkerRun i)
      (set_worker i (WSend (indexed_result (assignments ! i) t res)) s)"
| send_result: "at_worker s i (WSend r) \<Longrightarrow> \<not> returned s \<Longrightarrow>
    length (pl_results s) < wk_result_channel_size (wp_workers cfg) \<Longrightarrow>
    worker_step cfg backend assignments s (Deliver i)
      (set_worker i WLoop s\<lparr> pl_results := pl_results s @ [r] \<rparr>)"
| send_closed: "at_worker s i (WSend r) \<Longrightarrow> returned s \<Longrightarrow>
    worker_step cfg backend assignments s (WorkerRun i) (set_worker i WExit s)"

text \<open>The collector: what \<open>WorkerPool::run\<close> does once the tasks are spawned.\<close>

inductive collector_step :: "pool_config \<Rightarrow> pool_state \<Rightarrow> pool_event \<Rightarrow> pool_state \<Rightarrow> bool"
  for cfg :: pool_config
where
  collect: "pl_collector s \<in> {Collecting, Draining} \<Longrightarrow> pl_results s = r # rs \<Longrightarrow>
    collector_step cfg s Collect (collect_result cfg r (s\<lparr> pl_results := rs \<rparr>))"
| collect_end: "pl_collector s = Collecting \<Longrightarrow> pl_results s = [] \<and> all_exited s \<or> pl_cancelled s \<Longrightarrow>
    collector_step cfg s Advance (s\<lparr> pl_collector := AwaitProducer \<rparr>)"
| producer_joined: "pl_collector s = AwaitProducer \<Longrightarrow> pl_producer s = PrDone \<Longrightarrow>
    collector_step cfg s Advance (s\<lparr> pl_collector := Draining \<rparr>)"
| drain_end: "pl_collector s = Draining \<Longrightarrow>
    collector_step cfg s Advance (s\<lparr> pl_collector := Joining \<rparr>)"
| joined: "pl_collector s = Joining \<Longrightarrow>
    collector_step cfg s Advance
      (s\<lparr> pl_collector := Finished (sort_results (pl_collected s)) \<rparr>)"

text \<open>The pool: a step of one of them, or the cancellation of the token from outside.\<close>

inductive pool_step :: "pool_config \<Rightarrow> backend \<Rightarrow> worker_assignment list
    \<Rightarrow> pool_state \<Rightarrow> pool_event \<Rightarrow> pool_state \<Rightarrow> bool"
  for cfg :: pool_config and backend :: backend and assignments :: "worker_assignment list"
where
  of_producer: "producer_step cfg s e s' \<Longrightarrow> pool_step cfg backend assignments s e s'"
| of_worker: "worker_step cfg backend assignments s e s' \<Longrightarrow> pool_step cfg backend assignments s e s'"
| of_collector: "collector_step cfg s e s' \<Longrightarrow> pool_step cfg backend assignments s e s'"
| cancel: "\<not> pl_cancelled s \<Longrightarrow>
    pool_step cfg backend assignments s Cancel (s\<lparr> pl_cancelled := True \<rparr>)"

lemmas pool_intros = producer_step.intros[THEN of_producer] worker_step.intros[THEN of_worker]
  collector_step.intros[THEN of_collector] cancel

lemmas pool_cases = pool_step.cases producer_step.cases worker_step.cases collector_step.cases

abbreviation pool_start :: "worker_assignment list \<Rightarrow> indexed_pool_task list \<Rightarrow> pool_state \<Rightarrow> bool" where
  "pool_start assignments tasks s \<equiv> s = pool_init assignments tasks"

end
