(* ===== verification/PoolProps.thy ===== *)
theory PoolProps
  imports Pool
begin

text \<open>
  What the worker pool guarantees: every task is in one place, the results are about the tasks
  and sorted, nothing is lost while the run is neither stopped nor cancelled, the stop rule bounds
  the successes, and the run ends.
\<close>

section \<open>One worker among the others\<close>

lemma at_workerE:
  assumes "at_worker s i w"
  obtains us vs where "pl_workers s = us @ w # vs" "i = length us"
  using assms id_take_nth_drop[of i "pl_workers s"] that[of "take i (pl_workers s)"]
  by (simp add: at_worker_def)

named_theorems pool_simps

declare notify_waiters_def [pool_simps] should_stop_def [pool_simps]

lemma collect_result_simps [simp]:
  "pl_todo (collect_result cfg r s) = pl_todo s" "pl_tasks (collect_result cfg r s) = pl_tasks s"
  "pl_workers (collect_result cfg r s) = pl_workers s"
  "pl_results (collect_result cfg r s) = pl_results s"
  "pl_collector (collect_result cfg r s) = pl_collector s"
  "pl_collected (collect_result cfg r s) = pl_collected s @ [r]"
  "pl_cancelled (collect_result cfg r s) = pl_cancelled s"
  by (simp_all add: collect_result_def record_success_def Let_def)

lemma collect_result_producer:
  "pl_producer (collect_result cfg r s) = pl_producer s \<or>
   pl_stop_enqueue (collect_result cfg r s) \<and>
   pl_producer (collect_result cfg r s) = notify_waiters (pl_producer s)"
  by (simp add: collect_result_def record_success_def Let_def)

lemma collect_result_stop: "pl_stop_enqueue s \<Longrightarrow> pl_stop_enqueue (collect_result cfg r s)"
  by (simp add: collect_result_def record_success_def Let_def)

section \<open>Every task in one place\<close>

definition task_key :: "indexed_pool_task \<Rightarrow> nat \<times> strategy_node" where
  "task_key t = (it_strategy_index t, it_node t)"

definition result_key :: "indexed_pool_result \<Rightarrow> nat \<times> strategy_node" where
  "result_key r = (ir_strategy_index r, ir_node r)"

fun producer_keys :: "producer \<Rightarrow> (nat \<times> strategy_node) list" where
  "producer_keys (PrEnqueue t) = [task_key t]"
| "producer_keys (PrSelect t) = [task_key t]"
| "producer_keys (PrArm t) = [task_key t]"
| "producer_keys (PrWait t n) = [task_key t]"
| "producer_keys _ = []"

fun worker_keys :: "worker \<Rightarrow> (nat \<times> strategy_node) list" where
  "worker_keys (WGot t) = [task_key t]"
| "worker_keys (WBusy t) = [task_key t]"
| "worker_keys (WSend r) = [result_key r]"
| "worker_keys _ = []"

definition pool_keys :: "pool_state \<Rightarrow> (nat \<times> strategy_node) multiset" where
  "pool_keys s =
     mset (map task_key (pl_todo s) @ producer_keys (pl_producer s) @ map task_key (pl_tasks s) @
       concat (map worker_keys (pl_workers s)) @ map result_key (pl_results s @ pl_collected s))"

definition quiet :: "pool_state \<Rightarrow> bool" where
  "quiet s \<longleftrightarrow> \<not> pl_stop_enqueue s \<and> \<not> pl_cancelled s"

definition accounted :: "(nat \<times> strategy_node) multiset \<Rightarrow> pool_state \<Rightarrow> bool" where
  "accounted T s \<longleftrightarrow> pool_keys s \<subseteq># T \<and> (quiet s \<longrightarrow> pool_keys s = T)"

lemma notify_keys [simp]: "producer_keys (notify_waiters p) = producer_keys p"
  by (cases p) (simp_all add: notify_waiters_def)

lemma collect_keys [simp]:
  "producer_keys (pl_producer (collect_result cfg r s)) = producer_keys (pl_producer s)"
  using collect_result_producer[of cfg r s] by auto

lemma indexed_result_key [simp]: "result_key (indexed_result a t res) = task_key t"
  by (simp add: indexed_result_def result_key_def task_key_def)

section \<open>The control invariant\<close>

definition control_inv :: "pool_config \<Rightarrow> worker_assignment list \<Rightarrow> pool_state \<Rightarrow> bool" where
  "control_inv cfg assignments s \<longleftrightarrow>
     (\<forall>t. pl_producer s = PrWait t True \<longrightarrow> pl_stop_enqueue s) \<and>
     (pl_producer s = PrDone \<longrightarrow> pl_todo s = []) \<and>
     length (pl_workers s) = length assignments \<and>
     length (pl_tasks s) \<le> wk_task_channel_size (wp_workers cfg) \<and>
     length (pl_results s) \<le> wk_result_channel_size (wp_workers cfg) \<and>
     (quiet s \<and> WExit \<in> set (pl_workers s) \<longrightarrow> pl_producer s = PrDone \<and> pl_tasks s = []) \<and>
     (\<not> pl_cancelled s \<and> pl_collector s \<noteq> Collecting \<longrightarrow> all_exited s \<and> pl_results s = []) \<and>
     (pl_collector s \<in> {Collecting, AwaitProducer} \<or> pl_producer s = PrDone) \<and>
     (\<forall>out. pl_collector s = Finished out \<longrightarrow> out = sort_results (pl_collected s))"

lemma control_inv_init: "control_inv cfg assignments (pool_init assignments tasks)"
  by (simp add: control_inv_def pool_init_def) (auto simp: quiet_def)

lemma notify_done [simp]: "notify_waiters p = PrDone \<longleftrightarrow> p = PrDone"
  by (cases p) (simp_all add: notify_waiters_def)

lemma collect_done [simp]: "pl_producer (collect_result cfg r s) = PrDone \<longleftrightarrow> pl_producer s = PrDone"
  using collect_result_producer[of cfg r s] by (metis notify_done)

lemma control_inv_collect:
  assumes "control_inv cfg assignments s" and "pl_collector s \<in> {Collecting, Draining}"
    and "pl_results s = r # rs"
  shows "control_inv cfg assignments (collect_result cfg r (s\<lparr> pl_results := rs \<rparr>))"
proof -
  let ?s = "s\<lparr> pl_results := rs \<rparr>" and ?c = "collect_result cfg r (s\<lparr> pl_results := rs \<rparr>)"
  have q: "quiet ?c \<Longrightarrow> quiet s" using collect_result_stop[of ?s cfg r] by (auto simp: quiet_def)
  have p: "pl_producer ?c = PrDone \<longleftrightarrow> pl_producer s = PrDone"
    using collect_done[of cfg r ?s] by simp
  have w: "pl_producer ?c = PrWait t True \<Longrightarrow> pl_stop_enqueue ?c" for t
  proof (cases "pl_producer ?c = pl_producer ?s")
    case True
    assume "pl_producer ?c = PrWait t True"
    then have "pl_producer s = PrWait t True" using True by simp
    then have "pl_stop_enqueue ?s" using assms(1) by (simp add: control_inv_def)
    then show ?thesis by (rule collect_result_stop)
  next
    case False
    then show ?thesis using collect_result_producer[of cfg r ?s] by blast
  qed
  have "all_exited ?c = all_exited s" by (simp add: all_exited_def)
  then show ?thesis using assms q p w by (auto simp: control_inv_def simp del: collect_done)
qed

lemma control_inv_step:
  assumes "control_inv cfg assignments s" and "pool_step cfg backend assignments s e s'"
  shows "control_inv cfg assignments s'"
  using assms(2)
proof cases
  case of_producer
  then show ?thesis using assms(1)
    by cases (auto simp: control_inv_def quiet_def should_stop_def all_exited_def)
next
  case of_worker
  then show ?thesis using assms(1)
    by cases (auto simp: control_inv_def quiet_def all_exited_def returned_def elim!: at_workerE)
next
  case of_collector
  then show ?thesis
  proof cases
    case (collect r rs)
    then show ?thesis using control_inv_collect assms(1) by blast
  qed (use assms(1) in \<open>auto simp: control_inv_def quiet_def all_exited_def\<close>)
qed (use assms(1) in \<open>auto simp: control_inv_def quiet_def all_exited_def\<close>)

lemma pool_keys_step:
  assumes "control_inv cfg assignments s" and "pool_step cfg backend assignments s e s'"
  shows "pool_keys s' \<subseteq># pool_keys s \<and> (quiet s' \<longrightarrow> quiet s \<and> pool_keys s' = pool_keys s)"
  using assms(2)
proof cases
  case of_producer
  then show ?thesis using assms(1)
    by cases (auto simp: pool_keys_def quiet_def should_stop_def control_inv_def)
next
  case of_worker
  then show ?thesis
  proof cases
    case (send_closed i r)
    then have "\<not> all_exited s" by (auto simp: all_exited_def elim!: at_workerE)
    then have "pl_cancelled s" using assms(1) send_closed by (auto simp: control_inv_def returned_def)
    then show ?thesis using send_closed by (auto simp: pool_keys_def quiet_def elim!: at_workerE)
  qed (auto simp: pool_keys_def quiet_def elim!: at_workerE)
next
  case of_collector
  then show ?thesis
  proof cases
    case (collect r rs)
    then show ?thesis
      using collect_result_stop[of "s\<lparr> pl_results := rs \<rparr>" cfg r] by (auto simp: pool_keys_def quiet_def)
  qed (auto simp: pool_keys_def quiet_def)
qed (auto simp: pool_keys_def quiet_def)

section \<open>The stop rule\<close>

definition successes :: "indexed_pool_result list \<Rightarrow> nat" where
  "successes rs = length (filter (\<lambda>r. pr_outcome (ir_result r) = Success) rs)"

fun engaged :: "worker \<Rightarrow> bool" where
  "engaged WLoop = False" | "engaged WPoll = False" | "engaged WExit = False" | "engaged _ = True"

definition pending :: "pool_state \<Rightarrow> nat" where
  "pending s = length (pl_results s) + length (filter engaged (pl_workers s))"

definition stop_inv :: "pool_config \<Rightarrow> worker_assignment list \<Rightarrow> pool_state \<Rightarrow> bool" where
  "stop_inv cfg assignments s \<longleftrightarrow>
     (if wp_stop_at_success cfg = 0 then \<not> pl_stop_enqueue s
      else pl_success_count s = successes (pl_collected s) \<and>
        (if pl_stop_enqueue s
         then successes (pl_collected s) + pending s \<le>
           wp_stop_at_success cfg + wk_result_channel_size (wp_workers cfg) + length assignments
         else successes (pl_collected s) < wp_stop_at_success cfg))"

lemma stop_inv_init: "stop_inv cfg assignments (pool_init assignments tasks)"
  by (simp add: stop_inv_def pool_init_def successes_def)

lemma stop_inv_collect:
  assumes "stop_inv cfg assignments s" and "control_inv cfg assignments s" and "pl_results s = r # rs"
  shows "stop_inv cfg assignments (collect_result cfg r (s\<lparr> pl_results := rs \<rparr>))"
proof -
  have "length (filter engaged (pl_workers s)) \<le> length assignments"
    using assms(2) length_filter_le[of engaged "pl_workers s"] by (simp add: control_inv_def)
  moreover have "length rs < wk_result_channel_size (wp_workers cfg)"
    using assms(2,3) by (simp add: control_inv_def)
  ultimately show ?thesis
    using assms(1,3)
    by (auto simp: stop_inv_def collect_result_def record_success_def Let_def successes_def pending_def
        split: if_splits)
qed

lemma stop_inv_step:
  assumes "stop_inv cfg assignments s" and "control_inv cfg assignments s"
    and "pool_step cfg backend assignments s e s'"
  shows "stop_inv cfg assignments s'"
  using assms(3)
proof cases
  case of_producer
  then show ?thesis using assms(1) by cases (auto simp: stop_inv_def pending_def)
next
  case of_worker
  then show ?thesis using assms(1)
    by cases (auto simp: stop_inv_def pending_def elim!: at_workerE split: if_splits)
next
  case of_collector
  then show ?thesis
  proof cases
    case (collect r rs)
    then show ?thesis using stop_inv_collect assms(1,2) by blast
  qed (use assms(1) in \<open>auto simp: stop_inv_def pending_def\<close>)
qed (use assms(1) in \<open>auto simp: stop_inv_def pending_def\<close>)

section \<open>Where results come from\<close>

fun producer_tasks :: "producer \<Rightarrow> indexed_pool_task set" where
  "producer_tasks (PrEnqueue t) = {t}" | "producer_tasks (PrSelect t) = {t}"
| "producer_tasks (PrArm t) = {t}" | "producer_tasks (PrWait t n) = {t}" | "producer_tasks _ = {}"

fun worker_tasks :: "worker \<Rightarrow> indexed_pool_task set" where
  "worker_tasks (WGot t) = {t}" | "worker_tasks (WBusy t) = {t}" | "worker_tasks _ = {}"

fun worker_results :: "worker \<Rightarrow> indexed_pool_result set" where
  "worker_results (WSend r) = {r}" | "worker_results _ = {}"

definition result_of :: "backend \<Rightarrow> worker_assignment list \<Rightarrow> indexed_pool_task list
    \<Rightarrow> indexed_pool_result \<Rightarrow> bool" where
  "result_of backend assignments tasks r \<longleftrightarrow>
     (\<exists>a \<in> set assignments. \<exists>t \<in> set tasks. \<exists>res. backend a t res \<and> r = indexed_result a t res)"

definition origin_inv :: "backend \<Rightarrow> worker_assignment list \<Rightarrow> indexed_pool_task list \<Rightarrow> pool_state
    \<Rightarrow> bool" where
  "origin_inv backend assignments tasks s \<longleftrightarrow>
     length (pl_workers s) = length assignments \<and>
     set (pl_todo s) \<union> producer_tasks (pl_producer s) \<union> set (pl_tasks s) \<subseteq> set tasks \<and>
     (\<forall>w \<in> set (pl_workers s). worker_tasks w \<subseteq> set tasks \<and>
        (\<forall>r \<in> worker_results w. result_of backend assignments tasks r)) \<and>
     (\<forall>r \<in> set (pl_results s) \<union> set (pl_collected s). result_of backend assignments tasks r)"

lemma origin_inv_init: "origin_inv backend assignments tasks (pool_init assignments tasks)"
  by (auto simp: origin_inv_def pool_init_def)

lemma notify_tasks [simp]: "producer_tasks (notify_waiters p) = producer_tasks p"
  by (cases p) (simp_all add: notify_waiters_def)

lemma collect_tasks [simp]:
  "producer_tasks (pl_producer (collect_result cfg r s)) = producer_tasks (pl_producer s)"
  using collect_result_producer[of cfg r s] by auto

lemma origin_inv_step:
  assumes "origin_inv backend assignments tasks s" and "pool_step cfg backend assignments s e s'"
  shows "origin_inv backend assignments tasks s'"
  using assms(2)
proof cases
  case of_producer
  then show ?thesis using assms(1) by cases (auto simp: origin_inv_def)
next
  case of_worker
  then show ?thesis
  proof cases
    case (ran_task i t res)
    then have i: "i < length assignments" "t \<in> set tasks"
      using assms(1) by (force simp: origin_inv_def at_worker_def elim!: at_workerE)+
    then have "result_of backend assignments tasks (indexed_result (assignments ! i) t res)"
      unfolding result_of_def using ran_task(4) nth_mem[OF i(1)] by blast
    then show ?thesis using ran_task assms(1) by (auto simp: origin_inv_def elim!: at_workerE)
  next
    case (got_task i t)
    then show ?thesis using assms(1) unfolding origin_inv_def
      by (elim at_workerE) (simp add: subset_iff)
  qed (use assms(1) in \<open>auto simp: origin_inv_def elim!: at_workerE\<close>)
next
  case of_collector
  then show ?thesis using assms(1) by cases (auto simp: origin_inv_def)
qed (use assms(1) in \<open>auto simp: origin_inv_def\<close>)

section \<open>The invariant of the pool\<close>

definition pool_inv :: "pool_config \<Rightarrow> backend \<Rightarrow> worker_assignment list \<Rightarrow> indexed_pool_task list
    \<Rightarrow> pool_state \<Rightarrow> bool" where
  "pool_inv cfg backend assignments tasks s \<longleftrightarrow>
     control_inv cfg assignments s \<and> accounted (mset (map task_key tasks)) s \<and>
     stop_inv cfg assignments s \<and> origin_inv backend assignments tasks s"

lemma accounted_init: "accounted (mset (map task_key tasks)) (pool_init assignments tasks)"
proof -
  have "concat (map (worker_keys \<circ> (\<lambda>_. WLoop)) xs) = []" for xs :: "worker_assignment list"
    by (induction xs) auto
  then show ?thesis by (simp add: accounted_def pool_init_def pool_keys_def)
qed

interpretation pool: inductive_invariant "pool_start assignments tasks"
  "pool_step cfg backend assignments" "pool_inv cfg backend assignments tasks"
proof
  show "pool_start assignments tasks s \<Longrightarrow> pool_inv cfg backend assignments tasks s" for s
    by (simp add: pool_inv_def control_inv_init accounted_init[simplified] stop_inv_init origin_inv_init)
  show "pool_inv cfg backend assignments tasks s'"
    if "pool_inv cfg backend assignments tasks s" "pool_step cfg backend assignments s e s'" for s e s'
    using that control_inv_step pool_keys_step[OF _ that(2)] stop_inv_step origin_inv_step
    unfolding pool_inv_def accounted_def by (metis subset_mset.trans)
qed

lemmas pool_inv_parts = pool_inv_def control_inv_def accounted_def stop_inv_def origin_inv_def

section \<open>The run ends\<close>

text \<open>Every step but a sleep uses up part of this measure; a sleep gives one unit back.\<close>

fun producer_rank :: "producer \<Rightarrow> nat" where
  "producer_rank PrDone = 0" | "producer_rank PrNext = 1" | "producer_rank (PrWait t n) = 9"
| "producer_rank (PrArm t) = 10" | "producer_rank (PrSelect t) = 11" | "producer_rank (PrEnqueue t) = 12"

fun worker_rank :: "worker \<Rightarrow> nat" where
  "worker_rank WExit = 0" | "worker_rank WRecv = 1" | "worker_rank WPoll = 2" | "worker_rank WLoop = 3"
| "worker_rank (WSend r) = 5" | "worker_rank (WBusy t) = 6" | "worker_rank (WGot t) = 7"

fun collector_rank :: "collector \<Rightarrow> nat" where
  "collector_rank Collecting = 4" | "collector_rank AwaitProducer = 3" | "collector_rank Draining = 2"
| "collector_rank Joining = 1" | "collector_rank (Finished out) = 0"

definition pool_rank :: "pool_state \<Rightarrow> nat" where
  "pool_rank s =
     12 * length (pl_todo s) + producer_rank (pl_producer s) + 7 * length (pl_tasks s) +
     sum_list (map worker_rank (pl_workers s)) + length (pl_results s) +
     collector_rank (pl_collector s) + (if pl_cancelled s then 0 else 1)"

lemma notify_rank [simp]: "producer_rank (notify_waiters p) = producer_rank p"
  by (cases p) (simp_all add: notify_waiters_def)

lemma collect_rank [simp]:
  "producer_rank (pl_producer (collect_result cfg r s)) = producer_rank (pl_producer s)"
  using collect_result_producer[of cfg r s] by auto

definition is_sleep :: "pool_event \<Rightarrow> bool" where
  "is_sleep e \<longleftrightarrow> (\<exists>i. e = Slept i)"

lemma pool_rank_step:
  assumes "pool_step cfg backend assignments s e s'"
  shows "if is_sleep e then pool_rank s' = pool_rank s + 1 else pool_rank s' < pool_rank s"
  using assms
proof cases
  case of_producer
  then show ?thesis by cases (auto simp: pool_rank_def is_sleep_def)
next
  case of_worker
  then show ?thesis by cases (auto simp: pool_rank_def is_sleep_def elim!: at_workerE)
next
  case of_collector
  then show ?thesis by cases (auto simp: pool_rank_def is_sleep_def)
qed (auto simp: pool_rank_def is_sleep_def)

lemma pool_trace_rank:
  "trace_of (pool_step cfg backend assignments) s es s' \<Longrightarrow>
    length (filter (\<lambda>e. \<not> is_sleep e) es) + pool_rank s' \<le> pool_rank s + length (filter is_sleep es)"
proof (induction rule: trace_of.induct)
  case (trace_Cons s e s' es s'')
  then show ?case using pool_rank_step[OF trace_Cons.hyps(1)] by (auto split: if_splits)
qed simp

lemma pool_rank_init:
  "pool_rank (pool_init assignments tasks) = 12 * length tasks + 3 * length assignments + 6"
proof -
  have "sum_list (map (worker_rank \<circ> (\<lambda>_. WLoop)) xs) = 3 * length xs" for xs :: "worker_assignment list"
    by (induction xs) auto
  then show ?thesis by (simp add: pool_rank_def pool_init_def)
qed

section \<open>The run does not get stuck, except in one state\<close>

definition useful :: "pool_event \<Rightarrow> bool" where
  "useful e \<longleftrightarrow> e \<noteq> Cancel \<and> \<not> is_sleep e"

text \<open>
  The one state: the producer waits for room in the channel of the tasks, no worker is left to
  make it, and the notification of the stop rule came before the producer waited for it.
\<close>

definition lost_wakeup :: "pool_config \<Rightarrow> pool_state \<Rightarrow> bool" where
  "lost_wakeup cfg s \<longleftrightarrow>
     (\<exists>t. pl_producer s = PrWait t False) \<and> pl_stop_enqueue s \<and> \<not> pl_cancelled s \<and>
     length (pl_tasks s) = wk_task_channel_size (wp_workers cfg) \<and> all_exited s \<and>
     pl_results s = [] \<and> pl_collector s = AwaitProducer"

lemma lost_wakeup_stuck:
  assumes "lost_wakeup cfg s" and "pool_step cfg backend assignments s e s'"
  shows "e = Cancel"
  using assms(2)
proof cases
  case of_producer
  then show ?thesis using assms(1) by cases (auto simp: lost_wakeup_def)
next
  case of_worker
  then show ?thesis using assms(1)
    by cases (auto simp: lost_wakeup_def all_exited_def elim!: at_workerE)
next
  case of_collector
  then show ?thesis using assms(1) by cases (auto simp: lost_wakeup_def)
qed

lemma producer_progress:
  assumes "pl_producer s \<noteq> PrDone"
    and "\<nexists>t. pl_producer s = PrWait t False \<and> \<not> pl_cancelled s \<and>
      wk_task_channel_size (wp_workers cfg) \<le> length (pl_tasks s)"
  shows "\<exists>e s'. pool_step cfg backend assignments s e s' \<and> useful e"
proof (cases "pl_producer s")
  case PrNext
  then show ?thesis
    by (cases "pl_todo s"; cases "should_stop s")
       (fastforce intro: pool_intros simp: useful_def is_sleep_def)+
next
  case (PrEnqueue t)
  then show ?thesis
    by (cases "should_stop s") (fastforce intro: pool_intros simp: useful_def is_sleep_def)+
next
  case (PrSelect t)
  then show ?thesis
    by (cases "should_stop s") (fastforce intro: pool_intros simp: useful_def is_sleep_def)+
next
  case (PrArm t)
  then show ?thesis by (fastforce intro: pool_intros simp: useful_def is_sleep_def)
next
  case (PrWait t n)
  then show ?thesis
    using assms(2) by (cases n; cases "pl_cancelled s")
      (fastforce intro: pool_intros simp: useful_def is_sleep_def)+
qed (use assms(1) in simp)

text \<open>The backend gives a result for every task (the runtime does when there is a target).\<close>

definition backend_answers :: "backend \<Rightarrow> worker_assignment list \<Rightarrow> indexed_pool_task list \<Rightarrow> bool" where
  "backend_answers backend assignments tasks \<longleftrightarrow>
     (\<forall>a \<in> set assignments. \<forall>t \<in> set tasks. \<exists>res. backend a t res)"

lemma busy_answers:
  assumes "backend_answers backend assignments tasks" and "origin_inv backend assignments tasks s"
    and "at_worker s i (WBusy t)"
  shows "\<exists>res. backend (assignments ! i) t res"
proof -
  have "t \<in> set tasks" "i < length assignments"
    using assms(2,3) by (force simp: origin_inv_def at_worker_def elim!: at_workerE)+
  then show ?thesis using assms(1) nth_mem by (auto simp: backend_answers_def)
qed

lemma worker_progress:
  assumes "at_worker s i w" and "w \<noteq> WExit" and "backend_answers backend assignments tasks"
    and "origin_inv backend assignments tasks s"
    and "length (pl_results s) < wk_result_channel_size (wp_workers cfg)"
    and "pl_tasks s \<noteq> [] \<or> pl_producer s = PrDone \<or> pl_cancelled s"
  shows "\<exists>e s'. pool_step cfg backend assignments s e s' \<and> useful e"
proof (cases w)
  case WLoop
  then show ?thesis using assms(1)
    by (cases "pl_stop_enqueue s") (fastforce intro: pool_intros simp: useful_def is_sleep_def)+
next
  case WPoll
  then show ?thesis using assms(1)
    by (cases "pl_stop_enqueue s") (fastforce intro: pool_intros simp: useful_def is_sleep_def)+
next
  case WRecv
  show ?thesis
  proof (cases "pl_tasks s")
    case Nil
    then show ?thesis using assms(1,6) WRecv
      by (cases "pl_producer s = PrDone")
         (fastforce intro: pool_intros simp: useful_def is_sleep_def)+
  next
    case (Cons t ts)
    then show ?thesis using assms(1) WRecv
      by (fastforce intro: pool_intros simp: useful_def is_sleep_def)
  qed
next
  case (WGot t)
  then show ?thesis using assms(1)
    by (cases "pl_cancelled s") (fastforce intro: pool_intros simp: useful_def is_sleep_def)+
next
  case (WBusy t)
  obtain res where "backend (assignments ! i) t res"
    using busy_answers assms(1,3,4) WBusy by blast
  then show ?thesis using assms(1) WBusy
    by (fastforce intro: pool_intros simp: useful_def is_sleep_def)
next
  case (WSend r)
  then show ?thesis using assms(1,5)
    by (cases "returned s") (fastforce intro: pool_intros simp: useful_def is_sleep_def)+
qed (use assms(2) in simp)

definition channels_open :: "pool_config \<Rightarrow> bool" where
  "channels_open cfg \<longleftrightarrow>
     0 < wk_task_channel_size (wp_workers cfg) \<and> 0 < wk_result_channel_size (wp_workers cfg)"

lemma collecting_progress:
  assumes "control_inv cfg assignments s" and "origin_inv backend assignments tasks s"
    and "backend_answers backend assignments tasks" and "channels_open cfg"
    and "pl_collector s = Collecting"
  shows "\<exists>e s'. pool_step cfg backend assignments s e s' \<and> useful e"
proof (cases "pl_results s = [] \<and> \<not> all_exited s \<and> \<not> pl_cancelled s")
  case False
  then show ?thesis
    using assms(5) by (cases "pl_results s") (fastforce intro: pool_intros simp: useful_def is_sleep_def)+
next
  case True
  then obtain i w where w: "at_worker s i w" "w \<noteq> WExit"
    by (auto simp: all_exited_def at_worker_def in_set_conv_nth)
  show ?thesis
  proof (cases "pl_tasks s = [] \<and> pl_producer s \<noteq> PrDone")
    case True
    then show ?thesis
      using producer_progress[of s cfg backend assignments] assms(4) by (auto simp: channels_open_def)
  next
    case False
    then show ?thesis
      using worker_progress[OF w assms(3,2)] True assms(4) by (auto simp: channels_open_def)
  qed
qed

lemma pool_progress:
  assumes "control_inv cfg assignments s" and "origin_inv backend assignments tasks s"
    and "backend_answers backend assignments tasks" and "channels_open cfg"
    and "assignments \<noteq> []" and "\<not> returned s" and "\<not> lost_wakeup cfg s"
  shows "\<exists>e s'. pool_step cfg backend assignments s e s' \<and> useful e"
proof (cases "pl_collector s")
  case Collecting
  then show ?thesis using collecting_progress assms(1-4) by blast
next
  case AwaitProducer
  show ?thesis
  proof (cases "pl_producer s = PrDone")
    case True
    then show ?thesis
      using AwaitProducer by (fastforce intro: pool_intros simp: useful_def is_sleep_def)
  next
    case False
    have "False" if p: "pl_producer s = PrWait t False" "\<not> pl_cancelled s"
      and full: "wk_task_channel_size (wp_workers cfg) \<le> length (pl_tasks s)" for t
    proof -
      have ex: "all_exited s" "pl_results s = []"
        using assms(1) that(2) AwaitProducer by (auto simp: control_inv_def)
      have "pl_workers s \<noteq> []" using assms(1,5) by (auto simp: control_inv_def)
      then have "WExit \<in> set (pl_workers s)" using ex(1) by (cases "pl_workers s") (auto simp: all_exited_def)
      then have "\<not> quiet s" using assms(1) False by (auto simp: control_inv_def)
      then show False
        using that ex assms(1,7) AwaitProducer by (auto simp: lost_wakeup_def quiet_def control_inv_def)
    qed
    then show ?thesis using producer_progress[OF False] by blast
  qed
next
  case Draining
  then show ?thesis by (fastforce intro: pool_intros simp: useful_def is_sleep_def)
next
  case Joining
  then show ?thesis by (fastforce intro: pool_intros simp: useful_def is_sleep_def)
next
  case (Finished out)
  then show ?thesis using assms(6) by (simp add: returned_def)
qed

lemma pool_finishes:
  assumes "control_inv cfg assignments s" and "origin_inv backend assignments tasks s"
    and "backend_answers backend assignments tasks" and "channels_open cfg"
    and "assignments \<noteq> []"
  shows "\<exists>es s'. trace_of (pool_step cfg backend assignments) s es s' \<and> list_all useful es \<and>
    (returned s' \<or> lost_wakeup cfg s')"
  using assms(1,2)
proof (induction "pool_rank s" arbitrary: s rule: less_induct)
  case less
  show ?case
  proof (cases "returned s \<or> lost_wakeup cfg s")
    case True
    then show ?thesis by (intro exI[of _ "[]"] exI[of _ s]) simp
  next
    case False
    then obtain e s1 where e: "pool_step cfg backend assignments s e s1" "useful e"
      using pool_progress[OF less.prems assms(3-5)] by blast
    have "pool_rank s1 < pool_rank s" using pool_rank_step[OF e(1)] e(2) by (simp add: useful_def)
    from less.hyps[OF this control_inv_step[OF less.prems(1) e(1)] origin_inv_step[OF less.prems(2) e(1)]]
    obtain es s' where "trace_of (pool_step cfg backend assignments) s1 es s'" "list_all useful es"
      "returned s' \<or> lost_wakeup cfg s'"
      by blast
    then show ?thesis
      using e by (intro exI[of _ "e # es"] exI[of _ s']) (auto intro: trace_Cons)
  qed
qed

end
