(* ===== verification/PoolRun.thy ===== *)
theory PoolRun
  imports PoolProps StrategyTests
begin

text \<open>
  The properties of a whole run of the worker pool, from the invariant and the measure of
  \<open>PoolProps\<close>: what the returned results are, when they are complete, how far the stop rule lets
  a run go on, that a run ends, and the one state in which it does not.
\<close>

section \<open>The returned results\<close>

interpretation index_order: comparator "\<lambda>a b. cmp_of (ir_strategy_index a) (ir_strategy_index b)"
  by (rule comparator_cmp_key)

lemma sorted_by_key: "sorted_by (\<lambda>a b. cmp_of (f a) (f b)) xs \<Longrightarrow> sorted (map f xs)"
  by (induction xs) (auto simp: not_less)

lemma sort_results_facts [simp]:
  "mset (sort_results rs) = mset rs" "set (sort_results rs) = set rs"
  "sorted (map ir_strategy_index (sort_results rs))"
  using sorted_by_key[OF index_order.sorted_sort_by] by (simp_all add: sort_results_def)

abbreviation pool_reachable :: "pool_config \<Rightarrow> backend \<Rightarrow> worker_assignment list
    \<Rightarrow> indexed_pool_task list \<Rightarrow> pool_state \<Rightarrow> bool" where
  "pool_reachable cfg backend assignments tasks \<equiv>
     reachable (pool_start assignments tasks) (pool_step cfg backend assignments)"

lemma pool_init_reachable: "pool_reachable cfg backend assignments tasks (pool_init assignments tasks)"
  by (rule reach_init) simp

lemma pool_trace_reachable:
  "trace_of (pool_step cfg backend assignments) (pool_init assignments tasks) es s \<Longrightarrow>
    pool_reachable cfg backend assignments tasks s"
  by (rule trace_reachable[OF _ pool_init_reachable])

lemma collected_keys:
  assumes "accounted (mset (map task_key tasks)) s"
  shows "mset (map ir_strategy_index (pl_collected s)) \<subseteq># mset (map it_strategy_index tasks)"
proof -
  have "mset (map result_key (pl_collected s)) \<subseteq># pool_keys s" by (simp add: pool_keys_def)
  then have "mset (map result_key (pl_collected s)) \<subseteq># mset (map task_key tasks)"
    using assms by (auto simp: accounted_def intro: subset_mset.trans)
  from image_mset_subseteq_mono[OF this, of fst] show ?thesis
    by (simp add: image_mset.compositionality comp_def result_key_def task_key_def)
qed

lemma finished_results:
  assumes "pool_inv cfg backend assignments tasks s" and "pl_collector s = Finished out"
    and "distinct (map it_strategy_index tasks)"
  shows "sorted_wrt (<) (map ir_strategy_index out) \<and>
    (\<forall>r \<in> set out. result_of backend assignments tasks r)"
proof -
  have out: "out = sort_results (pl_collected s)"
    using assms(1,2) by (auto simp: pool_inv_parts)
  have "mset (map ir_strategy_index out) = mset (map ir_strategy_index (pl_collected s))"
    by (simp add: out)
  then have "mset (map ir_strategy_index out) \<subseteq># mset (map it_strategy_index tasks)"
    using collected_keys assms(1) by (simp add: pool_inv_def)
  then have "distinct (map ir_strategy_index out)"
    using assms(3) by (metis distinct_append mset_append mset_eq_imp_distinct_iff mset_subset_eq_exists_conv ex_mset)
  then have "sorted_wrt (<) (map ir_strategy_index out)"
    by (simp add: out strict_sorted_iff)
  then show ?thesis using assms(1) by (auto simp: out pool_inv_def origin_inv_def)
qed

text \<open>
  C5: a run returns its results in the order of their tasks, at most one for each task, and every
  result is one that the backend gave to one of the workers for that task.
\<close>

theorem pool_results_sound:
  assumes "pool_reachable cfg backend assignments tasks s" and "pl_collector s = Finished out"
    and "distinct (map it_strategy_index tasks)"
  shows "sorted_wrt (<) (map ir_strategy_index out) \<and>
    (\<forall>r \<in> set out. \<exists>a \<in> set assignments. \<exists>t \<in> set tasks. \<exists>res.
       backend a t res \<and> r = indexed_result a t res)"
  using finished_results[OF pool.reachable_inv[OF assms(1)] assms(2,3)] unfolding result_of_def .

lemma finished_complete:
  assumes "pool_inv cfg backend assignments tasks s" and "pl_collector s = Finished out"
    and "wp_stop_at_success cfg = 0" and "\<not> pl_cancelled s" and "assignments \<noteq> []"
  shows "mset (map result_key out) = mset (map task_key tasks)"
proof -
  note inv = assms(1)
  have out: "out = sort_results (pl_collected s)" using inv assms(2) by (auto simp: pool_inv_parts)
  have q: "quiet s" using inv assms(3,4) by (simp add: pool_inv_parts quiet_def)
  have ex: "all_exited s" "pl_results s = []" "pl_producer s = PrDone"
    using inv assms(2,4) by (auto simp: pool_inv_parts)
  have "pl_workers s \<noteq> []" using inv assms(5) by (auto simp: pool_inv_parts)
  then have "WExit \<in> set (pl_workers s)" using ex(1) by (cases "pl_workers s") (auto simp: all_exited_def)
  then have "pl_tasks s = []" "pl_todo s = []" using inv q ex(3) by (auto simp: pool_inv_parts)
  moreover have "concat (map worker_keys (pl_workers s)) = []" using ex(1) by (auto simp: all_exited_def)
  ultimately have "pool_keys s = mset (map result_key (pl_collected s))"
    by (simp add: pool_keys_def ex)
  then show ?thesis using inv q by (simp add: out pool_inv_parts)
qed

text \<open>
  C6: without a stop limit, with at least one worker and not cancelled, a run returns a result for
  every task.
\<close>

theorem pool_complete:
  assumes "pool_reachable cfg backend assignments tasks s" and "pl_collector s = Finished out"
    and "wp_stop_at_success cfg = 0" and "\<not> pl_cancelled s" and "assignments \<noteq> []"
  shows "mset (map result_key out) = mset (map task_key tasks)"
  using finished_complete[OF pool.reachable_inv[OF assms(1)] assms(2-5)] .

section \<open>The stop rule\<close>

text \<open>
  C15: with a stop limit, a run collects at most as many successes beyond the limit as results fit
  the channel and workers exist.
\<close>

theorem pool_stop_bound:
  assumes "pool_reachable cfg backend assignments tasks s" and "0 < wp_stop_at_success cfg"
  shows "successes (pl_collected s) \<le>
    wp_stop_at_success cfg + wk_result_channel_size (wp_workers cfg) + length assignments"
  using pool.reachable_inv[OF assms(1)] assms(2) by (auto simp: pool_inv_def stop_inv_def split: if_splits)

section \<open>Termination\<close>

text \<open>
  C16: However the tasks interleave, a run makes at most \<open>12 n + 3 w + 6\<close> steps for \<open>n\<close> tasks and
  \<open>w\<close> workers, and one more for each time a worker sleeps because the channel is empty.
\<close>

theorem pool_steps_bounded:
  assumes "trace_of (pool_step cfg backend assignments) (pool_init assignments tasks) es s"
  shows "length (filter (\<lambda>e. \<not> is_sleep e) es) \<le>
    12 * length tasks + 3 * length assignments + 6 + length (filter is_sleep es)"
  using pool_trace_rank[OF assms] by (simp add: pool_rank_init)

lemma trace_not_cancelled:
  "trace_of (pool_step cfg backend assignments) s es s' \<Longrightarrow> list_all useful es \<Longrightarrow>
    pl_cancelled s' = pl_cancelled s"
proof (induction rule: trace_of.induct)
  case (trace_Cons s e s' es s'')
  have "pl_cancelled s' = pl_cancelled s"
    using trace_Cons.hyps(1) trace_Cons.prems by (auto simp: useful_def elim!: pool_cases)
  then show ?case using trace_Cons by simp
qed simp

lemma pool_goes_on:
  assumes "pool_reachable cfg backend assignments tasks s" and "channels_open cfg"
    and "assignments \<noteq> []" and "backend_answers backend assignments tasks"
  shows "\<exists>es s'. trace_of (pool_step cfg backend assignments) s es s' \<and> list_all useful es \<and>
    (returned s' \<or> wp_stop_at_success cfg > 0 \<and> lost_wakeup cfg s')"
proof -
  note inv = pool.reachable_inv[OF assms(1)]
  obtain es s' where t: "trace_of (pool_step cfg backend assignments) s es s'" "list_all useful es"
    "returned s' \<or> lost_wakeup cfg s'"
    using pool_finishes[of cfg assignments s backend tasks] inv assms(2-4) by (auto simp: pool_inv_def)
  have "stop_inv cfg assignments s'" using pool.trace_inv[OF t(1) inv] by (simp add: pool_inv_def)
  then have "lost_wakeup cfg s' \<Longrightarrow> wp_stop_at_success cfg > 0"
    by (auto simp: stop_inv_def lost_wakeup_def split: if_splits)
  then show ?thesis using t by blast
qed

text \<open>
  C17: from every state a run can reach, it can go on to its end without a sleep and without being
  cancelled, unless the stop limit is set and it gets into the state of the lost notification.
\<close>

theorem pool_can_return:
  assumes "pool_reachable cfg backend assignments tasks s" and "channels_open cfg"
    and "assignments \<noteq> []" and "backend_answers backend assignments tasks"
  shows "\<exists>es s'. trace_of (pool_step cfg backend assignments) s es s' \<and> list_all useful es \<and>
    (returned s' \<or> wp_stop_at_success cfg > 0 \<and> lost_wakeup cfg s')"
  using assms by (rule pool_goes_on)

section \<open>The lost notification\<close>

inductive_simps producer_event:
  "producer_step cfg s Produce s'"
  "producer_step cfg s Enqueue s'"
  "producer_step cfg s (WorkerRun i) s'"
  "producer_step cfg s (Receive i) s'"
  "producer_step cfg s (Deliver i) s'"
  "producer_step cfg s Collect s'"
  "producer_step cfg s Advance s'"

inductive_simps worker_event:
  "worker_step cfg backend assignments s Produce s'"
  "worker_step cfg backend assignments s Enqueue s'"
  "worker_step cfg backend assignments s (WorkerRun i) s'"
  "worker_step cfg backend assignments s (Receive i) s'"
  "worker_step cfg backend assignments s (Deliver i) s'"
  "worker_step cfg backend assignments s Collect s'"
  "worker_step cfg backend assignments s Advance s'"

inductive_simps collector_event:
  "collector_step cfg s Produce s'"
  "collector_step cfg s Enqueue s'"
  "collector_step cfg s (WorkerRun i) s'"
  "collector_step cfg s (Receive i) s'"
  "collector_step cfg s (Deliver i) s'"
  "collector_step cfg s Collect s'"
  "collector_step cfg s Advance s'"

inductive_simps pool_event_cases:
  "pool_step cfg backend assignments s Produce s'"
  "pool_step cfg backend assignments s Enqueue s'"
  "pool_step cfg backend assignments s (WorkerRun i) s'"
  "pool_step cfg backend assignments s (Receive i) s'"
  "pool_step cfg backend assignments s (Deliver i) s'"
  "pool_step cfg backend assignments s Collect s'"
  "pool_step cfg backend assignments s Advance s'"

lemmas pool_step_event = pool_event_cases producer_event worker_event collector_event

definition sample_pool_config :: pool_config where
  "sample_pool_config =
     \<lparr> wp_workers = \<lparr> wk_count = 1, wk_spawn_grace_ms = 100, wk_task_channel_size = 1,
         wk_result_channel_size = 1, wk_shutdown_timeout_ms = 3000 \<rparr>,
       wp_isolation = isolation_config_default, wp_stop_at_success = 1 \<rparr>"

definition sample_pool_task :: "nat \<Rightarrow> indexed_pool_task" where
  "sample_pool_task i =
     \<lparr> it_strategy_index = i, it_node = sample_node, it_targets = [sample_probe_target],
       it_timeouts = pt_timeouts sample_task \<rparr>"

definition sample_success :: probe_result where
  "sample_success = (infrastructure_failure sample_task None None EcInternalError [] 9)\<lparr>
     pr_outcome := Success, pr_failure_kind := None, pr_error_class := None \<rparr>"

definition sample_backend :: backend where
  "sample_backend a t res \<longleftrightarrow> res = (sample_success, [sample_success])"

definition lost_events :: "pool_event list" where
  "lost_events =
     [Produce, Produce, Produce, Produce, Enqueue, WorkerRun 0, WorkerRun 0, Receive 0, WorkerRun 0,
      Produce, Produce, Produce, Produce, Enqueue, Produce, Produce, Produce,
      WorkerRun 0, Deliver 0, Collect, WorkerRun 0, Produce, Advance]"

lemma lost_trace:
  "\<exists>s. trace_of (pool_step sample_pool_config sample_backend [sample_assignment])
     (pool_init [sample_assignment] (map sample_pool_task [0, 1, 2])) lost_events s \<and>
     lost_wakeup sample_pool_config s"
  by (simp add: lost_events_def pool_init_def trace_Cons_iff pool_step_event should_stop_def
      at_worker_def sample_pool_config_def sample_backend_def collect_result_def record_success_def
      notify_waiters_def indexed_result_def sample_success_def returned_def all_exited_def
      lost_wakeup_def)

text \<open>
  C18: the notification of the stop rule can be lost: a state is reachable in which the run has
  neither returned nor been cancelled and in which no step but a cancellation is possible. The
  producer has read the flag, the collector sets it and notifies before the producer waits, and
  no worker is left to make room in the channel whose receiver the run itself keeps open.
\<close>

theorem pool_wakeup_lost:
  "\<exists>s. reachable (pool_start [sample_assignment] (map sample_pool_task [0, 1, 2]))
       (pool_step sample_pool_config sample_backend [sample_assignment]) s \<and>
     \<not> returned s \<and> \<not> pl_cancelled s \<and>
     \<not> (\<exists>e s'. pool_step sample_pool_config sample_backend [sample_assignment] s e s' \<and> e \<noteq> Cancel)"
proof -
  obtain s where t: "trace_of (pool_step sample_pool_config sample_backend [sample_assignment])
      (pool_init [sample_assignment] (map sample_pool_task [0, 1, 2])) lost_events s"
    and lost: "lost_wakeup sample_pool_config s"
    using lost_trace by blast
  have "\<not> returned s \<and> \<not> pl_cancelled s" using lost by (auto simp: lost_wakeup_def returned_def)
  moreover have "reachable (pool_start [sample_assignment] (map sample_pool_task [0, 1, 2]))
      (pool_step sample_pool_config sample_backend [sample_assignment]) s"
    by (rule pool_trace_reachable[OF t])
  moreover note lost_wakeup_stuck[OF lost, of sample_backend "[sample_assignment]"]
  ultimately show ?thesis by (intro exI[of _ s]) metis
qed

section \<open>A run that ends\<close>

definition sample_pool_config_0 :: pool_config where
  "sample_pool_config_0 = sample_pool_config\<lparr> wp_stop_at_success := 0 \<rparr>"

definition done_events :: "pool_event list" where
  "done_events =
     [Produce, Produce, Produce, Produce, Enqueue, Produce, WorkerRun 0, WorkerRun 0, Receive 0,
      WorkerRun 0, WorkerRun 0, Deliver 0, WorkerRun 0, WorkerRun 0, WorkerRun 0, Collect,
      Advance, Advance, Advance, Advance]"

lemma done_trace:
  "\<exists>s. trace_of (pool_step sample_pool_config_0 sample_backend [sample_assignment])
     (pool_init [sample_assignment] (map sample_pool_task [7])) done_events s \<and>
     pl_collector s = Finished [indexed_result sample_assignment (sample_pool_task 7)
       (sample_success, [sample_success])] \<and> \<not> pl_cancelled s"
  by (simp add: done_events_def pool_init_def trace_Cons_iff pool_step_event should_stop_def
      at_worker_def sample_pool_config_0_def sample_pool_config_def sample_backend_def
      collect_result_def record_success_def all_exited_def returned_def sort_results_def
      sort_by_Cons)

lemma done_reachable:
  obtains s where "pool_reachable sample_pool_config_0 sample_backend [sample_assignment]
      (map sample_pool_task [7]) s"
    and "pl_collector s = Finished [indexed_result sample_assignment (sample_pool_task 7)
       (sample_success, [sample_success])]" and "\<not> pl_cancelled s"
proof -
  obtain s where t: "trace_of (pool_step sample_pool_config_0 sample_backend [sample_assignment])
      (pool_init [sample_assignment] (map sample_pool_task [7])) done_events s"
    and s: "pl_collector s = Finished [indexed_result sample_assignment (sample_pool_task 7)
       (sample_success, [sample_success])]" "\<not> pl_cancelled s"
    using done_trace by blast
  show thesis by (rule that[OF pool_trace_reachable[OF t] s])
qed

theorem pool_results_sound_witness:
  "\<exists>s out. pool_reachable sample_pool_config_0 sample_backend [sample_assignment]
      (map sample_pool_task [7]) s \<and> pl_collector s = Finished out \<and>
    sorted_wrt (<) (map ir_strategy_index out)"
proof -
  obtain s where s: "pool_reachable sample_pool_config_0 sample_backend [sample_assignment]
      (map sample_pool_task [7]) s"
    and out: "pl_collector s = Finished [indexed_result sample_assignment (sample_pool_task 7)
       (sample_success, [sample_success])]"
    by (rule done_reachable)
  from pool_results_sound[OF s out] s out show ?thesis by auto
qed

theorem pool_complete_witness:
  "\<exists>s out. pool_reachable sample_pool_config_0 sample_backend [sample_assignment]
      (map sample_pool_task [7]) s \<and> pl_collector s = Finished out \<and>
    mset (map result_key out) = {#(7, sample_node)#}"
proof -
  obtain s where s: "pool_reachable sample_pool_config_0 sample_backend [sample_assignment]
      (map sample_pool_task [7]) s"
    and out: "pl_collector s = Finished [indexed_result sample_assignment (sample_pool_task 7)
       (sample_success, [sample_success])]" "\<not> pl_cancelled s"
    by (rule done_reachable)
  have "wp_stop_at_success sample_pool_config_0 = 0" by (simp add: sample_pool_config_0_def)
  from pool_complete[OF s out(1) this out(2)] s out show ?thesis
    by (auto simp: task_key_def sample_pool_task_def)
qed

theorem pool_stop_bound_witness:
  "\<exists>s. pool_reachable sample_pool_config sample_backend [sample_assignment]
      (map sample_pool_task [0, 1, 2]) s \<and> pl_stop_enqueue s \<and> successes (pl_collected s) \<le> 3"
proof -
  obtain s where t: "trace_of (pool_step sample_pool_config sample_backend [sample_assignment])
      (pool_init [sample_assignment] (map sample_pool_task [0, 1, 2])) lost_events s"
    and lost: "lost_wakeup sample_pool_config s"
    using lost_trace by blast
  note r = pool_trace_reachable[OF t]
  have "0 < wp_stop_at_success sample_pool_config" by (simp add: sample_pool_config_def)
  from pool_stop_bound[OF r this] r lost show ?thesis
    by (auto simp: sample_pool_config_def lost_wakeup_def)
qed

theorem pool_steps_bounded_witness:
  "\<exists>s. trace_of (pool_step sample_pool_config sample_backend [sample_assignment])
      (pool_init [sample_assignment] (map sample_pool_task [0, 1, 2])) lost_events s \<and>
    length lost_events \<le> 45"
proof -
  obtain s where t: "trace_of (pool_step sample_pool_config sample_backend [sample_assignment])
      (pool_init [sample_assignment] (map sample_pool_task [0, 1, 2])) lost_events s"
    using lost_trace by blast
  have "filter (\<lambda>e. \<not> is_sleep e) lost_events = lost_events" "filter is_sleep lost_events = []"
    by (simp_all add: lost_events_def is_sleep_def)
  with pool_steps_bounded[OF t] t show ?thesis by auto
qed

theorem pool_can_return_witness:
  "\<exists>es s. trace_of (pool_step sample_pool_config_0 sample_backend [sample_assignment])
      (pool_init [sample_assignment] (map sample_pool_task [7])) es s \<and> returned s"
proof -
  have "channels_open sample_pool_config_0"
    by (simp add: channels_open_def sample_pool_config_0_def sample_pool_config_def)
  moreover have "backend_answers sample_backend [sample_assignment] (map sample_pool_task [7])"
    by (simp add: backend_answers_def sample_backend_def)
  ultimately show ?thesis
    using pool_can_return[OF pool_init_reachable, of sample_pool_config_0 "[sample_assignment]"
        sample_backend "map sample_pool_task [7]"]
    by (auto simp: sample_pool_config_0_def)
qed

end
