(* ===== verification/Scheduler.thy ===== *)
theory Scheduler
  imports PoolRun
begin

text \<open>
  \<^verbatim>\<open>src/scheduler.rs\<close>: the scheduler puts the other components together. It numbers the nodes of
  the graph, runs them on a worker pool whose backend is the worker runtime, and turns the results
  into scored results and posteriors. A run is a relation, since the pool interleaves.
\<close>

section \<open>The scheduler\<close>

record scheduler =
  sc_runtime :: worker_runtime
  sc_workers_config :: workers_config
  sc_isolation :: isolation_config
  sc_successful_strategy_limit :: nat
  sc_score_weights :: score_weights
  sc_targets :: "strategy_probe_target list"
  sc_live_log :: bool

text \<open>\<open>order_nodes\<close>: the order of the graph, whatever the posteriors are.\<close>

definition order_nodes :: "strategy_node list \<Rightarrow> bayes \<Rightarrow> strategy_node list" where
  "order_nodes nodes b = nodes"

definition pool_tasks :: "strategy_node list \<Rightarrow> strategy_probe_target list \<Rightarrow> probe_timeouts
    \<Rightarrow> indexed_pool_task list" where
  "pool_tasks nodes targets timeouts =
     map (\<lambda>(i, node). \<lparr> it_strategy_index = i, it_node = node, it_targets = targets,
       it_timeouts = timeouts \<rparr>) (enumerate 0 nodes)"

definition scheduler_pool :: "scheduler \<Rightarrow> pool_config" where
  "scheduler_pool sc =
     \<lparr> wp_workers = sc_workers_config sc, wp_isolation = sc_isolation sc,
       wp_stop_at_success = sc_successful_strategy_limit sc \<rparr>"

definition scheduler_runtime :: "scheduler \<Rightarrow> worker_runtime" where
  "scheduler_runtime sc =
     (sc_runtime sc)\<lparr> wr_nfqws_start_grace_ms := wk_spawn_grace_ms (sc_workers_config sc) \<rparr>"

text \<open>The runtime as the backend of the pool: what a worker may get from the system and the network.\<close>

definition runtime_backend :: "os \<Rightarrow> worker_runtime \<Rightarrow> backend" where
  "runtime_backend os rt a t res \<longleftrightarrow>
     (\<exists>env log log'. run_strategy_tests (runtime_services os rt) rt env (it_node t) a (it_targets t)
        (it_timeouts t) log = Some (res, log'))"

text \<open>
  \<open>run_graph_with_bayes\<close> may return \<open>out\<close> (and has been cancelled by then or not).
\<close>

definition run_graph_with_bayes :: "os \<Rightarrow> scheduler \<Rightarrow> strategy_node list \<Rightarrow> probe_timeouts
    \<Rightarrow> bayes \<Rightarrow> bool \<Rightarrow> strategy_run_result list \<times> bayes \<Rightarrow> bool" where
  "run_graph_with_bayes os sc nodes timeouts b cancelled out \<longleftrightarrow>
     (\<exists>assignments s pool_results.
        generate_assignments (max 1 (wk_count (sc_workers_config sc))) (sc_isolation sc) =
          Some assignments \<and>
        pool_reachable (scheduler_pool sc) (runtime_backend os (scheduler_runtime sc)) assignments
          (pool_tasks (order_nodes nodes b) (sc_targets sc) timeouts) s \<and>
        pl_collector s = Finished pool_results \<and> pl_cancelled s = cancelled \<and>
        out = finalize_results (sc_score_weights sc) pool_results b)"

definition run_graph :: "os \<Rightarrow> scheduler \<Rightarrow> strategy_node list \<Rightarrow> probe_timeouts \<Rightarrow> bool
    \<Rightarrow> strategy_run_result list \<Rightarrow> bool" where
  "run_graph os sc nodes timeouts cancelled out \<longleftrightarrow>
     (\<exists>b. run_graph_with_bayes os sc nodes timeouts Map.empty cancelled (out, b))"

definition run_plan :: "os \<Rightarrow> scheduler \<Rightarrow> strategy_node list \<Rightarrow> probe_timeouts \<Rightarrow> probe_result list
    \<Rightarrow> bool" where
  "run_plan os sc nodes timeouts out \<longleftrightarrow>
     (\<exists>rs. run_graph os sc nodes timeouts False rs \<and> out = map sr_result rs)"

section \<open>The tasks of the pool\<close>

lemma pool_tasks_index: "map it_strategy_index (pool_tasks nodes targets timeouts) = [0..<length nodes]"
  by (simp add: pool_tasks_def comp_def case_prod_beta enumerate_eq_zip map_fst_zip flip: fst_def)

lemma pool_tasks_mem:
  "t \<in> set (pool_tasks nodes targets timeouts) \<Longrightarrow> it_strategy_index t < length nodes \<and>
    it_node t = nodes ! it_strategy_index t \<and> it_targets t = targets \<and> it_timeouts t = timeouts"
  by (auto simp: pool_tasks_def in_set_enumerate_eq)

lemma pool_tasks_keys: "mset (map task_key (pool_tasks nodes targets timeouts)) = mset (enumerate 0 nodes)"
  by (simp add: pool_tasks_def comp_def case_prod_beta task_key_def)

section \<open>What a run reports\<close>

text \<open>The report of one strategy: its attempts are the targets, and it succeeds when they all do.\<close>

definition report_ok :: "strategy_probe_target list \<Rightarrow> strategy_run_result \<Rightarrow> bool" where
  "report_ok targets r \<longleftrightarrow>
     list_all2 (\<lambda>t a. pr_strategy_id a = sn_id (sr_node r) \<and> pr_target_host a = st_host t \<and>
         pr_target_ip a = st_ip t \<and> pr_target_port a = st_port t \<and> pr_protocol a = st_protocol t \<and>
         pr_worker_id a = sr_worker_id r \<and> pr_qnum a = Some (sr_qnum r)) targets (sr_attempts r) \<and>
     sr_result r \<in> set (sr_attempts r) \<and>
     (pr_outcome (sr_result r) = Success \<longleftrightarrow> (\<forall>a \<in> set (sr_attempts r). pr_outcome a = Success))"

lemma run_result_fields [simp]:
  "sr_node (run_result w i) = ir_node i" "sr_result (run_result w i) = ir_result i"
  "sr_attempts (run_result w i) = ir_attempts i" "sr_worker_id (run_result w i) = ir_worker_id i"
  "sr_qnum (run_result w i) = ir_qnum i"
  by (simp_all add: run_result_def)

lemma runtime_report:
  assumes "runtime_backend os rt a t res"
  shows "report_ok (it_targets t) (run_result w (indexed_result a t res))"
proof -
  obtain result attempts where res: "res = (result, attempts)" by fastforce
  obtain env log log' where run: "run_strategy_tests (runtime_services os rt) rt env (it_node t) a
      (it_targets t) (it_timeouts t) log = Some ((result, attempts), log')"
    using assms by (auto simp: runtime_backend_def res)
  note sound = strategy_tests_sound[OF run]
  have "list_all2 (\<lambda>t' r. pr_strategy_id r = sn_id (it_node t) \<and> pr_target_host r = st_host t' \<and>
      pr_target_ip r = st_ip t' \<and> pr_target_port r = st_port t' \<and> pr_protocol r = st_protocol t' \<and>
      pr_worker_id r = wa_worker_id a \<and> pr_qnum r = Some (wa_qnum a)) (it_targets t) attempts"
    using sound(1) by (rule list_all2_mono)
      (simp add: echoes_task_def from_strategy_task_def strategy_task_for_def)
  then show ?thesis
    using sound(3,4) by (simp add: report_ok_def indexed_result_def res)
qed

lemma scheduler_run:
  assumes "run_graph_with_bayes os sc nodes timeouts b cancelled (out, b')"
  obtains assignments s results where
    "generate_assignments (max 1 (wk_count (sc_workers_config sc))) (sc_isolation sc) = Some assignments"
    "pool_inv (scheduler_pool sc) (runtime_backend os (scheduler_runtime sc)) assignments
       (pool_tasks nodes (sc_targets sc) timeouts) s"
    "pl_collector s = Finished results" "pl_cancelled s = cancelled"
    "out = map (run_result (sc_score_weights sc)) results" "b' = foldl update_item b results"
proof -
  let ?tasks = "pool_tasks nodes (sc_targets sc) timeouts"
  obtain assignments s results where
    g: "generate_assignments (max 1 (wk_count (sc_workers_config sc))) (sc_isolation sc) = Some assignments"
    and s: "pool_reachable (scheduler_pool sc) (runtime_backend os (scheduler_runtime sc)) assignments ?tasks s"
    and fin: "pl_collector s = Finished results" "pl_cancelled s = cancelled"
    and out: "(out, b') = finalize_results (sc_score_weights sc) results b"
    using assms unfolding run_graph_with_bayes_def order_nodes_def by blast
  show thesis
    by (rule that[OF g pool.reachable_inv[OF s] fin]) (use out in \<open>simp_all add: finalize_results_fold\<close>)
qed

lemma same_keys_sorted:
  assumes "mset xs = mset ys" and "sorted (map fst xs)" "sorted (map fst ys)" "distinct (map fst ys)"
  shows "xs = ys"
proof -
  have "inj_on fst (set xs)" using assms(1,4) by (metis distinct_map set_mset_mset)
  then have "sort_key fst xs = sort_key fst ys" using assms(1) by (intro sort_key_inj_key_eq) auto
  then show ?thesis using assms(2,3) by (simp add: sort_key_id_if_sorted)
qed

lemma scheduler_results:
  assumes "pool_inv cfg (runtime_backend os rt) assignments (pool_tasks nodes targets timeouts) s"
    and "pl_collector s = Finished results"
  shows "sorted_wrt (<) (map ir_strategy_index results)"
    and "r \<in> set results \<Longrightarrow> ir_strategy_index r < length nodes \<and>
      ir_node r = nodes ! ir_strategy_index r \<and> report_ok targets (run_result w r) \<and>
      (\<exists>a \<in> set assignments. ir_qnum r = wa_qnum a \<and> ir_worker_id r = wa_worker_id a)"
proof -
  have "distinct (map it_strategy_index (pool_tasks nodes targets timeouts))"
    by (simp add: pool_tasks_index)
  note f = finished_results[OF assms this]
  show "sorted_wrt (<) (map ir_strategy_index results)" using f by simp
  assume "r \<in> set results"
  then obtain a t res where r: "a \<in> set assignments" "t \<in> set (pool_tasks nodes targets timeouts)"
    "runtime_backend os rt a t res" "r = indexed_result a t res"
    using f by (auto simp: result_of_def)
  show "ir_strategy_index r < length nodes \<and> ir_node r = nodes ! ir_strategy_index r \<and>
      report_ok targets (run_result w r) \<and>
      (\<exists>a \<in> set assignments. ir_qnum r = wa_qnum a \<and> ir_worker_id r = wa_worker_id a)"
    using pool_tasks_mem[OF r(2)] runtime_report[OF r(3), of w] r(1)
    by (auto simp: r(4) indexed_result_def)
qed

text \<open>
  C9: what a scheduler reports is about strategies of its graph, each at most once and in the order
  of the graph; the attempts of a report are the targets in their order, made by one of the
  workers under its own queue number; a strategy succeeds exactly when all its attempts do, and
  its score is the score of its result.
\<close>

theorem scheduler_reports:
  assumes "run_graph_with_bayes os sc nodes timeouts b cancelled (out, b')"
  shows "(\<exists>is. sorted_wrt (<) is \<and> set is \<subseteq> {..<length nodes} \<and> map sr_node out = map ((!) nodes) is) \<and>
    (\<forall>r \<in> set out. report_ok (sc_targets sc) r \<and>
       sr_adaptive_score r = adaptive_score (sr_result r) (sn_cost (sr_node r)) (sn_risk (sr_node r))
         (sc_score_weights sc) \<and>
       (\<exists>assignments. \<exists>a \<in> set assignments. generate_assignments
          (max 1 (wk_count (sc_workers_config sc))) (sc_isolation sc) = Some assignments \<and>
          sr_qnum r = wa_qnum a \<and> sr_worker_id r = wa_worker_id a))"
proof -
  obtain assignments s results where
    g: "generate_assignments (max 1 (wk_count (sc_workers_config sc))) (sc_isolation sc) = Some assignments"
    and s: "pool_inv (scheduler_pool sc) (runtime_backend os (scheduler_runtime sc)) assignments
       (pool_tasks nodes (sc_targets sc) timeouts) s" "pl_collector s = Finished results"
    and out: "out = map (run_result (sc_score_weights sc)) results"
    using assms by (rule scheduler_run)
  note r = scheduler_results[OF s]
  have "map sr_node out = map ((!) nodes) (map ir_strategy_index results)"
    using r(2) by (auto simp: out)
  moreover have "set (map ir_strategy_index results) \<subseteq> {..<length nodes}" using r(2) by auto
  moreover have "\<forall>r \<in> set out. sr_adaptive_score r =
      adaptive_score (sr_result r) (sn_cost (sr_node r)) (sn_risk (sr_node r)) (sc_score_weights sc)"
    by (auto simp: out run_result_def)
  moreover have "\<forall>r \<in> set out. report_ok (sc_targets sc) r \<and>
      (\<exists>a \<in> set assignments. sr_qnum r = wa_qnum a \<and> sr_worker_id r = wa_worker_id a)"
    using r(2)[of _ "sc_score_weights sc"] by (auto simp: out)
  ultimately show ?thesis using r(1) g by blast
qed

text \<open>
  C10: without a limit of successes and without a cancellation, the scheduler reports on every
  strategy of the graph, in its order, and with a validated number of tests: a strategy counts one
  more test unless its run was an infrastructure failure or cancelled.
\<close>

theorem scheduler_tests_everything:
  assumes "run_graph_with_bayes os sc nodes timeouts b False (out, b')"
    and "sc_successful_strategy_limit sc = 0"
  shows "map sr_node out = nodes \<and>
    (\<forall>k. tests_of b' k = tests_of b k +
       of_nat (length (filter (\<lambda>r. sn_id (sr_node r) = k \<and> counted (sr_result r)) out)))"
proof -
  obtain assignments s results where
    g: "generate_assignments (max 1 (wk_count (sc_workers_config sc))) (sc_isolation sc) = Some assignments"
    and s: "pool_inv (scheduler_pool sc) (runtime_backend os (scheduler_runtime sc)) assignments
       (pool_tasks nodes (sc_targets sc) timeouts) s" "pl_collector s = Finished results"
       "pl_cancelled s = False"
    and out: "out = map (run_result (sc_score_weights sc)) results" "b' = foldl update_item b results"
    using assms(1) by (rule scheduler_run)
  have ne: "assignments \<noteq> []"
    using g by (auto simp: generate_assignments_def split: sum.splits)
  have "mset (map result_key results) = mset (map task_key (pool_tasks nodes (sc_targets sc) timeouts))"
    by (rule finished_complete[OF s(1,2) _ _ ne]) (use assms(2) s(3) in \<open>simp_all add: scheduler_pool_def\<close>)
  then have m: "mset (map result_key results) = mset (enumerate 0 nodes)"
    unfolding pool_tasks_keys .
  have "sorted (map fst (map result_key results))"
    using scheduler_results(1)[OF s(1,2)] by (simp add: comp_def result_key_def strict_sorted_iff)
  moreover have "sorted (map fst (enumerate 0 nodes))" by (simp add: enumerate_eq_zip)
  ultimately have "map result_key results = enumerate 0 nodes"
    using m by (intro same_keys_sorted) (auto simp: enumerate_eq_zip)
  then have "map snd (map result_key results) = nodes" by (simp add: enumerate_eq_zip)
  then have "map sr_node out = nodes"
    by (simp add: out result_key_def comp_def)
  moreover have "filter (\<lambda>r. sn_id (sr_node r) = k \<and> counted (sr_result r)) out =
      map (run_result (sc_score_weights sc))
        (filter (\<lambda>i. sn_id (ir_node i) = k \<and> counted (ir_result i)) results)" for k
    by (simp add: out filter_map comp_def)
  ultimately show ?thesis by (simp add: out foldl_update_tests)
qed

section \<open>A run exists\<close>

text \<open>With sockets bound to a port and no stop limit a scheduler can always run to its end.\<close>

lemma scheduler_can_run:
  assumes rt: "wr_isolation_mode (sc_runtime sc) = SourcePort" and "sc_targets sc \<noteq> []"
    and "sc_successful_strategy_limit sc = 0" and "channels_open (scheduler_pool sc)"
    and as: "generate_assignments (max 1 (wk_count (sc_workers_config sc))) (sc_isolation sc) = Some as"
      "as \<noteq> []"
  shows "\<exists>out b'. run_graph_with_bayes os sc nodes timeouts b False (out, b')"
proof -
  let ?cfg = "scheduler_pool sc" and ?rt = "scheduler_runtime sc"
  let ?backend = "runtime_backend os ?rt" and ?tasks = "pool_tasks nodes (sc_targets sc) timeouts"
  have rt: "wr_isolation_mode ?rt = SourcePort" using rt by (simp add: scheduler_runtime_def)
  have "\<exists>res. ?backend a t res" if "t \<in> set ?tasks" for a t
  proof -
    have "it_targets t \<noteq> []" using pool_tasks_mem[OF that] assms(2) by simp
    then show ?thesis
      using strategy_tests_total[OF rt, of "runtime_services os ?rt" undefined "it_node t" a
          "it_targets t" "it_timeouts t" "[]"] by (fastforce simp: runtime_backend_def)
  qed
  then have "backend_answers ?backend as ?tasks" by (simp add: backend_answers_def)
  moreover have "wp_stop_at_success ?cfg = 0" using assms(3) by (simp add: scheduler_pool_def)
  ultimately obtain es s where t: "trace_of (pool_step ?cfg ?backend as) (pool_init as ?tasks) es s"
      "list_all useful es" "returned s"
    using pool_goes_on[OF pool_init_reachable, of ?cfg as ?backend ?tasks] as(2) assms(4) by auto
  have "\<not> pl_cancelled s" using trace_not_cancelled[OF t(1,2)] by (simp add: pool_init_def)
  moreover obtain results where "pl_collector s = Finished results" using t(3) by (auto simp: returned_def)
  moreover note pool_trace_reachable[OF t(1)]
  ultimately show ?thesis
    using as(1) unfolding run_graph_with_bayes_def order_nodes_def by (metis surj_pair)
qed

definition sample_scheduler :: scheduler where
  "sample_scheduler =
     \<lparr> sc_runtime = sample_runtime,
       sc_workers_config = \<lparr> wk_count = 2, wk_spawn_grace_ms = 100, wk_task_channel_size = 64,
         wk_result_channel_size = 64, wk_shutdown_timeout_ms = 3000 \<rparr>,
       sc_isolation = isolation_config_default, sc_successful_strategy_limit = 0,
       sc_score_weights = default_weights, sc_targets = [sample_probe_target], sc_live_log = False \<rparr>"

lemma default_assignments:
  "\<exists>as. generate_assignments (Suc n) isolation_config_default = Some as \<and> as \<noteq> []"
proof -
  have "parse_hex_mark (is_mark_base isolation_config_default) = Inr 0x20000000"
    by (simp add: isolation_config_default_def eval_simps trim_start.simps del: strip_prefix_Some_iff)
  then show ?thesis
    by (simp add: generate_assignments_def isolation_mode_parse_def isolation_config_default_def
        del: upt_Suc)
qed

lemma sample_scheduler_runs:
  "\<exists>out b. run_graph_with_bayes sample_os sample_scheduler [sample_node] (pt_timeouts sample_task)
     Map.empty False (out, b)"
proof -
  obtain as where "generate_assignments 2 isolation_config_default = Some as" "as \<noteq> []"
    using default_assignments[of 1] by (auto simp: numeral_2_eq_2)
  then show ?thesis
    by (intro scheduler_can_run)
       (simp_all add: sample_scheduler_def sample_runtime_def channels_open_def scheduler_pool_def
         numeral_2_eq_2)
qed

theorem scheduler_reports_witness:
  "\<exists>out b. run_graph_with_bayes sample_os sample_scheduler [sample_node] (pt_timeouts sample_task)
     Map.empty False (out, b) \<and> (\<forall>r \<in> set out. report_ok [sample_probe_target] r)"
proof -
  obtain out b where run: "run_graph_with_bayes sample_os sample_scheduler [sample_node]
      (pt_timeouts sample_task) Map.empty False (out, b)"
    using sample_scheduler_runs by blast
  have "sc_targets sample_scheduler = [sample_probe_target]" by (simp add: sample_scheduler_def)
  with scheduler_reports[OF run] run show ?thesis by auto
qed

theorem scheduler_tests_everything_witness:
  "\<exists>out b. run_graph_with_bayes sample_os sample_scheduler [sample_node] (pt_timeouts sample_task)
     Map.empty False (out, b) \<and> map sr_node out = [sample_node]"
proof -
  obtain out b where run: "run_graph_with_bayes sample_os sample_scheduler [sample_node]
      (pt_timeouts sample_task) Map.empty False (out, b)"
    using sample_scheduler_runs by blast
  have "sc_successful_strategy_limit sample_scheduler = 0" by (simp add: sample_scheduler_def)
  from scheduler_tests_everything[OF run this] run show ?thesis by auto
qed

end
