(* ===== verification/Targets.thy ===== *)
theory Targets
  imports Config
begin

text \<open>
  The part of \<^verbatim>\<open>src/main.rs\<close> that decides what is tested: the request, the protocol, the
  primary target, the targets of the strategies, and the resolution of their hosts over DoH. The
  HTTP client is a record of its two calls.
\<close>

datatype main_error =
    MeTarget target_error | ProtocolUnsupported string | ProtocolDisabled probe_protocol
  | DomainDisabled probe_protocol string | MinBodyTooLarge | NoTarget | NoBaseDomains
  | DnsModeUnsupported string | HostEmpty | HostBracket | LookupFailed string "string list" "string list"

section \<open>The request and the protocol\<close>

definition request_from_config :: "app_config \<Rightarrow> http_method option \<Rightarrow> read_mode option
    \<Rightarrow> nat option \<Rightarrow> nat option \<Rightarrow> main_error + http_request_spec" where
  "request_from_config cfg method mode min_body max_read =
     (let probe = ac_probe cfg in
      res_bind (lift_err MeTarget (method_parse_config (pc_method probe))) (\<lambda>cfg_method.
      res_bind (lift_err MeTarget (read_mode_parse_config (pc_read_mode probe))) (\<lambda>cfg_mode.
      let request =
        \<lparr> rq_method = (case method of Some m \<Rightarrow> m | None \<Rightarrow> cfg_method), rq_path_and_query = ''/'',
          rq_user_agent = pc_user_agent probe,
          rq_read_mode = (case mode of Some m \<Rightarrow> m | None \<Rightarrow> cfg_mode),
          rq_min_body_bytes = (case min_body of Some n \<Rightarrow> n | None \<Rightarrow> pc_min_body_bytes probe),
          rq_dpi_detection_bytes = pc_dpi_detection_bytes probe,
          rq_verify_transfer_bytes = pc_verify_transfer_bytes probe,
          rq_max_read_bytes = (case max_read of Some n \<Rightarrow> n | None \<Rightarrow> pc_max_read_bytes probe) \<rparr>
      in if rq_max_read_bytes request < rq_min_body_bytes request then Inl MinBodyTooLarge
         else Inr request)))"

definition parse_probe_protocol :: "string \<Rightarrow> main_error + probe_protocol" where
  "parse_probe_protocol s =
     (if s = ''http'' then Inr HttpPlain else if s = ''tls12'' then Inr Tls12Http11
      else if s = ''tls13'' then Inr Tls13Http11 else if s = ''quic'' then Inr QuicHttp3Future
      else Inl (ProtocolUnsupported s))"

definition protocol_enabled :: "app_config \<Rightarrow> probe_protocol \<Rightarrow> bool" where
  "protocol_enabled cfg p =
     (let protocols = pc_protocols (ac_probe cfg) in
      case p of
        HttpPlain \<Rightarrow> pp_http protocols
      | Tls12Http11 \<Rightarrow> pp_tls12 protocols
      | Tls13Http11 \<Rightarrow> pp_tls13 protocols
      | QuicHttp3Future \<Rightarrow> pp_quic protocols)"

definition selected_protocol :: "app_config \<Rightarrow> string option \<Rightarrow> main_error + probe_protocol" where
  "selected_protocol cfg cli =
     res_bind (parse_probe_protocol
         (case cli of Some s \<Rightarrow> s | None \<Rightarrow> pp_preferred (pc_protocols (ac_probe cfg)))) (\<lambda>p.
     if protocol_enabled cfg p then Inr p else Inl (ProtocolDisabled p))"

section \<open>The targets\<close>

definition parse_probe_domain_target :: "url_parser \<Rightarrow> string \<Rightarrow> probe_protocol \<Rightarrow> bool
    \<Rightarrow> main_error + target_request" where
  "parse_probe_domain_target url_parse domain selected explicit =
     lift_err MeTarget
       (if contains_sub ''://'' domain
        then parse_target_request url_parse None (Some domain) selected explicit
        else parse_target_request url_parse (Some domain) None selected explicit)"

definition primary_target_request :: "url_parser \<Rightarrow> app_config \<Rightarrow> string option \<Rightarrow> string option
    \<Rightarrow> probe_protocol \<Rightarrow> bool \<Rightarrow> main_error + target_request" where
  "primary_target_request url_parse cfg host url selected explicit =
     (if host = None \<and> url = None then
        (case pc_base_domains (ac_probe cfg) of
           [] \<Rightarrow> Inl NoTarget
         | first # _ \<Rightarrow> parse_probe_domain_target url_parse first selected explicit)
      else lift_err MeTarget (parse_target_request url_parse host url selected explicit))"

section \<open>Resolution\<close>

definition normalize_dns_host :: "string \<Rightarrow> main_error + string" where
  "normalize_dns_host host =
     (let host = trim_end_char (CHR ''.'') (trim host) in
      if host = [] then Inl HostEmpty
      else case strip_prefix ''['' host of
        Some rest \<Rightarrow>
          (case find_sub '']'' rest of
             None \<Rightarrow> Inl HostBracket
           | Some e \<Rightarrow>
               let tail = drop (e + 1) rest in
               if tail \<noteq> [] \<and> \<not> starts_with '':'' tail then Inl HostBracket
               else Inr (take e rest))
      | None \<Rightarrow>
          (case rsplit_once (CHR '':'') host of
             Some (name, port) \<Rightarrow>
               if CHR '':'' \<notin> set name \<and> port \<noteq> [] \<and> list_all is_digit port then Inr name
               else Inr host
           | None \<Rightarrow> Inr host))"

record doh_json_answer =
  dj_record_type :: u16
  dj_data :: string

record doh_json_response =
  dj_status :: u16
  dj_answer :: "doh_json_answer list"

text \<open>
  The client: building one that reaches the DoH host at an address, and a GET with its status and
  its JSON body checked.
\<close>

record doh_client =
  dc_build :: "dns_config \<Rightarrow> ip_addr \<times> u16 \<Rightarrow> string + unit"
  dc_get :: "ip_addr \<times> u16 \<Rightarrow> string \<Rightarrow> string + doh_json_response"

definition doh_url :: "dns_config \<Rightarrow> string \<Rightarrow> string \<Rightarrow> string" where
  "doh_url dns host record_type =
     ''https://'' @ dn_doh_host dns @ dn_doh_path dns @ ''?name='' @ host @ ''&type='' @ record_type"

definition answered_ip :: "u16 \<Rightarrow> doh_json_response \<Rightarrow> ip_addr option" where
  "answered_ip expected_type response =
     (case List.map_filter (\<lambda>a. parse_ip_addr (dj_data a))
             (filter (\<lambda>a. dj_record_type a = expected_type) (dj_answer response)) of
        [] \<Rightarrow> None | ip # _ \<Rightarrow> Some ip)"

fun doh_records :: "doh_client \<Rightarrow> dns_config \<Rightarrow> ip_addr \<times> u16 \<Rightarrow> string \<Rightarrow> (string \<times> u16) list
    \<Rightarrow> string + ip_addr option" where
  "doh_records client dns addr host [] = Inr None"
| "doh_records client dns addr host ((record_type, expected_type) # types) =
     res_bind (dc_get client addr (doh_url dns host record_type)) (\<lambda>response.
     if dj_status response \<noteq> 0 then Inl (''DNS status '' @ dec_of_nat (unat (dj_status response)))
     else case answered_ip expected_type response of
       Some ip \<Rightarrow> Inr (Some ip)
     | None \<Rightarrow> doh_records client dns addr host types)"

definition resolve_one_doh_json :: "doh_client \<Rightarrow> string \<Rightarrow> string \<Rightarrow> dns_config
    \<Rightarrow> string + ip_addr option" where
  "resolve_one_doh_json client host doh_addr dns =
     res_bind (ok_or ''invalid socket address syntax'' (parse_socket_addr doh_addr)) (\<lambda>addr.
     res_bind (dc_build client dns addr) (\<lambda>_.
     doh_records client dns addr host [(''A'', 1), (''AAAA'', 28)]))"

fun resolve_loop :: "(string \<Rightarrow> string + ip_addr option) \<Rightarrow> string list \<Rightarrow> string list
    \<Rightarrow> string list + ip_addr" where
  "resolve_loop query [] errors = Inl errors"
| "resolve_loop query (addr # addrs) errors =
     (case query addr of
        Inr (Some ip) \<Rightarrow> Inr ip
      | Inr None \<Rightarrow> resolve_loop query addrs (errors @ [addr @ '': no A/AAAA answer''])
      | Inl e \<Rightarrow> resolve_loop query addrs (errors @ [addr @ '': '' @ e]))"

definition resolve_one :: "doh_client \<Rightarrow> string \<Rightarrow> u16 \<Rightarrow> dns_config \<Rightarrow> main_error + ip_addr" where
  "resolve_one client host port dns =
     (if dn_mode dns \<noteq> ''doh'' then Inl (DnsModeUnsupported (dn_mode dns))
      else res_bind (normalize_dns_host host) (\<lambda>host.
        case parse_ip_addr host of
          Some ip \<Rightarrow> Inr ip
        | None \<Rightarrow>
            lift_err (LookupFailed host (effective_doh_addrs dns))
              (resolve_loop (\<lambda>addr. resolve_one_doh_json client host addr dns)
                 (effective_doh_addrs dns) [])))"

section \<open>The targets of the strategies\<close>

definition probe_target_of :: "target_request \<Rightarrow> ip_addr \<Rightarrow> http_request_spec
    \<Rightarrow> strategy_probe_target" where
  "probe_target_of parsed ip request =
     \<lparr> st_original = tr_original parsed, st_host = tr_host parsed, st_ip = ip,
       st_port = tr_port parsed, st_protocol = tr_protocol parsed,
       st_request = request\<lparr> rq_path_and_query := tr_path_and_query parsed \<rparr> \<rparr>"

definition append_repeated_strategy_target :: "doh_client \<Rightarrow> app_config
    \<Rightarrow> strategy_probe_target list \<Rightarrow> target_request \<Rightarrow> http_request_spec \<Rightarrow> nat
    \<Rightarrow> main_error + strategy_probe_target list" where
  "append_repeated_strategy_target client cfg targets parsed request test_count =
     (if \<not> protocol_enabled cfg (tr_protocol parsed)
      then Inl (DomainDisabled (tr_protocol parsed) (tr_original parsed))
      else res_bind (resolve_one client (tr_host parsed) (tr_port parsed) (pc_dns (ac_probe cfg)))
        (\<lambda>ip. Inr (targets @ replicate test_count (probe_target_of parsed ip request))))"

definition build_strategy_targets :: "url_parser \<Rightarrow> doh_client \<Rightarrow> app_config \<Rightarrow> http_request_spec
    \<Rightarrow> probe_protocol \<Rightarrow> bool \<Rightarrow> nat \<Rightarrow> main_error + strategy_probe_target list" where
  "build_strategy_targets url_parse client cfg request selected explicit test_count =
     (if pc_base_domains (ac_probe cfg) = [] then Inl NoBaseDomains
      else try_fold (\<lambda>targets domain.
        res_bind (parse_probe_domain_target url_parse domain selected explicit) (\<lambda>parsed.
        append_repeated_strategy_target client cfg targets parsed request test_count))
        [] (pc_base_domains (ac_probe cfg)))"

section \<open>What resolution finds\<close>

lemma resolve_loop_Inr:
  "resolve_loop query addrs errors = Inr ip \<longleftrightarrow>
    (\<exists>addr. find (\<lambda>a. \<exists>i. query a = Inr (Some i)) addrs = Some addr \<and> query addr = Inr (Some ip))"
  by (induction query addrs errors rule: resolve_loop.induct) (auto split: sum.split option.split)

lemma lift_err_Inr: "lift_err f r = Inr v \<longleftrightarrow> r = Inr v"
  by (simp add: lift_err_def split: sum.split)

text \<open>
  C38: resolution succeeds exactly when the normalised host is an address literal, which is then
  the result and asks nobody, or when some configured DoH server answers: the result is the answer
  of the first one that gives an address.
\<close>

theorem resolve_one_iff:
  "resolve_one client host port dns = Inr ip \<longleftrightarrow>
     dn_mode dns = ''doh'' \<and> (\<exists>name. normalize_dns_host host = Inr name \<and>
       (case parse_ip_addr name of
          Some literal \<Rightarrow> literal = ip
        | None \<Rightarrow> \<exists>addr. find (\<lambda>a. \<exists>i. resolve_one_doh_json client name a dns = Inr (Some i))
              (effective_doh_addrs dns) = Some addr \<and>
            resolve_one_doh_json client name addr dns = Inr (Some ip)))"
  by (simp add: resolve_one_def res_bind_Inr_iff lift_err_Inr resolve_loop_Inr cong: option.case_cong)
     (auto simp: lift_err_Inr resolve_loop_Inr split: option.splits)

section \<open>What the strategies are tested against\<close>

lemma try_fold_appends:
  assumes "try_fold f acc xs = Inr out"
    and "\<And>acc x out. f acc x = Inr out \<Longrightarrow> \<exists>y. P x y \<and> out = acc @ g y"
  shows "\<exists>ys. list_all2 P xs ys \<and> out = acc @ concat (map g ys)"
  using assms(1)
proof (induction xs arbitrary: acc)
  case (Cons x xs)
  then obtain acc' where a: "f acc x = Inr acc'" "try_fold f acc' xs = Inr out"
    by (auto simp: res_bind_Inr_iff)
  obtain y where y: "P x y" "acc' = acc @ g y" using assms(2)[OF a(1)] by blast
  obtain ys where "list_all2 P xs ys" "out = acc' @ concat (map g ys)" using Cons.IH[OF a(2)] by blast
  then show ?case using y by (intro exI[of _ "y # ys"]) simp
qed simp

text \<open>
  C37: the targets of the strategies are the base domains in the order of the configuration, each
  \<open>test_count\<close> times, resolved, with its own host, port, path and protocol and the rest of the
  primary request; every protocol among them is enabled.
\<close>

theorem strategy_targets_spec:
  assumes "build_strategy_targets url_parse client cfg request selected explicit n = Inr targets"
  shows "pc_base_domains (ac_probe cfg) \<noteq> [] \<and>
    (\<exists>resolved. targets = concat (map (\<lambda>(parsed, ip). replicate n (probe_target_of parsed ip request)) resolved) \<and>
       list_all2 (\<lambda>domain (parsed, ip).
         parse_probe_domain_target url_parse domain selected explicit = Inr parsed \<and>
         protocol_enabled cfg (tr_protocol parsed) \<and>
         resolve_one client (tr_host parsed) (tr_port parsed) (pc_dns (ac_probe cfg)) = Inr ip)
         (pc_base_domains (ac_probe cfg)) resolved)"
proof -
  let ?f = "\<lambda>targets domain. res_bind (parse_probe_domain_target url_parse domain selected explicit)
    (\<lambda>parsed. append_repeated_strategy_target client cfg targets parsed request n)"
  let ?P = "\<lambda>domain (parsed, ip). parse_probe_domain_target url_parse domain selected explicit = Inr parsed \<and>
    protocol_enabled cfg (tr_protocol parsed) \<and>
    resolve_one client (tr_host parsed) (tr_port parsed) (pc_dns (ac_probe cfg)) = Inr ip"
  let ?g = "\<lambda>(parsed, ip). replicate n (probe_target_of parsed ip request)"
  have "\<exists>y. ?P x y \<and> out = acc @ ?g y" if "?f acc x = Inr out" for acc x out
    using that by (fastforce simp: res_bind_Inr_iff append_repeated_strategy_target_def split: if_splits)
  then show ?thesis
    using assms try_fold_appends[of ?f "[]" "pc_base_domains (ac_probe cfg)" targets ?P ?g]
    by (auto simp: build_strategy_targets_def split: if_splits)
qed

section \<open>A resolved configuration\<close>

definition sample_doh :: doh_client where
  "sample_doh = \<lparr> dc_build = \<lambda>_ _. Inr (),
     dc_get = \<lambda>_ _. Inr \<lparr> dj_status = 0, dj_answer = [\<lparr> dj_record_type = 1,
       dj_data = ip_to_string (V4 7) \<rparr>] \<rparr> \<rparr>"

lemma read_groups_stop:
  "read_separated i read_ipv4 s = None \<Longrightarrow> read_separated i (read_number 16 (Some 4) True 65536) s = None \<Longrightarrow>
    read_groups i n s = ([], False, s)"
  by (cases n) simp_all

lemma sample_resolve: "resolve_one sample_doh ''youtube.com'' 443 dns_config_default = Inr (V4 7)"
proof -
  have norm: "normalize_dns_host ''youtube.com'' = Inr ''youtube.com''"
    by (simp add: normalize_dns_host_def trim_def trim_start.simps ws_len_def trim_end_char_def eval_simps)
  have addr: "parse_socket_addr ''1.1.1.1:443'' \<noteq> None"
    using doh_default_ok by (auto simp: validate_doh_addr_def res_bind_Inr_iff ok_or_def split: option.splits)
  have groups: "read_groups 0 8 ''youtube.com'' = ([], False, ''youtube.com'')"
    by (rule read_groups_stop) (simp_all add: read_separated_def read_ipv4_def read_then_def
        read_octet_def read_number_def is_radix_digit_def eval_simps)
  have name: "parse_ip_addr ''youtube.com'' = None"
    by (simp add: parse_ip_addr_def parse_with_def read_ip_def read_ipv4_def read_ipv6_def groups
        read_then_def read_octet_def read_number_def read_char_def is_radix_digit_def eval_simps)
  show ?thesis using addr
    by (auto simp: resolve_one_def norm name dns_config_default_def effective_doh_addrs_def
        resolve_one_doh_json_def ok_or_def sample_doh_def answered_ip_def lift_err_def
        List.map_filter_simps simp del: ip_to_string.simps split: option.splits)
qed

lemma sample_domain:
  "parse_probe_domain_target (\<lambda>_. None) ''youtube.com'' Tls12Http11 False =
     Inr \<lparr> tr_original = ''youtube.com'', tr_scheme = Https, tr_host = ''youtube.com'',
       tr_port = 443, tr_path_and_query = ''/'', tr_protocol = Tls12Http11 \<rparr>"
  by (simp add: parse_probe_domain_target_def parse_target_request_def host_target_def lift_err_def
      contains_sub_def eval_simps)

theorem strategy_targets_spec_witness:
  "\<forall>request. \<exists>targets. build_strategy_targets (\<lambda>_. None) sample_doh checker_config request
      Tls12Http11 False 5 = Inr targets \<and> length targets = 5"
proof
  fix request
  have d: "pc_base_domains (ac_probe checker_config) = [''youtube.com'']" by (simp add: checker_config_def)
  obtain targets where run: "build_strategy_targets (\<lambda>_. None) sample_doh checker_config request
      Tls12Http11 False 5 = Inr targets"
    by (simp add: build_strategy_targets_def d sample_domain append_repeated_strategy_target_def
        protocol_enabled_def sample_resolve)
  from strategy_targets_spec[OF run] run
  show "\<exists>targets. build_strategy_targets (\<lambda>_. None) sample_doh checker_config request
      Tls12Http11 False 5 = Inr targets \<and> length targets = 5"
    by (auto simp: d list_all2_Cons1)
qed

end
