(* ===== verification/Curl.thy ===== *)
theory Curl
  imports Probe Yaml
begin

text \<open>
  \<^verbatim>\<open>CurlProbeFallback\<close> of \<^verbatim>\<open>src/probe.rs\<close>, the reference backend: the command line given to
  curl and the reading of its answer, with the two conversions of floating point numbers it needs
  (\<open>{:.n}\<close> and \<open>str::parse::<f64>\<close>).
\<close>

section \<open>Floating point text\<close>

text \<open>\<open>{:.k}\<close> rounds the exact value to \<open>k\<close> decimals, ties to even.\<close>

definition zero_padded :: "nat \<Rightarrow> nat \<Rightarrow> string" where
  "zero_padded k n = (let s = dec_of_nat n in replicate (k - length s) (CHR ''0'') @ s)"

definition f64_fixed :: "nat \<Rightarrow> f64 \<Rightarrow> string" where
  "f64_fixed k b =
     (if f64_is_nan b then ''NaN''
      else (if f64_neg_bit b then ''-'' else []) @
        (if f64_is_inf b then ''inf''
         else let (n, d) = f64_fraction b; q = n * 10 ^ k div d; r = n * 10 ^ k mod d;
                  q' = (if 2 * r > d \<or> 2 * r = d \<and> odd q then q + 1 else q)
              in dec_of_nat (q' div 10 ^ k) @ ''.'' @ zero_padded k (q' mod 10 ^ k)))"

definition f64_of_nat :: "nat \<Rightarrow> f64" where
  "f64_of_nat n = f64_round False n 1 0"

text \<open>
  \<open><f64 as FromStr>\<close>: a sign, then a name or decimal digits with at most one point and an optional
  exponent, read as the exact number and rounded once.
\<close>

definition exponent_value :: "string \<Rightarrow> int option" where
  "exponent_value s =
     (let (neg, ds) = (case s of
          [] \<Rightarrow> (False, [])
        | c # cs \<Rightarrow> if c = CHR ''-'' then (True, cs) else if c = CHR ''+'' then (False, cs) else (False, s))
      in if ds = [] then None
         else map_option (\<lambda>n. if neg then - int n else int n) (parse_digits 10 0 ds))"

definition decimal_value :: "bool \<Rightarrow> string \<Rightarrow> f64 option" where
  "decimal_value neg s =
     (let whole = takeWhile is_digit s; rest = dropWhile is_digit s;
          (frac, rest) = (case rest of
              c # cs \<Rightarrow> if c = CHR ''.'' then (takeWhile is_digit cs, dropWhile is_digit cs) else ([], rest)
            | [] \<Rightarrow> ([], []));
          ten_power = (case rest of
              [] \<Rightarrow> Some 0
            | c # cs \<Rightarrow> if c = CHR ''e'' \<or> c = CHR ''E'' then exponent_value cs else None)
      in if whole @ frac = [] then None
         else Option.bind (parse_digits 10 0 (whole @ frac)) (\<lambda>n.
              map_option (\<lambda>e. let e = e - int (length frac)
                in f64_round neg (n * 10 ^ nat e) (10 ^ nat (- e)) 0) ten_power))"

definition parse_f64 :: "string \<Rightarrow> f64 option" where
  "parse_f64 s =
     (let (neg, s) = (case s of
          [] \<Rightarrow> (False, [])
        | c # cs \<Rightarrow> if c = CHR ''-'' then (True, cs) else if c = CHR ''+'' then (False, cs) else (False, s));
          name = to_ascii_lowercase s
      in if name = ''inf'' \<or> name = ''infinity'' then Some (f64_inf neg)
         else if name = ''nan'' then Some f64_nan
         else decimal_value neg s)"

text \<open>\<open>v as usize\<close> saturates.\<close>

definition f64_as_usize :: "f64 \<Rightarrow> nat" where
  "f64_as_usize b =
     (if f64_is_nan b \<or> f64_neg_bit b then 0
      else if f64_is_inf b then 2 ^ 64 - 1
      else let (n, d) = f64_fraction b in min (n div d) (2 ^ 64 - 1))"

section \<open>The command\<close>

definition curl_scheme :: "probe_protocol \<Rightarrow> string" where
  "curl_scheme p = (case p of HttpPlain \<Rightarrow> ''http'' | _ \<Rightarrow> ''https'')"

definition curl_seconds :: "nat \<Rightarrow> string" where
  "curl_seconds ms = f64_fixed 3 (f64_div (f64_of_nat ms) (f64_of_nat 1000))"

definition curl_url :: "probe_task \<Rightarrow> string" where
  "curl_url task =
     (let p = rq_path_and_query (pt_request task); p = (if p = [] then ''/'' else p)
      in curl_scheme (pt_protocol task) @ ''://'' @ pt_target_host task @ '':'' @
         dec_of_nat (unat (pt_target_port task)) @ p)"

definition curl_args :: "probe_task \<Rightarrow> string list" where
  "curl_args task =
     (let resolve = pt_target_host task @ '':'' @ dec_of_nat (unat (pt_target_port task)) @ '':'' @
            ip_to_string (pt_target_ip task) in
      [''--silent'', ''--show-error'', ''--http1.1'', ''--resolve'', resolve,
       ''--connect-timeout'', curl_seconds (to_connect_ms (pt_timeouts task)),
       ''--max-time'', curl_seconds (to_total_ms (pt_timeouts task)),
       ''--user-agent'', rq_user_agent (pt_request task), ''--output'', ''/dev/null'',
       ''--write-out'', ''%{http_code} %{size_header} %{size_download}''] @
      (if rq_method (pt_request task) = Head then [''--head''] else []) @
      (case pt_protocol task of
         Tls12Http11 \<Rightarrow> [''--tlsv1.2'', ''--tls-max'', ''1.2'']
       | Tls13Http11 \<Rightarrow> [''--tlsv1.3'', ''--tls-max'', ''1.3'']
       | _ \<Rightarrow> []) @
      [curl_url task])"

section \<open>The probe\<close>

text \<open>
  The environment: what curl leaves under a deadline (\<open>None\<close> when it is exceeded), and the clock at
  the end.
\<close>

record curl_env =
  cu_output :: "string list \<Rightarrow> nat \<Rightarrow> cmd_output io option"
  cu_end_ms :: nat

text \<open>\<open>split_whitespace\<close>: the next field of the output and the rest.\<close>

definition next_field :: "(string \<Rightarrow> 'a option) \<Rightarrow> string \<Rightarrow> 'a option \<times> string" where
  "next_field parse s =
     (case next_word s of None \<Rightarrow> (None, []) | Some (w, rest) \<Rightarrow> (parse w, rest))"

definition curl_fields :: "string \<Rightarrow> u16 option \<times> nat \<times> nat" where
  "curl_fields stdout =
     (let (status, rest) = next_field parse_u16 stdout;
          (header, rest) = next_field parse_f64 rest;
          (body, rest) = next_field parse_f64 rest;
          size = (\<lambda>v. case v of Some b \<Rightarrow> f64_as_usize b | None \<Rightarrow> 0)
      in (if status = Some 0 then None else status, size header, size body))"

definition curl_result :: "probe_task \<Rightarrow> probe_context \<Rightarrow> cmd_output \<Rightarrow> nat \<Rightarrow> probe_result" where
  "curl_result task ctx output end_ms =
     (let (status, header_bytes, body_bytes) = curl_fields (utf8_lossy (co_stdout output));
          rq = pt_request task;
          headers_complete = (co_success output \<and> status \<noteq> None);
          (outcome, cls, msg) =
            (if co_success output
             then classify_http_response status headers_complete body_bytes (rq_method rq)
                    (rq_read_mode rq) (rq_min_body_bytes rq)
             else (InternalError, Some CurlFailed, Some (utf8_lossy (co_stderr output))));
          fk = (if outcome = Success then None
                else if co_success output then Some (probe_failure_kind (cx_baseline ctx))
                else Some InfrastructureFailure);
          total_bytes = header_bytes + body_bytes;
          read = \<lparr> hr_status = status, hr_header_bytes = header_bytes, hr_body_bytes = body_bytes,
                   hr_total_bytes = total_bytes, hr_first_byte_ms = None,
                   hr_headers_complete = headers_complete \<rparr>
      in \<lparr> pr_strategy_id = pt_strategy_id task, pr_worker_id = pt_worker_id task,
           pr_qnum = ctx_qnum ctx, pr_assigned_source_port = None,
           pr_target_host = pt_target_host task, pr_target_ip = pt_target_ip task,
           pr_target_port = pt_target_port task, pr_protocol = pt_protocol task,
           pr_path = rq_path_and_query rq, pr_method = rq_method rq,
           pr_read_mode = rq_read_mode rq, pr_setup_ms = None, pr_connect_ms = None,
           pr_tls_ms = None, pr_first_byte_ms = None, pr_total_ms = end_ms, pr_outcome = outcome,
           pr_http_status = status, pr_bytes_read = total_bytes, pr_header_bytes = header_bytes,
           pr_body_bytes = body_bytes, pr_total_bytes = total_bytes,
           pr_transfer_level = compute_transfer_level None None read (rq_verify_transfer_bytes rq)
             (uses_tls (pt_protocol task)),
           pr_dpi_suspicious = compute_dpi_suspicious headers_complete total_bytes
             (rq_dpi_detection_bytes rq) outcome,
           pr_failure_kind = fk, pr_error_class = cls, pr_error_message = msg \<rparr>)"

definition curl_probe :: "probe_task \<Rightarrow> probe_context \<Rightarrow> curl_env \<Rightarrow> probe_result" where
  "curl_probe task ctx env =
     (case cu_output env (curl_args task) (to_total_ms (pt_timeouts task)) of
        Some (Inr output) \<Rightarrow> curl_result task ctx output (cu_end_ms env)
      | Some (Inl e) \<Rightarrow>
          infrastructure_failure task (ctx_qnum ctx) None CurlFailed e (cu_end_ms env)
      | None \<Rightarrow>
          failure task ctx 0 Timeout (probe_failure_kind (cx_baseline ctx)) ReadTimeout
            ''curl total timeout'' (cu_end_ms env) (None, None, None) None)"

section \<open>What a result says\<close>

text \<open>
  Curl's result is a success exactly when curl ended well in time, printed a 2xx or 3xx status
  and, unless only the headers count, enough body bytes; only then has it no failure kind. It
  repeats the task, and its transfer level is always none.
\<close>

theorem curl_probe_verdict:
  "let r = curl_probe task ctx env; rq = pt_request task in
   (pr_outcome r = Success \<longleftrightarrow>
     (\<exists>out s header body. cu_output env (curl_args task) (to_total_ms (pt_timeouts task)) = Some (Inr out) \<and>
       co_success out \<and> curl_fields (utf8_lossy (co_stdout out)) = (Some s, header, body) \<and>
       200 \<le> s \<and> s < 400 \<and>
       (rq_method rq = Head \<or> rq_read_mode rq = Headers \<or> rq_min_body_bytes rq \<le> body))) \<and>
   (pr_failure_kind r = None \<longleftrightarrow> pr_outcome r = Success) \<and>
   echoes_task task r \<and> pr_transfer_level r = TlNone"
  by (cases "cu_output env (curl_args task) (to_total_ms (pt_timeouts task))"; simp only: Let_def; intro conjI)
     (auto simp: curl_probe_def curl_result_def failure_def infrastructure_failure_def echoes_task_def Let_def
        classify_http_response_def status_is_success_def is_http_block_status_def compute_transfer_level_def
        http_response_read_default_def split: sum.splits option.splits prod.splits if_splits)

lemma sample_curl_fields: "curl_fields (utf8_lossy ''200 0 0'') = (Some 200, 0, 0)"
proof -
  have "utf8_lossy ''200 0 0'' = ''200 0 0''" by (rule utf8_lossy_ascii) simp
  moreover have "parse_f64 ''0'' = Some 0" by code_simp
  ultimately show ?thesis
    by (simp add: curl_fields_def next_field_def next_word_def trim_start.simps ws_len_def
        f64_as_usize_def f64_defs f64_fraction_def eval_simps)
qed

text \<open>
  A task of the QUIC protocol is measured by curl over TCP: it is asked for HTTP/1.1, and the
  success of that download is reported as a success of QUIC.
\<close>

theorem curl_quic_over_tcp:
  "let task = task\<lparr> pt_protocol := QuicHttp3Future,
         pt_request := (pt_request task)\<lparr> rq_read_mode := Headers \<rparr> \<rparr>;
       env = \<lparr> cu_output = \<lambda>args _. if ''--http1.1'' \<in> set args
           then Some (Inr \<lparr> co_success = True, co_status = ''exit status: 0'',
             co_stdout = ''200 0 0'', co_stderr = [] \<rparr>) else None,
         cu_end_ms = ms \<rparr>;
       r = curl_probe task ctx env
   in pr_protocol r = QuicHttp3Future \<and> pr_outcome r = Success"
  by (simp add: curl_probe_def curl_result_def curl_args_def Let_def sample_curl_fields
      classify_http_response_def status_is_success_def is_http_block_status_def)

end
