(* ===== verification/Report.thy ===== *)
theory Report
  imports Scheduler PayloadRegistry Curl
begin

text \<open>
  The report of \<^verbatim>\<open>src/main.rs\<close> and the live line of \<^verbatim>\<open>src/scheduler.rs\<close>: the summaries, the
  command line printed for a strategy, and the lines of the report.
\<close>

section \<open>Formatting\<close>

text \<open>
  \<open>{:<n}\<close> and \<open>{:>n}\<close> pad to a number of characters.
\<close>

definition pad_right :: "nat \<Rightarrow> string \<Rightarrow> string" where
  "pad_right n s = s @ replicate (n - length (ascii_chars s)) (CHR '' '')"

definition pad_left :: "nat \<Rightarrow> string \<Rightarrow> string" where
  "pad_left n s = replicate (n - length (ascii_chars s)) (CHR '' '') @ s"

definition f64_fixed1 :: "f64 \<Rightarrow> string" where
  "f64_fixed1 b = f64_fixed 1 b"

definition show_nat_option :: "nat option \<Rightarrow> string" where
  "show_nat_option v = (case v of Some n \<Rightarrow> dec_of_nat n | None \<Rightarrow> ''-'')"

definition fmt_ms :: "nat option \<Rightarrow> string" where
  "fmt_ms v = show_nat_option v"

definition show_u16_option :: "u16 option \<Rightarrow> string" where
  "show_u16_option v = show_nat_option (map_option unat v)"

definition show_bool :: "bool \<Rightarrow> string" where
  "show_bool b = (if b then ''true'' else ''false'')"

fun debug_outcome :: "probe_outcome \<Rightarrow> string" where
  "debug_outcome Success = ''Success''"
| "debug_outcome DnsFailure = ''DnsFailure''"
| "debug_outcome TcpReset = ''TcpReset''"
| "debug_outcome Timeout = ''Timeout''"
| "debug_outcome TlsAlert = ''TlsAlert''"
| "debug_outcome HttpBlockPage = ''HttpBlockPage''"
| "debug_outcome EmptyResponse = ''EmptyResponse''"
| "debug_outcome BodyTooSmall = ''BodyTooSmall''"
| "debug_outcome Refused = ''Refused''"
| "debug_outcome NetworkUnreachable = ''NetworkUnreachable''"
| "debug_outcome OutCancelled = ''Cancelled''"
| "debug_outcome InternalError = ''InternalError''"

fun debug_error_class :: "probe_error_class \<Rightarrow> string" where
  "debug_error_class SocketCreateFailed = ''SocketCreateFailed''"
| "debug_error_class BindFailed = ''BindFailed''"
| "debug_error_class LocalAddrFailed = ''LocalAddrFailed''"
| "debug_error_class QueueUnavailable = ''QueueUnavailable''"
| "debug_error_class FirewallInstallFailed = ''FirewallInstallFailed''"
| "debug_error_class FirewallRemoveFailed = ''FirewallRemoveFailed''"
| "debug_error_class NfqwsStartFailed = ''NfqwsStartFailed''"
| "debug_error_class NfqwsExitedEarly = ''NfqwsExitedEarly''"
| "debug_error_class NfqwsStopFailed = ''NfqwsStopFailed''"
| "debug_error_class ConnectTimeout = ''ConnectTimeout''"
| "debug_error_class ConnectFailed = ''ConnectFailed''"
| "debug_error_class TlsTimeout = ''TlsTimeout''"
| "debug_error_class TlsFailed = ''TlsFailed''"
| "debug_error_class FirstByteTimeout = ''FirstByteTimeout''"
| "debug_error_class ReadTimeout = ''ReadTimeout''"
| "debug_error_class ReadFailed = ''ReadFailed''"
| "debug_error_class InvalidHttpResponse = ''InvalidHttpResponse''"
| "debug_error_class CurlFailed = ''CurlFailed''"
| "debug_error_class ProcessFailed = ''ProcessFailed''"
| "debug_error_class EcCancelled = ''Cancelled''"
| "debug_error_class EcInternalError = ''InternalError''"
| "debug_error_class EcBodyTooSmall = ''BodyTooSmall''"

fun debug_failure_kind :: "failure_kind \<Rightarrow> string" where
  "debug_failure_kind StrategyFailure = ''StrategyFailure''"
| "debug_failure_kind InfrastructureFailure = ''InfrastructureFailure''"
| "debug_failure_kind TargetFailure = ''TargetFailure''"
| "debug_failure_kind FkCancelled = ''Cancelled''"

fun debug_transfer_level :: "transfer_level \<Rightarrow> string" where
  "debug_transfer_level TlNone = ''None''"
| "debug_transfer_level TlConnected = ''Connected''"
| "debug_transfer_level TlTlsHandshake = ''TlsHandshake''"
| "debug_transfer_level TlHeaders = ''Headers''"
| "debug_transfer_level TlBody = ''Body''"
| "debug_transfer_level TlVerified = ''Verified''"

fun debug_protocol :: "probe_protocol \<Rightarrow> string" where
  "debug_protocol HttpPlain = ''HttpPlain''"
| "debug_protocol Tls12Http11 = ''Tls12Http11''"
| "debug_protocol Tls13Http11 = ''Tls13Http11''"
| "debug_protocol QuicHttp3Future = ''QuicHttp3Future''"

fun debug_read_mode :: "read_mode \<Rightarrow> string" where
  "debug_read_mode Headers = ''Headers''"
| "debug_read_mode Body = ''Body''"
| "debug_read_mode Full = ''Full''"

fun debug_scheme :: "target_scheme \<Rightarrow> string" where
  "debug_scheme Http = ''Http''"
| "debug_scheme Https = ''Https''"

definition debug_option :: "('a \<Rightarrow> string) \<Rightarrow> 'a option \<Rightarrow> string" where
  "debug_option f v = (case v of Some x \<Rightarrow> ''Some('' @ f x @ '')'' | None \<Rightarrow> ''None'')"

section \<open>Summaries\<close>

record payload_protocol_summary =
  sm_builtin :: nat
  sm_files :: nat

record payload_summary =
  sm_http :: payload_protocol_summary
  sm_tls :: payload_protocol_summary
  sm_quic :: payload_protocol_summary
  sm_base_dir :: "string option"
  sm_auto_load :: bool

definition count_payload :: "payload_def \<Rightarrow> payload_protocol_summary \<Rightarrow> payload_protocol_summary" where
  "count_payload p c =
     (if pd_builtin p then c\<lparr> sm_builtin := sm_builtin c + 1 \<rparr> else c\<lparr> sm_files := sm_files c + 1 \<rparr>)"

fun count_payloads :: "payload_def list \<Rightarrow> payload_summary \<Rightarrow> payload_summary" where
  "count_payloads [] s = s"
| "count_payloads (p # ps) s =
     count_payloads ps
       (case pd_protocol p of
          PpHttp \<Rightarrow> s\<lparr> sm_http := count_payload p (sm_http s) \<rparr>
        | PpTls \<Rightarrow> s\<lparr> sm_tls := count_payload p (sm_tls s) \<rparr>
        | PpQuic \<Rightarrow> s\<lparr> sm_quic := count_payload p (sm_quic s) \<rparr>)"

definition payload_summary_of :: "blob_config \<Rightarrow> payload_def list \<Rightarrow> payload_summary" where
  "payload_summary_of blobs payloads =
     (let zero = \<lparr> sm_builtin = 0, sm_files = 0 \<rparr> in
      count_payloads payloads
        \<lparr> sm_http = zero, sm_tls = zero, sm_quic = zero,
          sm_base_dir = map_option utf8_lossy (bl_base_dir blobs),
          sm_auto_load = bl_auto_load blobs \<rparr>)"

record blob_import =
  bi_alias :: string
  bi_path :: string
  bi_arg :: string

definition payload_blob_imports :: "payload_def list \<Rightarrow> blob_import list" where
  "payload_blob_imports payloads =
     List.map_filter (\<lambda>p. map_option (\<lambda>path.
       \<lparr> bi_alias = pd_alias p, bi_path = utf8_lossy path,
         bi_arg = ''--blob='' @ pd_alias p @ '':@'' @ utf8_lossy path \<rparr>) (pd_path p)) payloads"

record combination_summary =
  cs_enabled :: bool
  cs_allowed_pairs :: nat
  cs_generated :: nat

definition combination_summary_of :: "strategy_combination_config \<Rightarrow> strategy_node list
    \<Rightarrow> combination_summary" where
  "combination_summary_of cfg nodes =
     \<lparr> cs_enabled = sc_enabled cfg, cs_allowed_pairs = length (sc_allowed cfg),
       cs_generated = length (filter sn_is_combined nodes) \<rparr>"

definition target_display_key :: "strategy_probe_target \<Rightarrow> string" where
  "target_display_key t =
     st_host t @ '':'' @ dec_of_nat (unat (st_port t)) @ rq_path_and_query (st_request t)"

definition unique_strategy_targets :: "strategy_probe_target list \<Rightarrow> nat" where
  "unique_strategy_targets targets =
     card ((\<lambda>t. (st_host t, st_port t, rq_path_and_query (st_request t))) ` set targets)"

definition dedup_strings :: "string list \<Rightarrow> string list" where
  "dedup_strings items = dedup_by (\<lambda>s. s) [] items"

definition strategy_param_names :: "strategy_values_config \<Rightarrow> string \<Rightarrow> string" where
  "strategy_param_names values key =
     (let names = param_names_for_protocol_key values key
      in if names = [] then ''none'' else join '', '' names)"

definition strategy_report_name :: "strategy_node \<Rightarrow> string" where
  "strategy_report_name n =
     (if sn_is_combined n then sn_family n @ '' '' @ sn_action_id n else sn_id n)"

section \<open>The printed command\<close>

definition alias_char :: "char \<Rightarrow> bool" where
  "alias_char c \<longleftrightarrow> is_alnum c \<or> c = CHR ''_''"

function blob_aliases_in :: "string \<Rightarrow> string list" where
  "blob_aliases_in rest =
     (case find_sub ''blob='' rest of
        None \<Rightarrow> []
      | Some i \<Rightarrow>
          let rest = drop (i + 5) rest; found = takeWhile alias_char rest in
          (if found \<noteq> [] then [found] else []) @ blob_aliases_in (drop (length found) rest))"
  by pat_completeness auto
termination
  by (relation "measure length") (auto dest: find_sub_bound)

declare blob_aliases_in.simps [simp del]

definition blob_aliases_in_args :: "string list \<Rightarrow> string list" where
  "blob_aliases_in_args args = concat (map blob_aliases_in args)"

definition strategy_command_args :: "string list \<Rightarrow> blob_import list \<Rightarrow> string list" where
  "strategy_command_args args imports =
     map bi_arg (filter (\<lambda>i. bi_alias i \<in> set (blob_aliases_in_args args)) imports) @ args"

section \<open>Lines\<close>

definition probe_result_lines :: "string \<Rightarrow> probe_result \<Rightarrow> string list" where
  "probe_result_lines prefix r =
     [prefix @ ''outcome:       '' @ debug_outcome (pr_outcome r),
      prefix @ ''failure_kind:  '' @ debug_option debug_failure_kind (pr_failure_kind r),
      prefix @ ''error_class:   '' @ debug_option debug_error_class (pr_error_class r)] @
     (case pr_error_message r of Some m \<Rightarrow> [prefix @ ''error:         '' @ m] | None \<Rightarrow> []) @
     [prefix @ ''timing:        connect='' @ fmt_ms (pr_connect_ms r) @ ''ms tls='' @
        fmt_ms (pr_tls_ms r) @ ''ms first_byte='' @ fmt_ms (pr_first_byte_ms r) @ ''ms total='' @
        dec_of_nat (pr_total_ms r) @ ''ms'',
      prefix @ ''http_status:   '' @ show_u16_option (pr_http_status r),
      prefix @ ''bytes_read:    '' @ dec_of_nat (pr_bytes_read r),
      prefix @ ''header_bytes:  '' @ dec_of_nat (pr_header_bytes r),
      prefix @ ''body_bytes:    '' @ dec_of_nat (pr_body_bytes r),
      prefix @ ''total_bytes:   '' @ dec_of_nat (pr_total_bytes r),
      prefix @ ''transfer_level: '' @ debug_transfer_level (pr_transfer_level r)] @
     (if pr_dpi_suspicious r then [prefix @ ''dpi_suspicious: true''] else [])"

definition live_probe_summary :: "probe_result \<Rightarrow> string" where
  "live_probe_summary r =
     ''outcome='' @ debug_outcome (pr_outcome r) @ '' http='' @ show_u16_option (pr_http_status r) @
     '' body='' @ dec_of_nat (pr_body_bytes r) @ ''B bytes='' @ dec_of_nat (pr_bytes_read r) @
     '' transfer='' @ debug_transfer_level (pr_transfer_level r) @ '' dpi='' @
     show_bool (pr_dpi_suspicious r) @ '' connect='' @ fmt_ms (pr_connect_ms r) @ ''ms tls='' @
     fmt_ms (pr_tls_ms r) @ ''ms first_byte='' @ fmt_ms (pr_first_byte_ms r) @ ''ms total='' @
     dec_of_nat (pr_total_ms r) @ ''ms failure='' @ debug_option debug_failure_kind (pr_failure_kind r) @
     '' error='' @ debug_option debug_error_class (pr_error_class r)"

definition live_strategy_result_line :: "nat \<Rightarrow> indexed_pool_result \<Rightarrow> score_weights \<Rightarrow> string" where
  "live_strategy_result_line index item weights =
     (let r = ir_result item; node = ir_node item;
          score = adaptive_score r (sn_cost node) (sn_risk node) weights in
      ''info(checker): strategy #'' @ pad_right 5 (dec_of_nat index) @ '' id='' @ sn_id node @
      '' family='' @ sn_family node @ '' worker='' @ dec_of_nat (ir_worker_id item) @ '' qnum='' @
      dec_of_nat (unat (ir_qnum item)) @ '' attempts='' @
      dec_of_nat (length (filter (\<lambda>a. pr_outcome a = Success) (ir_attempts item))) @ ''/'' @
      dec_of_nat (length (ir_attempts item)) @ '' domains='' @
      dec_of_nat (unique_attempt_targets (ir_attempts item)) @ '' outcome='' @
      debug_outcome (pr_outcome r) @ '' http='' @ show_u16_option (pr_http_status r) @ '' body='' @
      dec_of_nat (pr_body_bytes r) @ ''B bytes='' @ dec_of_nat (pr_bytes_read r) @ '' tls='' @
      show_nat_option (pr_tls_ms r) @ ''ms total='' @ dec_of_nat (pr_total_ms r) @ ''ms score='' @
      f64_fixed1 score)"

section \<open>The report\<close>

record check_output =
  ou_target :: string
  ou_target_scheme :: target_scheme
  ou_request :: http_request_spec
  ou_test_count :: nat
  ou_test_targets :: "string list"
  ou_baseline :: probe_result
  ou_results :: "strategy_run_result list"
  ou_successful_strategy_limit :: nat
  ou_search_mode :: string
  ou_round_robin_families :: bool
  ou_generated_count :: nat
  ou_workers_count :: nat
  ou_isolation_mode :: string
  ou_payload_summary :: "payload_summary option"
  ou_payload_blob_imports :: "blob_import list"
  ou_combination_summary :: "combination_summary option"

record family_counters =
  fc_tested :: nat
  fc_success :: nat
  fc_failed :: nat

definition count_result :: "strategy_run_result \<Rightarrow> (string, family_counters) btree_map
    \<Rightarrow> (string, family_counters) btree_map" where
  "count_result item m =
     (let family = sn_family (sr_node item);
          c = (case map_of m family of
                 Some c \<Rightarrow> c | None \<Rightarrow> \<lparr> fc_tested = 0, fc_success = 0, fc_failed = 0 \<rparr>);
          c = c\<lparr> fc_tested := fc_tested c + 1 \<rparr>
      in btree_insert family
           (if pr_outcome (sr_result item) = Success then c\<lparr> fc_success := fc_success c + 1 \<rparr>
            else c\<lparr> fc_failed := fc_failed c + 1 \<rparr>) m)"

definition family_table :: "strategy_run_result list \<Rightarrow> (string, family_counters) btree_map" where
  "family_table results = fold count_result results []"

definition succeeded :: "strategy_run_result \<Rightarrow> bool" where
  "succeeded r \<longleftrightarrow> pr_outcome (sr_result r) = Success"

definition compare_best :: "strategy_run_result \<Rightarrow> strategy_run_result \<Rightarrow> ordering" where
  "compare_best a b =
     then_with (f64_total_cmp (sr_adaptive_score b) (sr_adaptive_score a))
       (then_with (f64_total_cmp (sn_cost (sr_node a)) (sn_cost (sr_node b)))
         (then_with (f64_total_cmp (sn_risk (sr_node a)) (sn_risk (sr_node b)))
           (cmp_of (sn_id (sr_node a)) (sn_id (sr_node b)))))"

definition best_strategies :: "strategy_run_result list \<Rightarrow> strategy_run_result list" where
  "best_strategies results = sort_by compare_best (filter succeeded results)"

definition strategy_head :: "strategy_run_result \<Rightarrow> string" where
  "strategy_head item =
     ''  ['' @ pad_left 6 (f64_fixed1 (sr_adaptive_score item)) @ ''] '' @
     pad_right 36 (strategy_report_name (sr_node item)) @ '' '' @
     pad_right 12 (sn_family (sr_node item)) @ '' ''"

definition strategy_details :: "blob_import list \<Rightarrow> strategy_run_result \<Rightarrow> string list" where
  "strategy_details imports item =
     map (\<lambda>arg. ''           '' @ arg) (strategy_command_args (sn_args (sr_node item)) imports) @
     (if sn_is_combined (sr_node item)
      then ''           components:'' #
        map (\<lambda>c. ''             - '' @ co_family c @ ''/'' @ co_action_id c) (sn_components (sr_node item))
      else [])"

definition best_lines :: "blob_import list \<Rightarrow> strategy_run_result \<Rightarrow> string list" where
  "best_lines imports item =
     (let r = sr_result item in
      (strategy_head item @ ''http='' @ show_u16_option (pr_http_status r) @ '' body='' @
       dec_of_nat (pr_body_bytes r) @ ''B tls='' @ show_nat_option (pr_tls_ms r) @ ''ms total='' @
       dec_of_nat (pr_total_ms r) @ ''ms'') # strategy_details imports item)"

definition failed_lines :: "blob_import list \<Rightarrow> strategy_run_result \<Rightarrow> string list" where
  "failed_lines imports item =
     (let r = sr_result item in
      (strategy_head item @ debug_outcome (pr_outcome r) @ '' / '' @
       debug_option debug_error_class (pr_error_class r)) #
      (case pr_error_message r of Some m \<Rightarrow> [''           '' @ m] | None \<Rightarrow> []) @
      strategy_details imports item)"

definition target_lines :: "check_output \<Rightarrow> string list" where
  "target_lines o1 =
     (let b = ou_baseline o1 in
      [''Target'', ''  url:        '' @ ou_target o1,
       ''  scheme:     '' @ debug_scheme (ou_target_scheme o1),
       ''  host:       '' @ pr_target_host b, ''  ip:         '' @ ip_to_string (pr_target_ip b),
       ''  port:       '' @ dec_of_nat (unat (pr_target_port b)),
       ''  protocol:   '' @ debug_protocol (pr_protocol b),
       ''  method:     '' @ method_as_str (rq_method (ou_request o1)),
       ''  path:       '' @ pr_path b, ''  read_mode:  '' @ debug_read_mode (pr_read_mode b),
       ''  user-agent: '' @ rq_user_agent (ou_request o1),
       ''  tests:      '' @ dec_of_nat (ou_test_count o1), []])"

definition summary_lines :: "check_output \<Rightarrow> strategy_values_config \<Rightarrow> string list" where
  "summary_lines o1 values =
     (let total = length (ou_results o1); success = length (filter succeeded (ou_results o1)) in
      [[], ''Parallelism'', ''  workers: '' @ dec_of_nat (ou_workers_count o1),
       ''  active_model: nfqws-per-task'', ''  isolation: '' @ ou_isolation_mode o1, [],
       ''Summary'', ''  generated: '' @ dec_of_nat (ou_generated_count o1),
       ''  tested:   '' @ dec_of_nat total, ''  success:  '' @ dec_of_nat success,
       ''  failed:   '' @ dec_of_nat (total - success), ''  search_mode: '' @ ou_search_mode o1,
       ''  round_robin: '' @ show_bool (ou_round_robin_families o1),
       ''  test_targets: '' @ join '', '' (dedup_strings (ou_test_targets o1)),
       ''  stop_at_success: '' @ (if ou_successful_strategy_limit o1 = 0 then ''disabled''
         else dec_of_nat (ou_successful_strategy_limit o1)), [],
       ''Strategy values'', ''  mode: '' @ sv_mode values,
       ''  http params: '' @ strategy_param_names values ''http'',
       ''  tls params: '' @ strategy_param_names values ''tls'',
       ''  quic params: '' @ strategy_param_names values ''quic'', []])"

definition payload_lines :: "payload_summary \<Rightarrow> string list" where
  "payload_lines p =
     (let counts = (\<lambda>c. ''builtin='' @ dec_of_nat (sm_builtin c) @ '' files='' @ dec_of_nat (sm_files c)) in
      [''Payloads'', ''  http: '' @ counts (sm_http p), ''  tls:  '' @ counts (sm_tls p),
       ''  quic: '' @ counts (sm_quic p),
       ''  base_dir: '' @ (case sm_base_dir p of Some d \<Rightarrow> d | None \<Rightarrow> ''-''),
       ''  auto_load: '' @ show_bool (sm_auto_load p), []])"

definition combination_lines :: "combination_summary \<Rightarrow> string list" where
  "combination_lines c =
     [''Combinations'', ''  enabled: '' @ show_bool (cs_enabled c),
      ''  allowed_pairs: '' @ dec_of_nat (cs_allowed_pairs c),
      ''  generated: '' @ dec_of_nat (cs_generated c), []]"

definition family_lines :: "strategy_run_result list \<Rightarrow> string list" where
  "family_lines results =
     ''Families'' #
     (if family_table results = [] then [''  none'']
      else map (\<lambda>(family, c). ''  '' @ pad_right 14 family @ '' tested='' @ dec_of_nat (fc_tested c) @
             '' success='' @ dec_of_nat (fc_success c) @ '' failed='' @ dec_of_nat (fc_failed c))
             (family_table results)) @ [[]]"

text \<open>\<open>print_check_report\<close>, line by line.\<close>

definition check_report :: "check_output \<Rightarrow> strategy_values_config \<Rightarrow> string list" where
  "check_report o1 values =
     (let imports = ou_payload_blob_imports o1; best = best_strategies (ou_results o1) in
      target_lines o1 @ [''Baseline''] @ probe_result_lines ''  '' (ou_baseline o1) @ [[]] @
      summary_lines o1 values @
      (case ou_payload_summary o1 of Some p \<Rightarrow> payload_lines p | None \<Rightarrow> []) @
      (case ou_combination_summary o1 of Some c \<Rightarrow> combination_lines c | None \<Rightarrow> []) @
      family_lines (ou_results o1) @
      [''Best strategies''] @
      (if best = [] then [''  none''] else concat (map (best_lines imports) best)) @ [[]] @
      [''Failed strategies''] @
      concat (map (failed_lines imports) (take 20 (filter (\<lambda>r. \<not> succeeded r) (ou_results o1)))))"

section \<open>The printed command defines its blobs\<close>

lemma find_sub_SomeD: "find_sub p s = Some i \<Longrightarrow> s = take i s @ p @ drop (i + length p) s"
proof (induction s arbitrary: i)
  case Nil
  then show ?case by (auto split: if_splits)
next
  case (Cons c s)
  then show ?case by (cases "starts_with p (c # s)") (auto simp: starts_with_iff)
qed

lemma find_sub_first: "\<exists>i \<le> length a. find_sub p (a @ p @ b) = Some i"
proof (induction a)
  case Nil
  have "starts_with p (p @ b)" by (auto simp: starts_with_iff)
  then show ?case by (cases "p @ b") auto
next
  case (Cons c a)
  then show ?case by auto
qed

text \<open>
  An occurrence that does not continue the previous match cannot overlap it: it is the match, or
  begins behind it.
\<close>

lemma occurrence_after_match:
  assumes "find_sub ''blob='' (pre @ ''blob='' @ tail) = Some i"
    and "pre = [] \<or> \<not> alias_char (last pre) \<and> last pre \<noteq> CHR ''=''"
  shows "i = length pre \<or> (\<exists>a b. pre = a @ ''blob='' @ b \<and> length a = i \<and> b \<noteq> [] \<and> last b = last pre)"
proof -
  define p where "p = ''blob=''"
  define a where "a = take i (pre @ p @ tail)"
  define c where "c = drop (i + length p) (pre @ p @ tail)"
  have i: "i \<le> length pre" using find_sub_first[of pre p tail] assms(1) by (auto simp: p_def)
  have eq: "pre @ p @ tail = a @ p @ c"
    unfolding a_def c_def by (rule find_sub_SomeD[OF assms(1)[folded p_def]])
  have a: "length a = i" using i by (simp add: a_def)
  have ok: "last pre \<notin> set p" if "pre \<noteq> []" using assms(2) that by (auto simp: alias_char_def p_def eval_simps)
  obtain r where r: "pre = a @ r" "r @ p @ tail = p @ c"
  proof (rule that[of "drop i pre"])
    show pre: "pre = a @ drop i pre" using i by (simp add: a_def)
    show "drop i pre @ p @ tail = p @ c" using eq by (subst (asm) pre) simp
  qed
  show ?thesis
  proof (cases "r = []")
    case True
    then show ?thesis using r a by simp
  next
    case False
    then have last: "last pre = last r" "pre \<noteq> []" using r(1) by auto
    from r(2) consider u where "p = r @ u" | u where "r = p @ u" by (auto simp: append_eq_append_conv2)
    then show ?thesis
    proof cases
      case 1
      then have "last r \<in> set p" using False by simp
      then show ?thesis using ok last by simp
    next
      case (2 u)
      then have "u \<noteq> []" using ok last by (cases "u = []") (auto simp: p_def)
      then show ?thesis using 2 r(1) a by (auto simp: p_def[symmetric])
    qed
  qed
qed

lemma blob_alias_found:
  "rest = pre @ ''blob='' @ alias @ post \<Longrightarrow>
   pre = [] \<or> \<not> alias_char (last pre) \<and> last pre \<noteq> CHR ''='' \<Longrightarrow>
   alias \<noteq> [] \<Longrightarrow> list_all alias_char alias \<Longrightarrow> post = [] \<or> \<not> alias_char (hd post) \<Longrightarrow>
   alias \<in> set (blob_aliases_in rest)"
proof (induction rest arbitrary: pre rule: blob_aliases_in.induct)
  case (1 rest)
  obtain i where i: "find_sub ''blob='' rest = Some i"
    using find_sub_first[of pre "''blob=''" "alias @ post"] "1.prems"(1) by auto
  let ?val = "drop (i + 5) rest"
  let ?found = "takeWhile alias_char ?val"
  have step: "blob_aliases_in rest =
      (if ?found \<noteq> [] then [?found] else []) @ blob_aliases_in (drop (length ?found) ?val)"
    by (subst blob_aliases_in.simps) (simp add: i Let_def)
  consider "i = length pre"
    | a b where "pre = a @ ''blob='' @ b" "length a = i" "b \<noteq> []" "last b = last pre"
    using occurrence_after_match[of pre "alias @ post" i] i "1.prems"(1,2) by auto
  then show ?case
  proof cases
    case 1
    then have "?val = alias @ post" by (simp add: "1.prems"(1))
    moreover have "takeWhile alias_char post = []" using "1.prems"(5) by (cases post) auto
    ultimately have "?found = alias"
      using "1.prems"(4) by (simp add: takeWhile_append2 list_all_iff)
    then show ?thesis using "1.prems"(3) step by simp
  next
    case (2 a b)
    then have v: "?val = b @ ''blob='' @ alias @ post" by (simp add: "1.prems"(1))
    have "pre \<noteq> []" using 2(1) by simp
    then have out: "\<not> alias_char (last b)" "last b \<noteq> CHR ''=''" "last b \<in> set b"
      using "1.prems"(2) last_in_set[OF 2(3)] by (simp_all add: 2(4))
    have w: "drop (length ?found) ?val = dropWhile alias_char b @ ''blob='' @ alias @ post"
      unfolding dropWhile_eq_drop[symmetric] v by (rule dropWhile_append1[of "last b"]) (fact out)+
    have ne: "dropWhile alias_char b \<noteq> []" using out by auto
    have "last (dropWhile alias_char b) = last b"
      using ne by (metis last_appendR takeWhile_dropWhile_id)
    then show ?thesis
      using "1.IH"[OF i refl refl w] "1.prems" out step by simp
  qed
qed

text \<open>
  C39: wherever an argument of a strategy refers to the blob of an imported file, the printed command
  holds the definition of that blob before the arguments, and the arguments themselves follow
  unchanged.
\<close>

theorem printed_command_defines_blobs:
  assumes "i \<in> set imports" and "pre @ ''blob='' @ bi_alias i @ post \<in> set args"
    and "pre = [] \<or> \<not> alias_char (last pre) \<and> last pre \<noteq> CHR ''=''"
    and "bi_alias i \<noteq> []" and "list_all alias_char (bi_alias i)"
    and "post = [] \<or> \<not> alias_char (hd post)"
  shows "\<exists>before after. strategy_command_args args imports = before @ bi_arg i # after @ args"
proof -
  have "bi_alias i \<in> set (blob_aliases_in_args args)"
    using assms(2) blob_alias_found[OF refl assms(3-6)] by (auto simp: blob_aliases_in_args_def)
  then have "bi_arg i \<in> set (map bi_arg (filter (\<lambda>i. bi_alias i \<in> set (blob_aliases_in_args args)) imports))"
    using assms(1) by auto
  then obtain before after where
      "map bi_arg (filter (\<lambda>i. bi_alias i \<in> set (blob_aliases_in_args args)) imports) = before @ bi_arg i # after"
    by (meson split_list)
  then have "strategy_command_args args imports = before @ bi_arg i # after @ args"
    by (simp only: strategy_command_args_def append.assoc append_Cons)
  then show ?thesis by blast
qed

theorem printed_command_defines_blobs_witness:
  "\<exists>before after. strategy_command_args [''--lua-desync=fake:blob=tls_a:repeats=2'']
      [\<lparr> bi_alias = ''tls_a'', bi_path = ''/b/a.bin'', bi_arg = ''--blob=tls_a:@/b/a.bin'' \<rparr>] =
    before @ ''--blob=tls_a:@/b/a.bin'' # after @ [''--lua-desync=fake:blob=tls_a:repeats=2'']"
  using printed_command_defines_blobs
      [of "\<lparr> bi_alias = ''tls_a'', bi_path = ''/b/a.bin'', bi_arg = ''--blob=tls_a:@/b/a.bin'' \<rparr>"
          "[\<lparr> bi_alias = ''tls_a'', bi_path = ''/b/a.bin'', bi_arg = ''--blob=tls_a:@/b/a.bin'' \<rparr>]"
          "''--lua-desync=fake:''" "'':repeats=2''" "[''--lua-desync=fake:blob=tls_a:repeats=2'']"]
  by (simp add: alias_char_def eval_simps)

section \<open>The tables of the report\<close>

interpretation best: comparator compare_best
proof -
  have "comparator (\<lambda>a b. f64_total_cmp (sr_adaptive_score b) (sr_adaptive_score a))"
    by unfold_locales (auto simp: f64_total_cmp_def cmp_of_def split: if_splits)
  then show "comparator compare_best"
    unfolding compare_best_def
    by (intro comparator_then_with comparator_on[OF f64_total.comparator_axioms] comparator_cmp_key)
qed

lemma family_table_wf: "btree_wf (family_table results)"
proof -
  have "btree_wf m \<Longrightarrow> btree_wf (fold count_result results m)" for m
    by (induction results arbitrary: m) (simp_all add: count_result_def Let_def)
  then show ?thesis by (simp add: family_table_def)
qed

definition family_results :: "string \<Rightarrow> strategy_run_result list \<Rightarrow> strategy_run_result list" where
  "family_results family results = filter (\<lambda>r. sn_family (sr_node r) = family) results"

lemma map_of_family_table:
  "map_of (family_table results) family =
     (let own = family_results family results; good = filter succeeded own in
      if own = [] then None
      else Some \<lparr> fc_tested = length own, fc_success = length good, fc_failed = length own - length good \<rparr>)"
proof (induction results rule: rev_induct)
  case (snoc r results)
  have "family_table (results @ [r]) = count_result r (family_table results)"
    by (simp add: family_table_def)
  moreover have "length (filter succeeded (family_results family results)) \<le> length (family_results family results)"
    by simp
  ultimately show ?case
    using snoc by (auto simp: count_result_def map_of_btree_insert[OF family_table_wf] Let_def
        family_results_def succeeded_def Suc_diff_le)
qed (simp add: family_table_def family_results_def)

text \<open>
  C40: the report ranks exactly the successful results, in the order of its comparison, and its table of
  families counts the results, the successes and the failures of each family, a family without a
  result having no line.
\<close>

theorem report_tables:
  "sorted_by compare_best (best_strategies results) \<and>
   mset (best_strategies results) = mset (filter succeeded results) \<and>
   btree_wf (family_table results) \<and>
   map_of (family_table results) family =
     (let own = family_results family results; good = filter succeeded own in
      if own = [] then None
      else Some \<lparr> fc_tested = length own, fc_success = length good, fc_failed = length own - length good \<rparr>)"
  by (intro conjI map_of_family_table family_table_wf)
     (simp_all add: best_strategies_def best.sorted_sort_by)

end
