(* ===== verification/ConfigFields.thy ===== *)
theory ConfigFields
  imports Config
begin

text \<open>
  From the fields that a configuration file gives to the configuration (\<^verbatim>\<open>src/config.rs\<close>): the
  structs with their \<^verbatim>\<open>#[serde(default)]\<close> and \<^verbatim>\<open>#[serde(default = "f")]\<close> attributes. A field
  or a table with such an attribute is an option here, \<open>None\<close> when the file leaves it out. An absent
  table takes the \<^verbatim>\<open>Default\<close> of its struct, a field left out of a present table the function its
  attribute names. Reading the text into these fields is serde's.
\<close>

section \<open>The default functions\<close>

definition default_spawn_grace_ms :: nat where "default_spawn_grace_ms = 100"
definition default_task_channel_size :: nat where "default_task_channel_size = 1024"
definition default_result_channel_size :: nat where "default_result_channel_size = 1024"
definition default_shutdown_timeout_ms :: nat where "default_shutdown_timeout_ms = 3000"

definition default_isolation_mode :: string where "default_isolation_mode = ''source_port''"
definition default_isolation_queue_base :: u16 where "default_isolation_queue_base = 10"
definition default_mark_base :: string where "default_mark_base = ''0x20000000''"
definition default_desync_mark :: string where "default_desync_mark = ''0x40000000''"
definition default_use_nft_vmap :: bool where "default_use_nft_vmap = False"

definition default_user_agent :: string where
  "default_user_agent =
     ''Mozilla/5.0 (Windows NT 10.0; Win64; x64; rv:150.0) Gecko/20100101 Firefox/150.0''"
definition default_http_method :: string where "default_http_method = ''GET''"
definition default_read_mode :: string where "default_read_mode = ''body''"
definition default_min_body_bytes :: nat where "default_min_body_bytes = 1"
definition default_dpi_detection_bytes :: nat where "default_dpi_detection_bytes = 16384"
definition default_verify_transfer_bytes :: nat where "default_verify_transfer_bytes = 32768"
definition default_max_read_bytes :: nat where "default_max_read_bytes = 65536"
definition default_test_count :: nat where "default_test_count = 1"

definition default_dns_mode :: string where "default_dns_mode = ''doh''"
definition default_doh_addr :: string where "default_doh_addr = ''1.1.1.1:443''"
definition default_doh_host :: string where "default_doh_host = ''cloudflare-dns.com''"
definition default_doh_path :: string where "default_doh_path = ''/dns-query''"

definition default_payload_max_per_protocol :: nat where "default_payload_max_per_protocol = 8"
definition default_strategy_values_mode :: string where "default_strategy_values_mode = ''extend''"
definition default_strategy_combination_mode :: string where
  "default_strategy_combination_mode = ''pairwise''"
definition default_search_mode :: string where "default_search_mode = ''signal''"
definition default_round_robin_families_field :: bool where "default_round_robin_families_field = True"
definition default_successful_strategy_limit :: nat where "default_successful_strategy_limit = 10"

lemmas field_defaults = default_spawn_grace_ms_def default_task_channel_size_def
  default_result_channel_size_def default_shutdown_timeout_ms_def default_isolation_mode_def
  default_isolation_queue_base_def default_mark_base_def default_desync_mark_def default_use_nft_vmap_def
  default_user_agent_def default_http_method_def default_read_mode_def default_min_body_bytes_def
  default_dpi_detection_bytes_def default_verify_transfer_bytes_def default_max_read_bytes_def
  default_test_count_def default_dns_mode_def default_doh_addr_def default_doh_host_def default_doh_path_def
  default_payload_max_per_protocol_def default_strategy_values_mode_def
  default_strategy_combination_mode_def default_search_mode_def default_round_robin_families_field_def
  default_successful_strategy_limit_def

definition given :: "'a option \<Rightarrow> 'a \<Rightarrow> 'a" where
  "given v d = (case v of Some x \<Rightarrow> x | None \<Rightarrow> d)"

lemma given_simps [simp]: "given (Some x) d = x" "given None d = d"
  by (simp_all add: given_def)

text \<open>A table: absent, or with the fields it has.\<close>

definition table_of :: "('f \<Rightarrow> 'c) \<Rightarrow> 'c \<Rightarrow> 'f option \<Rightarrow> 'c" where
  "table_of f d t = (case t of Some fs \<Rightarrow> f fs | None \<Rightarrow> d)"

lemma table_of_simps [simp]: "table_of f d None = d" "table_of f d (Some t) = f t"
  by (simp_all add: table_of_def)

section \<open>The structs\<close>

record workers_fields =
  wf_count :: nat
  wf_spawn_grace_ms :: "nat option"
  wf_task_channel_size :: "nat option"
  wf_result_channel_size :: "nat option"
  wf_shutdown_timeout_ms :: "nat option"

definition workers_config_of :: "workers_fields \<Rightarrow> workers_config" where
  "workers_config_of f =
     \<lparr> wk_count = wf_count f,
       wk_spawn_grace_ms = given (wf_spawn_grace_ms f) default_spawn_grace_ms,
       wk_task_channel_size = given (wf_task_channel_size f) default_task_channel_size,
       wk_result_channel_size = given (wf_result_channel_size f) default_result_channel_size,
       wk_shutdown_timeout_ms = given (wf_shutdown_timeout_ms f) default_shutdown_timeout_ms \<rparr>"

record isolation_fields =
  if_mode :: "string option"
  if_queue_base :: "u16 option"
  if_mark_base :: "string option"
  if_desync_mark :: "string option"
  if_use_nft_vmap :: "bool option"

definition isolation_config_of :: "isolation_fields \<Rightarrow> isolation_config" where
  "isolation_config_of f =
     \<lparr> is_mode = given (if_mode f) default_isolation_mode,
       is_queue_base = given (if_queue_base f) default_isolation_queue_base,
       is_mark_base = given (if_mark_base f) default_mark_base,
       is_desync_mark = given (if_desync_mark f) default_desync_mark,
       is_use_nft_vmap = given (if_use_nft_vmap f) default_use_nft_vmap \<rparr>"

record dns_fields =
  df_mode :: "string option"
  df_doh_addr :: "string option"
  df_doh_addrs :: "string list option"
  df_doh_host :: "string option"
  df_doh_path :: "string option"

definition dns_config_of :: "dns_fields \<Rightarrow> dns_config" where
  "dns_config_of f =
     \<lparr> dn_mode = given (df_mode f) default_dns_mode,
       dn_doh_addr = given (df_doh_addr f) default_doh_addr,
       dn_doh_addrs = given (df_doh_addrs f) [],
       dn_doh_host = given (df_doh_host f) default_doh_host,
       dn_doh_path = given (df_doh_path f) default_doh_path \<rparr>"

record protocol_fields =
  pf_http :: "bool option"
  pf_tls12 :: "bool option"
  pf_tls13 :: "bool option"
  pf_quic :: "bool option"
  pf_preferred :: "string option"

definition protocol_probe_config_of :: "protocol_fields \<Rightarrow> protocol_probe_config" where
  "protocol_probe_config_of f =
     protocol_probe_config_fields (pf_http f) (pf_tls12 f) (pf_tls13 f) (pf_quic f) (pf_preferred f)"

record probe_fields =
  bf_backend :: string
  bf_connect_timeout_ms :: nat
  bf_tls_timeout_ms :: nat
  bf_first_byte_timeout_ms :: nat
  bf_total_timeout_ms :: nat
  bf_max_read_bytes :: "nat option"
  bf_user_agent :: "string option"
  bf_method :: "string option"
  bf_read_mode :: "string option"
  bf_min_body_bytes :: "nat option"
  bf_dpi_detection_bytes :: "nat option"
  bf_verify_transfer_bytes :: "nat option"
  bf_base_domains :: "string list option"
  bf_test_count :: "nat option"
  bf_protocols :: "protocol_fields option"
  bf_dns :: "dns_fields option"

definition probe_config_of :: "probe_fields \<Rightarrow> probe_config" where
  "probe_config_of f =
     \<lparr> pc_backend = bf_backend f, pc_connect_timeout_ms = bf_connect_timeout_ms f,
       pc_tls_timeout_ms = bf_tls_timeout_ms f, pc_first_byte_timeout_ms = bf_first_byte_timeout_ms f,
       pc_total_timeout_ms = bf_total_timeout_ms f,
       pc_max_read_bytes = given (bf_max_read_bytes f) default_max_read_bytes,
       pc_user_agent = given (bf_user_agent f) default_user_agent,
       pc_method = given (bf_method f) default_http_method,
       pc_read_mode = given (bf_read_mode f) default_read_mode,
       pc_min_body_bytes = given (bf_min_body_bytes f) default_min_body_bytes,
       pc_dpi_detection_bytes = given (bf_dpi_detection_bytes f) default_dpi_detection_bytes,
       pc_verify_transfer_bytes = given (bf_verify_transfer_bytes f) default_verify_transfer_bytes,
       pc_base_domains = given (bf_base_domains f) [],
       pc_test_count = given (bf_test_count f) default_test_count,
       pc_protocols = table_of protocol_probe_config_of protocol_probe_config_default (bf_protocols f),
       pc_dns = table_of dns_config_of dns_config_default (bf_dns f) \<rparr>"

record nfqws_fields =
  nf_binary :: path
  nf_library_paths :: "path list option"
  nf_base_args :: "string list option"
  nf_start_grace_ms :: nat
  nf_stop_timeout_ms :: nat
  nf_log_stderr :: bool
  nf_log_stdout :: bool

definition nfqws_config_of :: "nfqws_fields \<Rightarrow> nfqws_config" where
  "nfqws_config_of f =
     \<lparr> nq_binary = nf_binary f, nq_library_paths = given (nf_library_paths f) [],
       nq_base_args = given (nf_base_args f) [], nq_start_grace_ms = nf_start_grace_ms f,
       nq_stop_timeout_ms = nf_stop_timeout_ms f, nq_log_stderr = nf_log_stderr f,
       nq_log_stdout = nf_log_stdout f \<rparr>"

record blob_fields =
  xf_auto_load :: "bool option"
  xf_base_dir :: "path option"

definition blob_config_of :: "blob_fields \<Rightarrow> blob_config" where
  "blob_config_of f = \<lparr> bl_auto_load = given (xf_auto_load f) False, bl_base_dir = xf_base_dir f \<rparr>"

record payload_protocol_fields =
  yf_builtin :: "string list option"
  yf_files :: "path list option"
  yf_aliases :: "(string, path) btree_map option"

definition payload_protocol_config_of :: "payload_protocol_fields \<Rightarrow> payload_protocol_config" where
  "payload_protocol_config_of f =
     \<lparr> py_builtin = given (yf_builtin f) [], py_files = given (yf_files f) [],
       py_aliases = given (yf_aliases f) [] \<rparr>"

record payload_fields =
  lf_max_per_protocol :: "nat option"
  lf_http :: "payload_protocol_fields option"
  lf_tls :: "payload_protocol_fields option"
  lf_quic :: "payload_protocol_fields option"

definition payload_config_of :: "payload_fields \<Rightarrow> payload_config" where
  "payload_config_of f =
     (let protocol = (\<lambda>builtin. table_of payload_protocol_config_of (default_payload_protocol_config builtin))
      in \<lparr> pl_max_per_protocol = given (lf_max_per_protocol f) default_payload_max_per_protocol,
           pl_http = protocol ''fake_default_http'' (lf_http f),
           pl_tls = protocol ''fake_default_tls'' (lf_tls f),
           pl_quic = protocol ''fake_default_quic'' (lf_quic f) \<rparr>)"

record strategy_values_fields =
  vf_mode :: "string option"
  vf_http :: "value_map option"
  vf_tls :: "value_map option"
  vf_quic :: "value_map option"

definition strategy_values_config_of :: "strategy_values_fields \<Rightarrow> strategy_values_config" where
  "strategy_values_config_of f =
     \<lparr> sv_mode = given (vf_mode f) default_strategy_values_mode, sv_http = given (vf_http f) [],
       sv_tls = given (vf_tls f) [], sv_quic = given (vf_quic f) [] \<rparr>"

record allowed_fields =
  af_protocols :: "string list option"
  af_families :: "string list option"

definition allowed_combination_of :: "allowed_fields \<Rightarrow> allowed_combination" where
  "allowed_combination_of f =
     \<lparr> al_protocols = given (af_protocols f) [], al_families = given (af_families f) [] \<rparr>"

record combination_fields =
  cf_enabled :: "bool option"
  cf_require_different_family :: "bool option"
  cf_allow_same_action :: "bool option"
  cf_mode :: "string option"
  cf_allowed :: "allowed_fields list option"

definition strategy_combination_config_of :: "combination_fields \<Rightarrow> strategy_combination_config" where
  "strategy_combination_config_of f =
     \<lparr> sc_enabled = given (cf_enabled f) False,
       sc_require_different_family = given (cf_require_different_family f) True,
       sc_allow_same_action = given (cf_allow_same_action f) False,
       sc_mode = given (cf_mode f) default_strategy_combination_mode,
       sc_allowed = map allowed_combination_of (given (cf_allowed f) []) \<rparr>"

record strategies_fields =
  tf_file :: path
  tf_transition_matrix :: "path option"
  tf_successful_strategy_limit :: "nat option"
  tf_search_mode :: "string option"
  tf_round_robin_families :: "bool option"

definition strategies_config_of :: "strategies_fields \<Rightarrow> strategies_config" where
  "strategies_config_of f =
     \<lparr> ss_file = tf_file f, ss_transition_matrix = tf_transition_matrix f,
       ss_successful_strategy_limit = given (tf_successful_strategy_limit f) default_successful_strategy_limit,
       ss_search_mode = given (tf_search_mode f) default_search_mode,
       ss_round_robin_families = given (tf_round_robin_families f) default_round_robin_families_field \<rparr>"

text \<open>The default of \<^verbatim>\<open>BayesConfig\<close>, whose one field has no default of its own.\<close>

definition bayes_config_default :: path where
  "bayes_config_default = ''config/standart/bayesian_priors.yaml''"

record app_fields =
  gf_workers :: workers_fields
  gf_source_port :: source_port_config
  gf_probe :: probe_fields
  gf_nfqws :: nfqws_fields
  gf_firewall :: firewall_config
  gf_debug :: debug_config
  gf_isolation :: "isolation_fields option"
  gf_strategies :: "strategies_fields option"
  gf_bayes_state_file :: "path option"
  gf_blobs :: "blob_fields option"
  gf_payloads :: "payload_fields option"
  gf_strategy_values :: "strategy_values_fields option"
  gf_strategy_combinations :: "combination_fields option"

definition app_config_of :: "app_fields \<Rightarrow> app_config" where
  "app_config_of f =
     \<lparr> ac_workers = workers_config_of (gf_workers f), ac_source_port = gf_source_port f,
       ac_probe = probe_config_of (gf_probe f), ac_nfqws = nfqws_config_of (gf_nfqws f),
       ac_firewall = gf_firewall f, ac_debug = gf_debug f,
       ac_isolation = table_of isolation_config_of isolation_config_default (gf_isolation f),
       ac_strategies = table_of strategies_config_of strategies_config_default (gf_strategies f),
       ac_bayes_state_file = given (gf_bayes_state_file f) bayes_config_default,
       ac_blobs = table_of blob_config_of blob_config_default (gf_blobs f),
       ac_payloads = table_of payload_config_of payload_config_default (gf_payloads f),
       ac_strategy_values =
         table_of strategy_values_config_of strategy_values_config_default (gf_strategy_values f),
       ac_strategy_combinations =
         table_of strategy_combination_config_of strategy_combination_config_default
           (gf_strategy_combinations f) \<rparr>"

text \<open>A parser of \<^verbatim>\<open>AppConfig\<close>, from the serde parser of the fields.\<close>

definition config_parser :: "(string \<Rightarrow> string + app_fields) \<Rightarrow> string \<Rightarrow> string + app_config" where
  "config_parser parse text = res_bind (parse text) (\<lambda>fs. Inr (app_config_of fs))"

lemmas config_of_defs = workers_config_of_def isolation_config_of_def dns_config_of_def
  protocol_probe_config_of_def probe_config_of_def nfqws_config_of_def blob_config_of_def
  payload_protocol_config_of_def payload_config_of_def strategy_values_config_of_def
  allowed_combination_of_def strategy_combination_config_of_def strategies_config_of_def app_config_of_def

section \<open>What is written is what is configured\<close>

text \<open>The file that gives every field and every table.\<close>

definition protocol_fields_of :: "protocol_probe_config \<Rightarrow> protocol_fields" where
  "protocol_fields_of c =
     \<lparr> pf_http = Some (pp_http c), pf_tls12 = Some (pp_tls12 c), pf_tls13 = Some (pp_tls13 c),
       pf_quic = Some (pp_quic c), pf_preferred = Some (pp_preferred c) \<rparr>"

definition dns_fields_of :: "dns_config \<Rightarrow> dns_fields" where
  "dns_fields_of c =
     \<lparr> df_mode = Some (dn_mode c), df_doh_addr = Some (dn_doh_addr c), df_doh_addrs = Some (dn_doh_addrs c),
       df_doh_host = Some (dn_doh_host c), df_doh_path = Some (dn_doh_path c) \<rparr>"

definition probe_fields_of :: "probe_config \<Rightarrow> probe_fields" where
  "probe_fields_of c =
     \<lparr> bf_backend = pc_backend c, bf_connect_timeout_ms = pc_connect_timeout_ms c,
       bf_tls_timeout_ms = pc_tls_timeout_ms c, bf_first_byte_timeout_ms = pc_first_byte_timeout_ms c,
       bf_total_timeout_ms = pc_total_timeout_ms c, bf_max_read_bytes = Some (pc_max_read_bytes c),
       bf_user_agent = Some (pc_user_agent c), bf_method = Some (pc_method c),
       bf_read_mode = Some (pc_read_mode c), bf_min_body_bytes = Some (pc_min_body_bytes c),
       bf_dpi_detection_bytes = Some (pc_dpi_detection_bytes c),
       bf_verify_transfer_bytes = Some (pc_verify_transfer_bytes c),
       bf_base_domains = Some (pc_base_domains c), bf_test_count = Some (pc_test_count c),
       bf_protocols = Some (protocol_fields_of (pc_protocols c)), bf_dns = Some (dns_fields_of (pc_dns c)) \<rparr>"

definition payload_protocol_fields_of :: "payload_protocol_config \<Rightarrow> payload_protocol_fields" where
  "payload_protocol_fields_of c =
     \<lparr> yf_builtin = Some (py_builtin c), yf_files = Some (py_files c), yf_aliases = Some (py_aliases c) \<rparr>"

definition combination_fields_of :: "strategy_combination_config \<Rightarrow> combination_fields" where
  "combination_fields_of c =
     \<lparr> cf_enabled = Some (sc_enabled c), cf_require_different_family = Some (sc_require_different_family c),
       cf_allow_same_action = Some (sc_allow_same_action c), cf_mode = Some (sc_mode c),
       cf_allowed = Some (map (\<lambda>a. \<lparr> af_protocols = Some (al_protocols a),
         af_families = Some (al_families a) \<rparr>) (sc_allowed c)) \<rparr>"

definition app_fields_of :: "app_config \<Rightarrow> app_fields" where
  "app_fields_of c =
     (let w = ac_workers c; i = ac_isolation c; s = ac_strategies c; p = ac_payloads c;
          v = ac_strategy_values c; q = ac_nfqws c in
      \<lparr> gf_workers =
          \<lparr> wf_count = wk_count w, wf_spawn_grace_ms = Some (wk_spawn_grace_ms w),
            wf_task_channel_size = Some (wk_task_channel_size w),
            wf_result_channel_size = Some (wk_result_channel_size w),
            wf_shutdown_timeout_ms = Some (wk_shutdown_timeout_ms w) \<rparr>,
        gf_source_port = ac_source_port c, gf_probe = probe_fields_of (ac_probe c),
        gf_nfqws =
          \<lparr> nf_binary = nq_binary q, nf_library_paths = Some (nq_library_paths q),
            nf_base_args = Some (nq_base_args q), nf_start_grace_ms = nq_start_grace_ms q,
            nf_stop_timeout_ms = nq_stop_timeout_ms q, nf_log_stderr = nq_log_stderr q,
            nf_log_stdout = nq_log_stdout q \<rparr>,
        gf_firewall = ac_firewall c, gf_debug = ac_debug c,
        gf_isolation = Some
          \<lparr> if_mode = Some (is_mode i), if_queue_base = Some (is_queue_base i),
            if_mark_base = Some (is_mark_base i), if_desync_mark = Some (is_desync_mark i),
            if_use_nft_vmap = Some (is_use_nft_vmap i) \<rparr>,
        gf_strategies = Some
          \<lparr> tf_file = ss_file s, tf_transition_matrix = ss_transition_matrix s,
            tf_successful_strategy_limit = Some (ss_successful_strategy_limit s),
            tf_search_mode = Some (ss_search_mode s),
            tf_round_robin_families = Some (ss_round_robin_families s) \<rparr>,
        gf_bayes_state_file = Some (ac_bayes_state_file c),
        gf_blobs = Some
          \<lparr> xf_auto_load = Some (bl_auto_load (ac_blobs c)), xf_base_dir = bl_base_dir (ac_blobs c) \<rparr>,
        gf_payloads = Some
          \<lparr> lf_max_per_protocol = Some (pl_max_per_protocol p),
            lf_http = Some (payload_protocol_fields_of (pl_http p)),
            lf_tls = Some (payload_protocol_fields_of (pl_tls p)),
            lf_quic = Some (payload_protocol_fields_of (pl_quic p)) \<rparr>,
        gf_strategy_values = Some
          \<lparr> vf_mode = Some (sv_mode v), vf_http = Some (sv_http v), vf_tls = Some (sv_tls v),
            vf_quic = Some (sv_quic v) \<rparr>,
        gf_strategy_combinations = Some (combination_fields_of (ac_strategy_combinations c)) \<rparr>)"

lemma protocol_fields_given [simp]: "protocol_probe_config_of (protocol_fields_of c) = c"
  by (simp add: protocol_fields_of_def protocol_probe_config_of_def protocol_probe_config_fields_def)

lemma dns_fields_given [simp]: "dns_config_of (dns_fields_of c) = c"
  by (simp add: dns_fields_of_def dns_config_of_def)

lemma probe_fields_given [simp]: "probe_config_of (probe_fields_of c) = c"
  by (simp add: probe_fields_of_def probe_config_of_def)

lemma payload_protocol_fields_given [simp]:
  "payload_protocol_config_of (payload_protocol_fields_of c) = c"
  by (simp add: payload_protocol_fields_of_def payload_protocol_config_of_def)

lemma combination_fields_given [simp]: "strategy_combination_config_of (combination_fields_of c) = c"
  by (simp add: combination_fields_of_def strategy_combination_config_of_def allowed_combination_of_def
      comp_def map_idI)

text \<open>A file that gives everything is taken as it is.\<close>

lemma app_fields_given: "app_config_of (app_fields_of c) = c"
  by (simp add: app_fields_of_def app_config_of_def Let_def workers_config_of_def isolation_config_of_def
      nfqws_config_of_def blob_config_of_def payload_config_of_def strategy_values_config_of_def
      strategies_config_of_def)

section \<open>Absent and empty tables\<close>

abbreviation no_protocol_fields :: protocol_fields where
  "no_protocol_fields \<equiv> \<lparr> pf_http = None, pf_tls12 = None, pf_tls13 = None, pf_quic = None,
     pf_preferred = None \<rparr>"

text \<open>
  An empty table stands for the same as an absent one, for every table whose fields may all be left
  out, except \<^verbatim>\<open>[probe.protocols]\<close>, where an empty table enables TLS 1.3 and an absent one
  does not.
\<close>

lemma empty_tables:
  "isolation_config_of \<lparr> if_mode = None, if_queue_base = None, if_mark_base = None,
     if_desync_mark = None, if_use_nft_vmap = None \<rparr> = isolation_config_default"
  "dns_config_of \<lparr> df_mode = None, df_doh_addr = None, df_doh_addrs = None, df_doh_host = None,
     df_doh_path = None \<rparr> = dns_config_default"
  "blob_config_of \<lparr> xf_auto_load = None, xf_base_dir = None \<rparr> = blob_config_default"
  "payload_config_of \<lparr> lf_max_per_protocol = None, lf_http = None, lf_tls = None, lf_quic = None \<rparr> =
     payload_config_default"
  "strategy_values_config_of \<lparr> vf_mode = None, vf_http = None, vf_tls = None, vf_quic = None \<rparr> =
     strategy_values_config_default"
  "strategy_combination_config_of \<lparr> cf_enabled = None, cf_require_different_family = None,
     cf_allow_same_action = None, cf_mode = None, cf_allowed = None \<rparr> = strategy_combination_config_default"
  "protocol_probe_config_of no_protocol_fields = protocol_probe_config_default\<lparr> pp_tls13 := True \<rparr>"
  by (simp_all add: config_of_defs field_defaults isolation_config_default_def dns_config_default_def
      blob_config_default_def payload_config_default_def strategy_values_config_default_def
      strategy_combination_config_default_def protocol_probe_config_default_def
      protocol_probe_config_fields_def Let_def)

section \<open>The shortest valid file\<close>

text \<open>A file with the required fields and tables only.\<close>

definition required_fields :: "nat \<Rightarrow> source_port_config \<Rightarrow> string \<Rightarrow> nat \<times> nat \<times> nat \<times> nat
    \<Rightarrow> path \<times> nat \<times> nat \<times> bool \<times> bool \<Rightarrow> firewall_config \<Rightarrow> debug_config \<Rightarrow> app_fields" where
  "required_fields n source_port backend timeouts nfqws firewall debug =
     (case (timeouts, nfqws) of ((connect, tls, first_byte, overall), (binary, grace, stop, err, out)) \<Rightarrow>
      \<lparr> gf_workers = \<lparr> wf_count = n, wf_spawn_grace_ms = None, wf_task_channel_size = None,
          wf_result_channel_size = None, wf_shutdown_timeout_ms = None \<rparr>,
        gf_source_port = source_port,
        gf_probe = \<lparr> bf_backend = backend, bf_connect_timeout_ms = connect, bf_tls_timeout_ms = tls,
          bf_first_byte_timeout_ms = first_byte, bf_total_timeout_ms = overall, bf_max_read_bytes = None,
          bf_user_agent = None, bf_method = None, bf_read_mode = None, bf_min_body_bytes = None,
          bf_dpi_detection_bytes = None, bf_verify_transfer_bytes = None, bf_base_domains = None,
          bf_test_count = None, bf_protocols = None, bf_dns = None \<rparr>,
        gf_nfqws = \<lparr> nf_binary = binary, nf_library_paths = None, nf_base_args = None,
          nf_start_grace_ms = grace, nf_stop_timeout_ms = stop, nf_log_stderr = err, nf_log_stdout = out \<rparr>,
        gf_firewall = firewall, gf_debug = debug, gf_isolation = None, gf_strategies = None,
        gf_bayes_state_file = None, gf_blobs = None, gf_payloads = None, gf_strategy_values = None,
        gf_strategy_combinations = None \<rparr>)"

lemma default_sections_ok:
  assumes "ac_payloads c = payload_config_default" and "ac_blobs c = blob_config_default"
  shows "validate_payloads c = Inr ()"
    and "validate_strategy_values strategy_values_config_default = Inr ()"
    and "validate_strategy_combinations strategy_combination_config_default = Inr ()"
  using assms
  by (simp_all add: validate_payloads_def validate_payload_protocol_aliases_def
      validate_payload_protocol_file_limit_def payload_config_default_def default_payload_protocol_config_def
      blob_config_default_def Let_def btree_keys_def validate_strategy_values_def validate_strategy_value_map_def position_def
      validate_strategy_combinations_def strategy_values_config_default_def
      strategy_combination_config_default_def)

text \<open>
  C22: The defaults fit together: a file with the required fields only is valid exactly when those fields
  are, whatever else the validator checks.
\<close>

theorem defaults_valid:
  "validate (app_config_of (required_fields n source_port backend timeouts nfqws firewall debug)) = Inr ()
   \<longleftrightarrow> n \<noteq> 0 \<and> 10 + (of_nat (n - 1) :: u32) \<le> 65535 \<and> sp_mode source_port = ''os_assigned'' \<and>
     backend \<in> {''native'', ''curl''} \<and> fw_backend firewall \<in> {''nftables'', ''iptables''} \<and>
     fw_hook firewall \<in> {''output'', ''postrouting''} \<and>
     \<not> (dbg_keep_rules_on_failure debug \<and> fw_cleanup_on_exit firewall)"
proof -
  let ?c = "app_config_of (required_fields n source_port backend timeouts nfqws firewall debug)"
  obtain connect tls first_byte overall where t: "timeouts = (connect, tls, first_byte, overall)"
    by (cases timeouts)
  obtain binary grace stop err out where q: "nfqws = (binary, grace, stop, err, out)" by (cases nfqws)
  note f = t q required_fields_def app_config_of_def workers_config_of_def probe_config_of_def field_defaults
  have iso: "validate_isolation ?c = Inr ()"
    by (simp add: f validate_isolation_def isolation_config_default_def isolation_mode_parse_def lift_err_def)
  have "ac_payloads ?c = payload_config_default" "ac_blobs ?c = blob_config_default"
    by (simp_all add: f)
  note sections = default_sections_ok[OF this]
  have rest: "ac_strategy_values ?c = strategy_values_config_default"
    "ac_strategy_combinations ?c = strategy_combination_config_default"
    by (simp_all add: f)
  have if_Inl: "(if P then Inl e else r) = Inr x \<longleftrightarrow> \<not> P \<and> r = Inr x" for P e x and r :: "config_error + unit"
    by simp
  have parts: "ac_workers ?c = \<lparr> wk_count = n, wk_spawn_grace_ms = 100, wk_task_channel_size = 1024,
      wk_result_channel_size = 1024, wk_shutdown_timeout_ms = 3000 \<rparr>"
    "ac_source_port ?c = source_port" "ac_firewall ?c = firewall" "ac_debug ?c = debug"
    "ac_isolation ?c = isolation_config_default" "ac_strategies ?c = strategies_config_default"
    "pc_backend (ac_probe ?c) = backend" "pc_method (ac_probe ?c) = ''GET''" "pc_read_mode (ac_probe ?c) = ''body''"
    "pc_max_read_bytes (ac_probe ?c) = 65536" "pc_min_body_bytes (ac_probe ?c) = 1" "pc_test_count (ac_probe ?c) = 1"
    "pc_dns (ac_probe ?c) = dns_config_default" "pc_protocols (ac_probe ?c) = protocol_probe_config_default"
    by (simp_all add: f)
  have methods: "\<exists>x. method_parse_config ''GET'' = Inr x" "\<exists>x. read_mode_parse_config ''body'' = Inr x"
    by (simp_all add: method_parse_config_def read_mode_parse_config_def to_ascii_uppercase_def
        to_ascii_lowercase_def upper_char_def lower_char_def eval_simps)
  then show ?thesis
    using doh_default_ok
    by (auto simp: validate_def Let_def iso sections rest parts if_Inl lift_err_def preferred_enabled_def
        effective_doh_addrs_def dns_config_default_def protocol_probe_config_default_def
        isolation_config_default_def strategies_config_default_def starts_with_eval not_less)
qed

end
