(* ===== verification/Interleaving.thy ===== *)
theory Interleaving
  imports StrategyTests
begin

text \<open>
  The workers of a pool run at the same time (\<^verbatim>\<open>src/worker_pool.rs\<close>), so the events of their runs
  interleave in one log. A schedule is the list of all events, each with the number of its worker;
  a worker's own log is its part of the schedule, and names the processes of that worker. The
  answers that a worker gets may depend on everything the others have done: they are a different
  arbitrary function of its own log for every worker.
\<close>

section \<open>Schedules\<close>

type_synonym schedule = "(nat \<times> event) list"

definition worker_log :: "nat \<Rightarrow> schedule \<Rightarrow> log" where
  "worker_log w zs = map snd (filter (\<lambda>(v, _). v = w) zs)"

lemma worker_log_simps [simp]:
  "worker_log w [] = []" "worker_log w (xs @ ys) = worker_log w xs @ worker_log w ys"
  "worker_log w [(v, e)] = (if v = w then [e] else [])"
  by (simp_all add: worker_log_def)

text \<open>What happens in a worker's log happens at a moment of the schedule.\<close>

lemma worker_log_split:
  assumes "worker_log w zs = b @ e # a"
  obtains before after where "zs = before @ (w, e) # after" "worker_log w before = b"
  using assms
proof (induction zs arbitrary: b thesis)
  case (Cons z zs)
  show thesis
  proof (cases "fst z = w \<and> b = []")
    case True
    then have "z = (w, e)" using Cons.prems(2) by (cases z) (simp add: worker_log_def)
    then show thesis using Cons.prems(1)[of "[]" zs] True by simp
  next
    case False
    define b' where "b' = (if fst z = w then tl b else b)"
    have "worker_log w zs = b' @ e # a" "b = (if fst z = w then [snd z] else []) @ b'"
      using Cons.prems(2) False by (cases z; cases b; auto simp: worker_log_def b'_def)+
    then obtain before after where "zs = before @ (w, e) # after" "worker_log w before = b'"
      using Cons.IH by blast
    moreover have "worker_log w (z # before) = (if fst z = w then [snd z] else []) @ worker_log w before"
      for before by (auto simp: worker_log_def)
    ultimately show thesis using Cons.prems(1)[of "z # before" after] \<open>b = _\<close> by simp
  qed
qed simp

text \<open>
  What a worker of the pool may have done: runs, one after another, each from the log the last one
  left. A worker in the middle of a run has a prefix of such a log.
\<close>

inductive worker_history :: "os \<Rightarrow> worker_runtime \<Rightarrow> log \<Rightarrow> bool" for os rt where
  idle: "worker_history os rt []"
| run: "worker_history os rt l \<Longrightarrow>
    run_worker_task (runtime_services os rt) rt env task a l = Some (r, l') \<Longrightarrow> worker_history os rt l'"

inductive_cases worker_history_cases: "worker_history os rt l"

lemma loop_history:
  assumes "strategy_tests_loop (\<lambda>task. run_strategy_task (runtime_services os rt) rt env task a)
      node timeouts targets st l = Some (st', l')" and "worker_history os rt l"
  shows "worker_history os rt l'"
  using assms
proof (induction targets arbitrary: st l)
  case (Cons target targets)
  obtain attempts lr ff where st: "st = (attempts, lr, ff)" by (cases st)
  obtain r l1 where run: "run_strategy_task (runtime_services os rt) rt env
      (strategy_task_for node timeouts target) a l = Some (r, l1)"
    using Cons.prems(1) by (auto simp: st split: option.splits)
  then have "worker_history os rt l1"
    using worker_history.run[OF Cons.prems(2)] by (auto simp: run_strategy_task_def)
  then show ?case using Cons.IH Cons.prems(1) run by (auto simp: st Let_def)
qed simp

text \<open>The runs of a strategy against all its targets are such a history.\<close>

lemma strategy_tests_history:
  assumes "run_strategy_tests (runtime_services os rt) rt env node a targets timeouts l = Some (res, l')"
    and "worker_history os rt l"
  shows "worker_history os rt l'"
  using assms loop_history[OF _ assms(2)]
  by (fastforce simp: run_strategy_tests_def split: option.splits)

section \<open>A ledger shared by workers\<close>

text \<open>
  What the events do to a multiset that all workers share: an event that takes entries away does so
  whatever else is in the multiset, as long as the entries are there.
\<close>

locale ledger =
  fixes change :: "event \<Rightarrow> 'k multiset \<Rightarrow> 'k multiset" and taken :: "event \<Rightarrow> 'k multiset"
  assumes beside: "taken e \<subseteq># M \<Longrightarrow> change e (N + M) = N + change e M"
begin

text \<open>When every worker takes away only what it holds, the others keep what they hold.\<close>

lemma shares:
  assumes "\<And>w b e a. w < n \<Longrightarrow> worker_log w zs = b @ e # a \<Longrightarrow> taken e \<subseteq># fold change b {#}"
    and "fst ` set zs \<subseteq> {..< n}"
  shows "fold change (map snd zs) M = M + (\<Sum>w < n. fold change (worker_log w zs) {#})"
  using assms
proof (induction zs rule: rev_induct)
  case (snoc z zs)
  obtain w e where z: "z = (w, e)" and w: "w < n" using snoc.prems(2) by (cases z) auto
  let ?held = "\<lambda>v. fold change (worker_log v zs) {#}"
  let ?others = "\<Sum>v \<in> {..< n} - {w}. ?held v"
  have split: "(\<Sum>v < n. f v) = f w + (\<Sum>v \<in> {..< n} - {w}. f v)" for f :: "nat \<Rightarrow> 'k multiset"
    using w by (intro sum.remove) auto
  have "fold change (map snd zs) M = M + (\<Sum>v < n. ?held v)"
    using snoc.prems by (intro snoc.IH) (auto simp: z)
  then have before: "fold change (map snd zs) M = (M + ?others) + ?held w"
    by (simp only: split[of ?held] ac_simps)
  have "taken e \<subseteq># ?held w" using snoc.prems(1)[OF w, of "worker_log w zs" e "[]"] by (simp add: z)
  then have "fold change (map snd (zs @ [z])) M = (M + ?others) + change e (?held w)"
    by (simp add: z before beside)
  moreover have "(\<Sum>v \<in> {..< n} - {w}. fold change (worker_log v (zs @ [z])) {#}) = ?others"
    by (intro sum.cong) (auto simp: z)
  moreover have "fold change (worker_log w (zs @ [z])) {#} = change e (?held w)" by (simp add: z)
  ultimately show ?case
    by (simp only: split[of "\<lambda>v. fold change (worker_log v (zs @ [z])) {#}"] ac_simps)
qed simp

end

text \<open>The rules of iptables are such a ledger.\<close>

definition ip_rules_taken :: "event \<Rightarrow> (string \<times> string list) multiset" where
  "ip_rules_taken e =
     (case e of
        Ran prog args (Inr out) \<Rightarrow>
          if co_success out \<and> (prog = ''iptables'' \<or> prog = ''ip6tables'') \<and> 2 < length args \<and>
             args ! 2 = ''-D'' then {#(prog, args[2 := ''-A''])#} else {#}
      | _ \<Rightarrow> {#})"

definition ip_rules_added :: "event \<Rightarrow> (string \<times> string list) multiset" where
  "ip_rules_added e =
     (case e of
        Ran prog args (Inr out) \<Rightarrow>
          if co_success out \<and> (prog = ''iptables'' \<or> prog = ''ip6tables'') \<and> 2 < length args \<and>
             args ! 2 = ''-A'' then {#(prog, args)#} else {#}
      | _ \<Rightarrow> {#})"

lemma ip_rule_change_split: "ip_rule_change e rules = rules - ip_rules_taken e + ip_rules_added e"
proof (cases e)
  case (Ran prog args r)
  then show ?thesis
    by (cases r) (auto simp: ip_rule_change_def ip_rules_taken_def ip_rules_added_def)
qed (simp_all add: ip_rule_change_def ip_rules_taken_def ip_rules_added_def)

interpretation ip_ledger: ledger ip_rule_change ip_rules_taken
  by unfold_locales (simp only: ip_rule_change_split multiset_diff_union_assoc add.assoc)

section \<open>A worker deletes only its own rules\<close>

definition takes_own :: "log \<Rightarrow> bool" where
  "takes_own l \<longleftrightarrow> (\<forall>b e a. l = b @ e # a \<longrightarrow> ip_rules_taken e \<subseteq># ip_rules b)"

lemma takes_own_snoc: "takes_own (l @ [e]) \<longleftrightarrow> takes_own l \<and> ip_rules_taken e \<subseteq># ip_rules l"
proof
  assume own: "takes_own (l @ [e])"
  then show "takes_own l \<and> ip_rules_taken e \<subseteq># ip_rules l"
    unfolding takes_own_def by (metis append.assoc append_Cons)
next
  assume own: "takes_own l \<and> ip_rules_taken e \<subseteq># ip_rules l"
  show "takes_own (l @ [e])"
    unfolding takes_own_def
  proof (intro allI impI)
    fix b f a assume "l @ [e] = b @ f # a"
    then have "a = [] \<and> b = l \<and> f = e \<or> (\<exists>a'. l = b @ f # a')"
      by (cases a rule: rev_cases) auto
    then show "ip_rules_taken f \<subseteq># ip_rules b" using own unfolding takes_own_def by blast
  qed
qed

lemma takes_own_snoc2:
  "takes_own (l @ [e, f]) \<longleftrightarrow>
     takes_own l \<and> ip_rules_taken e \<subseteq># ip_rules l \<and> ip_rules_taken f \<subseteq># ip_rules (l @ [e])"
  using takes_own_snoc[of "l @ [e]" f] takes_own_snoc[of l e] by simp

lemma takes_own_prefix: "takes_own (l @ es) \<Longrightarrow> takes_own l"
  unfolding takes_own_def by (metis append.assoc append_Cons)

lemma process_takes_none: "process_event e \<Longrightarrow> ip_rules_taken e = {#}"
  by (cases e rule: process_event.cases) (auto simp: ip_rules_taken_def split: sum.split)

lemma takes_own_process: "list_all process_event es \<Longrightarrow> takes_own (l @ es) \<longleftrightarrow> takes_own l"
  by (induction es rule: rev_induct) (simp_all add: takes_own_snoc process_takes_none flip: append_assoc)

lemma takes_own_services:
  "takes_own (snd (nfqws_start os c l)) \<longleftrightarrow> takes_own l"
  "takes_own (snd (nfqws_stop os ms h l)) \<longleftrightarrow> takes_own l"
  "takes_own (snd (fw_install_worker_rule os mgr rule l)) \<longleftrightarrow> takes_own l"
  "(mgr = Iptables \<Longrightarrow> ip_rule_key rule \<in># ip_rules l) \<Longrightarrow>
     takes_own (snd (fw_remove_worker_rule os mgr rule l)) \<longleftrightarrow> takes_own l"
  subgoal using start_events[of os c l] takes_own_process by auto
  subgoal using stop_events[of os ms h l] takes_own_process by auto
  subgoal using iptables_args(2)[of rule]
    by (auto simp: firewall_defs run_command_def Let_def takes_own_snoc ip_rules_taken_def
        split: sum.split firewall_manager.split)
  subgoal using iptables_args(3-5)[of rule]
    by (cases mgr) (auto simp: firewall_defs run_command_def Let_def takes_own_snoc takes_own_snoc2
        ip_rules_taken_def ip_rule_key_def split: sum.split option.split)
  done

text \<open>What every service keeps, a run keeps.\<close>

lemma run_keeps:
  assumes "run_worker_task sv rt env task a l = Some (r, l')" and "P l"
    and "\<And>c l. P l \<Longrightarrow> P (snd (sv_start sv c l))" "\<And>h l. P l \<Longrightarrow> P (snd (sv_stop sv h l))"
      "\<And>rule l. P l \<Longrightarrow> P (snd (sv_install sv rule l))" "\<And>rule l. P l \<Longrightarrow> P (snd (sv_remove sv rule l))"
      "\<And>l. P l \<Longrightarrow> P (l @ [Probed])"
  shows "P l'"
  using assms(1)
proof (cases rule: run_worker_task_cases)
  case (not_started ps e)
  then show ?thesis using assms(2,3) by (metis snd_conv)
next
  case (not_installed ps h l1 e l2)
  then show ?thesis using assms(2-5) by (metis snd_conv)
next
  case (ran ps h l1 l2)
  have "P l1" using assms(2,3) ran(2) by (metis snd_conv)
  then have "P l2" using assms(5) ran(3) by (metis snd_conv)
  then show ?thesis using assms(4,6,7) teardown_log[OF ran(4)] by simp
qed (use assms(2) in simp)

lemma teardown_takes_own:
  assumes "takes_own l"
    and "wr_isolation_mode rt = SourcePort \<Longrightarrow> wr_firewall rt = Iptables \<Longrightarrow> ip_rule_key rule \<in># ip_rules l"
    and "probe_and_teardown (runtime_services os rt) rt env task q p h rule l = (r, l')"
  shows "takes_own l'"
proof -
  have "takes_own (l @ [Probed])" using assms(1) takes_own_process[of "[Probed]"] by simp
  then show ?thesis
    using assms(2) takes_own_services(2,4) unfolding teardown_log[OF assms(3)]
    by (simp add: runtime_services_def)
qed

lemma run_takes_own:
  assumes "takes_own l"
    and "run_worker_task (runtime_services os rt) rt env task a l = Some (r, l')"
  shows "takes_own l'"
  using assms(2)
proof (cases rule: run_worker_task_cases)
  case (not_started ps e)
  then have "l' = snd (nfqws_start os (nfqws_config rt task (wa_qnum a)) l)" by (simp add: runtime_services_def)
  then show ?thesis using assms(1) takes_own_services(1) by simp
next
  case (not_installed ps h l1 e l2)
  then have "l1 = snd (nfqws_start os (nfqws_config rt task (wa_qnum a)) l)"
    "l2 = snd (fw_install_worker_rule os (wr_firewall rt) (run_rule rt task a ps) l1)"
    "l' = snd (nfqws_stop os (wr_stop_timeout_ms rt) h l2)"
    by (simp_all add: runtime_services_def)
  then show ?thesis using assms(1) takes_own_services(1,2,3) by simp
next
  case (ran ps h l1 l2)
  then have "l1 = snd (nfqws_start os (nfqws_config rt task (wa_qnum a)) l)" by (simp add: runtime_services_def)
  then have l1: "takes_own l1" using assms(1) takes_own_services(1) by simp
  have "takes_own l2 \<and> (wr_isolation_mode rt = SourcePort \<longrightarrow> wr_firewall rt = Iptables \<longrightarrow>
      ip_rule_key (run_rule rt task a ps) \<in># ip_rules l2)"
  proof (cases "wr_isolation_mode rt = SourcePort")
    case True
    then have i: "fw_install_worker_rule os (wr_firewall rt) (run_rule rt task a ps) l1 = (Inr (), l2)"
      using ran(3) by (simp add: runtime_services_def)
    show ?thesis
      using iptables_install(2)[of os "run_rule rt task a ps" l1 "Inr ()" l2] i l1
        takes_own_services(3)[of os "wr_firewall rt" "run_rule rt task a ps" l1] by auto
  next
    case False
    then show ?thesis using ran(3) l1 by simp
  qed
  then show ?thesis using teardown_takes_own[OF _ _ ran(4)] by blast
qed (use assms(1) in simp)

lemma history_takes_own: "worker_history os rt l \<Longrightarrow> takes_own l"
  by (induction rule: worker_history.induct) (auto simp: takes_own_def[of "[]"] dest: run_takes_own)

text \<open>
  However far the workers are and however their events interleave, the rules in force are those
  that were there before and what each of them holds by its own log.
\<close>

lemma workers_share_rules:
  assumes "fst ` set zs \<subseteq> {..< n}"
    and "\<forall>w < n. \<exists>rest. worker_history (os w) rt (worker_log w zs @ rest)"
  shows "ip_rules (log @ map snd zs) = ip_rules log + (\<Sum>w < n. ip_rules (worker_log w zs))"
proof -
  have own: "takes_own (worker_log w zs)" if "w < n" for w
    using assms(2) that history_takes_own takes_own_prefix by blast
  have "ip_rules_taken e \<subseteq># fold ip_rule_change b {#}" if "w < n" "worker_log w zs = b @ e # a" for w b e a
    using own[OF that(1)] that(2) unfolding takes_own_def ip_rules_def by blast
  from ip_ledger.shares[OF this assms(1)] show ?thesis by (simp add: ip_rules_def)
qed

section \<open>The log of a pool\<close>

text \<open>The events that \<open>n\<close> workers, each somewhere in its runs, may have left in the log.\<close>

definition workers_log :: "worker_runtime \<Rightarrow> nat \<Rightarrow> log \<Rightarrow> bool" where
  "workers_log rt n es \<longleftrightarrow>
     (\<exists>zs os. es = map snd zs \<and> fst ` set zs \<subseteq> {..< n} \<and>
        (\<forall>w < n. \<exists>rest. worker_history (os w) rt (worker_log w zs @ rest)))"

lemma workers_log_Nil: "workers_log rt n []"
  unfolding workers_log_def by (rule exI[of _ "[]"]) (auto intro: worker_history.idle exI[of _ "[]"])

lemma workers_log_rules:
  assumes "workers_log rt n es"
  shows "ip_rules log \<subseteq># ip_rules (log @ es)"
proof -
  obtain zs os where zs: "es = map snd zs" "fst ` set zs \<subseteq> {..< n}"
    and history: "\<forall>w < n. \<exists>rest. worker_history (os w) rt (worker_log w zs @ rest)"
    using assms unfolding workers_log_def by blast
  show ?thesis unfolding zs(1) workers_share_rules[OF zs(2) history] by (rule mset_subset_eq_add_left)
qed

lemma workers_log_events:
  assumes "workers_log rt n es" and "\<And>os l. worker_history os rt l \<Longrightarrow> list_all P l"
  shows "list_all P es"
proof -
  obtain zs os where zs: "es = map snd zs" "fst ` set zs \<subseteq> {..< n}"
    and history: "\<forall>w < n. \<exists>rest. worker_history (os w) rt (worker_log w zs @ rest)"
    using assms(1) unfolding workers_log_def by blast
  have "P e" if "(w, e) \<in> set zs" for w e
  proof -
    have "w < n" using zs(2) that by force
    then have "list_all P (worker_log w zs)" using history assms(2) by (metis list_all_append)
    moreover have "e \<in> set (worker_log w zs)" using that by (force simp: worker_log_def)
    ultimately show ?thesis by (simp add: list_all_iff)
  qed
  then show ?thesis by (auto simp: zs(1) list_all_iff)
qed

text \<open>Every command of nft is about the table of the manager.\<close>

definition about_table :: "string \<Rightarrow> event \<Rightarrow> bool" where
  "about_table t e =
     (case e of
        Ran prog args _ \<Rightarrow> prog = ''nft'' \<longrightarrow> [''inet'', t] \<in> {take 2 (drop 2 args), take 2 (drop 3 args)}
      | Fed prog args script _ \<Rightarrow> starts_with (''table inet '' @ t @ '' {'') script
      | _ \<Rightarrow> True)"

definition manages_table :: "firewall_manager \<Rightarrow> string \<Rightarrow> bool" where
  "manages_table mgr t =
     (case mgr of Nftables m \<Rightarrow> nm_table m = t | NftablesVmap m \<Rightarrow> nm_table m = t | Iptables \<Rightarrow> True)"

lemma process_about_table: "process_event e \<Longrightarrow> about_table t e"
  by (cases e rule: process_event.cases) (auto simp: about_table_def)

lemma script_about_table:
  "starts_with (''table inet '' @ nm_table m @ '' {'') (vmap_setup_script m)"
proof -
  have "starts_with x (join sep (x # xs))" for x sep :: string and xs
    by (cases xs) (auto simp: starts_with_iff)
  then show ?thesis unfolding vmap_setup_script_def Let_def .
qed

lemma firewall_about_table:
  assumes "manages_table mgr t"
  shows "\<exists>es. snd (fw_setup os mgr l) = l @ es \<and> list_all (about_table t) es"
    and "\<exists>es. snd (fw_install_worker_rule os mgr rule l) = l @ es \<and> list_all (about_table t) es"
    and "\<exists>es. snd (fw_remove_worker_rule os mgr rule l) = l @ es \<and> list_all (about_table t) es"
    and "\<exists>es. snd (fw_cleanup_all os mgr l) = l @ es \<and> list_all (about_table t) es"
proof -
  note table = assms[unfolded manages_table_def]
  have nft: "about_table t (Ran ''nft'' args r)"
    if "take 2 (drop 2 args) = [''inet'', t] \<or> take 2 (drop 3 args) = [''inet'', t]" for args r
    using that by (auto simp: about_table_def)
  note rendered = delete_table_def nft_add_rule_def nft_list_chain_def nft_delete_rule_by_handle_def nft
  show "\<exists>es. snd (fw_setup os mgr l) = l @ es \<and> list_all (about_table t) es"
  proof (cases mgr)
    case (NftablesVmap m)
    then have "starts_with (''table inet '' @ t @ '' {'') (vmap_setup_script m)"
      using table script_about_table by auto
    then have "about_table t (Fed ''nft'' args (vmap_setup_script m) r)" for args r
      by (simp add: about_table_def)
    then show ?thesis using NftablesVmap table by (auto simp: firewall_defs world_defs rendered)
  qed (use table in \<open>auto simp: firewall_defs world_defs rendered\<close>)
  show "\<exists>es. snd (fw_install_worker_rule os mgr rule l) = l @ es \<and> list_all (about_table t) es"
    using table by (cases mgr) (auto simp: firewall_defs world_defs rendered about_table_def)
  show "\<exists>es. snd (fw_remove_worker_rule os mgr rule l) = l @ es \<and> list_all (about_table t) es"
    using table by (cases mgr) (auto simp: firewall_defs world_defs rendered about_table_def
        split: sum.split option.split)
  show "\<exists>es. snd (fw_cleanup_all os mgr l) = l @ es \<and> list_all (about_table t) es"
    using table by (cases mgr) (auto simp: firewall_defs world_defs rendered)
qed

lemma appended_about_table:
  "list_all (about_table t) l \<Longrightarrow> \<exists>es. l' = l @ es \<and> list_all (about_table t) es \<Longrightarrow>
     list_all (about_table t) l'"
  by auto

lemma history_about_table:
  assumes "worker_history os rt l" and "manages_table (wr_firewall rt) t"
  shows "list_all (about_table t) l"
  using assms(1)
proof (induction rule: worker_history.induct)
  case (run l env task a r l')
  have process: "list_all process_event es \<Longrightarrow> list_all (about_table t) es" for es
    using process_about_table by (auto simp: list_all_iff)
  have start: "\<exists>es. snd (nfqws_start os c l) = l @ es \<and> list_all (about_table t) es" for c l
    using start_events process by blast
  have stop: "\<exists>es. snd (nfqws_stop os ms h l) = l @ es \<and> list_all (about_table t) es" for ms h l
    using stop_events process by blast
  show ?case
  proof (rule run_keeps[where P = "list_all (about_table t)", OF run.hyps(2) run.IH], unfold runtime_services_def services.simps)
    fix l assume "list_all (about_table t) l"
    then show "list_all (about_table t) (l @ [Probed])" by (simp add: about_table_def)
  qed (rule appended_about_table; (assumption | rule start stop firewall_about_table(2,3)[OF assms(2)]))+
qed simp

lemma workers_log_table:
  "workers_log rt n es \<Longrightarrow> manages_table (wr_firewall rt) t \<Longrightarrow> list_all (about_table t) es"
  using workers_log_events history_about_table by blast

section \<open>Runs side by side\<close>

text \<open>What the cleanup of a run relies on, as in \<open>worker_run_cleans_up\<close>.\<close>

definition cleanup_works :: "os \<Rightarrow> worker_runtime \<Rightarrow> bool" where
  "cleanup_works os rt \<longleftrightarrow>
     (\<forall>rule l. is_ok (fst (fw_remove_worker_rule os (wr_firewall rt) rule l))) \<and>
     (\<forall>h l. is_ok (fst (nfqws_stop os (wr_stop_timeout_ms rt) h l))) \<and>
     (\<forall>c l m. fst (nfqws_start os c l) \<noteq> Inl (NfIo m))"

lemma history_clean:
  assumes "worker_history os rt l" and "wr_firewall rt = Iptables" and "cleanup_works os rt"
  shows "live l = {} \<and> ip_rules l = {#}"
  using assms(1)
proof (induction rule: worker_history.induct)
  case idle
  show ?case by (simp add: live_def ip_rules_def)
next
  case (run l env task a r l')
  then show ?case
    using worker_run_cleans_up[OF assms(2) run.hyps(2)] assms(2,3) by (simp add: cleanup_works_def)
qed



section \<open>Two workers in step\<close>

definition in_step :: "log \<Rightarrow> schedule" where
  "in_step l = concat (map (\<lambda>e. [(0, e), (1, e)]) l)"

lemma in_step_log: "w < 2 \<Longrightarrow> worker_log w (in_step l) = l"
  by (induction l) (auto simp: in_step_def worker_log_def)

lemma in_step_workers: "fst ` set (in_step l) \<subseteq> {..< 2}"
  by (auto simp: in_step_def)

lemma sample_cleanup_works: "cleanup_works sample_os sample_runtime"
  using sample_os_ok by (simp add: cleanup_works_def sample_runtime_def)

lemma sample_history:
  assumes "run_worker_task (runtime_services sample_os sample_runtime) sample_runtime
    sample_worker_env sample_task sample_assignment [] = Some (r, l)"
  shows "worker_history sample_os sample_runtime l"
  using worker_history.run[OF worker_history.idle assms] .



end
