(* ===== verification/CheckCommand.thy ===== *)
theory CheckCommand
  imports Targets Report Catalog ConfigFields Interleaving
begin

text \<open>
  The commands of \<^verbatim>\<open>src/main.rs\<close>. A check runs in three parts: everything up to the setup of
  the firewall, the setup up to the run of the scheduler, and what follows the run. The parts are
  functions of the environment, the arguments and the state; the run between the last two is the
  relation of the scheduler.
\<close>

section \<open>Arguments, environment and state\<close>

record check_args =
  ca_config :: path
  ca_host :: "string option"
  ca_url :: "string option"
  ca_method :: "http_method option"
  ca_read_mode :: "read_mode option"
  ca_min_body_bytes :: "nat option"
  ca_max_read_bytes :: "nat option"
  ca_test_count :: "nat option"
  ca_workers :: "nat option"
  ca_backend :: "string option"
  ca_strategies_dir :: "path option"
  ca_bayes_state :: "path option"
  ca_nfqws_binary :: "path option"
  ca_nfqws_lib_dir :: "path list"
  ca_probe_protocol :: "string option"
  ca_successful_strategy_limit :: "nat option"
  ca_json :: bool

datatype command = Check check_args | Baseline path string | Cleanup path

text \<open>The network and the clock of a probe outside the workers.\<close>

record net_env =
  ne_tls :: tls_library
  ne_certs :: "tls_probe_version \<Rightarrow> native_certs"
  ne_sockets :: socket_env
  ne_probe :: probe_env
  ne_outer :: "nat \<Rightarrow> unit wait"
  ne_end_ms :: nat

record file_meta =
  fm_is_file :: bool
  fm_is_dir :: bool
  fm_mode :: u32

record check_env =
  ev_read :: "path \<Rightarrow> string option"
  ev_config_yaml :: "string \<Rightarrow> string + app_fields"
  ev_config_toml :: "string \<Rightarrow> string + app_fields"
  ev_url :: url_parser
  ev_doh :: doh_client
  ev_net :: net_env
  ev_curl :: curl_env
  ev_metadata :: "path \<Rightarrow> string + file_meta"
  ev_fs :: file_system
  ev_parse_yaml :: "string \<Rightarrow> string + yaml"
  ev_decode :: "yaml \<Rightarrow> strategy_node option"
  ev_codec :: bayes_codec
  ev_disk :: bayes_disk
  ev_os :: os

text \<open>
  What a command changes: the log of the system, the state files, and what it printed. The JSON
  text of a value is serde's and stands for itself.
\<close>

datatype printed =
    JsonOutput check_output | JsonProbe probe_result | JsonProbes "probe_result list"
  | ReportLines "string list"

record check_state =
  ck_log :: log
  ck_files :: files
  ck_out :: "printed list"
  ck_err :: "string list"

datatype check_error =
    CkConfig config_error | CkMain main_error | TestCountArgZero | CurlNotEnabled
  | BackendUnsupported string | CkIsolation isolation_error | BinaryNotFound path string
  | BinaryNotFile path | BinaryNotExecutable path | LibraryNotFound path string
  | LibraryNotDir path | CkPayload payload_error | CkFirewall firewall_error | CkGraph graph_error
  | CkBayes string | CkPanic

definition say :: "bool \<Rightarrow> string \<Rightarrow> check_state \<Rightarrow> check_state" where
  "say json line st = (if json then st else st\<lparr> ck_err := ck_err st @ [line] \<rparr>)"

definition print_out :: "printed \<Rightarrow> check_state \<Rightarrow> check_state" where
  "print_out p st = st\<lparr> ck_out := ck_out st @ [p] \<rparr>"

definition load_config :: "check_env \<Rightarrow> path \<Rightarrow> check_error + app_config" where
  "load_config env p =
     lift_err CkConfig (app_config_load (ev_read env) (config_parser (ev_config_yaml env))
       (config_parser (ev_config_toml env)) p)"

section \<open>The firewall\<close>

definition parse_hook :: "string \<Rightarrow> firewall_hook" where
  "parse_hook s = (if s = ''postrouting'' then Postrouting else Output)"

text \<open>\<open>None\<close> is the panic of \<open>expect\<close> on the desync mark.\<close>

definition build_firewall :: "app_config \<Rightarrow> worker_assignment list \<Rightarrow> firewall_manager option" where
  "build_firewall cfg assignments =
     (let fw = ac_firewall cfg; iso = ac_isolation cfg in
      if isolation_mode_parse (is_mode iso) = Inr Fwmark \<and> is_use_nft_vmap iso then
        (case parse_hex_mark (is_desync_mark iso) of
           Inl _ \<Rightarrow> None
         | Inr mark \<Rightarrow> Some (NftablesVmap
             \<lparr> nm_table = fw_table fw, nm_hook = parse_hook (fw_hook fw), nm_priority = fw_priority fw,
               nm_cleanup_on_start = fw_cleanup_on_start fw, vm_desync_mark = mark,
               vm_assignments = assignments \<rparr>))
      else if fw_backend fw = ''iptables'' then Some Iptables
      else Some (Nftables
        \<lparr> nm_table = fw_table fw, nm_hook = parse_hook (fw_hook fw), nm_priority = fw_priority fw,
          nm_cleanup_on_start = fw_cleanup_on_start fw \<rparr>))"

section \<open>The cleanup and baseline commands\<close>

definition cleanup_command :: "check_env \<Rightarrow> path \<Rightarrow> check_state \<Rightarrow> (check_error + unit) \<times> check_state" where
  "cleanup_command env config st =
     (case res_bind (load_config env config) (\<lambda>cfg. ok_or CkPanic (build_firewall cfg [])) of
        Inl e \<Rightarrow> (Inl e, st)
      | Inr fw \<Rightarrow>
          let (r, log) = fw_cleanup_all (ev_os env) fw (ck_log st)
          in (lift_err CkFirewall r, st\<lparr> ck_log := log \<rparr>))"

definition native_prober_of :: "net_env \<Rightarrow> app_config \<Rightarrow> native_prober" where
  "native_prober_of ne cfg = native_prober_new (ne_tls ne) (ne_certs ne)
     (sp_bind_ipv4 (ac_source_port cfg)) (sp_bind_ipv6 (ac_source_port cfg))"

definition probe_timeouts_of :: "app_config \<Rightarrow> probe_timeouts" where
  "probe_timeouts_of cfg =
     (let p = ac_probe cfg in
      \<lparr> to_connect_ms = pc_connect_timeout_ms p, to_tls_ms = pc_tls_timeout_ms p,
        to_first_byte_ms = pc_first_byte_timeout_ms p, to_total_ms = pc_total_timeout_ms p \<rparr>)"

definition direct_task :: "string \<Rightarrow> string \<Rightarrow> ip_addr \<Rightarrow> u16 \<Rightarrow> http_request_spec \<Rightarrow> probe_timeouts
    \<Rightarrow> probe_protocol \<Rightarrow> probe_task" where
  "direct_task name host ip port request timeouts protocol =
     \<lparr> pt_strategy_id = name, pt_worker_id = 0, pt_strategy_args = [], pt_target_host = host,
       pt_target_ip = ip, pt_target_port = port, pt_protocol = protocol,
       pt_path = rq_path_and_query request, pt_request = request, pt_timeouts = timeouts \<rparr>"

definition direct_context :: probe_context where
  "direct_context = \<lparr> cx_qnum = 0, cx_baseline = True \<rparr>"

definition run_baseline_probe :: "native_prober \<Rightarrow> net_env \<Rightarrow> string \<Rightarrow> ip_addr \<Rightarrow> u16
    \<Rightarrow> http_request_spec \<Rightarrow> probe_timeouts \<Rightarrow> probe_protocol \<Rightarrow> probe_result" where
  "run_baseline_probe np net host ip port request timeouts protocol =
     native_probe np (direct_task ''baseline'' host ip port request timeouts protocol) direct_context
       (ne_sockets net) (ne_probe net) (ne_outer net) (ne_end_ms net)"

definition baseline_command :: "check_env \<Rightarrow> path \<Rightarrow> string \<Rightarrow> check_state
    \<Rightarrow> (check_error + unit) \<times> check_state" where
  "baseline_command env config host st =
     (case res_bind (load_config env config) (\<lambda>cfg.
             res_bind (lift_err CkMain (resolve_one (ev_doh env) host 443 (pc_dns (ac_probe cfg)))) (\<lambda>ip.
             res_bind (lift_err CkMain (request_from_config cfg None None None None)) (\<lambda>request.
             Inr (cfg, ip, request)))) of
        Inl e \<Rightarrow> (Inl e, st)
      | Inr (cfg, ip, request) \<Rightarrow>
          let r = run_baseline_probe (native_prober_of (ev_net env) cfg) (ev_net env) host ip
                    (default_port Tls12Http11) request (probe_timeouts_of cfg) Tls12Http11
          in (Inr (), print_out (JsonProbe r) (st\<lparr> ck_log := ck_log st @ [Probed] \<rparr>)))"

section \<open>What is checked\<close>

record check_target =
  ct_target :: target_request
  ct_ip :: ip_addr
  ct_request :: http_request_spec
  ct_test_count :: nat
  ct_targets :: "strategy_probe_target list"

definition check_target_of :: "check_env \<Rightarrow> check_args \<Rightarrow> app_config \<Rightarrow> check_error + check_target" where
  "check_target_of env args cfg =
     (let explicit = (ca_probe_protocol args \<noteq> None);
          cli_target = (ca_host args \<noteq> None \<or> ca_url args \<noteq> None) in
      res_bind (lift_err CkMain (selected_protocol cfg (ca_probe_protocol args))) (\<lambda>selected.
      res_bind (lift_err CkMain (primary_target_request (ev_url env) cfg (ca_host args) (ca_url args)
          selected explicit)) (\<lambda>target.
      if \<not> protocol_enabled cfg (tr_protocol target)
      then Inl (CkMain (ProtocolDisabled (tr_protocol target)))
      else
      res_bind (lift_err CkMain (resolve_one (ev_doh env) (tr_host target) (tr_port target)
          (pc_dns (ac_probe cfg)))) (\<lambda>ip.
      res_bind (lift_err CkMain (request_from_config cfg (ca_method args) (ca_read_mode args)
          (ca_min_body_bytes args) (ca_max_read_bytes args))) (\<lambda>request.
      let request = request\<lparr> rq_path_and_query := tr_path_and_query target \<rparr>;
          n = (case ca_test_count args of Some n \<Rightarrow> n | None \<Rightarrow> pc_test_count (ac_probe cfg)) in
      if n = 0 then Inl TestCountArgZero
      else
      res_bind (if cli_target then Inr (replicate n (probe_target_of target ip request))
                else lift_err CkMain (build_strategy_targets (ev_url env) (ev_doh env) cfg request
                       selected explicit n)) (\<lambda>targets.
      Inr \<lparr> ct_target = target, ct_ip = ip, ct_request = request, ct_test_count = n,
            ct_targets = targets \<rparr>))))))"

definition check_backend :: "check_args \<Rightarrow> app_config \<Rightarrow> string" where
  "check_backend args cfg = (case ca_backend args of Some b \<Rightarrow> b | None \<Rightarrow> pc_backend (ac_probe cfg))"

definition check_curl :: "check_env \<Rightarrow> app_config \<Rightarrow> check_target \<Rightarrow> check_error + probe_result" where
  "check_curl env cfg ct =
     (if \<not> dbg_enable_curl_fallback (ac_debug cfg) then Inl CurlNotEnabled
      else Inr (curl_probe (direct_task ''curl-reference'' (tr_host (ct_target ct)) (ct_ip ct)
          (tr_port (ct_target ct)) (ct_request ct) (probe_timeouts_of cfg) (tr_protocol (ct_target ct)))
        direct_context (ev_curl env)))"

definition check_baseline :: "check_env \<Rightarrow> app_config \<Rightarrow> check_target \<Rightarrow> probe_result" where
  "check_baseline env cfg ct =
     run_baseline_probe (native_prober_of (ev_net env) cfg) (ev_net env) (tr_host (ct_target ct)) (ct_ip ct)
       (tr_port (ct_target ct)) (ct_request ct) (probe_timeouts_of cfg) (tr_protocol (ct_target ct))"

definition should_skip_strategies_after_baseline :: "probe_result \<Rightarrow> bool" where
  "should_skip_strategies_after_baseline r \<longleftrightarrow>
     pr_failure_kind r = Some InfrastructureFailure \<or> pr_failure_kind r = Some FkCancelled"

definition target_line :: "check_target \<Rightarrow> string" where
  "target_line ct =
     (let t = ct_target ct in
      ''info(checker): target='' @ tr_original t @ '' host='' @ tr_host t @ '' ip='' @
      ip_to_string (ct_ip ct) @ '' port='' @ dec_of_nat (unat (tr_port t)) @ '' protocol='' @
      debug_protocol (tr_protocol t) @ '' method='' @ method_as_str (rq_method (ct_request ct)) @
      '' read_mode='' @ debug_read_mode (rq_read_mode (ct_request ct)))"

definition effective_workers :: "check_args \<Rightarrow> app_config \<Rightarrow> nat" where
  "effective_workers args cfg =
     max 1 (case ca_workers args of Some n \<Rightarrow> n | None \<Rightarrow> wk_count (ac_workers cfg))"

definition success_limit :: "check_args \<Rightarrow> app_config \<Rightarrow> nat" where
  "success_limit args cfg =
     (case ca_successful_strategy_limit args of
        Some n \<Rightarrow> n | None \<Rightarrow> ss_successful_strategy_limit (ac_strategies cfg))"

definition check_isolation :: "app_config \<Rightarrow> nat
    \<Rightarrow> check_error + isolation_mode \<times> worker_assignment list" where
  "check_isolation cfg workers =
     (let iso = ac_isolation cfg in
      res_bind (lift_err CkIsolation (isolation_mode_parse (is_mode iso))) (\<lambda>mode.
      res_bind (ok_or CkPanic (generate_assignments workers iso)) (\<lambda>assignments.
      res_bind (if mode = Fwmark
                then lift_err CkIsolation (validate_nfqws_desync_mark (nq_base_args (ac_nfqws cfg))
                       (is_desync_mark iso))
                else Inr True) (\<lambda>_.
      Inr (mode, assignments)))))"

section \<open>The nfqws2 program\<close>

definition validate_nfqws_binary :: "check_env \<Rightarrow> path \<Rightarrow> check_error + unit" where
  "validate_nfqws_binary env p =
     res_bind (lift_err (BinaryNotFound p) (ev_metadata env p)) (\<lambda>meta.
     if \<not> fm_is_file meta then Inl (BinaryNotFile p)
     else if and (fm_mode meta) 0x49 = 0 then Inl (BinaryNotExecutable p)
     else Inr ())"

definition nfqws_library_paths :: "app_config \<Rightarrow> path \<Rightarrow> path list \<Rightarrow> path list" where
  "nfqws_library_paths cfg binary cli_paths =
     (if cli_paths \<noteq> [] then cli_paths
      else if nq_library_paths (ac_nfqws cfg) \<noteq> [] then nq_library_paths (ac_nfqws cfg)
      else case path_parent binary of Some p \<Rightarrow> [p] | None \<Rightarrow> [])"

definition validate_nfqws_library_paths :: "check_env \<Rightarrow> path list \<Rightarrow> check_error + unit" where
  "validate_nfqws_library_paths env paths =
     try_each (\<lambda>p.
       res_bind (lift_err (LibraryNotFound p) (ev_metadata env p)) (\<lambda>meta.
       if \<not> fm_is_dir meta then Inl (LibraryNotDir p) else Inr ())) paths"

record check_nfqws =
  cn_binary :: path
  cn_library_paths :: "path list"
  cn_payloads :: "payload_def list"
  cn_base_args :: "string list"

definition nfqws_binary_of :: "check_args \<Rightarrow> app_config \<Rightarrow> path" where
  "nfqws_binary_of args cfg =
     (case ca_nfqws_binary args of Some p \<Rightarrow> p | None \<Rightarrow> nq_binary (ac_nfqws cfg))"

definition check_preparation :: "check_env \<Rightarrow> check_args \<Rightarrow> app_config \<Rightarrow> check_error + check_nfqws" where
  "check_preparation env args cfg =
     (let binary = nfqws_binary_of args cfg;
          libraries = nfqws_library_paths cfg binary (ca_nfqws_lib_dir args) in
      res_bind (validate_nfqws_binary env binary) (\<lambda>_.
      res_bind (validate_nfqws_library_paths env libraries) (\<lambda>_.
      res_bind (lift_err CkPayload (build_payload_registry (ev_fs env) (ac_blobs cfg) (ac_payloads cfg)))
        (\<lambda>payloads.
      Inr \<lparr> cn_binary = binary, cn_library_paths = libraries, cn_payloads = payloads,
            cn_base_args = nq_base_args (ac_nfqws cfg) @ render_blob_args payloads \<rparr>))))"

section \<open>The check up to the setup\<close>

datatype 'a stage = Ended "check_error + unit" | Continue 'a

record check_plan =
  cp_cfg :: app_config
  cp_target :: check_target
  cp_baseline :: probe_result
  cp_mode :: isolation_mode
  cp_assignments :: "worker_assignment list"
  cp_nfqws :: check_nfqws
  cp_firewall :: firewall_manager
  cp_prober :: native_prober

definition check_output_of :: "check_args \<Rightarrow> app_config \<Rightarrow> check_target \<Rightarrow> probe_result
    \<Rightarrow> isolation_mode \<Rightarrow> strategy_run_result list \<Rightarrow> nat \<Rightarrow> payload_summary option
    \<Rightarrow> blob_import list \<Rightarrow> combination_summary option \<Rightarrow> check_output" where
  "check_output_of args cfg ct baseline mode results generated payloads imports combinations =
     \<lparr> ou_target = tr_original (ct_target ct), ou_target_scheme = tr_scheme (ct_target ct),
       ou_request = ct_request ct, ou_test_count = ct_test_count ct,
       ou_test_targets = map target_display_key (ct_targets ct), ou_baseline = baseline,
       ou_results = results, ou_successful_strategy_limit = success_limit args cfg,
       ou_search_mode = ss_search_mode (ac_strategies cfg),
       ou_round_robin_families = ss_round_robin_families (ac_strategies cfg),
       ou_generated_count = generated, ou_workers_count = effective_workers args cfg,
       ou_isolation_mode = isolation_mode_as_str mode, ou_payload_summary = payloads,
       ou_payload_blob_imports = imports, ou_combination_summary = combinations \<rparr>"

text \<open>From the end of the baseline probe to the setup of the firewall.\<close>

definition check_after_baseline :: "check_env \<Rightarrow> check_args \<Rightarrow> app_config \<Rightarrow> check_target \<Rightarrow> probe_result
    \<Rightarrow> check_state \<Rightarrow> check_plan stage \<times> check_state" where
  "check_after_baseline env args cfg ct baseline st =
     (case check_isolation cfg (effective_workers args cfg) of
        Inl e \<Rightarrow> (Ended (Inl e), st)
      | Inr (mode, assignments) \<Rightarrow>
          if should_skip_strategies_after_baseline baseline then
            (Ended (Inr ()), print_out (JsonOutput (check_output_of args cfg ct baseline mode [] 0 None [] None)) st)
          else (case res_bind (check_preparation env args cfg) (\<lambda>nfqws.
                  res_bind (ok_or CkPanic (build_firewall cfg assignments)) (\<lambda>fw. Inr (nfqws, fw))) of
              Inl e \<Rightarrow> (Ended (Inl e), st)
            | Inr (nfqws, fw) \<Rightarrow>
                (Continue \<lparr> cp_cfg = cfg, cp_target = ct, cp_baseline = baseline, cp_mode = mode,
                   cp_assignments = assignments, cp_nfqws = nfqws, cp_firewall = fw,
                   cp_prober = native_prober_of (ev_net env) cfg \<rparr>, st)))"

definition check_until_setup :: "check_env \<Rightarrow> check_args \<Rightarrow> check_state
    \<Rightarrow> check_plan stage \<times> check_state" where
  "check_until_setup env args st =
     (case res_bind (load_config env (ca_config args)) (\<lambda>cfg.
             res_bind (check_target_of env args cfg) (\<lambda>ct. Inr (cfg, ct))) of
        Inl e \<Rightarrow> (Ended (Inl e), st)
      | Inr (cfg, ct) \<Rightarrow>
          let backend = check_backend args cfg in
          if backend = ''curl'' then
            (case check_curl env cfg ct of
               Inl e \<Rightarrow> (Ended (Inl e), st)
             | Inr r \<Rightarrow> (Ended (Inr ()),
                 print_out (JsonProbes [r]) (st\<lparr> ck_log := ck_log st @ [Probed] \<rparr>)))
          else if backend \<noteq> ''native'' then (Ended (Inl (BackendUnsupported backend)), st)
          else
            let st = say (ca_json args) (target_line ct) st;
                st = say (ca_json args) ''info(checker::probe): baseline start'' st;
                baseline = check_baseline env cfg ct;
                st = st\<lparr> ck_log := ck_log st @ [Probed] \<rparr>;
                st = say (ca_json args) (''info(checker::probe): baseline '' @ live_probe_summary baseline) st
            in check_after_baseline env args cfg ct baseline st)"

section \<open>The setup\<close>

record check_job =
  cj_nodes :: "strategy_node list"
  cj_scheduler :: scheduler
  cj_bayes_path :: path
  cj_bayes :: bayes

definition strategies_file :: "app_config \<Rightarrow> path option \<Rightarrow> path" where
  "strategies_file cfg dir =
     (case dir of Some d \<Rightarrow> path_join d ''strategies.yaml'' | None \<Rightarrow> ss_file (ac_strategies cfg))"

definition worker_runtime_of :: "check_plan \<Rightarrow> worker_runtime" where
  "worker_runtime_of plan =
     (let cfg = cp_cfg plan; nq = ac_nfqws cfg; verbose = dbg_verbose_nfqws (ac_debug cfg) in
      \<lparr> wr_firewall = cp_firewall plan, wr_stop_timeout_ms = nq_stop_timeout_ms nq,
        wr_native_probe = cp_prober plan, wr_nfqws_binary = cn_binary (cp_nfqws plan),
        wr_nfqws_library_paths = cn_library_paths (cp_nfqws plan),
        wr_nfqws_base_args = cn_base_args (cp_nfqws plan),
        wr_nfqws_start_grace_ms = wk_spawn_grace_ms (ac_workers cfg),
        wr_nfqws_log_stdout = (nq_log_stdout nq \<or> verbose),
        wr_nfqws_log_stderr = (nq_log_stderr nq \<or> verbose),
        wr_firewall_hook = parse_hook (fw_hook (ac_firewall cfg)), wr_isolation_mode = cp_mode plan \<rparr>)"

definition load_options_of :: "check_plan \<Rightarrow> load_options" where
  "load_options_of plan =
     (let cfg = cp_cfg plan in
      \<lparr> lo_protocol_key = catalog_key (tr_protocol (ct_target (cp_target plan))),
        lo_search_mode = ss_search_mode (ac_strategies cfg), lo_max_candidates = no_strategy_limit,
        lo_max_per_family = no_strategy_limit, lo_max_per_action = no_strategy_limit,
        lo_round_robin_families = ss_round_robin_families (ac_strategies cfg),
        lo_payload_aliases = Some (aliases_from_payloads (cn_payloads (cp_nfqws plan))),
        lo_strategy_values = Some (ac_strategy_values cfg),
        lo_strategy_combinations = Some (ac_strategy_combinations cfg) \<rparr>)"

definition load_graph :: "check_env \<Rightarrow> check_args \<Rightarrow> check_plan \<Rightarrow> check_error + strategy_node list" where
  "load_graph env args plan =
     lift_err CkGraph (load_for_protocol_mode (ev_fs env) (ev_read env) (ev_parse_yaml env)
       (ev_decode env) (strategies_file (cp_cfg plan) (ca_strategies_dir args)) (load_options_of plan))"

definition scheduler_of :: "check_args \<Rightarrow> check_plan \<Rightarrow> scheduler" where
  "scheduler_of args plan =
     (let cfg = cp_cfg plan in
      \<lparr> sc_runtime = worker_runtime_of plan,
        sc_workers_config = (ac_workers cfg)\<lparr> wk_count := effective_workers args cfg \<rparr>,
        sc_isolation = ac_isolation cfg, sc_successful_strategy_limit = success_limit args cfg,
        sc_score_weights = default_weights, sc_targets = ct_targets (cp_target plan),
        sc_live_log = (\<not> ca_json args) \<rparr>)"

definition pool_start_line :: "check_args \<Rightarrow> check_plan \<Rightarrow> nat \<Rightarrow> string" where
  "pool_start_line args plan generated =
     (let ct = cp_target plan; limit = success_limit args (cp_cfg plan) in
      ''info(checker::pool): start generated='' @ dec_of_nat generated @ '' workers='' @
      dec_of_nat (effective_workers args (cp_cfg plan)) @ '' domains='' @
      dec_of_nat (unique_strategy_targets (ct_targets ct)) @ '' repeats='' @
      dec_of_nat (ct_test_count ct) @ '' total_tests='' @ dec_of_nat (length (ct_targets ct)) @
      '' stop_at_success='' @ (if limit = 0 then ''disabled'' else dec_of_nat limit))"

definition bayes_path_of :: "check_args \<Rightarrow> app_config \<Rightarrow> path" where
  "bayes_path_of args cfg = (case ca_bayes_state args of Some p \<Rightarrow> p | None \<Rightarrow> ac_bayes_state_file cfg)"

definition check_setup :: "check_env \<Rightarrow> check_args \<Rightarrow> check_plan \<Rightarrow> check_state
    \<Rightarrow> check_job stage \<times> check_state" where
  "check_setup env args plan st =
     (let (r, log) = fw_setup (ev_os env) (cp_firewall plan) (ck_log st);
          st = st\<lparr> ck_log := log \<rparr> in
      case res_bind (lift_err CkFirewall r) (\<lambda>_. load_graph env args plan) of
        Inl e \<Rightarrow> (Ended (Inl e), st)
      | Inr nodes \<Rightarrow>
          let st = say (ca_json args) (pool_start_line args plan (length nodes)) st;
              bayes_path = bayes_path_of args (cp_cfg plan) in
          case bayes_load (ev_codec env) (ev_disk env) (ck_files st) bayes_path of
            Inl e \<Rightarrow> (Ended (Inl (CkBayes e)), st)
          | Inr bayes \<Rightarrow> (Continue \<lparr> cj_nodes = nodes, cj_scheduler = scheduler_of args plan,
              cj_bayes_path = bayes_path, cj_bayes = bayes \<rparr>, st))"

section \<open>After the run\<close>

definition pool_done_line :: "strategy_run_result list \<Rightarrow> string" where
  "pool_done_line results =
     (let success = length (filter succeeded results) in
      ''info(checker::pool): done tested='' @ dec_of_nat (length results) @ '' success='' @
      dec_of_nat success @ '' failed='' @ dec_of_nat (length results - success))"

definition final_output :: "check_args \<Rightarrow> check_plan \<Rightarrow> strategy_node list \<Rightarrow> strategy_run_result list
    \<Rightarrow> check_output" where
  "final_output args plan nodes results =
     check_output_of args (cp_cfg plan) (cp_target plan) (cp_baseline plan) (cp_mode plan) results
       (length nodes)
       (Some (payload_summary_of (ac_blobs (cp_cfg plan)) (cn_payloads (cp_nfqws plan))))
       (payload_blob_imports (cn_payloads (cp_nfqws plan)))
       (Some (combination_summary_of (ac_strategy_combinations (cp_cfg plan)) nodes))"

definition printed_output :: "check_args \<Rightarrow> check_plan \<Rightarrow> check_output \<Rightarrow> printed" where
  "printed_output args plan output =
     (if ca_json args then JsonOutput output
      else ReportLines (check_report output (ac_strategy_values (cp_cfg plan))))"

definition check_finish :: "check_env \<Rightarrow> check_args \<Rightarrow> check_plan \<Rightarrow> check_job
    \<Rightarrow> strategy_run_result list \<Rightarrow> bayes \<Rightarrow> check_state \<Rightarrow> (check_error + unit) \<times> check_state" where
  "check_finish env args plan job results bayes st =
     (let st = say (ca_json args) (pool_done_line results) st in
      case bayes_save (ev_codec env) (ev_disk env) (ck_files st) (cj_bayes_path job) bayes of
        Inl e \<Rightarrow> (Inl (CkBayes e), st)
      | Inr files \<Rightarrow>
          let st = st\<lparr> ck_files := files \<rparr>;
              (cleaned, log) = (if fw_cleanup_on_exit (ac_firewall (cp_cfg plan))
                                then fw_cleanup_all (ev_os env) (cp_firewall plan) (ck_log st)
                                else (Inr (), ck_log st));
              st = st\<lparr> ck_log := log \<rparr> in
          (case cleaned of
             Inl e \<Rightarrow> (Inl (CkFirewall e), st)
           | Inr _ \<Rightarrow>
               let output = final_output args plan (cj_nodes job) results in
               (Inr (), print_out (printed_output args plan output) st)))"

section \<open>The command\<close>

text \<open>
  \<open>check_command env args st out\<close>: the check may end with the result and the state \<open>out\<close>. What
  the workers ran, in any interleaving, extends the log, in which every worker has its own part and
  names its own processes; the live lines of the scheduler are left out of \<open>ck_err\<close>.
\<close>

definition check_command :: "check_env \<Rightarrow> check_args \<Rightarrow> check_state
    \<Rightarrow> (check_error + unit) \<times> check_state \<Rightarrow> bool" where
  "check_command env args st out \<longleftrightarrow>
     (case check_until_setup env args st of
        (Ended r, st) \<Rightarrow> out = (r, st)
      | (Continue plan, st) \<Rightarrow>
          (case check_setup env args plan st of
             (Ended r, st) \<Rightarrow> out = (r, st)
           | (Continue job, st) \<Rightarrow>
               (\<exists>cancelled results bayes es.
                  run_graph_with_bayes (ev_os env) (cj_scheduler job) (cj_nodes job)
                    (probe_timeouts_of (cp_cfg plan)) (cj_bayes job) cancelled (results, bayes) \<and>
                  workers_log (scheduler_runtime (cj_scheduler job))
                    (max 1 (wk_count (sc_workers_config (cj_scheduler job)))) es \<and>
                  out = check_finish env args plan job results bayes
                    (st\<lparr> ck_log := ck_log st @ es \<rparr>))))"

definition run_command_line :: "check_env \<Rightarrow> command \<Rightarrow> check_state
    \<Rightarrow> (check_error + unit) \<times> check_state \<Rightarrow> bool" where
  "run_command_line env cmd st out \<longleftrightarrow>
     (case cmd of
        Cleanup config \<Rightarrow> out = cleanup_command env config st
      | Baseline config host \<Rightarrow> out = baseline_command env config host st
      | Check args \<Rightarrow> check_command env args st out)"

section \<open>The stages\<close>

lemma lift_err_Inl: "lift_err f r = Inl e \<longleftrightarrow> (\<exists>e'. r = Inl e' \<and> e = f e')"
  by (auto simp: lift_err_def split: sum.split)

lemma ok_or_Inr: "ok_or e v = Inr x \<longleftrightarrow> v = Some x"
  by (auto simp: ok_or_def split: option.split)

lemmas stage_iffs = res_bind_Inr_iff lift_err_Inr lift_err_Inl ok_or_Inr

lemma say_fields [simp]:
  "ck_log (say json line st) = ck_log st" "ck_files (say json line st) = ck_files st"
  "ck_out (say json line st) = ck_out st"
  by (simp_all add: say_def)

lemma print_out_fields [simp]:
  "ck_log (print_out p st) = ck_log st" "ck_files (print_out p st) = ck_files st"
  "ck_out (print_out p st) = ck_out st @ [p]"
  by (simp_all add: print_out_def)

lemma scheduler_of_fields [simp]:
  "sc_runtime (scheduler_of args plan) = worker_runtime_of plan"
  "sc_workers_config (scheduler_of args plan) =
     (ac_workers (cp_cfg plan))\<lparr> wk_count := effective_workers args (cp_cfg plan) \<rparr>"
  "sc_isolation (scheduler_of args plan) = ac_isolation (cp_cfg plan)"
  "sc_successful_strategy_limit (scheduler_of args plan) = success_limit args (cp_cfg plan)"
  "sc_targets (scheduler_of args plan) = ct_targets (cp_target plan)"
  by (simp_all add: scheduler_of_def Let_def)

lemma load_config_Inr: "load_config env p = Inr cfg \<Longrightarrow> validate cfg = Inr ()"
  by (auto simp: load_config_def app_config_load_def stage_iffs)

lemma check_isolation_Inr:
  "check_isolation cfg n = Inr (mode, assignments) \<Longrightarrow>
     isolation_mode_parse (is_mode (ac_isolation cfg)) = Inr mode \<and>
     generate_assignments n (ac_isolation cfg) = Some assignments"
  by (auto simp: check_isolation_def stage_iffs Let_def)

lemma binary_valid_iff:
  "validate_nfqws_binary env p = Inr () \<longleftrightarrow>
     (\<exists>meta. ev_metadata env p = Inr meta \<and> fm_is_file meta \<and> and (fm_mode meta) 0x49 \<noteq> 0)"
  by (auto simp: validate_nfqws_binary_def stage_iffs)

lemma try_each_Inr: "try_each f xs = Inr () \<longleftrightarrow> (\<forall>x \<in> set xs. f x = Inr ())"
  by (induction xs) (auto simp: res_bind_Inr_iff)

lemma libraries_valid_iff:
  "validate_nfqws_library_paths env ps = Inr () \<longleftrightarrow>
     (\<forall>p \<in> set ps. \<exists>meta. ev_metadata env p = Inr meta \<and> fm_is_dir meta)"
  by (auto simp: validate_nfqws_library_paths_def try_each_Inr stage_iffs)

text \<open>Everything a check has established when it begins to change the system.\<close>

definition plan_checked :: "check_env \<Rightarrow> check_args \<Rightarrow> check_plan \<Rightarrow> bool" where
  "plan_checked env args plan \<longleftrightarrow>
     (let cfg = cp_cfg plan; nq = cp_nfqws plan in
      load_config env (ca_config args) = Inr cfg \<and> validate cfg = Inr () \<and>
      check_target_of env args cfg = Inr (cp_target plan) \<and>
      check_isolation cfg (effective_workers args cfg) = Inr (cp_mode plan, cp_assignments plan) \<and>
      cp_baseline plan = check_baseline env cfg (cp_target plan) \<and>
      \<not> should_skip_strategies_after_baseline (cp_baseline plan) \<and>
      check_preparation env args cfg = Inr nq \<and>
      build_firewall cfg (cp_assignments plan) = Some (cp_firewall plan) \<and>
      cp_prober plan = native_prober_of (ev_net env) cfg)"

lemma check_preparation_Inr:
  "check_preparation env args cfg = Inr nq \<Longrightarrow>
     validate_nfqws_binary env (nfqws_binary_of args cfg) = Inr () \<and>
     validate_nfqws_library_paths env
       (nfqws_library_paths cfg (nfqws_binary_of args cfg) (ca_nfqws_lib_dir args)) = Inr () \<and>
     build_payload_registry (ev_fs env) (ac_blobs cfg) (ac_payloads cfg) = Inr (cn_payloads nq)"
  by (auto simp: check_preparation_def stage_iffs Let_def)

lemma after_baseline_cases:
  assumes "check_after_baseline env args cfg ct (check_baseline env cfg ct) st = (out, st')"
    and "load_config env (ca_config args) = Inr cfg" "check_target_of env args cfg = Inr ct"
  shows "ck_log st' = ck_log st \<and>
    (out = Continue plan \<longrightarrow> plan_checked env args plan \<and> ck_out st' = ck_out st \<and> ck_files st' = ck_files st)"
  using assms load_config_Inr[OF assms(2)]
  by (auto simp: check_after_baseline_def plan_checked_def stage_iffs split: sum.splits if_splits)

lemma until_setup_cases:
  assumes "check_until_setup env args st = (out, st')"
  shows "(\<exists>r. out = Ended r \<and> (ck_log st' = ck_log st \<or> ck_log st' = ck_log st @ [Probed])) \<or>
    (\<exists>plan. out = Continue plan \<and> plan_checked env args plan \<and> ck_log st' = ck_log st @ [Probed] \<and>
       ck_out st' = ck_out st \<and> ck_files st' = ck_files st)"
proof (cases "res_bind (load_config env (ca_config args)) (\<lambda>cfg.
    res_bind (check_target_of env args cfg) (\<lambda>ct. Inr (cfg, ct)))")
  case (Inl e)
  then show ?thesis using assms by (auto simp: check_until_setup_def)
next
  case (Inr p)
  obtain cfg ct where p: "p = (cfg, ct)" by fastforce
  have cfg: "load_config env (ca_config args) = Inr cfg" "check_target_of env args cfg = Inr ct"
    using Inr by (auto simp: p res_bind_Inr_iff)
  note run = assms[unfolded check_until_setup_def Inr p Let_def sum.case prod.case]
  consider "check_backend args cfg = ''curl''"
    | "check_backend args cfg \<noteq> ''curl''" "check_backend args cfg \<noteq> ''native''"
    | "check_backend args cfg = ''native''" by blast
  then show ?thesis
  proof cases
    case 1
    then show ?thesis using run by (auto split: sum.splits)
  next
    case 2
    then show ?thesis using run by auto
  next
    case 3
    then obtain st0 where run: "check_after_baseline env args cfg ct (check_baseline env cfg ct) st0 = (out, st')"
      and st0: "ck_log st0 = ck_log st @ [Probed]" "ck_out st0 = ck_out st" "ck_files st0 = ck_files st"
      using run by fastforce
    from after_baseline_cases[OF run cfg] st0 show ?thesis by (cases out) auto
  qed
qed

lemma fw_extends:
  "\<exists>es. snd (fw_setup os fw log) = log @ es"
  "\<exists>es. snd (fw_cleanup_all os fw log) = log @ es"
  by (cases fw; simp add: firewall_defs world_defs)+

lemma setup_cases:
  assumes "check_setup env args plan st = (out, st')"
  shows "ck_log st' = snd (fw_setup (ev_os env) (cp_firewall plan) (ck_log st))"
  using assms by (auto simp: check_setup_def Let_def case_prod_beta split: sum.splits)

lemma finish_extends:
  "check_finish env args plan job results bayes st = (r, st') \<Longrightarrow> \<exists>es. ck_log st' = ck_log st @ es"
  using fw_extends(2)[of "ev_os env" "cp_firewall plan" "ck_log st"]
  by (auto simp: check_finish_def Let_def case_prod_beta split: sum.splits if_splits)

lemma check_command_cases:
  assumes "check_command env args st (r, st')"
  obtains (ended) "check_until_setup env args st = (Ended r, st')"
      "ck_log st' = ck_log st \<or> ck_log st' = ck_log st @ [Probed]"
  | (set_up) plan st1 where "check_until_setup env args st = (Continue plan, st1)"
      "plan_checked env args plan" "ck_log st1 = ck_log st @ [Probed]"
      "check_setup env args plan st1 = (Ended r, st')"
  | (run) plan st1 job st2 cancelled results bayes es where
      "check_until_setup env args st = (Continue plan, st1)"
      "plan_checked env args plan" "ck_log st1 = ck_log st @ [Probed]"
      "check_setup env args plan st1 = (Continue job, st2)"
      "run_graph_with_bayes (ev_os env) (cj_scheduler job) (cj_nodes job)
         (probe_timeouts_of (cp_cfg plan)) (cj_bayes job) cancelled (results, bayes)"
      "workers_log (scheduler_runtime (cj_scheduler job))
         (max 1 (wk_count (sc_workers_config (cj_scheduler job)))) es"
      "check_finish env args plan job results bayes (st2\<lparr> ck_log := ck_log st2 @ es \<rparr>) = (r, st')"
proof -
  obtain out st1 where first: "check_until_setup env args st = (out, st1)" by fastforce
  show thesis
  proof (cases out)
    case (Ended r')
    then show thesis
      using ended assms first until_setup_cases[OF first] by (auto simp: check_command_def)
  next
    case (Continue plan)
    then have plan: "plan_checked env args plan" "ck_log st1 = ck_log st @ [Probed]"
      using until_setup_cases[OF first] by auto
    obtain out2 st2 where second: "check_setup env args plan st1 = (out2, st2)" by fastforce
    note cmd = assms[unfolded check_command_def first Continue prod.case stage.case second]
    show thesis
    proof (cases out2)
      case (Ended r')
      then show thesis using set_up[OF first[unfolded Continue] plan] second cmd by simp
    next
      case (Continue job)
      then show thesis using run[OF first[unfolded \<open>out = _\<close>] plan] second cmd by fastforce
    qed
  qed
qed

end
