(* ===== verification/CheckRun.thy ===== *)
theory CheckRun
  imports CheckCommand
begin

text \<open>
  What the check command of \<^verbatim>\<open>src/main.rs\<close> guarantees: when it begins to change the system, what
  a successful check has done and prints, that it can finish, and where its error paths end.
\<close>

section \<open>The order of the check\<close>

text \<open>
  C1: a check runs no command and starts no process before everything it can check beforehand holds:
  it has changed the log at most by its own direct probe, or the configuration was loaded and
  validated, the target resolved, the baseline probe was neither cancelled nor failed on the
  infrastructure, the workers have their assignments, nfqws2 is an executable file, its library
  paths are directories and the payload files exist; then the first thing it does is the setup of
  the configured firewall.
\<close>

theorem setup_after_validation:
  assumes "check_command env args st (r, st')"
  shows "ck_log st' = ck_log st \<or> ck_log st' = ck_log st @ [Probed] \<or>
    (\<exists>cfg ct mode assignments payloads fw rest.
       let binary = nfqws_binary_of args cfg;
           libraries = nfqws_library_paths cfg binary (ca_nfqws_lib_dir args) in
       load_config env (ca_config args) = Inr cfg \<and> validate cfg = Inr () \<and>
       check_target_of env args cfg = Inr ct \<and>
       pr_failure_kind (check_baseline env cfg ct) \<noteq> Some InfrastructureFailure \<and>
       pr_failure_kind (check_baseline env cfg ct) \<noteq> Some FkCancelled \<and>
       check_isolation cfg (effective_workers args cfg) = Inr (mode, assignments) \<and>
       (\<exists>meta. ev_metadata env binary = Inr meta \<and> fm_is_file meta \<and> and (fm_mode meta) 0x49 \<noteq> 0) \<and>
       (\<forall>p \<in> set libraries. \<exists>meta. ev_metadata env p = Inr meta \<and> fm_is_dir meta) \<and>
       build_payload_registry (ev_fs env) (ac_blobs cfg) (ac_payloads cfg) = Inr payloads \<and>
       build_firewall cfg assignments = Some fw \<and>
       ck_log st' = snd (fw_setup (ev_os env) fw (ck_log st @ [Probed])) @ rest)"
proof -
  have result: ?thesis
    if "plan_checked env args plan" "ck_log st' = snd (fw_setup (ev_os env) (cp_firewall plan) (ck_log st @ [Probed])) @ rest"
    for plan rest
  proof -
    note ok = that(1)[unfolded plan_checked_def Let_def]
    then have "\<not> should_skip_strategies_after_baseline (check_baseline env (cp_cfg plan) (cp_target plan))"
      by metis
    with ok show ?thesis
      using that(2) check_preparation_Inr[of env args "cp_cfg plan" "cp_nfqws plan"]
      unfolding Let_def should_skip_strategies_after_baseline_def binary_valid_iff libraries_valid_iff
      by (intro disjI2 exI[of _ "cp_cfg plan"] exI[of _ "cp_target plan"] exI[of _ "cp_mode plan"]
          exI[of _ "cp_assignments plan"] exI[of _ "cn_payloads (cp_nfqws plan)"]
          exI[of _ "cp_firewall plan"] exI[of _ rest]) simp
  qed
  from assms show ?thesis
  proof (cases rule: check_command_cases)
    case ended
    then show ?thesis by blast
  next
    case (set_up plan st1)
    then show ?thesis using result[of plan "[]"] setup_cases[OF set_up(4)] by simp
  next
    case (run plan st1 job st2 cancelled results bayes es)
    then show ?thesis using result[of plan] setup_cases[OF run(4)] finish_extends[OF run(7)] by auto
  qed
qed

section \<open>A successful check\<close>

lemma setup_continues:
  assumes "check_setup env args plan st = (Continue job, st')"
  shows "load_graph env args plan = Inr (cj_nodes job)"
    and "bayes_load (ev_codec env) (ev_disk env) (ck_files st) (bayes_path_of args (cp_cfg plan)) =
      Inr (cj_bayes job)"
    and "cj_scheduler job = scheduler_of args plan" "cj_bayes_path job = bayes_path_of args (cp_cfg plan)"
    and "ck_out st' = ck_out st" "ck_files st' = ck_files st"
  using assms by (auto simp: check_setup_def Let_def case_prod_beta stage_iffs split: sum.splits)

lemma finish_success:
  assumes "check_finish env args plan job results bayes st = (Inr (), st')"
  shows "bayes_save (ev_codec env) (ev_disk env) (ck_files st) (cj_bayes_path job) bayes = Inr (ck_files st')"
    and "ck_log st' = (if fw_cleanup_on_exit (ac_firewall (cp_cfg plan))
        then snd (fw_cleanup_all (ev_os env) (cp_firewall plan) (ck_log st)) else ck_log st)"
    and "ck_out st' = ck_out st @ [printed_output args plan (final_output args plan (cj_nodes job) results)]"
  using assms by (auto simp: check_finish_def Let_def case_prod_beta split: sum.splits if_splits)

lemma check_runs:
  assumes "check_command env args st (Inr (), st')"
    and "check_until_setup env args st = (Continue plan, st1)"
  obtains nodes bayes cancelled results bayes' es where
    "plan_checked env args plan" "load_graph env args plan = Inr nodes"
    "bayes_load (ev_codec env) (ev_disk env) (ck_files st) (bayes_path_of args (cp_cfg plan)) = Inr bayes"
    "run_graph_with_bayes (ev_os env) (scheduler_of args plan) nodes (probe_timeouts_of (cp_cfg plan))
       bayes cancelled (results, bayes')"
    "workers_log (scheduler_runtime (scheduler_of args plan)) (effective_workers args (cp_cfg plan)) es"
    "bayes_save (ev_codec env) (ev_disk env) (ck_files st) (bayes_path_of args (cp_cfg plan)) bayes' =
       Inr (ck_files st')"
    "ck_log st' = (let log = snd (fw_setup (ev_os env) (cp_firewall plan) (ck_log st @ [Probed])) @ es
       in if fw_cleanup_on_exit (ac_firewall (cp_cfg plan))
          then snd (fw_cleanup_all (ev_os env) (cp_firewall plan) log) else log)"
    "ck_out st' = ck_out st @ [printed_output args plan (final_output args plan nodes results)]"
  using assms(1)
proof (cases rule: check_command_cases)
  case ended
  then show ?thesis using assms(2) by simp
next
  case (set_up plan' st1')
  then show ?thesis using assms(2) by (auto simp: check_setup_def Let_def case_prod_beta stage_iffs split: sum.splits)
next
  case (run plan' st1' job st2 cancelled results bayes' es)
  then have [simp]: "plan' = plan" "st1' = st1" using assms(2) by simp_all
  have st1: "ck_out st1 = ck_out st" "ck_files st1 = ck_files st"
    using until_setup_cases[OF assms(2)] by auto
  note setup_ok = setup_continues[OF run(4)[unfolded \<open>plan' = plan\<close> \<open>st1' = st1\<close>]]
  note finished = finish_success[OF run(7)[unfolded \<open>plan' = plan\<close>]]
  show ?thesis
    by (rule that[of "cj_nodes job" "cj_bayes job" cancelled results bayes' es])
       (use run setup_ok finished st1 setup_cases[OF run(4)] in
         \<open>simp_all add: Let_def max_absorb2 effective_workers_def\<close>)
qed


text \<open>
  C3: every strategy a successful check prints as one of the best is a strategy of the loaded
  catalogue that was measured against each target of the check, in order, every time successfully.
\<close>

theorem check_best_strategies_work:
  assumes "check_command env args st (Inr (), st')"
    and "check_until_setup env args st = (Continue plan, st1)"
  shows "\<exists>nodes output. load_graph env args plan = Inr nodes \<and>
    ck_out st' = ck_out st @ [printed_output args plan output] \<and>
    (\<forall>r \<in> set (best_strategies (ou_results output)). sr_node r \<in> set nodes \<and>
       list_all2 (\<lambda>t a. pr_strategy_id a = sn_id (sr_node r) \<and> pr_target_host a = st_host t \<and>
           pr_target_ip a = st_ip t \<and> pr_target_port a = st_port t \<and> pr_protocol a = st_protocol t \<and>
           pr_outcome a = Success)
         (ct_targets (cp_target plan)) (sr_attempts r))"
proof -
  obtain nodes bayes cancelled results bayes' where
    graph: "load_graph env args plan = Inr nodes"
    and run: "run_graph_with_bayes (ev_os env) (scheduler_of args plan) nodes
      (probe_timeouts_of (cp_cfg plan)) bayes cancelled (results, bayes')"
    and out: "ck_out st' = ck_out st @ [printed_output args plan (final_output args plan nodes results)]"
    using check_runs[OF assms] by metis
  have good: "sr_node r \<in> set nodes \<and> report_ok (ct_targets (cp_target plan)) r"
    if "r \<in> set results" for r
    using run
  proof (rule scheduler_run)
    fix assignments s pool_results
    assume s: "pool_inv (scheduler_pool (scheduler_of args plan))
        (runtime_backend (ev_os env) (scheduler_runtime (scheduler_of args plan))) assignments
        (pool_tasks nodes (sc_targets (scheduler_of args plan)) (probe_timeouts_of (cp_cfg plan))) s"
      "pl_collector s = Finished pool_results"
      and out: "results = map (run_result (sc_score_weights (scheduler_of args plan))) pool_results"
    show ?thesis using scheduler_results(2)[OF s] that by (auto simp: out)
  qed
  have "list_all2 (\<lambda>t a. pr_strategy_id a = sn_id (sr_node r) \<and> pr_target_host a = st_host t \<and>
        pr_target_ip a = st_ip t \<and> pr_target_port a = st_port t \<and> pr_protocol a = st_protocol t \<and>
        pr_outcome a = Success) (ct_targets (cp_target plan)) (sr_attempts r)"
    if "report_ok (ct_targets (cp_target plan)) r" "succeeded r" for r
    using that by (auto simp: report_ok_def succeeded_def list_all2_conv_all_nth)
  moreover have "set (best_strategies results) = {r \<in> set results. succeeded r}"
    by (simp add: best_strategies_def)
  ultimately show ?thesis
    using graph out good
    by (intro exI[of _ nodes] exI[of _ "final_output args plan nodes results"])
       (simp add: final_output_def check_output_of_def)
qed

section \<open>A check can finish\<close>

lemma try_fold_nonempty:
  assumes "try_fold f acc xs = Inr out" "xs \<noteq> []" and f: "\<And>acc x out. f acc x = Inr out \<Longrightarrow> out \<noteq> []"
  shows "out \<noteq> []"
  using assms(1,2)
proof (induction xs arbitrary: acc)
  case (Cons x xs)
  then obtain acc' where "f acc x = Inr acc'" "try_fold f acc' xs = Inr out"
    by (auto simp: res_bind_Inr_iff)
  then show ?case using Cons.IH f by (cases "xs = []") auto
qed simp

lemma check_target_nonempty:
  assumes "check_target_of env args cfg = Inr ct"
  shows "ct_targets ct \<noteq> []"
proof -
  have "targets \<noteq> []"
    if "build_strategy_targets url client cfg request selected explicit n = Inr targets" "n > 0"
    for url client request selected explicit n targets
  proof -
    have ne: "pc_base_domains (ac_probe cfg) \<noteq> []" and fold: "try_fold (\<lambda>targets domain.
        res_bind (parse_probe_domain_target url domain selected explicit) (\<lambda>parsed.
        append_repeated_strategy_target client cfg targets parsed request n))
        [] (pc_base_domains (ac_probe cfg)) = Inr targets"
      using that by (auto simp: build_strategy_targets_def split: if_splits)
    show ?thesis
      by (rule try_fold_nonempty[OF fold ne])
         (use that(2) in \<open>auto simp: append_repeated_strategy_target_def stage_iffs split: if_splits\<close>)
  qed
  then show ?thesis
    using assms by (auto simp: check_target_of_def Let_def stage_iffs split: if_splits)
qed

lemma validate_channels:
  "validate c = Inr () \<Longrightarrow> 0 < wk_task_channel_size (ac_workers c) \<and> 0 < wk_result_channel_size (ac_workers c)"
  by (simp add: validate_def Let_def split: if_splits)

lemma check_can_run:
  assumes "check_until_setup env args st = (Continue plan, st1)"
    and "check_setup env args plan st1 = (Continue job, st2)"
    and "cp_mode plan = SourcePort" and "success_limit args (cp_cfg plan) = 0"
  obtains results bayes where
    "check_command env args st (check_finish env args plan job results bayes st2)"
proof -
  let ?cfg = "cp_cfg plan"
  have ok: "plan_checked env args plan" using until_setup_cases[OF assms(1)] by auto
  note ok = this[unfolded plan_checked_def Let_def]
  have n: "1 \<le> effective_workers args ?cfg" by (simp add: effective_workers_def)
  have as: "generate_assignments (effective_workers args ?cfg) (ac_isolation ?cfg) = Some (cp_assignments plan)"
    using ok check_isolation_Inr by blast
  then have "cp_assignments plan \<noteq> []" using n generate_assignments_length by fastforce
  moreover have "ct_targets (cp_target plan) \<noteq> []" using ok check_target_nonempty by blast
  moreover have "channels_open (scheduler_pool (scheduler_of args plan))"
    using ok validate_channels[of ?cfg] by (auto simp: channels_open_def scheduler_pool_def)
  moreover have "wr_isolation_mode (worker_runtime_of plan) = SourcePort"
    using assms(3) by (simp add: worker_runtime_of_def Let_def)
  ultimately obtain out b' where "run_graph_with_bayes (ev_os env) (scheduler_of args plan)
      (cj_nodes job) (probe_timeouts_of ?cfg) (cj_bayes job) False (out, b')"
    using scheduler_can_run[of "scheduler_of args plan" "cp_assignments plan" "ev_os env" "cj_nodes job"
        "probe_timeouts_of ?cfg" "cj_bayes job"] as n assms(4) by (auto simp: max_absorb2)
  moreover have "st2\<lparr> ck_log := ck_log st2 @ [] \<rparr> = st2" by simp
  ultimately have "check_command env args st (check_finish env args plan job out b' st2)"
    unfolding check_command_def assms(1,2) prod.case stage.case
    using setup_continues(3)[OF assms(2)] workers_log_Nil by metis
  then show thesis by (rule that)
qed

lemma cleanup_succeeds: "fst (fw_cleanup_all os fw log) = Inr ()"
  by (cases fw) (simp_all add: fw_cleanup_all_def nft_cleanup_all_def vmap_cleanup_all_def)

text \<open>
  C8: a check in source port mode without a stop limit that gets past its preparations can always
  run to its end, and then fails at most on saving the posteriors.
\<close>

theorem check_can_finish:
  assumes "check_until_setup env args st = (Continue plan, st1)"
    and "check_setup env args plan st1 = (Continue job, st2)"
    and "cp_mode plan = SourcePort" and "success_limit args (cp_cfg plan) = 0"
  shows "\<exists>r st'. check_command env args st (r, st') \<and> (r = Inr () \<or> (\<exists>e. r = Inl (CkBayes e)))"
proof -
  obtain results bayes where run: "check_command env args st (check_finish env args plan job results bayes st2)"
    using check_can_run[OF assms] by blast
  have "fst (check_finish env args plan job results bayes st2) = Inr () \<or>
      (\<exists>e. fst (check_finish env args plan job results bayes st2) = Inl (CkBayes e))"
    using cleanup_succeeds by (auto simp: check_finish_def Let_def case_prod_beta split: sum.splits)
  with run show ?thesis by (metis surj_pair fst_conv)
qed

section \<open>A check\<close>

definition sample_args :: check_args where
  "sample_args =
     \<lparr> ca_config = ''c.toml'', ca_host = None, ca_url = None, ca_method = None, ca_read_mode = None,
       ca_min_body_bytes = None, ca_max_read_bytes = None, ca_test_count = None, ca_workers = None,
       ca_backend = None, ca_strategies_dir = None, ca_bayes_state = None, ca_nfqws_binary = None,
       ca_nfqws_lib_dir = [], ca_probe_protocol = None, ca_successful_strategy_limit = Some 0,
       ca_json = False \<rparr>"

text \<open>
  An environment with the configuration, \<open>strategies\<close> as the text of the catalogue, one strategy in it, and a
  baseline probe that times out.
\<close>

definition sample_check_env :: "string option \<Rightarrow> check_env" where
  "sample_check_env strategies =
     \<lparr> ev_read = \<lambda>p. if p = ''c.toml'' then Some [] else strategies,
       ev_config_yaml = \<lambda>_. Inr (app_fields_of checker_config),
       ev_config_toml = \<lambda>_. Inr (app_fields_of checker_config),
       ev_url = \<lambda>_. None, ev_doh = sample_doh,
       ev_net = \<lparr> ne_tls = sample_tls_library, ne_certs = (\<lambda>_. sample_certs), ne_sockets = sample_sockets, ne_probe = sample_env, ne_outer = \<lambda>_. WTimeout,
         ne_end_ms = 1000 \<rparr>,
       ev_curl = \<lparr> cu_output = \<lambda>_ _. None, cu_end_ms = 1000 \<rparr>,
       ev_metadata = \<lambda>_. Inr \<lparr> fm_is_file = True, fm_is_dir = True, fm_mode = 0x1ED \<rparr>,
       ev_fs = all_files,
       ev_parse_yaml = \<lambda>_. Inr (YMapping [(YString ''strategies'', YSequence [YNull])]),
       ev_decode = \<lambda>_. Some sample_node,
       ev_codec = \<lparr> bc_parse_json = \<lambda>_. Inr Map.empty, bc_print_json = \<lambda>_. Inr [],
         bc_parse_yaml = \<lambda>_. Inr (YMapping []), bc_print_yaml = \<lambda>_. Inr [],
         bc_from_value = \<lambda>_. Inr Map.empty, bc_to_value = \<lambda>_. Inr YNull \<rparr>,
       ev_disk = \<lparr> bd_read = \<lambda>_. Inr (), bd_create_dir = \<lambda>_. Inr (), bd_write = \<lambda>_. Inr () \<rparr>,
       ev_os = sample_os \<rparr>"

definition sample_state :: check_state where
  "sample_state = \<lparr> ck_log = [], ck_files = Map.empty, ck_out = [], ck_err = [] \<rparr>"

lemma sample_load: "load_config (sample_check_env s) ''c.toml'' = Inr checker_config"
  by (simp add: load_config_def app_config_load_def sample_check_env_def lift_err_def ok_or_def
      config_parser_def app_fields_given checker_config_valid split: option.split)

lemma sample_target:
  "\<exists>ct. check_target_of (sample_check_env s) sample_args checker_config = Inr ct \<and>
     tr_protocol (ct_target ct) = Tls12Http11"
proof -
  have d: "pc_base_domains (ac_probe checker_config) = [''youtube.com'']" by (simp add: checker_config_def)
  show ?thesis
    by (simp add: check_target_of_def sample_args_def sample_check_env_def selected_protocol_def
        parse_probe_protocol_def protocol_enabled_def primary_target_request_def d sample_domain
        sample_resolve lift_err_def request_from_config_def method_parse_config_def
        read_mode_parse_config_def build_strategy_targets_def append_repeated_strategy_target_def Let_def
        to_ascii_lowercase_def to_ascii_uppercase_def eval_simps)
qed

lemma sample_baseline:
  "tr_protocol (ct_target ct) = Tls12Http11 \<Longrightarrow>
     pr_failure_kind (check_baseline (sample_check_env s) checker_config ct) = Some TargetFailure"
  by (simp add: check_baseline_def run_baseline_probe_def native_probe_def direct_task_def direct_context_def
      sample_check_env_def sample_sockets_def prepare_transport_def prepare_tcp_socket_def map_io_def
      outer_result_def probe_failure_kind_def)

lemma sample_registry:
  "\<exists>payloads. build_payload_registry all_files (ac_blobs checker_config) (ac_payloads checker_config) =
     Inr payloads"
  by (simp add: build_payload_registry_def registry_base_dir_def all_files_def
      payload_config_default_def default_payload_protocol_config_def push_protocol_payloads_def
      push_builtin_def push_payload_def insert_unique_alias_def collect_files_def add_file_def
      validate_file_payload_alias_def validate_payload_file_def builtin_payload_aliases_def
      resolve_payload_path_def path_join_def is_absolute_def alias_from_upper alias_from_lower
      registry_validate_alias_def eval_simps del: registry_validate_alias_Inr)

lemma sample_continues:
  "\<exists>plan st1 m. check_until_setup (sample_check_env s) sample_args sample_state = (Continue plan, st1) \<and>
     cp_cfg plan = checker_config \<and> cp_mode plan = SourcePort \<and> cp_firewall plan = Nftables m \<and>
     nm_table m = ''zapret_checker'' \<and> ck_files st1 = Map.empty"
proof -
  obtain ct where ct: "check_target_of (sample_check_env s) sample_args checker_config = Inr ct"
      "tr_protocol (ct_target ct) = Tls12Http11" using sample_target by blast
  obtain as where "generate_assignments 64 isolation_config_default = Some as"
    using default_assignments[of 63] by auto
  then have iso: "check_isolation checker_config (effective_workers sample_args checker_config) = Inr (SourcePort, as)"
    by (simp add: check_isolation_def effective_workers_def sample_args_def isolation_mode_parse_def
        isolation_config_default_def lift_err_def ok_or_def)
  obtain payloads where "build_payload_registry all_files (ac_blobs checker_config)
      (ac_payloads checker_config) = Inr payloads" using sample_registry by blast
  moreover have "validate_nfqws_binary (sample_check_env s) p = Inr ()" for p
    by (simp add: binary_valid_iff sample_check_env_def)
  moreover have "validate_nfqws_library_paths (sample_check_env s) ps = Inr ()" for ps
    by (simp add: libraries_valid_iff sample_check_env_def)
  moreover have "ev_fs (sample_check_env s) = all_files" by (simp add: sample_check_env_def)
  ultimately obtain nq where prep: "check_preparation (sample_check_env s) sample_args checker_config = Inr nq"
    by (simp add: check_preparation_def lift_err_def Let_def del: checker_config_fields)
  have fw: "\<exists>m. build_firewall checker_config as = Some (Nftables m) \<and> nm_table m = ''zapret_checker''"
    by (simp add: build_firewall_def isolation_mode_parse_def isolation_config_default_def)
  have "\<not> should_skip_strategies_after_baseline (check_baseline (sample_check_env s) checker_config ct)"
    by (simp add: should_skip_strategies_after_baseline_def sample_baseline[OF ct(2)])
  moreover have "check_backend sample_args checker_config = ''native''" "ca_config sample_args = ''c.toml''"
    by (simp_all add: check_backend_def sample_args_def)
  ultimately show ?thesis
    using fw by (auto simp: check_until_setup_def sample_load ct(1) Let_def check_after_baseline_def iso prep
        ok_or_def sample_state_def)
qed

text \<open>The check of the sample succeeds.\<close>

lemma sample_graph:
  "cp_cfg plan = checker_config \<Longrightarrow>
     \<exists>nodes. load_graph (sample_check_env (Some [])) sample_args plan = Inr nodes"
  by (simp add: load_graph_def load_for_protocol_mode_def sample_check_env_def sample_args_def
      strategies_file_def strategies_config_default_def ok_or_def lift_err_def value_seq_def
      yaml_get_def as_mapping_def as_sequence_def parse_simple_strategies_def)

lemma sample_check:
  "\<exists>plan st1 job st2 st'.
     check_until_setup (sample_check_env (Some [])) sample_args sample_state = (Continue plan, st1) \<and>
     check_setup (sample_check_env (Some [])) sample_args plan st1 = (Continue job, st2) \<and>
     cp_mode plan = SourcePort \<and> success_limit sample_args (cp_cfg plan) = 0 \<and>
     check_command (sample_check_env (Some [])) sample_args sample_state (Inr (), st')"
proof -
  let ?env = "sample_check_env (Some [])"
  obtain plan st1 m where p: "check_until_setup ?env sample_args sample_state = (Continue plan, st1)"
    "cp_cfg plan = checker_config" "cp_mode plan = SourcePort" "cp_firewall plan = Nftables m"
    "ck_files st1 = Map.empty"
    using sample_continues by blast
  obtain nodes where "load_graph ?env sample_args plan = Inr nodes" using sample_graph[OF p(2)] by blast
  then obtain job st2 where s: "check_setup ?env sample_args plan st1 = (Continue job, st2)"
    by (simp add: check_setup_def Let_def case_prod_beta p(4,5) firewall_defs lift_err_def bayes_load_def)
  have limit: "success_limit sample_args (cp_cfg plan) = 0" by (simp add: success_limit_def sample_args_def)
  obtain results bayes where run: "check_command ?env sample_args sample_state
      (check_finish ?env sample_args plan job results bayes st2)"
    using check_can_run[OF p(1) s p(3) limit] by blast
  have "\<exists>files. bayes_save (ev_codec ?env) (ev_disk ?env) Map.empty (cj_bayes_path job) bayes = Inr files"
    by (simp add: bayes_save_def sample_check_env_def split: option.split)
  then obtain files where save:
    "bayes_save (ev_codec ?env) (ev_disk ?env) (ck_files st2) (cj_bayes_path job) bayes = Inr files"
    using setup_continues(6)[OF s] p(5) by auto
  have "fst (check_finish ?env sample_args plan job results bayes st2) = Inr ()"
    by (simp add: check_finish_def Let_def case_prod_beta save cleanup_succeeds)
  then show ?thesis using p s limit run by (metis surj_pair fst_conv)
qed

theorem setup_after_validation_witness:
  "\<exists>st'. check_command (sample_check_env (Some [])) sample_args sample_state (Inr (), st') \<and>
     (ck_log st' = [] \<or> ck_log st' = [Probed] \<or>
      (\<exists>fw rest. ck_log st' = snd (fw_setup (ev_os (sample_check_env (Some []))) fw [Probed]) @ rest))"
proof -
  obtain st' where run: "check_command (sample_check_env (Some [])) sample_args sample_state (Inr (), st')"
    using sample_check by blast
  moreover have "ck_log sample_state = []" by (simp add: sample_state_def)
  ultimately show ?thesis using setup_after_validation[OF run] by (auto simp: Let_def)
qed


theorem check_best_strategies_work_witness:
  "\<exists>st' plan st1 nodes. check_command (sample_check_env (Some [])) sample_args sample_state (Inr (), st') \<and>
     check_until_setup (sample_check_env (Some [])) sample_args sample_state = (Continue plan, st1) \<and>
     load_graph (sample_check_env (Some [])) sample_args plan = Inr nodes \<and> length (ck_out st') = 1"
proof -
  obtain plan st1 st' where
    first: "check_until_setup (sample_check_env (Some [])) sample_args sample_state = (Continue plan, st1)"
    and run: "check_command (sample_check_env (Some [])) sample_args sample_state (Inr (), st')"
    using sample_check by blast
  have "ck_out sample_state = []" by (simp add: sample_state_def)
  then show ?thesis using check_best_strategies_work[OF run first] run first by auto
qed

theorem check_can_finish_witness:
  "\<exists>r st'. check_command (sample_check_env (Some [])) sample_args sample_state (r, st') \<and>
     (r = Inr () \<or> (\<exists>e. r = Inl (CkBayes e)))"
  using sample_check check_can_finish by blast

section \<open>What a check leaves alone\<close>

lemma firewall_keeps_ip_rules:
  "ip_rules (snd (fw_setup os mgr l)) = ip_rules l" "ip_rules (snd (fw_cleanup_all os mgr l)) = ip_rules l"
  by (cases mgr; simp add: firewall_defs world_defs ip_rules_def ip_rule_change_def split: sum.split)+

lemma built_manages: "build_firewall cfg as = Some mgr \<Longrightarrow> manages_table mgr (fw_table (ac_firewall cfg))"
  by (auto simp: build_firewall_def Let_def manages_table_def split: if_splits sum.splits)

lemma finish_log:
  "check_finish env args plan job results bayes st = (r, st') \<Longrightarrow>
     ck_log st' = ck_log st \<or> ck_log st' = snd (fw_cleanup_all (ev_os env) (cp_firewall plan) (ck_log st))"
  by (auto simp: check_finish_def Let_def case_prod_beta split: sum.splits if_splits)

text \<open>
  C4: However a check ends, whatever its backend and however its workers interleave, it has only added to
  the log, every command it gave to nft is about the table of the configuration, and every iptables
  rule that was in force before it still is.
\<close>

theorem check_leaves_others_alone:
  assumes "check_command env args st (r, st')" and "load_config env (ca_config args) = Inr cfg"
  shows "\<exists>es. ck_log st' = ck_log st @ es \<and> list_all (about_table (fw_table (ac_firewall cfg))) es \<and>
    ip_rules (ck_log st) \<subseteq># ip_rules (ck_log st')"
proof -
  let ?t = "fw_table (ac_firewall cfg)"
  have probed: "list_all (about_table ?t) [Probed]" "ip_rules (l @ [Probed]) = ip_rules l" for l
    by (simp_all add: about_table_def)
  have table: "manages_table (cp_firewall plan) ?t" if "plan_checked env args plan" for plan
    using that built_manages assms(2) by (auto simp: plan_checked_def Let_def)
  from assms(1) show ?thesis
  proof (cases rule: check_command_cases)
    case ended
    then show ?thesis using probed by (elim disjE) auto
  next
    case (set_up plan st1)
    obtain es where es: "ck_log st' = ck_log st1 @ es" "list_all (about_table ?t) es"
      using firewall_about_table(1)[OF table[OF set_up(2)]] setup_cases[OF set_up(4)] by metis
    have "ip_rules (ck_log st') = ip_rules (ck_log st)"
      using setup_cases[OF set_up(4)] set_up(3) probed(2) by (simp add: firewall_keeps_ip_rules)
    then show ?thesis using es set_up(3) probed(1) by (intro exI[of _ "Probed # es"]) auto
  next
    case (run plan st1 job st2 cancelled results bayes es)
    note table = table[OF run(2)]
    have rt: "wr_firewall (scheduler_runtime (cj_scheduler job)) = cp_firewall plan"
      using setup_continues(3)[OF run(4)] by (simp add: scheduler_runtime_def worker_runtime_of_def Let_def)
    obtain fs where fs: "ck_log st2 = ck_log st1 @ fs" "list_all (about_table ?t) fs"
      using firewall_about_table(1)[OF table] setup_cases[OF run(4)] by metis
    have "list_all (about_table ?t) es" using workers_log_table[OF run(6)] table rt by simp
    moreover obtain gs where "ck_log st' = ck_log st2 @ es @ gs" "list_all (about_table ?t) gs"
    proof -
      obtain gs where "snd (fw_cleanup_all (ev_os env) (cp_firewall plan) (ck_log st2 @ es)) = (ck_log st2 @ es) @ gs"
        "list_all (about_table ?t) gs"
        using firewall_about_table(4)[OF table] by blast
      then show thesis using that[of gs] that[of "[]"] finish_log[OF run(7)] by auto
    qed
    moreover have "ip_rules (ck_log st) \<subseteq># ip_rules (ck_log st')"
    proof -
      have "ip_rules (ck_log st2) = ip_rules (ck_log st)"
        using setup_cases[OF run(4)] run(3) probed(2) by (simp add: firewall_keeps_ip_rules)
      moreover have "ip_rules (ck_log st') = ip_rules (ck_log st2 @ es)"
        using finish_log[OF run(7)] by (auto simp: firewall_keeps_ip_rules)
      ultimately show ?thesis using workers_log_rules[OF run(6), of "ck_log st2"] by simp
    qed
    ultimately show ?thesis
      using fs run(3) probed(1) by (intro exI[of _ "Probed # fs @ es @ gs"]) simp
  qed
qed

theorem check_leaves_others_alone_witness:
  "\<exists>st'. check_command (sample_check_env (Some [])) sample_args sample_state (Inr (), st') \<and>
     list_all (about_table ''zapret_checker'') (ck_log st')"
proof -
  obtain st' where run: "check_command (sample_check_env (Some [])) sample_args sample_state (Inr (), st')"
    using sample_check by blast
  have "load_config (sample_check_env (Some [])) (ca_config sample_args) = Inr checker_config"
    using sample_load by (simp add: sample_args_def)
  from check_leaves_others_alone[OF run this] run show ?thesis by (auto simp: sample_state_def)
qed

section \<open>Error paths\<close>


text \<open>
  With the iptables backend the cleanup command runs nothing: a rule that a broken check left is
  not removed.
\<close>

theorem cleanup_iptables_does_nothing:
  assumes "load_config env config = Inr cfg" and "fw_backend (ac_firewall cfg) = ''iptables''"
  shows "cleanup_command env config st = (Inr (), st)"
proof -
  have "validate_isolation cfg = Inr ()" using validate_Inr(1)[OF load_config_Inr[OF assms(1)]] .
  then have "isolation_mode_parse (is_mode (ac_isolation cfg)) \<noteq> Inr Fwmark"
    using assms(2) by (auto simp: validate_isolation_def Let_def stage_iffs split: if_splits)
  then show ?thesis
    using assms by (simp add: cleanup_command_def build_firewall_def ok_or_def fw_cleanup_all_def lift_err_def)
qed

text \<open>
  The number of workers of the command line is not validated: with enough of them two workers share
  a queue.
\<close>

theorem workers_override_unchecked:
  "\<exists>args mode as. validate checker_config = Inr () \<and>
     check_isolation checker_config (effective_workers args checker_config) = Inr (mode, as) \<and>
     \<not> distinct (map wa_qnum as)"
proof -
  let ?args = "sample_args\<lparr> ca_workers := Some 65537 \<rparr>"
  obtain as where as: "generate_assignments 65537 isolation_config_default = Some as"
    using default_assignments[of 65536] by auto
  then have "check_isolation checker_config (effective_workers ?args checker_config) = Inr (SourcePort, as)"
    by (simp add: check_isolation_def effective_workers_def isolation_mode_parse_def
        isolation_config_default_def lift_err_def ok_or_def)
  moreover have "wa_qnum (as ! 0) = wa_qnum (as ! 65536)"
    using as by (auto simp: generate_assignments_def assign_def Let_def split: sum.splits isolation_mode.splits)
  then have "\<not> distinct (map wa_qnum as)"
    using generate_assignments_length[OF as] nth_eq_iff_index_eq[of "map wa_qnum as" 0 65536] by auto
  ultimately show ?thesis using checker_config_valid by blast
qed

end
