(* ===== verification/NftRules.thy ===== *)
theory NftRules
  imports Worker
begin

text \<open>
  The runs of a worker with the nftables manager, the one the configuration selects by default.
  The manager deletes a rule by the handle it finds in a listing, so what it leaves depends on the
  kernel: the rules it holds are a function of the log, and the listing is the documented one of
  \<^verbatim>\<open>nft -a list chain\<close>, as the sample in \<^verbatim>\<open>tests/firewall_render_tests.rs\<close> has it.
\<close>

section \<open>The rules of the table\<close>

text \<open>
  An entry is a handle, a chain and the text of the rule. A rule that the event with index \<open>n\<close>
  adds gets the handle \<open>handle n\<close>.
\<close>

type_synonym nft_entry = "u64 \<times> string \<times> string list"

definition nft_change :: "string \<Rightarrow> u64 \<Rightarrow> event \<Rightarrow> nft_entry list \<Rightarrow> nft_entry list" where
  "nft_change t h e tbl =
     (case e of
        Ran prog args (Inr out) \<Rightarrow>
          if co_success out \<and> prog = ''nft'' then
            (if take 4 args = [''add'', ''rule'', ''inet'', t] then tbl @ [(h, args ! 4, drop 5 args)]
             else if take 4 args = [''delete'', ''rule'', ''inet'', t] then
               filter (\<lambda>(h', c, _). [c, ''handle'', dec_of_nat (unat h')] \<noteq> drop 4 args) tbl
             else if args = delete_table t then [] else tbl)
          else tbl
      | _ \<Rightarrow> tbl)"

fun nft_after :: "string \<Rightarrow> (nat \<Rightarrow> u64) \<Rightarrow> nft_entry list \<Rightarrow> nat \<Rightarrow> event list \<Rightarrow> nft_entry list" where
  "nft_after t handle tbl n [] = tbl"
| "nft_after t handle tbl n (e # es) = nft_after t handle (nft_change t (handle n) e tbl) (Suc n) es"

definition nft_table :: "string \<Rightarrow> (nat \<Rightarrow> u64) \<Rightarrow> log \<Rightarrow> nft_entry list" where
  "nft_table t handle log = nft_after t handle [] 0 log"

definition nft_rules :: "string \<Rightarrow> (nat \<Rightarrow> u64) \<Rightarrow> log \<Rightarrow> (string \<times> string list) multiset" where
  "nft_rules t handle log = mset (map snd (nft_table t handle log))"

lemma nft_after_append:
  "nft_after t handle tbl n (es @ fs) = nft_after t handle (nft_after t handle tbl n es) (n + length es) fs"
  by (induction es arbitrary: tbl n) simp_all

lemma nft_table_Nil [simp]: "nft_table t handle [] = []"
  by (simp add: nft_table_def)

lemma nft_table_snoc:
  "nft_table t handle (log @ [e]) = nft_change t (handle (length log)) e (nft_table t handle log)"
  by (simp add: nft_table_def nft_after_append)

lemma nft_rules_process: "process_event e \<Longrightarrow> nft_rules t handle (l @ [e]) = nft_rules t handle l"
  by (cases e) (simp_all add: nft_rules_def nft_table_snoc nft_change_def split: sum.split)

text \<open>Handles are not reused, as long as the counter of the kernel does not wrap.\<close>

definition fresh_handles :: "(nat \<Rightarrow> u64) \<Rightarrow> bool" where
  "fresh_handles handle \<longleftrightarrow> inj_on handle {..< 2 ^ 64}"

lemma nft_change_handles:
  assumes "distinct (map fst tbl)" and "h \<notin> fst ` set tbl"
  shows "distinct (map fst (nft_change t h e tbl))" and "fst ` set (nft_change t h e tbl) \<subseteq> insert h (fst ` set tbl)"
  using assms by (auto simp: nft_change_def distinct_map_filter split: event.split sum.split)

lemma nft_table_handles:
  assumes "fresh_handles handle" and "length log \<le> 2 ^ 64"
  shows "distinct (map fst (nft_table t handle log)) \<and> fst ` set (nft_table t handle log) \<subseteq> handle ` {..< length log}"
  using assms(2)
proof (induction log rule: rev_induct)
  case (snoc e log)
  have "length log < 2 ^ 64" using snoc.prems by simp
  then have "handle (length log) \<notin> handle ` {..< length log}"
    using assms(1) unfolding fresh_handles_def by (auto dest: inj_onD)
  then have "handle (length log) \<notin> fst ` set (nft_table t handle log)" using snoc by auto
  from nft_change_handles[OF _ this, of t e] snoc show ?case
    by (auto simp: nft_table_snoc lessThan_Suc)
qed simp

section \<open>The listing\<close>

definition rule_spec :: "worker_firewall_rule \<Rightarrow> string list" where
  "rule_spec rule =
     [ip_keyword (fr_target_ip rule), ''daddr'', ip_to_string (fr_target_ip rule),
      proto_name (fr_protocol rule), ''sport'', port_text (fr_source_port rule),
      proto_name (fr_protocol rule), ''dport'', port_text (fr_target_port rule),
      ''queue'', ''num'', port_text (fr_qnum rule), ''bypass'']"

abbreviation rule_key :: "worker_firewall_rule \<Rightarrow> string \<times> string list" where
  "rule_key rule \<equiv> (chain_name (fr_hook rule), rule_spec rule)"

lemma nft_add_rule_spec:
  "nft_add_rule m rule = [''add'', ''rule'', ''inet'', nm_table m, chain_name (fr_hook rule)] @ rule_spec rule"
  by (simp add: nft_add_rule_def rule_spec_def)

text \<open>The line the kernel prints for a rule that a worker added.\<close>

definition nft_line :: "nft_entry \<Rightarrow> string" where
  "nft_line = (\<lambda>(h, _, spec). [CHR 0x09, CHR 0x09] @ join '' '' (take 9 spec) @
     '' queue flags bypass to '' @ spec ! 11 @ '' # handle '' @ dec_of_nat (unat h))"

lemma nft_line_listed: "nft_line (h, c, rule_spec rule) = [CHR 0x09, CHR 0x09] @ listed_line rule (unat h)"
  by (simp add: nft_line_def rule_spec_def listed_line_def)

lemma line_handle_nft: "line_handle (nft_line (h, c, rule_spec rule)) = Some h"
proof -
  have "\<exists>body. nft_line (h, c, rule_spec rule) = body @ ''# handle '' @ dec_of_nat (unat h)"
    unfolding nft_line_listed listed_line_def
    by (metis append.assoc)
  then show ?thesis using line_handle_dec by fastforce
qed

lemma contains_here: "contains_sub p (p @ s)"
  by (auto simp: contains_sub_iff intro: exI[of _ "[]"])

lemma contains_later: "contains_sub p s \<Longrightarrow> contains_sub p (a @ s)"
  unfolding contains_sub_iff by (metis append.assoc)

lemma nft_line_matches: "line_matches rule (nft_line (h, c, rule_spec rule))"
proof -
  let ?A = "ip_keyword (fr_target_ip rule) @ '' daddr '' @ ip_to_string (fr_target_ip rule)"
  let ?B = "proto_name (fr_protocol rule) @ '' sport '' @ port_text (fr_source_port rule)"
  let ?C = "proto_name (fr_protocol rule) @ '' dport '' @ port_text (fr_target_port rule)"
  let ?H = "dec_of_nat (unat h)"
  have l: "nft_line (h, c, rule_spec rule) = [CHR 0x09, CHR 0x09] @ ?A @ '' '' @ ?B @ '' '' @ ?C @ '' '' @
      ''queue'' @ '' flags bypass to '' @ port_text (fr_qnum rule) @ '' '' @ ''# handle '' @ ?H"
    by (simp add: nft_line_listed listed_line_def)
  show ?thesis
    unfolding line_matches_def l
    by (intro conjI) (rule contains_here | rule contains_later)+
qed

definition worker_made :: "nft_entry list \<Rightarrow> bool" where
  "worker_made tbl \<longleftrightarrow> (\<forall>(h, c, s) \<in> set tbl. \<exists>rule. (c, s) = rule_key rule)"

text \<open>
  What the manager relies on of nft: a listing that succeeds has one line for each rule of the
  chain, in their order, between other lines, which mention no address.
\<close>

definition nft_kernel :: "os \<Rightarrow> nft_manager \<Rightarrow> (nat \<Rightarrow> u64) \<Rightarrow> bool" where
  "nft_kernel os m handle \<longleftrightarrow> fresh_handles handle \<and>
     (\<forall>l hook out. worker_made (nft_table (nm_table m) handle l) \<and>
        os_run os l ''nft'' (nft_list_chain m hook) = Inr out \<and> co_success out \<longrightarrow>
        (\<exists>pre post. lines (utf8_lossy (co_stdout out)) =
           pre @ map nft_line (filter (\<lambda>(h, c, s). c = chain_name hook) (nft_table (nm_table m) handle l)) @ post \<and>
           (\<forall>x \<in> set (pre @ post). \<not> contains_sub '' daddr '' x)))"

section \<open>Installing and removing a rule\<close>

definition nft_removable :: "nft_manager \<Rightarrow> (nat \<Rightarrow> u64) \<Rightarrow> worker_firewall_rule \<Rightarrow> log \<Rightarrow> bool" where
  "nft_removable m handle rule l \<longleftrightarrow>
     length l \<le> 2 ^ 64 \<and> worker_made (nft_table (nm_table m) handle l) \<and>
     (\<forall>(h, c, s) \<in> set (nft_table (nm_table m) handle l).
        c = chain_name (fr_hook rule) \<and> line_matches rule (nft_line (h, c, s)) \<longrightarrow> s = rule_spec rule)"

lemma nft_install_rules:
  assumes "fw_install_worker_rule os (Nftables m) rule l = (res, l')"
  shows "live l' = live l" and "nft_rules (nm_table m) handle l' =
    (case res of Inr _ \<Rightarrow> nft_rules (nm_table m) handle l + {#rule_key rule#} | Inl _ \<Rightarrow> nft_rules (nm_table m) handle l)"
  using assms
  by (auto simp: firewall_defs run_command_def Let_def command_result_def nft_rules_def nft_table_snoc
      nft_change_def nft_add_rule_spec split: sum.splits if_splits)

text \<open>Listing the rules changes none, and a deletion by its handle removes one entry.\<close>

lemma nft_change_list: "nft_change t h (Ran ''nft'' (nft_list_chain m hook) r) tbl = tbl"
  by (simp add: nft_change_def nft_list_chain_def delete_table_def split: sum.split)

lemma nft_change_failed:
  "(\<And>out. r = Inr out \<Longrightarrow> \<not> co_success out) \<Longrightarrow> nft_change t h (Ran prog args r) tbl = tbl"
  by (auto simp: nft_change_def split: sum.split)

lemma nft_change_delete:
  assumes "co_success out" and "distinct (map fst tbl)" and "(h, chain_name (fr_hook rule), s) \<in> set tbl"
  shows "mset (map snd (nft_change (nm_table m) n (Ran ''nft'' (nft_delete_rule_by_handle m rule h) (Inr out)) tbl))
    = mset (map snd tbl) - {#(chain_name (fr_hook rule), s)#}"
proof -
  let ?e = "(h, chain_name (fr_hook rule), s)"
  obtain as bs where tbl: "tbl = as @ ?e # bs" using assms(3) by (meson split_list)
  let ?P = "\<lambda>(h', c, _). [c, ''handle'', dec_of_nat (unat h')] \<noteq>
      [chain_name (fr_hook rule), ''handle'', dec_of_nat (unat h)]"
  have "\<forall>x \<in> set (as @ bs). fst x \<noteq> h" using assms(2) by (auto simp: tbl)
  moreover have "?P x" if "fst x \<noteq> h" for x using that by (cases x) (simp add: word_unat_eq_iff)
  ultimately have "\<forall>x \<in> set (as @ bs). ?P x" by blast
  then have "filter ?P as = as" "filter ?P bs = bs" by (simp_all add: filter_id_conv)
  then have "filter ?P tbl = as @ bs" by (simp add: tbl)
  then show ?thesis
    using assms(1) by (simp add: nft_change_def nft_delete_rule_by_handle_def tbl)
qed

lemma find_between:
  "\<forall>x \<in> set (pre @ post). \<not> P x \<Longrightarrow>
     find P (pre @ map f xs @ post) = map_option f (find (P \<circ> f) xs)"
proof (induction pre)
  case Nil
  then show ?case by (induction xs) (auto simp: find_None_iff)
qed simp

text \<open>A listed rule is found by its own line, and only by it.\<close>

lemma nft_found:
  assumes kernel: "nft_kernel os m handle" and rem: "nft_removable m handle rule l"
    and out: "os_run os l ''nft'' (nft_list_chain m (fr_hook rule)) = Inr out" "co_success out"
  shows "case find_nft_rule_handle (utf8_lossy (co_stdout out)) rule of
      Some h \<Rightarrow> (h, rule_key rule) \<in> set (nft_table (nm_table m) handle l)
    | None \<Rightarrow> rule_key rule \<notin> snd ` set (nft_table (nm_table m) handle l)"
proof -
  let ?t = "nft_table (nm_table m) handle l" and ?c = "chain_name (fr_hook rule)"
  let ?es = "filter (\<lambda>(h, c, s). c = ?c) ?t"
  obtain pre post where ls: "lines (utf8_lossy (co_stdout out)) = pre @ map nft_line ?es @ post"
    and other: "\<forall>x \<in> set (pre @ post). \<not> contains_sub '' daddr '' x"
    using kernel rem out unfolding nft_kernel_def nft_removable_def by meson
  have "\<not> line_matches rule x" if "x \<in> set (pre @ post)" for x
    using other that unfolding line_matches_def contains_sub_iff by (metis append.assoc)
  note none = this
  have find: "find (line_matches rule) (pre @ map nft_line ?es @ post) =
      map_option nft_line (find (line_matches rule \<circ> nft_line) ?es)"
    using none by (intro find_between) blast
  show ?thesis
  proof (cases "find (line_matches rule \<circ> nft_line) ?es")
    case None
    have "rule_key rule \<notin> snd ` set ?t"
    proof
      assume "rule_key rule \<in> snd ` set ?t"
      then obtain h where "(h, rule_key rule) \<in> set ?es" by auto
      then show False using None nft_line_matches[of rule h ?c] by (auto simp: find_None_iff)
    qed
    then show ?thesis by (simp add: find_nft_rule_handle_def ls find None)
  next
    case (Some e)
    then obtain i where "i < length ?es" "line_matches rule (nft_line (?es ! i))" "e = ?es ! i"
      unfolding find_Some_iff comp_apply by blast
    then have e: "e \<in> set ?es" "line_matches rule (nft_line e)" by (simp_all only: nth_mem)
    have "case e of (h, c, s) \<Rightarrow> c = ?c" using e(1) by simp
    then obtain h s where h: "e = (h, ?c, s)" by (cases e) simp
    then have s: "s = rule_spec rule"
      using rem e unfolding nft_removable_def by auto
    then show ?thesis
      using e(1) by (simp add: find_nft_rule_handle_def ls find Some h line_handle_nft)
  qed
qed

lemma nft_remove_rules:
  assumes kernel: "nft_kernel os m handle" and rem: "nft_removable m handle rule l"
    and run: "fw_remove_worker_rule os (Nftables m) rule l = (res, l')"
  shows "live l' = live l" and "nft_rules (nm_table m) handle l' =
    (case res of Inr _ \<Rightarrow> nft_rules (nm_table m) handle l - {#rule_key rule#} | Inl _ \<Rightarrow> nft_rules (nm_table m) handle l)"
proof -
  let ?t = "nft_table (nm_table m) handle l"
  let ?list = "nft_list_chain m (fr_hook rule)"
  let ?r = "os_run os l ''nft'' ?list"
  let ?l1 = "l @ [Ran ''nft'' ?list ?r]"
  have t1: "nft_table (nm_table m) handle ?l1 = ?t" by (simp add: nft_table_snoc nft_change_list)
  have dist: "distinct (map fst ?t)"
    using nft_table_handles kernel rem unfolding nft_kernel_def nft_removable_def by blast
  note remove = run[unfolded fw_remove_worker_rule_def firewall_manager.case nft_remove_rule_def
      find_rule_handle_def nft_output_def run_command_def Let_def prod.case]
  have "live l' = live l \<and> nft_rules (nm_table m) handle l' =
    (case res of Inr _ \<Rightarrow> nft_rules (nm_table m) handle l - {#rule_key rule#} | Inl _ \<Rightarrow> nft_rules (nm_table m) handle l)"
  proof (cases "\<exists>out. ?r = Inr out \<and> co_success out")
    case False
    then obtain e where "res = Inl e" "l' = ?l1" using remove by (cases ?r) (auto split: if_splits)
    then show ?thesis by (simp add: nft_rules_def t1)
  next
    case True
    then obtain out where out: "?r = Inr out" "co_success out" by blast
    show ?thesis
    proof (cases "find_nft_rule_handle (utf8_lossy (co_stdout out)) rule")
      case None
      then have "res = Inr ()" "l' = ?l1" using remove out by auto
      moreover have "rule_key rule \<notin># nft_rules (nm_table m) handle l"
        using nft_found[OF kernel rem out] None by (auto simp: nft_rules_def)
      ultimately show ?thesis by (simp add: nft_rules_def t1 diff_single_trivial)
    next
      case (Some h)
      let ?del = "nft_delete_rule_by_handle m rule h"
      let ?d = "os_run os ?l1 ''nft'' ?del"
      have l': "l' = ?l1 @ [Ran ''nft'' ?del ?d]" and res: "res = command_result ''nft'' ?del ?d"
        using remove out Some by (auto simp: nft_def run_command_def Let_def)
      let ?ev = "nft_change (nm_table m) (handle (length ?l1)) (Ran ''nft'' ?del ?d) ?t"
      have t2: "nft_table (nm_table m) handle l' = ?ev" unfolding l' nft_table_snoc[of _ _ ?l1] t1 ..
      have live: "live l' = live l" by (simp add: l')
      have "(h, rule_key rule) \<in> set ?t" using nft_found[OF kernel rem out] Some by simp
      note deleted = nft_change_delete[OF _ dist this]
      show ?thesis
      proof (cases "\<exists>o'. ?d = Inr o' \<and> co_success o'")
        case True
        then obtain o' where "?d = Inr o'" "co_success o'" by blast
        then show ?thesis using deleted live by (simp add: nft_rules_def t2 res command_result_def)
      next
        case False
        then have "?ev = ?t" "is_ok res = False"
          using nft_change_failed by (auto simp: res command_result_def split: sum.splits)
        then show ?thesis using live by (cases res) (auto simp: nft_rules_def t2)
      qed
    qed
  qed
  then show "live l' = live l" and "nft_rules (nm_table m) handle l' =
    (case res of Inr _ \<Rightarrow> nft_rules (nm_table m) handle l - {#rule_key rule#} | Inl _ \<Rightarrow> nft_rules (nm_table m) handle l)"
    by blast+
qed

lemma nft_task_services:
  assumes "wr_firewall rt = Nftables m"
    and "\<And>r l res l'. fw_remove_worker_rule os (Nftables m) r l = (res, l') \<Longrightarrow> removable r l \<Longrightarrow>
      live l' = live l \<and> nft_rules (nm_table m) handle l' =
      (case res of Inr _ \<Rightarrow> nft_rules (nm_table m) handle l - {#rule_key r#} | Inl _ \<Rightarrow> nft_rules (nm_table m) handle l)"
  shows "task_services (runtime_services os rt) (nft_rules (nm_table m) handle) (\<lambda>rule. {#rule_key rule#}) removable"
proof (rule process_services, unfold assms(1))
  fix r l res l'
  assume "fw_install_worker_rule os (Nftables m) r l = (res, l')"
  then show "live l' = live l \<and> nft_rules (nm_table m) handle l' =
    (case res of Inr _ \<Rightarrow> nft_rules (nm_table m) handle l + {#rule_key r#} | Inl _ \<Rightarrow> nft_rules (nm_table m) handle l)"
    using nft_install_rules by blast
qed (rule assms(2) nft_rules_process; assumption)+

lemma nft_services:
  assumes "nft_kernel os m handle" and "wr_firewall rt = Nftables m"
  shows "task_services (runtime_services os rt) (nft_rules (nm_table m) handle) (\<lambda>rule. {#rule_key rule#})
    (nft_removable m handle)"
proof (rule nft_task_services[OF assms(2)])
  fix r l res l'
  assume "fw_remove_worker_rule os (Nftables m) r l = (res, l')" "nft_removable m handle r l"
  then show "live l' = live l \<and> nft_rules (nm_table m) handle l' =
    (case res of Inr _ \<Rightarrow> nft_rules (nm_table m) handle l - {#rule_key r#} | Inl _ \<Rightarrow> nft_rules (nm_table m) handle l)"
    using nft_remove_rules[OF assms(1)] by blast
qed

section \<open>Rules of different ports are told apart\<close>

lemma next_mark:
  "U @ d # V = A @ d # W \<Longrightarrow> d \<notin> set U \<Longrightarrow> A = U \<and> V = W \<or> (\<exists>k. A = U @ d # k \<and> V = k @ d # W)"
  by (auto simp: append_eq_append_conv2 Cons_eq_append_conv append_eq_Cons_conv)

lemma set_join: "set (join sep xs) \<subseteq> set sep \<union> (\<Union>x \<in> set xs. set x)"
  by (induction sep xs rule: join.induct) auto

lemma radix_no_s: "b \<le> 16 \<Longrightarrow> 2 \<le> b \<Longrightarrow> CHR ''s'' \<notin> set (radix_of_nat b n)"
proof
  assume b: "b \<le> 16" "2 \<le> b" and "CHR ''s'' \<in> set (radix_of_nat b n)"
  then obtain d where "CHR ''s'' = digit_char d" "d < 16"
    using set_radix_of_nat[of b n] by fastforce
  then have "digit_val 16 (CHR ''s'') = Some d" by simp
  moreover have "digit_val 16 (CHR ''s'') = None" by code_simp
  ultimately show False by simp
qed

lemma dec_no_s: "CHR ''s'' \<notin> set (dec_of_nat n)"
  using radix_no_s[of 10 n] by (simp add: dec_of_nat_def)

lemma ip_no_s: "CHR ''s'' \<notin> set (ip_to_string ip)"
proof -
  have v4: "CHR ''s'' \<notin> set (ipv4_to_string a)" for a by (simp add: ipv4_to_string_def dec_no_s)
  have "CHR ''s'' \<notin> set (hex_groups ss)" for ss
    using set_join[of "'':''" "map (radix_of_nat 16) ss"] radix_no_s[of 16] by (auto simp: hex_groups_def)
  then show ?thesis
    by (cases ip) (simp_all add: v4 ipv6_to_string_def Let_def)
qed

lemma length_dec:
  "n < 10 \<Longrightarrow> length (dec_of_nat n) = 1"
  "10 \<le> n \<Longrightarrow> length (dec_of_nat n) = Suc (length (dec_of_nat (n div 10)))"
  unfolding dec_of_nat_def by (subst radix_of_nat.simps, simp)+

lemma length_dec_5:
  assumes "10000 \<le> n" and "n < 100000"
  shows "length (dec_of_nat n) = 5"
proof -
  have "10 \<le> n" "10 \<le> n div 10" "10 \<le> n div 100" "10 \<le> n div 1000" "n div 10000 < 10"
    using assms by (simp_all add: less_eq_div_iff_mult_less_eq div_less_iff_less_mult)
  then show ?thesis by (simp add: length_dec div_mult2_eq[symmetric])
qed

lemma ports_apart:
  assumes "10000 \<le> fr_source_port rule" and "10000 \<le> fr_source_port r"
    and "fr_source_port rule \<noteq> fr_source_port r"
  shows "\<not> line_matches rule (nft_line (h, c, rule_spec r))"
proof
  let ?p = "port_text (fr_source_port rule)" and ?q = "port_text (fr_source_port r)"
  let ?U = "[CHR 0x09, CHR 0x09] @ ip_keyword (fr_target_ip r) @ '' daddr '' @ ip_to_string (fr_target_ip r) @
    '' '' @ proto_name (fr_protocol r) @ '' ''"
  let ?U2 = "''port '' @ ?q @ '' '' @ proto_name (fr_protocol r) @ '' dport '' @
    port_text (fr_target_port r) @ '' queue flag''"
  let ?V4 = "'' to '' @ port_text (fr_qnum r) @ '' # handle '' @ dec_of_nat (unat h)"
  have line: "nft_line (h, c, rule_spec r) = ?U @ CHR ''s'' # ?U2 @ CHR ''s'' # '' bypa'' @ CHR ''s'' # CHR ''s'' # ?V4"
    by (simp add: nft_line_listed listed_line_def)
  have proto: "CHR ''s'' \<notin> set (proto_name x)" for x by (cases x) simp_all
  have kw: "CHR ''s'' \<notin> set (ip_keyword x)" for x by (simp add: ip_keyword_def)
  have no_s: "CHR ''s'' \<notin> set ?U" "CHR ''s'' \<notin> set ?U2" "CHR ''s'' \<notin> set '' bypa''"
      "CHR ''s'' \<notin> set ?V4"
    by (simp_all add: proto kw ip_no_s dec_no_s)
  assume "line_matches rule (nft_line (h, c, rule_spec r))"
  then obtain a b where "nft_line (h, c, rule_spec r) =
      a @ (proto_name (fr_protocol rule) @ '' sport '' @ ?p) @ b"
    unfolding line_matches_def contains_sub_iff by blast
  then have m: "?U @ CHR ''s'' # ?U2 @ CHR ''s'' # '' bypa'' @ CHR ''s'' # CHR ''s'' # ?V4 =
      (a @ proto_name (fr_protocol rule) @ '' '') @ CHR ''s'' # ''port '' @ ?p @ b" (is "_ = _ @ _ # ?W")
    by (simp add: line)
  consider "?U2 @ CHR ''s'' # '' bypa'' @ CHR ''s'' # CHR ''s'' # ?V4 = ?W"
    | k where "?U2 @ CHR ''s'' # '' bypa'' @ CHR ''s'' # CHR ''s'' # ?V4 = k @ CHR ''s'' # ?W"
    using next_mark[OF m no_s(1)] by blast
  then show False
  proof cases
    case 1
    then have "?q @ '' '' @ rest = ?p @ b" if "rest = proto_name (fr_protocol r) @ '' dport '' @
        port_text (fr_target_port r) @ '' queue flag'' @ CHR ''s'' # '' bypa'' @ CHR ''s'' # CHR ''s'' # ?V4" for rest
      using that by simp
    moreover have "length (port_text p) = 5" if "10000 \<le> p" for p
      using that length_dec_5[of "unat p"] less_trans[OF unat_u16, of 100000 p] by (simp add: word_le_nat_alt)
    then have "length ?q = length ?p" using assms(1,2) by simp
    ultimately have "?q = ?p" by (simp add: append_eq_append_conv)
    then show False using assms(3) by (simp add: word_unat_eq_iff)
  next
    case 2
    then have "'' bypa'' @ CHR ''s'' # CHR ''s'' # ?V4 = ?W \<or>
        (\<exists>k. '' bypa'' @ CHR ''s'' # CHR ''s'' # ?V4 = k @ CHR ''s'' # ?W)"
      using next_mark[OF 2 no_s(2)] by blast
    then obtain k where k: "'' bypa'' @ CHR ''s'' # (CHR ''s'' # ?V4) = k @ CHR ''s'' # ?W" by auto
    then have "CHR ''s'' # ?V4 = ?W \<or> (\<exists>k. CHR ''s'' # ?V4 = k @ CHR ''s'' # ?W)"
      using next_mark[OF k no_s(3)] by blast
    then obtain k where k: "[] @ CHR ''s'' # ?V4 = k @ CHR ''s'' # ?W" by auto
    have "?V4 = ?W \<or> (\<exists>k. ?V4 = k @ CHR ''s'' # ?W)" using next_mark[OF k] by auto
    then have "\<exists>k. ?V4 = k @ CHR ''s'' # ?W" by auto
    then have "CHR ''s'' \<in> set ?V4" by (metis in_set_conv_decomp)
    then show False using no_s(4) by blast
  qed
qed

section \<open>A run leaves the table as it was\<close>

lemma log_bounds:
  "length (snd (nfqws_start os cfg l)) \<le> length l + 3"
  "length (snd (nfqws_stop os ms h l)) \<le> length l + 5"
  "length (snd (fw_install_worker_rule os mgr rule l)) \<le> length l + 1"
  "length (snd (fw_remove_worker_rule os mgr rule l)) \<le> length l + 2"
     apply (auto simp: nfqws_defs split: sum.splits option.splits prod.splits)[1]
    apply (auto simp: nfqws_defs send_term_def split: sum.splits option.splits)[1]
   apply (cases mgr; simp add: firewall_defs run_command_def Let_def)
  apply (cases mgr; auto simp: firewall_defs run_command_def Let_def split: sum.split option.split)
  done

lemma service_bounds:
  "sv_start (runtime_services os rt) c l = (x, l') \<Longrightarrow> length l' \<le> length l + 3"
  "sv_stop (runtime_services os rt) h l = (y, l') \<Longrightarrow> length l' \<le> length l + 5"
  "sv_install (runtime_services os rt) rule l = (z, l') \<Longrightarrow> length l' \<le> length l + 1"
  "sv_remove (runtime_services os rt) rule l = (z, l') \<Longrightarrow> length l' \<le> length l + 2"
  using log_bounds by (simp_all add: runtime_services_def) (metis snd_conv)+

lemma teardown_bound:
  assumes "probe_and_teardown (runtime_services os rt) rt env task q p h rule l = (r, l')"
  shows "length l' \<le> length l + 8"
proof (cases "wr_isolation_mode rt = SourcePort")
  case True
  obtain removed l1 where rm: "sv_remove (runtime_services os rt) rule (l @ [Probed]) = (removed, l1)" by fastforce
  obtain stopped l2 where st: "sv_stop (runtime_services os rt) h l1 = (stopped, l2)" by fastforce
  have "l' = l2" using assms True rm st by (auto simp: probe_and_teardown_def Let_def)
  then show ?thesis using service_bounds(4)[OF rm] service_bounds(2)[OF st] by simp
next
  case False
  obtain stopped l2 where st: "sv_stop (runtime_services os rt) h (l @ [Probed]) = (stopped, l2)" by fastforce
  have "l' = l2" using assms False st by (auto simp: probe_and_teardown_def Let_def)
  then show ?thesis using service_bounds(2)[OF st] by simp
qed

lemma run_log_bound:
  assumes "run_worker_task (runtime_services os rt) rt env task a l = Some (r, l')"
  shows "length l' \<le> length l + 20"
  using assms
proof (cases rule: run_worker_task_cases)
  case (not_started ps e)
  then show ?thesis using service_bounds(1)[OF not_started(2)] by simp
next
  case (not_installed ps h l1 e l2)
  obtain y where "sv_stop (runtime_services os rt) h l2 = (y, l')" using not_installed(4) by (metis prod.collapse)
  from service_bounds(2)[OF this] show ?thesis
    using service_bounds(1)[OF not_installed(2)] service_bounds(3)[OF not_installed(3)] by simp
next
  case (ran ps h l1 l2)
  have "length l2 \<le> length l1 + 1" using ran(3) service_bounds(3) by (auto split: if_splits)
  then show ?thesis using service_bounds(1)[OF ran(2)] teardown_bound[OF ran(4)] by simp
qed simp

definition told_apart :: "worker_firewall_rule \<Rightarrow> nft_entry list \<Rightarrow> bool" where
  "told_apart rule tbl \<longleftrightarrow>
     (\<forall>(h, c, s) \<in> set tbl. \<exists>r. (c, s) = rule_key r \<and> 10000 \<le> fr_source_port r \<and>
        10000 \<le> fr_source_port rule \<and> fr_source_port rule \<noteq> fr_source_port r)"

lemma told_apart_removable:
  assumes "told_apart rule (nft_table (nm_table m) handle log)" and "length l2 \<le> 2 ^ 64"
    and "nft_rules (nm_table m) handle l2 = nft_rules (nm_table m) handle log + {#rule_key rule#}"
  shows "nft_removable m handle rule l2"
proof -
  let ?t = "nft_table (nm_table m) handle"
  have "(c, s) = rule_key rule \<or> (\<exists>h. (h, c, s) \<in> set (?t log))" if "(h, c, s) \<in> set (?t l2)" for h c s
  proof -
    have "(c, s) \<in># nft_rules (nm_table m) handle l2"
      using that by (force simp: nft_rules_def)
    then show ?thesis unfolding assms(3) by (auto simp: nft_rules_def)
  qed
  note split = this
  have "\<exists>r. (c, s) = rule_key r" if "(h, c, s) \<in> set (?t l2)" for h c s
    using split[OF that] assms(1) unfolding told_apart_def by fast
  moreover have "s = rule_spec rule"
    if "(h, c, s) \<in> set (?t l2)" "line_matches rule (nft_line (h, c, s))" for h c s
    using split[OF that(1)] assms(1) that(2) ports_apart[of rule] unfolding told_apart_def by fast
  ultimately show ?thesis using assms(2) unfolding nft_removable_def worker_made_def by blast
qed


text \<open>
  With the nftables manager in source-port mode, a run that reports a success has probed while its
  own nfqws2 process was live and while the table held a rule for its queue number that it had not
  held before.
\<close>

theorem nftables_success_under_rule:
  assumes "wr_firewall rt = Nftables m" and "wr_isolation_mode rt = SourcePort"
    and "run_worker_task (runtime_services os rt) rt env task a log = Some (r, log')"
    and "pr_outcome r = Success"
  shows "\<exists>before c after rule. log' = before @ Probed # after \<and> c \<notin> live log \<and>
    live before = insert c (live log) \<and> fr_qnum rule = wa_qnum a \<and>
    nft_rules (nm_table m) handle before = add_mset (rule_key rule) (nft_rules (nm_table m) handle log)"
proof -
  have "task_services (runtime_services os rt) (nft_rules (nm_table m) handle) (\<lambda>rule. {#rule_key rule#})
    (\<lambda>_ _. False)"
    by (rule nft_task_services[OF assms(1)]) simp
  from task_services.success_covered[OF this assms(3,4)] obtain l1 c es rule where
    "log' = l1 @ Probed # es" "c \<notin> live log" "live l1 = insert c (live log)" "fr_qnum rule = wa_qnum a"
    "nft_rules (nm_table m) handle l1 = nft_rules (nm_table m) handle log + {#rule_key rule#}"
    using assms(2) by auto
  then show ?thesis by (metis add_mset_add_single)
qed

section \<open>A kernel that behaves so\<close>

definition plain_char :: "char \<Rightarrow> bool" where
  "plain_char c \<longleftrightarrow> (of_char c :: nat) < 128 \<and> c \<noteq> CHR 0x0A \<and> c \<noteq> CHR 0x0D"

lemma lines_join:
  assumes "xs \<noteq> []" and "last xs \<noteq> []" and "\<forall>x \<in> set xs. list_all plain_char x"
  shows "lines (join [CHR 0x0A] xs) = xs"
proof -
  have nl: "\<forall>x \<in> set xs. CHR 0x0A \<notin> set x" using assms(3) unfolding list_all_iff plain_char_def by blast
  have "c \<noteq> CHR 0x0D" if "x \<in> set xs" "c \<in> set x" for x c
    using assms(3) that unfolding list_all_iff plain_char_def by blast
  then have cr: "strip_cr x = x" if "x \<in> set xs" for x
    using that last_in_set[of x] unfolding strip_cr_def by metis
  have "map (\<lambda>(i, p). if i < length xs - 1 then strip_cr p else p) (zip [0..<length xs] xs) =
      map snd (zip [0..<length xs] xs)"
    by (rule map_cong[OF refl]) (use cr in \<open>auto dest: set_zip_rightD\<close>)
  then show ?thesis
    using assms(2) by (simp add: lines_def split_on_join[OF assms(1) nl] Let_def)
qed

lemma utf8_plain:
  assumes "\<forall>x \<in> set xs. list_all plain_char x"
  shows "utf8_lossy (join [CHR 0x0A] xs) = join [CHR 0x0A] xs"
proof (rule utf8_lossy_ascii, rule)
  fix c assume "c \<in> set (join [CHR 0x0A] xs)"
  then have "c = CHR 0x0A \<or> (\<exists>x \<in> set xs. c \<in> set x)" using set_join[of "[CHR 0x0A]" xs] by auto
  moreover have "(of_char (CHR 0x0A) :: nat) < 128" by simp
  ultimately show "(of_char c :: nat) < 128" using assms unfolding list_all_iff plain_char_def by blast
qed

lemma plain_graphic: "is_graphic c \<Longrightarrow> plain_char c"
  by (auto simp: plain_char_def is_graphic_def)

lemma plain_dec: "list_all plain_char (dec_of_nat n)"
  using dec_graphic plain_graphic by (auto simp: list_all_iff)

lemma plain_ip: "list_all plain_char (ip_to_string ip)"
proof -
  have hex: "list_all plain_char (radix_of_nat 16 n)" for n
    using set_radix_of_nat[of 16 n] digit_char_graphic plain_graphic by (force simp: list_all_iff)
  have "list_all plain_char (hex_groups ss)" for ss
  proof -
    have "plain_char (CHR '':'')" by code_simp
    then show ?thesis
      using set_join[of "'':''" "map (radix_of_nat 16) ss"] hex unfolding hex_groups_def list_all_iff by fastforce
  qed
  note groups = this
  have "plain_char (CHR '':'')" "plain_char (CHR ''.'')" "plain_char (CHR ''f'')" by code_simp+
  then show ?thesis
    using groups by (cases ip) (simp_all add: ipv4_to_string_def plain_dec ipv6_to_string_def Let_def)
qed

lemma plain_line: "list_all plain_char (nft_line (h, c, rule_spec rule))"
proof -
  have lit: "list_all plain_char '' daddr ''" "list_all plain_char '' sport ''" "list_all plain_char '' dport ''"
    "list_all plain_char '' queue flags bypass to ''" "list_all plain_char '' ''" "list_all plain_char ''# handle ''"
    "list_all plain_char [CHR 0x09, CHR 0x09]" "list_all plain_char ''tcp''" "list_all plain_char ''udp''"
    "list_all plain_char ''ip''" "list_all plain_char ''ip6''"
    by code_simp+
  have "list_all plain_char (proto_name p)" for p by (cases p) (simp_all only: proto_name.simps lit)
  moreover have "list_all plain_char (ip_keyword i)" for i by (simp only: ip_keyword_def lit split: if_split) simp
  ultimately show ?thesis
    unfolding nft_line_listed listed_line_def list_all_append using lit plain_dec plain_ip by blast
qed

text \<open>The listing of a chain: its head, a line for each rule, and its foot.\<close>

definition nft_listing :: "nft_entry list \<Rightarrow> string list" where
  "nft_listing tbl = [''table inet zapret_checker {''] @ map nft_line tbl @ [''}'']"

definition sample_handle :: "nat \<Rightarrow> u64" where
  "sample_handle = word_of_nat"

definition sample_nft :: nft_manager where
  "sample_nft = \<lparr> nm_table = ''zapret_checker'', nm_hook = Output, nm_priority = ''filter'',
     nm_cleanup_on_start = True \<rparr>"

definition sample_nft_os :: os where
  "sample_nft_os = sample_os\<lparr> os_run := \<lambda>l prog args. Inr
     (if prog = ''nft'' \<and> take 1 args = [''-a''] then
        ok_output\<lparr> co_stdout := join [CHR 0x0A] (nft_listing
          (filter (\<lambda>(_, c, _). c = last args) (nft_table ''zapret_checker'' sample_handle l))) \<rparr>
      else ok_output) \<rparr>"

definition sample_nft_runtime :: worker_runtime where
  "sample_nft_runtime = sample_runtime\<lparr> wr_firewall := Nftables sample_nft \<rparr>"

lemma lines_listing:
  assumes "worker_made tbl"
  shows "lines (utf8_lossy (join [CHR 0x0A] (nft_listing tbl))) = nft_listing tbl"
proof -
  have "list_all plain_char ''table inet zapret_checker {''" "list_all plain_char ''}''" by code_simp+
  moreover have "list_all plain_char (nft_line (h, c, s))" if "(h, c, s) \<in> set tbl" for h c s
    using that assms plain_line unfolding worker_made_def by fast
  ultimately have "\<forall>x \<in> set (nft_listing tbl). list_all plain_char x" by (auto simp: nft_listing_def)
  moreover have "nft_listing tbl \<noteq> []" "last (nft_listing tbl) \<noteq> []" by (simp_all add: nft_listing_def)
  ultimately show ?thesis using lines_join utf8_plain by simp
qed

lemma sample_nft_kernel: "nft_kernel sample_nft_os sample_nft sample_handle"
  unfolding nft_kernel_def
proof (intro conjI allI impI; (elim conjE)?)
  show "fresh_handles sample_handle"
    unfolding fresh_handles_def sample_handle_def
    by (rule inj_on_inverseI[of _ unat]) (simp add: unat_of_nat)
  fix l hook out
  let ?es = "filter (\<lambda>(h, c, s). c = chain_name hook) (nft_table (nm_table sample_nft) sample_handle l)"
  assume "worker_made (nft_table (nm_table sample_nft) sample_handle l)"
    and "os_run sample_nft_os l ''nft'' (nft_list_chain sample_nft hook) = Inr out"
  moreover have "nm_table sample_nft = ''zapret_checker''" by (simp add: sample_nft_def)
  ultimately have "worker_made ?es" "co_stdout out = join [CHR 0x0A] (nft_listing ?es)"
    by (auto simp: sample_nft_os_def nft_list_chain_def worker_made_def)
  then have "lines (utf8_lossy (co_stdout out)) =
      [''table inet zapret_checker {''] @ map nft_line ?es @ [''}'']"
    by (simp only: lines_listing) (simp only: nft_listing_def)
  moreover have "\<forall>x \<in> set ([''table inet zapret_checker {''] @ [''}'']). \<not> contains_sub '' daddr '' x"
    by code_simp
  ultimately show "\<exists>pre post. lines (utf8_lossy (co_stdout out)) = pre @ map nft_line ?es @ post \<and>
      (\<forall>x \<in> set (pre @ post). \<not> contains_sub '' daddr '' x)"
    by blast
qed

lemma sample_nft_ok:
  "is_ok (fst (fw_remove_worker_rule sample_nft_os (Nftables sample_nft) rule l))"
  "is_ok (fst (fw_install_worker_rule sample_nft_os (Nftables sample_nft) rule l))"
  "is_ok (fst (nfqws_stop sample_nft_os ms h l))"
  "is_ok (fst (nfqws_start sample_nft_os c l))"
  by (auto simp: sample_nft_os_def sample_os_def firewall_defs nfqws_defs send_term_def command_result_def
      ok_output_def split: option.split)

lemma sample_nft_run:
  obtains r log where "run_worker_task (runtime_services sample_nft_os sample_nft_runtime) sample_nft_runtime
    sample_worker_env sample_task sample_assignment [] = Some (r, log)" and "pr_outcome r = Success"
proof -
  have mode: "wr_isolation_mode sample_nft_runtime = SourcePort"
    by (simp add: sample_nft_runtime_def sample_runtime_def)
  obtain r log where run: "run_worker_task (runtime_services sample_nft_os sample_nft_runtime) sample_nft_runtime
      sample_worker_env sample_task sample_assignment [] = Some (r, log)"
    by (cases "run_worker_task (runtime_services sample_nft_os sample_nft_runtime) sample_nft_runtime
          sample_worker_env sample_task sample_assignment []")
       (auto simp: run_worker_task_def prepare_worker_socket_def mode)
  have "wr_firewall sample_nft_runtime = Nftables sample_nft" by (simp add: sample_nft_runtime_def)
  then have "pr_outcome r = Success"
    by (intro sample_success[OF run mode]) (simp_all add: runtime_services_def sample_nft_ok)
  with run show thesis by (rule that)
qed


theorem nftables_success_under_rule_witness:
  "\<exists>r log before after rule. run_worker_task (runtime_services sample_nft_os sample_nft_runtime)
      sample_nft_runtime sample_worker_env sample_task sample_assignment [] = Some (r, log) \<and>
    log = before @ Probed # after \<and> fr_qnum rule = 200 \<and>
    nft_rules ''zapret_checker'' sample_handle before = {#rule_key rule#}"
proof -
  obtain r log where run: "run_worker_task (runtime_services sample_nft_os sample_nft_runtime) sample_nft_runtime
      sample_worker_env sample_task sample_assignment [] = Some (r, log)" and ok: "pr_outcome r = Success"
    by (rule sample_nft_run)
  have f: "wr_firewall sample_nft_runtime = Nftables sample_nft" "nm_table sample_nft = ''zapret_checker''"
    "wr_isolation_mode sample_nft_runtime = SourcePort" "wa_qnum sample_assignment = 200"
    by (simp_all add: sample_nft_runtime_def sample_runtime_def sample_nft_def sample_assignment_def)
  from nftables_success_under_rule[OF f(1,3) run ok, of sample_handle] f(2,4) run show ?thesis
    by (auto simp: nft_rules_def)
qed

end
